(* ===== verification/Prelude.thy ===== *)
theory Prelude
  imports Main "HOL-Library.Word"
begin

text \<open>
  What every component of the node shares: the machine integers of the source, the results of
  its functions (a value, an error, a panic, or a loop that does not return), the sequencing of
  fallible calls on a state, and the arithmetic of the Rust integer types.

  The target is a 64-bit one, so \<open>usize\<close> has the width of \<open>u64\<close> and the \<open>as usize\<close> casts of the
  source do not truncate; the argument of \<open>skip\<close> and \<open>take\<close> is the \<open>nat\<close> such a value denotes.
\<close>

unbundle bit_operations_syntax

section \<open>Machine integers\<close>

type_synonym u8 = "8 word"
type_synonym u16 = "16 word"
type_synonym u32 = "32 word"
type_synonym u64 = "64 word"
type_synonym u128 = "128 word"
type_synonym usize = "64 word"

named_theorems exec_simps \<open>equations that run a computation one call further\<close>
named_theorems keeps_intros \<open>a computation keeps an invariant of the state\<close>
named_theorems returns_intros \<open>a computation returns\<close>

section \<open>Results\<close>

text \<open>
  A Rust call returns \<open>Ok\<close>, returns \<open>Err\<close>, panics, or never returns. A function that cannot fail is
  polymorphic in the error type.
\<close>

datatype ('e, 'a) res = Ok 'a | Err 'e | Panic string | Hang

fun rbind :: "('e, 'a) res \<Rightarrow> ('a \<Rightarrow> ('e, 'b) res) \<Rightarrow> ('e, 'b) res" where
  "rbind (Ok x) f = f x"
| "rbind (Err e) f = Err e"
| "rbind (Panic m) f = Panic m"
| "rbind Hang f = Hang"

lemma rbind_eq_Ok: "rbind r f = Ok y \<longleftrightarrow> (\<exists>x. r = Ok x \<and> f x = Ok y)"
  by (cases r) auto

lemma rbind_assoc: "rbind (rbind r f) g = rbind r (\<lambda>x. rbind (f x) g)"
  by (cases r) auto

text \<open>\<open>iter().map(f).collect::<Result<Vec<_>, _>>()\<close>: the first failure ends the loop.\<close>

fun collect_res :: "('a \<Rightarrow> ('e, 'b) res) \<Rightarrow> 'a list \<Rightarrow> ('e, 'b list) res" where
  "collect_res f [] = Ok []"
| "collect_res f (x # xs) = rbind (f x) (\<lambda>y. rbind (collect_res f xs) (\<lambda>ys. Ok (y # ys)))"

lemma collect_res_Ok_map: "(\<And>x. x \<in> set xs \<Longrightarrow> f x = Ok (g x)) \<Longrightarrow> collect_res f xs = Ok (map g xs)"
  by (induction xs) auto

lemma collect_res_OkD:
  "collect_res f xs = Ok ys \<Longrightarrow> list_all2 (\<lambda>x y. f x = Ok y) xs ys"
  by (induction xs arbitrary: ys) (auto simp: rbind_eq_Ok)

text \<open>A loop that carries an accumulator and may stop early with a failure.\<close>

fun fold_res :: "('a \<Rightarrow> 'b \<Rightarrow> ('e, 'b) res) \<Rightarrow> 'a list \<Rightarrow> 'b \<Rightarrow> ('e, 'b) res" where
  "fold_res f [] acc = Ok acc"
| "fold_res f (x # xs) acc = rbind (f x acc) (fold_res f xs)"

lemma fold_res_append: "fold_res f (xs @ ys) acc = rbind (fold_res f xs acc) (fold_res f ys)"
proof (induction xs arbitrary: acc)
  case (Cons x xs)
  then show ?case by (cases "f x acc") auto
qed simp

lemma fold_res_invariant:
  assumes "fold_res f xs acc = Ok acc'" and "P acc"
    and "\<And>x a b. x \<in> set xs \<Longrightarrow> P a \<Longrightarrow> f x a = Ok b \<Longrightarrow> P b"
  shows "P acc'"
  using assms by (induction xs arbitrary: acc) (auto simp: rbind_eq_Ok)

section \<open>Computations on a state\<close>

text \<open>
  A handler or an operation of the node runs on the state of the program and leaves a new one,
  also when it fails or panics. \<open>bnd\<close> is the \<open>;\<close> and the \<open>?\<close> of the source.
\<close>

type_synonym ('s, 'e, 'a) exec = "'s \<Rightarrow> ('e, 'a) res \<times> 's"

definition ret :: "'a \<Rightarrow> ('s, 'e, 'a) exec" where
  "ret x s = (Ok x, s)"

definition raise :: "'e \<Rightarrow> ('s, 'e, 'a) exec" where
  "raise e s = (Err e, s)"

definition panic :: "string \<Rightarrow> ('s, 'e, 'a) exec" where
  "panic m s = (Panic m, s)"

definition bnd :: "('s, 'e, 'a) exec \<Rightarrow> ('a \<Rightarrow> ('s, 'e, 'b) exec) \<Rightarrow> ('s, 'e, 'b) exec" where
  "bnd m f s = (case m s of
       (Ok x, s') \<Rightarrow> f x s'
     | (Err e, s') \<Rightarrow> (Err e, s')
     | (Panic p, s') \<Rightarrow> (Panic p, s')
     | (Hang, s') \<Rightarrow> (Hang, s'))"

text \<open>A result computed without the state, for instance by a parser.\<close>

definition lift :: "('e, 'a) res \<Rightarrow> ('s, 'e, 'a) exec" where
  "lift r s = (r, s)"

text \<open>\<open>Result::map_err\<close>, and a \<open>match\<close> on the \<open>Result\<close> of a call that does not use \<open>?\<close>.\<close>

definition map_err :: "('e \<Rightarrow> 'f) \<Rightarrow> ('s, 'e, 'a) exec \<Rightarrow> ('s, 'f, 'a) exec" where
  "map_err h m s = (case m s of
       (Ok x, s') \<Rightarrow> (Ok x, s')
     | (Err e, s') \<Rightarrow> (Err (h e), s')
     | (Panic p, s') \<Rightarrow> (Panic p, s')
     | (Hang, s') \<Rightarrow> (Hang, s'))"

definition attempt :: "('s, 'e, 'a) exec \<Rightarrow> ('s, 'f, 'e + 'a) exec" where
  "attempt m s = (case m s of
       (Ok x, s') \<Rightarrow> (Ok (Inr x), s')
     | (Err e, s') \<Rightarrow> (Ok (Inl e), s')
     | (Panic p, s') \<Rightarrow> (Panic p, s')
     | (Hang, s') \<Rightarrow> (Hang, s'))"

text \<open>\<open>Option::ok_or_else\<close>, and an early return guarded by a condition.\<close>

definition ok_or :: "'e \<Rightarrow> 'a option \<Rightarrow> ('s, 'e, 'a) exec" where
  "ok_or e x = (case x of None \<Rightarrow> raise e | Some y \<Rightarrow> ret y)"

definition reject_if :: "bool \<Rightarrow> 'e \<Rightarrow> ('s, 'e, unit) exec" where
  "reject_if b e = (if b then raise e else ret ())"

fun for_each :: "('a \<Rightarrow> 'b \<Rightarrow> ('s, 'e, 'b) exec) \<Rightarrow> 'a list \<Rightarrow> 'b \<Rightarrow> ('s, 'e, 'b) exec" where
  "for_each f [] acc = ret acc"
| "for_each f (x # xs) acc = bnd (f x acc) (for_each f xs)"

lemmas exec_defs = ret_def raise_def panic_def bnd_def lift_def map_err_def attempt_def
  ok_or_def reject_if_def

lemma bnd_simps [exec_simps]:
  "m s = (Ok x, s') \<Longrightarrow> bnd m f s = f x s'"
  "m s = (Err e, s') \<Longrightarrow> bnd m f s = (Err e, s')"
  "m s = (Panic p, s') \<Longrightarrow> bnd m f s = (Panic p, s')"
  "m s = (Hang, s') \<Longrightarrow> bnd m f s = (Hang, s')"
  by (simp_all add: bnd_def)

lemma map_err_simps [exec_simps]:
  "m s = (Ok x, s') \<Longrightarrow> map_err h m s = (Ok x, s')"
  "m s = (Err e, s') \<Longrightarrow> map_err h m s = (Err (h e), s')"
  "m s = (Panic p, s') \<Longrightarrow> map_err h m s = (Panic p, s')"
  "m s = (Hang, s') \<Longrightarrow> map_err h m s = (Hang, s')"
  by (simp_all add: map_err_def)

lemma attempt_simps [exec_simps]:
  "m s = (Ok x, s') \<Longrightarrow> attempt m s = (Ok (Inr x), s')"
  "m s = (Err e, s') \<Longrightarrow> attempt m s = (Ok (Inl e), s')"
  "m s = (Panic p, s') \<Longrightarrow> attempt m s = (Panic p, s')"
  "m s = (Hang, s') \<Longrightarrow> attempt m s = (Hang, s')"
  by (simp_all add: attempt_def)

lemma bnd_ret [simp]: "bnd (ret x) f = f x"
  by (rule ext) (simp add: exec_defs)

lemma bnd_raise [simp]: "bnd (raise e) f = raise e"
  by (rule ext) (simp add: exec_defs)

lemma bnd_panic [simp]: "bnd (panic p) f = panic p"
  by (rule ext) (simp add: exec_defs)

lemma bnd_ret_right [simp]: "bnd m ret = m"
  by (rule ext) (auto simp: exec_defs split: prod.splits res.splits)

lemma bnd_assoc: "bnd (bnd m f) g = bnd m (\<lambda>x. bnd (f x) g)"
  by (rule ext) (auto simp: exec_defs split: prod.splits res.splits)

lemma map_err_basic [simp]:
  "map_err h (ret x) = ret x" "map_err h (raise e) = raise (h e)" "map_err h (panic p) = panic p"
  by (auto simp: exec_defs)

lemma map_err_bnd: "map_err h (bnd m f) = bnd (map_err h m) (\<lambda>x. map_err h (f x))"
  by (rule ext) (auto simp: exec_defs split: prod.splits res.splits)

lemma ok_or_simps [simp]: "ok_or e None = raise e" "ok_or e (Some x) = ret x"
  by (simp_all add: ok_or_def)

lemma reject_if_simps [simp]: "reject_if True e = raise e" "reject_if False e = ret ()"
  by (simp_all add: reject_if_def)

lemma bnd_eq_Ok:
  "bnd m f s = (Ok y, t) \<longleftrightarrow> (\<exists>x s'. m s = (Ok x, s') \<and> f x s' = (Ok y, t))"
  by (auto simp: bnd_def split: prod.splits res.splits)

lemma bnd_eq_Err:
  "bnd m f s = (Err e, t) \<longleftrightarrow>
     m s = (Err e, t) \<or> (\<exists>x s'. m s = (Ok x, s') \<and> f x s' = (Err e, t))"
  by (auto simp: bnd_def split: prod.splits res.splits)

lemma map_err_eq_Ok: "map_err h m s = (Ok y, t) \<longleftrightarrow> m s = (Ok y, t)"
  by (auto simp: map_err_def split: prod.splits res.splits)

lemma ret_eq [simp]: "ret x s = (r, t) \<longleftrightarrow> r = Ok x \<and> t = s"
  by (auto simp: ret_def)

lemma raise_eq [simp]: "raise e s = (r, t) \<longleftrightarrow> r = Err e \<and> t = s"
  by (auto simp: raise_def)

lemma panic_eq [simp]: "panic p s = (r, t) \<longleftrightarrow> r = Panic p \<and> t = s"
  by (auto simp: panic_def)

lemma lift_eq [simp]: "lift v s = (r, t) \<longleftrightarrow> v = r \<and> t = s"
  by (auto simp: lift_def)

lemma ok_or_eq_Ok [simp]: "ok_or e v s = (Ok y, t) \<longleftrightarrow> v = Some y \<and> t = s"
  by (cases v) auto

lemma reject_if_eq_Ok [simp]: "reject_if b e s = (Ok u, t) \<longleftrightarrow> \<not> b \<and> t = s"
  by (cases b) auto

text \<open>A loop invariant between accumulator and state, for runs that succeed.\<close>

lemma for_each_invariant:
  assumes "for_each f xs acc s = (Ok acc', s')" and "P acc s"
    and "\<And>x a t b t'. x \<in> set xs \<Longrightarrow> P a t \<Longrightarrow> f x a t = (Ok b, t') \<Longrightarrow> P b t'"
  shows "P acc' s'"
  using assms
proof (induction xs arbitrary: acc s)
  case (Cons x xs)
  then obtain b t where "f x acc s = (Ok b, t)" "for_each f xs b t = (Ok acc', s')" by (auto simp: bnd_eq_Ok)
  with Cons show ?case by (metis list.set_intros)
qed simp

lemma attempt_eq_Ok:
  "attempt m s = (Ok v, t) \<longleftrightarrow> (\<exists>x. v = Inr x \<and> m s = (Ok x, t)) \<or> (\<exists>e. v = Inl e \<and> m s = (Err e, t))"
  by (auto simp: attempt_def split: prod.splits res.splits)

text \<open>What it takes for a sequence of calls to succeed.\<close>

lemmas Ok_iff = bnd_eq_Ok map_err_eq_Ok ok_or_eq_Ok reject_if_eq_Ok

subsection \<open>Invariants\<close>

text \<open>\<open>keeps I m\<close>: whatever the outcome of \<open>m\<close>, the state it leaves satisfies \<open>I\<close> again.\<close>

definition keeps :: "('s \<Rightarrow> bool) \<Rightarrow> ('s, 'e, 'a) exec \<Rightarrow> bool" where
  "keeps I m \<longleftrightarrow> (\<forall>s. I s \<longrightarrow> I (snd (m s)))"

lemma keepsI: "(\<And>s. I s \<Longrightarrow> I (snd (m s))) \<Longrightarrow> keeps I m"
  by (simp add: keeps_def)

lemma keepsD: "keeps I m \<Longrightarrow> I s \<Longrightarrow> m s = (r, t) \<Longrightarrow> I t"
  by (metis keeps_def snd_conv)

lemma keeps_basic [keeps_intros]:
  "keeps I (ret x)" "keeps I (raise e)" "keeps I (panic p)" "keeps I (lift r)"
  by (auto simp: keeps_def exec_defs)

lemma keeps_bnd [keeps_intros]:
  "keeps I m \<Longrightarrow> (\<And>x. keeps I (f x)) \<Longrightarrow> keeps I (bnd m f)"
  unfolding keeps_def bnd_def by (auto split: prod.splits res.splits)

lemma keeps_map_err [keeps_intros]: "keeps I m \<Longrightarrow> keeps I (map_err h m)"
  unfolding keeps_def map_err_def by (auto split: prod.splits res.splits)

lemma keeps_attempt [keeps_intros]: "keeps I m \<Longrightarrow> keeps I (attempt m)"
  unfolding keeps_def attempt_def by (auto split: prod.splits res.splits)

lemma keeps_ok_or [keeps_intros]: "keeps I (ok_or e x)"
  by (cases x) (simp_all add: keeps_basic)

lemma keeps_reject_if [keeps_intros]: "keeps I (reject_if b e)"
  by (cases b) (simp_all add: keeps_basic)

lemma keeps_for_each [keeps_intros]:
  "(\<And>x acc. keeps I (f x acc)) \<Longrightarrow> keeps I (for_each f xs acc)"
  by (induction xs arbitrary: acc) (auto intro!: keeps_intros)

lemma keeps_if [keeps_intros]: "keeps I m \<Longrightarrow> keeps I n \<Longrightarrow> keeps I (if b then m else n)"
  by simp

lemma keeps_option [keeps_intros]:
  "keeps I m \<Longrightarrow> (\<And>x. keeps I (f x)) \<Longrightarrow> keeps I (case v of None \<Rightarrow> m | Some x \<Rightarrow> f x)"
  by (cases v) auto

lemma keeps_sum [keeps_intros]:
  "(\<And>x. keeps I (f x)) \<Longrightarrow> (\<And>y. keeps I (g y)) \<Longrightarrow> keeps I (case v of Inl x \<Rightarrow> f x | Inr y \<Rightarrow> g y)"
  by (cases v) auto

lemma keeps_list [keeps_intros]:
  "keeps I m \<Longrightarrow> (\<And>x xs. keeps I (f x xs)) \<Longrightarrow> keeps I (case v of [] \<Rightarrow> m | x # xs \<Rightarrow> f x xs)"
  by (cases v) auto

lemma keeps_prod [keeps_intros]:
  "(\<And>x y. keeps I (f x y)) \<Longrightarrow> keeps I (case v of (x, y) \<Rightarrow> f x y)"
  by (cases v) auto

lemma keeps_Let [keeps_intros]: "(\<And>x. keeps I (f x)) \<Longrightarrow> keeps I (let x = v in f x)"
  by simp

subsection \<open>Returning\<close>

text \<open>\<open>returns m\<close>: from every state, \<open>m\<close> ends, be it with a value, an error or a panic.\<close>

definition returns :: "('s, 'e, 'a) exec \<Rightarrow> bool" where
  "returns m \<longleftrightarrow> (\<forall>s. fst (m s) \<noteq> Hang)"

lemma returnsI: "(\<And>s. fst (m s) \<noteq> Hang) \<Longrightarrow> returns m"
  by (simp add: returns_def)

lemma returnsD: "returns m \<Longrightarrow> m s = (r, t) \<Longrightarrow> r \<noteq> Hang"
  by (metis returns_def fst_conv)

lemma rbind_eq_Hang: "rbind r f = Hang \<longleftrightarrow> r = Hang \<or> (\<exists>x. r = Ok x \<and> f x = Hang)"
  by (cases r) auto

lemma collect_res_not_Hang: "(\<And>x. f x \<noteq> Hang) \<Longrightarrow> collect_res f xs \<noteq> Hang"
  by (induction xs) (auto simp: rbind_eq_Hang)

lemma fold_res_not_Hang: "(\<And>x a. f x a \<noteq> Hang) \<Longrightarrow> fold_res f xs acc \<noteq> Hang"
  by (induction xs arbitrary: acc) (auto simp: rbind_eq_Hang)

lemma returns_basic [returns_intros]:
  "returns (ret x)" "returns (raise e)" "returns (panic p)" "r \<noteq> Hang \<Longrightarrow> returns (lift r)"
  by (auto simp: returns_def exec_defs)

lemma returns_bnd [returns_intros]:
  "returns m \<Longrightarrow> (\<And>x. returns (f x)) \<Longrightarrow> returns (bnd m f)"
  unfolding returns_def bnd_def by (auto split: prod.splits res.splits) (metis fst_conv)+

lemma returns_map_err [returns_intros]: "returns m \<Longrightarrow> returns (map_err h m)"
  unfolding returns_def map_err_def by (auto split: prod.splits res.splits) (metis fst_conv)+

lemma returns_attempt [returns_intros]: "returns m \<Longrightarrow> returns (attempt m)"
  unfolding returns_def attempt_def by (auto split: prod.splits res.splits) (metis fst_conv)+

lemma returns_ok_or [returns_intros]: "returns (ok_or e x)"
  by (cases x) (simp_all add: returns_basic)

lemma returns_reject_if [returns_intros]: "returns (reject_if b e)"
  by (cases b) (simp_all add: returns_basic)

lemma returns_for_each [returns_intros]:
  "(\<And>x acc. returns (f x acc)) \<Longrightarrow> returns (for_each f xs acc)"
  by (induction xs arbitrary: acc) (auto intro!: returns_intros)

lemma returns_cases [returns_intros]:
  "returns m \<Longrightarrow> returns n \<Longrightarrow> returns (if b then m else n)"
  "returns m \<Longrightarrow> (\<And>x. returns (f x)) \<Longrightarrow> returns (case v1 of None \<Rightarrow> m | Some x \<Rightarrow> f x)"
  "(\<And>x. returns (g x)) \<Longrightarrow> (\<And>y. returns (h y)) \<Longrightarrow> returns (case v2 of Inl x \<Rightarrow> g x | Inr y \<Rightarrow> h y)"
  "returns m \<Longrightarrow> (\<And>x xs. returns (k x xs)) \<Longrightarrow> returns (case v3 of [] \<Rightarrow> m | x # xs \<Rightarrow> k x xs)"
  "(\<And>x y. returns (p x y)) \<Longrightarrow> returns (case v4 of (x, y) \<Rightarrow> p x y)"
  by (auto split: option.splits sum.splits list.splits prod.splits)

section \<open>Integer arithmetic\<close>

text \<open>
  \<open>checked_*\<close> and \<open>saturating_*\<close> are the methods of that name. A plain \<open>+\<close> or \<open>*\<close> of the source
  panics on overflow in a build with overflow checks and wraps in one without (Cargo.toml sets
  neither, so both profiles exist): the flag \<open>ck\<close> says which build it is.
\<close>

definition checked_add :: "'a::len word \<Rightarrow> 'a word \<Rightarrow> 'a word option" where
  "checked_add a b = (if unat a + unat b < 2 ^ LENGTH('a) then Some (a + b) else None)"

definition checked_mul :: "'a::len word \<Rightarrow> 'a word \<Rightarrow> 'a word option" where
  "checked_mul a b = (if unat a * unat b < 2 ^ LENGTH('a) then Some (a * b) else None)"

definition saturating_add :: "'a::len word \<Rightarrow> 'a word \<Rightarrow> 'a word" where
  "saturating_add a b = (if unat a + unat b < 2 ^ LENGTH('a) then a + b else - 1)"

definition saturating_sub :: "'a::len word \<Rightarrow> 'a word \<Rightarrow> 'a word" where
  "saturating_sub a b = (if b \<le> a then a - b else 0)"

definition add_ck :: "bool \<Rightarrow> 'a::len word \<Rightarrow> 'a word \<Rightarrow> ('e, 'a word) res" where
  "add_ck ck a b = (if ck \<and> \<not> unat a + unat b < 2 ^ LENGTH('a)
     then Panic ''attempt to add with overflow'' else Ok (a + b))"

definition mul_ck :: "bool \<Rightarrow> 'a::len word \<Rightarrow> 'a word \<Rightarrow> ('e, 'a word) res" where
  "mul_ck ck a b = (if ck \<and> \<not> unat a * unat b < 2 ^ LENGTH('a)
     then Panic ''attempt to multiply with overflow'' else Ok (a * b))"

text \<open>\<open>Iterator::sum\<close> adds from the left and inherits the overflow checks.\<close>

definition sum_ck :: "bool \<Rightarrow> 'a::len word list \<Rightarrow> ('e, 'a word) res" where
  "sum_ck ck xs = fold_res (\<lambda>x acc. add_ck ck acc x) xs 0"

text \<open>\<open>u32::try_from\<close> on a \<open>u64\<close>.\<close>

definition u32_try_from :: "u64 \<Rightarrow> u32 option" where
  "u32_try_from v = (if unat v < 2 ^ 32 then Some (ucast v) else None)"

lemma unat_add_no_wrap: "unat a + unat b < 2 ^ LENGTH('a) \<Longrightarrow> unat (a + b) = unat a + unat (b :: 'a::len word)"
  by (simp add: unat_word_ariths)

lemma unat_mul_no_wrap: "unat a * unat b < 2 ^ LENGTH('a) \<Longrightarrow> unat (a * b) = unat a * unat (b :: 'a::len word)"
  by (simp add: unat_word_ariths)

text \<open>A cast to a wider type keeps the value.\<close>

lemma unat_ucast_widen: "LENGTH('a) \<le> LENGTH('b) \<Longrightarrow> unat (ucast (x :: 'a::len word) :: 'b::len word) = unat x"
proof -
  assume "LENGTH('a) \<le> LENGTH('b)"
  then have "unat x < 2 ^ LENGTH('b)"
    using unsigned_less [where 'a = nat and w = x] power_increasing [of "LENGTH('a)" "LENGTH('b)" "2 :: nat"] by linarith
  then show ?thesis by (simp add: unsigned_ucast_eq take_bit_nat_eq_self)
qed

lemma checked_add_Some: "checked_add a b = Some c \<Longrightarrow> unat c = unat a + unat b"
  by (auto simp: checked_add_def unat_add_no_wrap split: if_splits)

lemma checked_mul_Some: "checked_mul a b = Some c \<Longrightarrow> unat c = unat a * unat b"
  by (auto simp: checked_mul_def unat_mul_no_wrap split: if_splits)

lemma unat_saturating_add:
  "unat (saturating_add a (b :: 'a::len word)) = min (unat a + unat b) (2 ^ LENGTH('a) - 1)"
proof -
  have "unat (- 1 :: 'a word) = 2 ^ LENGTH('a) - 1"
    by (simp add: unsigned_minus_1_eq_mask mask_eq_exp_minus_1)
  then show ?thesis by (auto simp: saturating_add_def unat_add_no_wrap min_def)
qed

lemma unat_saturating_sub: "unat (saturating_sub a (b :: 'a::len word)) = unat a - unat b"
  by (auto simp: saturating_sub_def unat_sub word_le_nat_alt)

lemma add_ck_Ok: "add_ck True a b = Ok c \<Longrightarrow> unat c = unat a + unat b"
  by (auto simp: add_ck_def unat_add_no_wrap split: if_splits)

lemma mul_ck_Ok: "mul_ck True a b = Ok c \<Longrightarrow> unat c = unat a * unat b"
  by (auto simp: mul_ck_def unat_mul_no_wrap split: if_splits)

lemma add_ck_Ok_eq: "add_ck ck a b = Ok c \<Longrightarrow> c = a + b"
  by (auto simp: add_ck_def split: if_splits)

lemma mul_ck_Ok_eq: "mul_ck ck a b = Ok c \<Longrightarrow> c = a * b"
  by (auto simp: mul_ck_def split: if_splits)

lemma add_ck_not_Err [simp]: "add_ck ck a b \<noteq> Err e" "add_ck ck a b \<noteq> Hang"
  by (auto simp: add_ck_def)

lemma mul_ck_not_Err [simp]: "mul_ck ck a b \<noteq> Err e" "mul_ck ck a b \<noteq> Hang"
  by (auto simp: mul_ck_def)

lemma sum_ck_not_Hang [simp]: "sum_ck ck xs \<noteq> Hang"
  unfolding sum_ck_def by (rule fold_res_not_Hang) simp

lemma sum_ck_False: "sum_ck False xs = Ok (sum_list xs)"
proof -
  have *: "fold_res (\<lambda>x acc. add_ck False acc x) xs a = Ok (a + sum_list xs)" for a
    by (induction xs arbitrary: a) (auto simp: add_ck_def algebra_simps)
  from * [of 0] show ?thesis by (simp add: sum_ck_def)
qed

lemma sum_ck_True_Ok: "sum_ck True xs = Ok t \<Longrightarrow> unat t = sum_list (map unat xs)"
proof -
  have "fold_res (\<lambda>x acc. add_ck True acc x) xs a = Ok t \<Longrightarrow> unat t = unat a + sum_list (map unat xs)" for a
    by (induction xs arbitrary: a) (auto simp: rbind_eq_Ok dest!: add_ck_Ok)
  from this [of 0] show "sum_ck True xs = Ok t \<Longrightarrow> ?thesis" by (simp add: sum_ck_def)
qed

lemma u32_try_from_Some: "u32_try_from v = Some w \<Longrightarrow> unat w = unat v"
  by (auto simp: u32_try_from_def unsigned_ucast_eq take_bit_nat_eq_self_iff split: if_splits)

lemma u32_try_from_None: "u32_try_from v = None \<longleftrightarrow> 2 ^ 32 \<le> unat v"
  by (auto simp: u32_try_from_def)

section \<open>Lists\<close>

text \<open>\<open>iter().skip(offset).take(limit)\<close>.\<close>

definition page :: "nat \<Rightarrow> nat \<Rightarrow> 'a list \<Rightarrow> 'a list" where
  "page offset limit xs = take limit (drop offset xs)"

lemma page_append: "page o' m xs @ page (o' + m) n xs = page o' (m + n) xs"
  by (simp add: page_def take_add add.commute)

lemma length_page: "length (page o' n xs) \<le> n"
  by (simp add: page_def)

lemma set_page: "set (page o' n xs) \<subseteq> set xs"
  unfolding page_def by (meson order_trans set_take_subset set_drop_subset)

end
