(* ===== verification/Text.thy ===== *)
theory Text
  imports Prelude
begin

text \<open>
  Text as the source handles it. A Rust string is its UTF-8 bytes, a list of \<open>char\<close>; indexing and
  lengths count bytes, and a slice whose end is inside a code point panics. This theory holds the
  standard-library functions the node uses on strings (slicing, \<open>trim\<close>, \<open>to_lowercase\<close>, \<open>split\<close>,
  integer parsing and printing), the four hexadecimal writers and two hexadecimal readers of
  \<^verbatim>\<open>lib.rs\<close>, \<^verbatim>\<open>events.rs\<close>, \<^verbatim>\<open>wallet.rs\<close> and \<^verbatim>\<open>ldk_service.rs\<close>, and the short-channel-id text
  format of \<^verbatim>\<open>ldk_service.rs\<close>.
\<close>

section \<open>Slices\<close>

text \<open>A byte of the form 10xxxxxx continues a code point.\<close>

definition continuation_byte :: "char \<Rightarrow> bool" where
  "continuation_byte c \<longleftrightarrow> 128 \<le> (of_char c :: nat) \<and> (of_char c :: nat) < 192"

definition is_char_boundary :: "string \<Rightarrow> nat \<Rightarrow> bool" where
  "is_char_boundary s i \<longleftrightarrow> i = 0 \<or> i = length s \<or> (i < length s \<and> \<not> continuation_byte (s ! i))"

definition str_slice :: "string \<Rightarrow> nat \<Rightarrow> nat \<Rightarrow> ('e, string) res" where
  "str_slice s i j = (if i \<le> j \<and> is_char_boundary s i \<and> is_char_boundary s j
     then Ok (take (j - i) (drop i s)) else Panic ''byte index is not a char boundary'')"

definition ascii :: "string \<Rightarrow> bool" where
  "ascii s \<longleftrightarrow> list_all (\<lambda>c. (of_char c :: nat) < 128) s"

lemma ascii_boundary: "ascii s \<Longrightarrow> i \<le> length s \<Longrightarrow> is_char_boundary s i"
proof -
  assume a: "ascii s" "i \<le> length s"
  have "\<not> continuation_byte (s ! i)" if "i < length s"
    using a that by (auto simp: ascii_def continuation_byte_def list_all_length)
  with a show ?thesis by (auto simp: is_char_boundary_def)
qed

lemma ascii_slice:
  "ascii s \<Longrightarrow> i \<le> j \<Longrightarrow> j \<le> length s \<Longrightarrow> str_slice s i j = Ok (take (j - i) (drop i s))"
  by (simp add: str_slice_def ascii_boundary)

section \<open>Trimming and case\<close>

text \<open>The UTF-8 encodings of the code points with the property White_Space.\<close>

definition white_space :: "nat list list" where
  "white_space = [[9], [10], [11], [12], [13], [32], [194, 133], [194, 160], [225, 154, 128],
     [226, 128, 128], [226, 128, 129], [226, 128, 130], [226, 128, 131], [226, 128, 132],
     [226, 128, 133], [226, 128, 134], [226, 128, 135], [226, 128, 136], [226, 128, 137],
     [226, 128, 138], [226, 128, 168], [226, 128, 169], [226, 128, 175], [226, 129, 159],
     [227, 128, 128]]"

definition strips :: "nat list list \<Rightarrow> string \<Rightarrow> string option" where
  "strips ws s = map_option (\<lambda>w. drop (length w) s)
     (find (\<lambda>w. w \<noteq> [] \<and> take (length w) (map of_char s) = w) ws)"

lemma strips_shorter: "strips ws s = Some r \<Longrightarrow> length r < length s"
proof -
  assume "strips ws s = Some r"
  then obtain w where w: "find (\<lambda>w. w \<noteq> [] \<and> take (length w) (map of_char s) = w) ws = Some w"
    and r: "r = drop (length w) s"
    by (auto simp: strips_def)
  from w have "w \<noteq> []" and t: "take (length w) (map of_char s) = w"
    by (auto simp: find_Some_iff)
  moreover from t have "length w \<le> length s"
    by (metis length_map length_take min.cobounded1)
  ultimately show ?thesis by (cases w) (auto simp: r)
qed

function trim_front :: "nat list list \<Rightarrow> string \<Rightarrow> string" where
  "trim_front ws s = (case strips ws s of None \<Rightarrow> s | Some r \<Rightarrow> trim_front ws r)"
  by pat_completeness auto
termination
  by (relation "measure (\<lambda>(ws, s). length s)") (auto dest: strips_shorter)

declare trim_front.simps [simp del]

definition trim :: "string \<Rightarrow> string" where
  "trim s = rev (trim_front (map rev white_space) (rev (trim_front white_space s)))"

definition is_blank :: "string \<Rightarrow> bool" where
  "is_blank s \<longleftrightarrow> trim s = []"

text \<open>
  \<open>str::to_lowercase\<close> on the ASCII letters; a byte outside ASCII is left as it is. Names of networks
  are ASCII and hold no \<open>k\<close>, the only ASCII letter that a non-ASCII code point lowers to, so the
  difference is only in the text of an error.
\<close>

definition lower_char :: "char \<Rightarrow> char" where
  "lower_char c = (let n = (of_char c :: nat) in if 65 \<le> n \<and> n \<le> 90 then char_of (n + 32) else c)"

definition to_lowercase :: "string \<Rightarrow> string" where
  "to_lowercase = map lower_char"

section \<open>Integers as text\<close>

definition digit_char :: "nat \<Rightarrow> char" where
  "digit_char d = (if d < 10 then char_of (48 + d) else char_of (87 + d))"

definition dec_digit :: "char \<Rightarrow> nat option" where
  "dec_digit c = (let n = (of_char c :: nat) in if 48 \<le> n \<and> n \<le> 57 then Some (n - 48) else None)"

definition hex_digit :: "char \<Rightarrow> nat option" where
  "hex_digit c = (let n = (of_char c :: nat) in
     if 48 \<le> n \<and> n \<le> 57 then Some (n - 48)
     else if 65 \<le> n \<and> n \<le> 70 then Some (n - 55)
     else if 97 \<le> n \<and> n \<le> 102 then Some (n - 87) else None)"

text \<open>\<open>Display\<close> of an unsigned integer.\<close>

fun show_nat :: "nat \<Rightarrow> string" where
  "show_nat n = (if n < 10 then [digit_char n] else show_nat (n div 10) @ [digit_char (n mod 10)])"

declare show_nat.simps [simp del]

definition show_word :: "'a::len word \<Rightarrow> string" where
  "show_word w = show_nat (unat w)"

text \<open>\<open>from_str_radix\<close> and \<open>parse\<close> of the unsigned types: one optional \<open>+\<close>, then digits.\<close>

datatype int_error = Empty | InvalidDigit | PosOverflow

fun int_error_text :: "int_error \<Rightarrow> string" where
  "int_error_text Empty = ''cannot parse integer from empty string''"
| "int_error_text InvalidDigit = ''invalid digit found in string''"
| "int_error_text PosOverflow = ''number too large to fit in target type''"

fun parse_digits :: "(char \<Rightarrow> nat option) \<Rightarrow> nat \<Rightarrow> nat \<Rightarrow> nat \<Rightarrow> string \<Rightarrow> int_error + nat" where
  "parse_digits dig radix limit acc [] = Inr acc"
| "parse_digits dig radix limit acc (c # cs) = (case dig c of
       None \<Rightarrow> Inl InvalidDigit
     | Some d \<Rightarrow> (if acc * radix + d < limit
         then parse_digits dig radix limit (acc * radix + d) cs else Inl PosOverflow))"

definition parse_unsigned :: "(char \<Rightarrow> nat option) \<Rightarrow> nat \<Rightarrow> nat \<Rightarrow> string \<Rightarrow> int_error + nat" where
  "parse_unsigned dig radix limit s = (case s of
       [] \<Rightarrow> Inl Empty
     | c # cs \<Rightarrow> (if cs = [] \<and> (c = CHR ''+'' \<or> c = CHR ''-'') then Inl InvalidDigit
         else if c = CHR ''+'' then parse_digits dig radix limit 0 cs
         else parse_digits dig radix limit 0 s))"

definition u64_parse :: "string \<Rightarrow> int_error + u64" where
  "u64_parse s = map_sum id of_nat (parse_unsigned dec_digit 10 (2 ^ 64) s)"

definition u8_from_str_radix_16 :: "string \<Rightarrow> int_error + u8" where
  "u8_from_str_radix_16 s = map_sum id of_nat (parse_unsigned hex_digit 16 256 s)"

lemma of_char_digit: "d < 10 \<Longrightarrow> (of_char (digit_char d) :: nat) = 48 + d"
  by (simp add: digit_char_def)

lemma dec_digit_char: "d < 10 \<Longrightarrow> dec_digit (digit_char d) = Some d"
  by (simp add: dec_digit_def of_char_digit)

lemma hex_digit_char: "d < 16 \<Longrightarrow> hex_digit (digit_char d) = Some d"
  by (auto simp: hex_digit_def digit_char_def Let_def)

lemma digit_char_not_sign:
  "d < 16 \<Longrightarrow> digit_char d \<noteq> CHR ''+''" "d < 16 \<Longrightarrow> digit_char d \<noteq> CHR ''-''"
  "d < 16 \<Longrightarrow> digit_char d \<noteq> CHR ''x''"
proof -
  assume d: "d < 16"
  have "(of_char (digit_char d) :: nat) \<ge> 48" "(of_char (digit_char d) :: nat) \<le> 102"
    using d by (auto simp: digit_char_def)
  then show "digit_char d \<noteq> CHR ''+''" "digit_char d \<noteq> CHR ''-''" "digit_char d \<noteq> CHR ''x''"
    by auto
qed

lemma show_nat_not_Nil [simp]: "show_nat n \<noteq> []"
  by (subst show_nat.simps) simp

lemma show_nat_digits: "c \<in> set (show_nat n) \<Longrightarrow> \<exists>d < 10. c = digit_char d"
proof (induction n arbitrary: c rule: show_nat.induct)
  case (1 n)
  show ?case
  proof (cases "n < 10")
    case True
    with 1 show ?thesis by (subst (asm) show_nat.simps) auto
  next
    case False
    then have "show_nat n = show_nat (n div 10) @ [digit_char (n mod 10)]"
      by (subst show_nat.simps) simp
    with 1 False show ?thesis by (auto intro: exI [of _ "n mod 10"])
  qed
qed

lemma parse_digits_append:
  "parse_digits dig r l acc (s @ t) = (case parse_digits dig r l acc s of
     Inl e \<Rightarrow> Inl e | Inr a \<Rightarrow> parse_digits dig r l a t)"
  by (induction s arbitrary: acc) (auto split: option.splits)

lemma parse_digits_show: "n < l \<Longrightarrow> parse_digits dec_digit 10 l 0 (show_nat n) = Inr n"
proof (induction n rule: show_nat.induct)
  case (1 n)
  show ?case
  proof (cases "n < 10")
    case True
    then show ?thesis using 1 by (subst show_nat.simps) (simp add: dec_digit_char)
  next
    case False
    then have s: "show_nat n = show_nat (n div 10) @ [digit_char (n mod 10)]"
      by (subst show_nat.simps) simp
    have "parse_digits dec_digit 10 l 0 (show_nat (n div 10)) = Inr (n div 10)"
      using 1 False by simp
    then show ?thesis using 1 by (simp add: s parse_digits_append dec_digit_char)
  qed
qed

lemma parse_unsigned_show: "n < l \<Longrightarrow> parse_unsigned dec_digit 10 l (show_nat n) = Inr n"
proof -
  assume n: "n < l"
  obtain c cs where s: "show_nat n = c # cs" by (cases "show_nat n") auto
  obtain d where "d < 10" "c = digit_char d"
    using show_nat_digits [of c n] s by auto
  then have "c \<noteq> CHR ''+''" "c \<noteq> CHR ''-''"
    using digit_char_not_sign [of d] by auto
  with parse_digits_show [OF n] show ?thesis by (auto simp: parse_unsigned_def s)
qed

lemma u64_parse_show: "u64_parse (show_word (w :: u64)) = Inr w"
  using parse_unsigned_show [of "unat w" "2 ^ 64"] unsigned_less [where 'a = nat and w = w]
  by (simp add: u64_parse_def show_word_def)

section \<open>Hexadecimal\<close>

text \<open>\<open>format!("{:02x}", b)\<close>.\<close>

definition fmt_02x :: "u8 \<Rightarrow> string" where
  "fmt_02x b = [digit_char (unat b div 16), digit_char (unat b mod 16)]"

definition hex_payment_hash :: "u8 list \<Rightarrow> string" where
  "hex_payment_hash bytes = foldl (\<lambda>out b. out @ fmt_02x b) [] bytes"

definition hex_string :: "u8 list \<Rightarrow> string" where
  "hex_string bytes = foldl (\<lambda>out b. out @ fmt_02x b) [] bytes"

definition hex_hash :: "u8 list \<Rightarrow> string" where
  "hex_hash bytes = concat (map fmt_02x bytes)"

lemma foldl_append_concat: "foldl (\<lambda>out b. out @ f b) acc bs = acc @ concat (map f bs)"
  by (induction bs arbitrary: acc) auto

lemma hex_writers_agree:
  "hex_payment_hash bs = hex_hash bs" "hex_string bs = hex_hash bs"
  by (simp_all add: hex_payment_hash_def hex_string_def hex_hash_def foldl_append_concat)

lemma hex_hash_simps [simp]: "hex_hash [] = []" "hex_hash (b # bs) = fmt_02x b @ hex_hash bs"
  by (simp_all add: hex_hash_def)

lemma length_fmt_02x [simp]: "length (fmt_02x b) = 2"
  by (simp add: fmt_02x_def)

lemma length_hex_hash [simp]: "length (hex_hash bs) = 2 * length bs"
  by (induction bs) auto

lemma u8_nibbles: "unat (b :: u8) div 16 < 16" "unat b mod 16 < 16"
  using unsigned_less [where 'a = nat and w = b] by auto

lemma ascii_digit_char: "d < 16 \<Longrightarrow> (of_char (digit_char d) :: nat) < 128"
  by (auto simp: digit_char_def)

lemma ascii_hex_hash [simp]: "ascii (hex_hash bs)"
  by (induction bs) (auto simp: ascii_def fmt_02x_def ascii_digit_char u8_nibbles)

lemma u8_from_fmt_02x: "u8_from_str_radix_16 (fmt_02x b) = Inr b"
proof -
  have "unat b div 16 * 16 + unat b mod 16 = unat b" by simp
  moreover have "unat b < 256" using unsigned_less [where 'a = nat and w = b] by simp
  ultimately have "parse_digits hex_digit 16 256 0 (fmt_02x b) = Inr (unat b)"
    using u8_nibbles [of b] by (simp add: fmt_02x_def hex_digit_char)
  then show ?thesis
    using u8_nibbles [of b] digit_char_not_sign(1) [of "unat b div 16"]
    by (simp add: u8_from_str_radix_16_def parse_unsigned_def fmt_02x_def)
qed

text \<open>
  The reader of \<^verbatim>\<open>ldk_service.rs\<close>: an odd length is an error; then each pair of bytes is sliced
  and parsed in turn, and the first pair that is not a number ends the loop.
\<close>

definition decode_hex :: "string \<Rightarrow> (string, u8 list) res" where
  "decode_hex s = (if length s mod 2 \<noteq> 0 then Err ''odd-length hex string''
     else collect_res (\<lambda>k. rbind (str_slice s (2 * k) (2 * k + 2)) (\<lambda>p.
            case u8_from_str_radix_16 p of
              Inl e \<Rightarrow> Err (int_error_text e)
            | Inr b \<Rightarrow> Ok b)) [0..<length s div 2])"

text \<open>The reader of \<^verbatim>\<open>wallet.rs\<close>: 64 bytes of text exactly, and \<open>None\<close> for anything else.\<close>

definition decode_hex_32 :: "string \<Rightarrow> (unit, u8 list) res" where
  "decode_hex_32 s = (if length s \<noteq> 64 then Err ()
     else collect_res (\<lambda>k. rbind (str_slice s (2 * k) (2 * k + 2)) (\<lambda>p.
            case u8_from_str_radix_16 p of
              Inl e \<Rightarrow> Err ()
            | Inr b \<Rightarrow> Ok b)) [0..<length s div 2])"

lemma hex_hash_pair: "k < length bs \<Longrightarrow> take 2 (drop (2 * k) (hex_hash bs)) = fmt_02x (bs ! k)"
proof (induction bs arbitrary: k)
  case (Cons b bs)
  then show ?case by (cases k) auto
qed simp

lemma slice_hex_hash:
  "k < length bs \<Longrightarrow> str_slice (hex_hash bs) (2 * k) (Suc (Suc (2 * k))) = Ok (fmt_02x (bs ! k))"
  by (simp add: ascii_slice hex_hash_pair)

lemma decode_pairs_hex_hash:
  assumes "\<And>b. f (fmt_02x b) = Ok b"
  shows "collect_res (\<lambda>k. rbind (str_slice (hex_hash bs) (2 * k) (Suc (Suc (2 * k)))) f) [0..<length bs] = Ok bs"
proof -
  have "collect_res (\<lambda>k. rbind (str_slice (hex_hash bs) (2 * k) (Suc (Suc (2 * k)))) f) [0..<length bs]
      = Ok (map ((!) bs) [0..<length bs])"
    by (rule collect_res_Ok_map) (use assms in \<open>simp add: slice_hex_hash\<close>)
  then show ?thesis by (simp add: map_nth)
qed

lemma decode_hex_hex_hash: "decode_hex (hex_hash bs) = Ok bs"
  by (simp add: decode_hex_def decode_pairs_hex_hash u8_from_fmt_02x)

lemma decode_hex_32_hex_hash: "length bs = 32 \<Longrightarrow> decode_hex_32 (hex_hash bs) = Ok bs"
  using decode_pairs_hex_hash [of "\<lambda>p. case u8_from_str_radix_16 p of Inl e \<Rightarrow> Err () | Inr b \<Rightarrow> Ok b" bs]
  by (simp add: decode_hex_32_def u8_from_fmt_02x)

lemma decode_hex_length:
  assumes "decode_hex s = Ok bs"
  shows "length s = 2 * length bs"
proof -
  from assms have "even (length s)" and
    "collect_res (\<lambda>k. rbind (str_slice s (2 * k) (2 * k + 2)) (\<lambda>p. case u8_from_str_radix_16 p of
       Inl e \<Rightarrow> Err (int_error_text e) | Inr b \<Rightarrow> Ok b)) [0..<length s div 2] = Ok bs"
    by (auto simp: decode_hex_def split: if_splits)
  then show ?thesis by (auto dest!: collect_res_OkD list_all2_lengthD)
qed

section \<open>Short channel ids\<close>

text \<open>\<open>str::split\<close> on a character: always at least one piece.\<close>

fun split_on :: "char \<Rightarrow> string \<Rightarrow> string list" where
  "split_on d [] = [[]]"
| "split_on d (c # cs) = (if c = d then [] # split_on d cs
     else (case split_on d cs of [] \<Rightarrow> [[c]] | p # ps \<Rightarrow> (c # p) # ps))"

definition format_scid :: "u64 \<Rightarrow> string" where
  "format_scid scid = (let block = drop_bit 40 scid;
       tx = drop_bit 16 scid AND 0xFFFFFF;
       vout = scid AND 0xFFFF
     in show_word block @ ''x'' @ show_word tx @ ''x'' @ show_word vout)"

definition parse_scid :: "string \<Rightarrow> u64 option" where
  "parse_scid s = (let parts = split_on CHR ''x'' s in
     if length parts \<noteq> 3 then None
     else (case u64_parse (parts ! 0) of Inl _ \<Rightarrow> None | Inr block \<Rightarrow>
           (case u64_parse (parts ! 1) of Inl _ \<Rightarrow> None | Inr tx \<Rightarrow>
           (case u64_parse (parts ! 2) of Inl _ \<Rightarrow> None | Inr vout \<Rightarrow>
              Some (push_bit 40 block OR push_bit 16 tx OR vout)))))"

lemma split_on_notin: "d \<notin> set s \<Longrightarrow> split_on d s = [s]"
  by (induction s) auto

lemma split_on_append: "d \<notin> set s \<Longrightarrow> split_on d (s @ d # t) = s # split_on d t"
  by (induction s) auto

lemma show_nat_no_x: "CHR ''x'' \<notin> set (show_nat n)"
proof
  assume "CHR ''x'' \<in> set (show_nat n)"
  then obtain d where "d < 10" "CHR ''x'' = digit_char d"
    using show_nat_digits by blast
  with digit_char_not_sign(3) [of d] show False by simp
qed

lemma split_format_scid:
  "split_on CHR ''x'' (show_word a @ ''x'' @ show_word b @ ''x'' @ show_word c)
     = [show_word a, show_word b, show_word c]"
  by (simp add: show_word_def split_on_append split_on_notin show_nat_no_x)

lemma scid_fields_join:
  fixes s :: u64
  shows "push_bit 40 (drop_bit 40 s) OR push_bit 16 (drop_bit 16 s AND 0xFFFFFF) OR (s AND 0xFFFF) = s"
proof -
  have m24: "(0xFFFFFF :: u64) = mask 24" and m16: "(0xFFFF :: u64) = mask 16"
    by (simp_all add: mask_eq_exp_minus_1)
  show ?thesis unfolding m24 m16
  proof (rule bit_word_eqI)
    fix n :: nat
    assume "n < LENGTH(64)"
    then show "bit (push_bit 40 (drop_bit 40 s) OR push_bit 16 (drop_bit 16 s AND mask 24)
        OR s AND mask 16) n = bit s n"
      by (cases "n < 40") (auto simp: bit_simps)
  qed
qed

lemma parse_format_scid: "parse_scid (format_scid s) = Some s"
proof -
  have "parse_scid (show_word a @ ''x'' @ show_word b @ ''x'' @ show_word c)
      = Some (push_bit 40 a OR push_bit 16 b OR c)" for a b c :: u64
    unfolding parse_scid_def split_format_scid by (simp add: u64_parse_show)
  then show ?thesis unfolding format_scid_def Let_def by (simp only: scid_fields_join)
qed

end
