(* ===== verification/Store.thy ===== *)
theory Store
  imports Prelude "HOL-Library.AList" "HOL-Library.Multiset"
begin

text \<open>
  What the three stores under \<^verbatim>\<open>src/state/\<close> are built from: a \<open>HashMap\<close> keyed by strings, an
  \<open>RwLock\<close> with its poisoning, and the contract the two keyed stores share, as the locale
  \<open>keyed_records\<close>.

  A \<open>HashMap\<close> is the list of its entries in its present iteration order. That order is not
  specified by Rust: an insertion of a new key may reorder the table, by the parameter \<open>bkt\<close>,
  which gives each key a rank that may depend on the keys held so far. Every reordering arises
  from some \<open>bkt\<close>, and every lemma holds for all of them.
\<close>

section \<open>Hash maps\<close>

type_synonym 'v hash_map = "(string \<times> 'v) list"
type_synonym buckets = "string list \<Rightarrow> string \<Rightarrow> nat"

definition hm_insert :: "buckets \<Rightarrow> string \<Rightarrow> 'v \<Rightarrow> 'v hash_map \<Rightarrow> 'v hash_map" where
  "hm_insert bkt k v m = (if map_of m k = None
     then sort_key (\<lambda>e. bkt (map fst m) (fst e)) (m @ [(k, v)])
     else AList.update k v m)"

text \<open>\<open>entry(k).or_insert_with(\<dots>)\<close>, and a mutation through \<open>get_mut(k)\<close>.\<close>

definition hm_or_insert :: "buckets \<Rightarrow> string \<Rightarrow> 'v \<Rightarrow> 'v hash_map \<Rightarrow> 'v hash_map" where
  "hm_or_insert bkt k v m = (if map_of m k = None then hm_insert bkt k v m else m)"

definition hm_modify :: "string \<Rightarrow> ('v \<Rightarrow> 'v) \<Rightarrow> 'v hash_map \<Rightarrow> 'v hash_map" where
  "hm_modify k f m = map (\<lambda>(k', v). (k', if k' = k then f v else v)) m"

definition hm_wf :: "'v hash_map \<Rightarrow> bool" where
  "hm_wf m \<longleftrightarrow> distinct (map fst m)"

lemma hm_wf_Nil [simp]: "hm_wf []"
  by (simp add: hm_wf_def)

lemma map_of_sort_key: "distinct (map fst m) \<Longrightarrow> map_of (sort_key f m) = map_of m"
proof -
  assume d: "distinct (map fst m)"
  have "mset (map fst (sort_key f m)) = mset (map fst m)" by simp
  then have "distinct (map fst (sort_key f m))"
    using d by (metis mset_eq_imp_distinct_iff)
  with d show ?thesis by (simp add: map_of_inject_set)
qed

lemma map_of_append_fresh: "map_of m k = None \<Longrightarrow> map_of (m @ [(k, v)]) = (map_of m)(k \<mapsto> v)"
  by (rule ext) (auto simp: map_add_def split: option.splits)

lemma hm_wf_append_fresh: "hm_wf m \<Longrightarrow> map_of m k = None \<Longrightarrow> hm_wf (m @ [(k, v)])"
  by (auto simp: hm_wf_def map_of_eq_None_iff)

lemma hm_wf_sort_key: "hm_wf m \<Longrightarrow> hm_wf (sort_key f m)"
proof -
  have "mset (map fst (sort_key f m)) = mset (map fst m)" by simp
  then show "hm_wf m \<Longrightarrow> hm_wf (sort_key f m)"
    unfolding hm_wf_def by (metis mset_eq_imp_distinct_iff)
qed

lemma hm_wf_insert [simp]: "hm_wf m \<Longrightarrow> hm_wf (hm_insert bkt k v m)"
proof (cases "map_of m k")
  case None
  assume "hm_wf m"
  from hm_wf_append_fresh [OF this None] have "hm_wf (m @ [(k, v)])" .
  then show ?thesis by (simp only: hm_insert_def None simp_thms if_True hm_wf_sort_key)
next
  case (Some a)
  assume "hm_wf m"
  with Some show ?thesis by (simp add: hm_wf_def hm_insert_def distinct_update)
qed

lemma map_of_hm_insert: "hm_wf m \<Longrightarrow> map_of (hm_insert bkt k v m) = (map_of m)(k \<mapsto> v)"
proof (cases "map_of m k")
  case None
  assume "hm_wf m"
  with None have "distinct (map fst (m @ [(k, v)]))"
    using hm_wf_append_fresh [of m k v] by (simp only: hm_wf_def)
  from map_of_sort_key [OF this] map_of_append_fresh [OF None] None show ?thesis
    by (simp only: hm_insert_def if_True simp_thms)
next
  case (Some a)
  then show ?thesis by (simp add: hm_insert_def update_conv')
qed

lemma hm_wf_or_insert [simp]: "hm_wf m \<Longrightarrow> hm_wf (hm_or_insert bkt k v m)"
  by (simp add: hm_or_insert_def)

lemma map_of_hm_or_insert:
  "hm_wf m \<Longrightarrow> map_of (hm_or_insert bkt k v m) =
     (if map_of m k = None then (map_of m)(k \<mapsto> v) else map_of m)"
  by (simp add: hm_or_insert_def map_of_hm_insert)

lemma keys_hm_modify [simp]: "map fst (hm_modify k f m) = map fst m"
  by (induction m) (auto simp: hm_modify_def)

lemma hm_wf_modify [simp]: "hm_wf (hm_modify k f m) \<longleftrightarrow> hm_wf m"
  by (simp add: hm_wf_def)

lemma map_of_hm_modify: "map_of (hm_modify k f m) k' = (if k' = k then map_option f (map_of m k) else map_of m k')"
  by (induction m) (auto simp: hm_modify_def)

lemma hm_modify_absent: "map_of m k = None \<Longrightarrow> hm_modify k f m = m"
  by (induction m) (auto simp: hm_modify_def split: if_splits)

lemma hm_values_insert_new:
  "map_of m k = None \<Longrightarrow> mset (map snd (hm_insert bkt k v m)) = add_mset v (mset (map snd m))"
  by (simp add: hm_insert_def)

lemma set_hm_insert: "hm_wf m \<Longrightarrow> set (hm_insert bkt k v m) \<subseteq> insert (k, v) (set m)"
proof (cases "map_of m k")
  case (Some a)
  have "set (AList.update k v m) \<subseteq> insert (k, v) (set m)"
    by (induction m) auto
  with Some show ?thesis by (simp add: hm_insert_def)
qed (auto simp: hm_insert_def)

lemma list_all_hm_insert: "list_all P m \<Longrightarrow> P (k, v) \<Longrightarrow> list_all P (hm_insert bkt k v m)"
proof -
  have "set (AList.update k v m) \<subseteq> insert (k, v) (set m)"
    by (induction m) auto
  then show "list_all P m \<Longrightarrow> P (k, v) \<Longrightarrow> ?thesis"
    by (auto simp: hm_insert_def list_all_iff)
qed

lemma list_all_hm_or_insert: "list_all P m \<Longrightarrow> P (k, v) \<Longrightarrow> list_all P (hm_or_insert bkt k v m)"
  by (simp add: hm_or_insert_def list_all_hm_insert)

lemma list_all_hm_modify:
  "list_all P m \<Longrightarrow> (\<And>k' v. P (k', v) \<Longrightarrow> P (k', f v)) \<Longrightarrow> list_all P (hm_modify k f m)"
  by (auto simp: hm_modify_def list_all_iff)

section \<open>Locks\<close>

text \<open>
  An \<open>RwLock\<close>: a panic while the write guard is held poisons it, and every later
  \<open>.expect("... lock poisoned")\<close> panics. A reader does not poison it.
\<close>

datatype 'a rwlock = RwLock (guarded: 'a) (poisoned: bool)

definition is_panic :: "('e, 'a) res \<Rightarrow> bool" where
  "is_panic r = (case r of Panic _ \<Rightarrow> True | _ \<Rightarrow> False)"

definition write_lock :: "string \<Rightarrow> ('a \<Rightarrow> ('e, 'b) res \<times> 'a) \<Rightarrow> ('a rwlock, 'e, 'b) exec" where
  "write_lock msg f l = (if poisoned l then (Panic msg, l)
     else (case f (guarded l) of (r, a) \<Rightarrow> (r, RwLock a (is_panic r))))"

definition read_lock :: "string \<Rightarrow> ('a \<Rightarrow> 'b) \<Rightarrow> ('a rwlock, 'e, 'b) exec" where
  "read_lock msg f l = (if poisoned l then (Panic msg, l) else (Ok (f (guarded l)), l))"

lemma read_lock_Ok [exec_simps]: "\<not> poisoned l \<Longrightarrow> read_lock msg f l = (Ok (f (guarded l)), l)"
  by (simp add: read_lock_def)

lemma read_lock_state [simp]: "snd (read_lock msg f l) = l"
  by (simp add: read_lock_def)

lemma write_lock_Ok [exec_simps]:
  "\<not> poisoned l \<Longrightarrow> f (guarded l) = (Ok x, a) \<Longrightarrow> write_lock msg f l = (Ok x, RwLock a False)"
  by (simp add: write_lock_def is_panic_def)

section \<open>The contract of a keyed store\<close>

text \<open>
  Both keyed stores file each record under the key the record itself carries, and change a record
  only through updates that leave that key alone. A client may then look a record up by the key it
  reads from a listing, and two listed records never share a key.
\<close>

locale keyed_records =
  fixes key_of :: "'r \<Rightarrow> string"
    and update_of :: "('r \<Rightarrow> 'r) \<Rightarrow> bool"
  assumes update_key: "update_of f \<Longrightarrow> key_of (f r) = key_of r"
begin

definition filed :: "'r hash_map \<Rightarrow> bool" where
  "filed m \<longleftrightarrow> hm_wf m \<and> list_all (\<lambda>(k, r). key_of r = k) m"

lemma filed_empty: "filed []"
  by (simp add: filed_def)

lemma filed_insert: "filed m \<Longrightarrow> filed (hm_insert bkt (key_of r) r m)"
  using set_hm_insert [of m bkt "key_of r" r] by (fastforce simp: filed_def list_all_iff)

lemma filed_or_insert: "filed m \<Longrightarrow> filed (hm_or_insert bkt (key_of r) r m)"
  by (simp add: hm_or_insert_def filed_insert)

lemma filed_modify: "filed m \<Longrightarrow> update_of f \<Longrightarrow> filed (hm_modify k f m)"
  by (auto simp: filed_def list_all_iff hm_modify_def hm_wf_def update_key comp_def case_prod_beta)

lemma listed_lookup: "filed m \<Longrightarrow> r \<in> set (map snd m) \<Longrightarrow> map_of m (key_of r) = Some r"
  by (auto simp: filed_def list_all_iff hm_wf_def)

lemma lookup_listed: "filed m \<Longrightarrow> map_of m k = Some r \<Longrightarrow> key_of r = k \<and> r \<in> set (map snd m)"
  by (force simp: filed_def list_all_iff dest: map_of_SomeD)

lemma listing_distinct: "filed m \<Longrightarrow> distinct (map key_of (map snd m))"
proof -
  assume f: "filed m"
  then have "map key_of (map snd m) = map fst m"
    by (auto simp: filed_def list_all_iff)
  moreover have "distinct (map fst m)"
    using f by (simp add: filed_def hm_wf_def)
  ultimately show ?thesis by metis
qed

lemma listing_complete: "filed m \<Longrightarrow> set (map snd m) = ran (map_of m)"
  by (auto simp: filed_def hm_wf_def ran_distinct)

end

end
