(* ===== verification/LdkTypes.thy ===== *)
theory LdkTypes
  imports Text Store "HOL-Library.List_Lexorder" "HOL-Library.Product_Lexorder"
begin

text \<open>
  The data of the node: its two error types with their texts (\<^verbatim>\<open>ldk_service.rs\<close>), the error of a
  handler, and the values of the crates the node is written against (\<^verbatim>\<open>ldk-node\<close>, \<^verbatim>\<open>lightning\<close>,
  \<^verbatim>\<open>bip321\<close>), reduced to the fields and variants the source reads. A foreign value that the source
  only prints or compares is the text it prints. The helpers of \<^verbatim>\<open>lib.rs\<close> on payment kinds are here.
\<close>

section \<open>Errors\<close>

datatype ldk_service_init_error =
    InvalidNetwork string
  | InvalidListeningAddress string
  | InvalidConfig string
  | BuildFailed string
  | StartFailed string

fun init_error_text :: "ldk_service_init_error \<Rightarrow> string" where
  "init_error_text (InvalidNetwork network) = ''unsupported network for LdkService: '' @ network"
| "init_error_text (InvalidListeningAddress address) = ''invalid ldk_listen_addr: '' @ address"
| "init_error_text (InvalidConfig msg) = ''invalid LdkService config: '' @ msg"
| "init_error_text (BuildFailed msg) = ''failed to build LdkService node: '' @ msg"
| "init_error_text (StartFailed msg) = ''failed to start LdkService node: '' @ msg"

datatype ldk_service_error =
    SyncFailed string
  | AddressGenerationFailed string
  | BalanceOverflow u64
  | InvalidInvoice string
  | InvalidInvoiceRequest string
  | InvalidPubkey string
  | InvalidAmount u64
  | ChannelFailed string
  | PeerFailed string
  | PaymentFailed string
  | PaymentNotFound string
  | InvalidAddress string
  | OfferFailed string
  | StopFailed string

fun service_error_text :: "ldk_service_error \<Rightarrow> string" where
  "service_error_text (SyncFailed msg) = ''ldk wallet sync failed: '' @ msg"
| "service_error_text (AddressGenerationFailed msg) = ''ldk address generation failed: '' @ msg"
| "service_error_text (BalanceOverflow sats) =
     ''balance conversion overflow for sats='' @ show_word sats"
| "service_error_text (InvalidInvoice msg) = ''invalid invoice: '' @ msg"
| "service_error_text (InvalidInvoiceRequest msg) = ''invalid invoice request: '' @ msg"
| "service_error_text (InvalidPubkey msg) = ''invalid pubkey: '' @ msg"
| "service_error_text (InvalidAmount amount) = ''invalid amount: '' @ show_word amount"
| "service_error_text (ChannelFailed msg) = ''channel operation failed: '' @ msg"
| "service_error_text (PeerFailed msg) = ''peer operation failed: '' @ msg"
| "service_error_text (PaymentFailed msg) = ''payment failed: '' @ msg"
| "service_error_text (PaymentNotFound msg) = ''payment not found: '' @ msg"
| "service_error_text (InvalidAddress msg) = ''invalid address: '' @ msg"
| "service_error_text (OfferFailed msg) = ''offer operation failed: '' @ msg"
| "service_error_text (StopFailed msg) = ''ldk node stop failed: '' @ msg"

text \<open>The error codes of \<^verbatim>\<open>nostr-ln\<close> the handlers answer with, and \<open>NncError\<close>.\<close>

datatype error_code = BadRequest | NotFound | Internal | EPaymentFailed | EChannelFailed
  | EConnectionFailed | UnsupportedPaymentInstruction

datatype nnc_error = NncError (err_code: error_code) (err_message: string)

definition ldk_err :: "string \<Rightarrow> error_code \<Rightarrow> ldk_service_error \<Rightarrow> nnc_error" where
  "ldk_err what code e = NncError code (what @ '': '' @ service_error_text e)"

section \<open>Payments\<close>

datatype payment_direction = Inbound | Outbound
datatype payment_status = Pending | Succeeded | Failed

text \<open>\<open>OtherKind\<close> is every variant the source meets only through a wildcard pattern.\<close>

datatype payment_kind =
    Bolt11 (kind_hash: "u8 list") (kind_preimage: "u8 list option")
  | Bolt11Jit "u8 list" "u8 list option"
  | Spontaneous "u8 list" "u8 list option"
  | Bolt12Offer "u8 list option" "u8 list option"
  | Bolt12Refund "u8 list option" "u8 list option"
  | OtherKind

record payment_details =
  pd_id :: "u8 list"
  pd_kind :: payment_kind
  pd_amount_msat :: "u64 option"
  pd_fee_paid_msat :: "u64 option"
  pd_direction :: payment_direction
  pd_status :: payment_status
  pd_latest_update_timestamp :: u64

fun payment_hash_from_kind :: "payment_kind \<Rightarrow> string option" where
  "payment_hash_from_kind (Bolt11 hash _) = Some (hex_payment_hash hash)"
| "payment_hash_from_kind (Bolt11Jit hash _) = Some (hex_payment_hash hash)"
| "payment_hash_from_kind (Spontaneous hash _) = Some (hex_payment_hash hash)"
| "payment_hash_from_kind (Bolt12Offer hash _) = map_option hex_payment_hash hash"
| "payment_hash_from_kind (Bolt12Refund hash _) = map_option hex_payment_hash hash"
| "payment_hash_from_kind OtherKind = None"

fun preimage_from_kind :: "payment_kind \<Rightarrow> string option" where
  "preimage_from_kind (Bolt11 _ preimage) = map_option hex_payment_hash preimage"
| "preimage_from_kind (Bolt11Jit _ preimage) = map_option hex_payment_hash preimage"
| "preimage_from_kind (Spontaneous _ preimage) = map_option hex_payment_hash preimage"
| "preimage_from_kind (Bolt12Offer _ preimage) = map_option hex_payment_hash preimage"
| "preimage_from_kind (Bolt12Refund _ preimage) = map_option hex_payment_hash preimage"
| "preimage_from_kind OtherKind = None"

text \<open>\<open>nip47::PaymentMethod\<close>; \<open>OtherMethod\<close> is any variant the source does not name.\<close>

datatype payment_method = MBolt11 | MBolt12 | MKeysend | OtherMethod

record balance_details =
  bal_spendable_onchain_balance_sats :: u64
  bal_total_lightning_balance_sats :: u64

record bolt11_invoice =
  bi_text :: string
  bi_payment_hash :: string
  bi_amount_milli_satoshis :: "u64 option"
  bi_expires_at :: "u64 option"
  bi_payee_pub_key :: string

record bolt12_offer =
  bo_text :: string
  bo_id :: "u8 list"

section \<open>Channels and peers\<close>

datatype network = Regtest | Testnet | Bitcoin | Signet | OtherNetwork
datatype public_key = PublicKey (pk_text: string)

record channel_config =
  cc_forwarding_fee_base_msat :: u32
  cc_forwarding_fee_proportional_millionths :: u32
  cc_other_settings :: string

record channel_details =
  cd_channel_id :: string
  cd_user_channel_id :: u128
  cd_counterparty_node_id :: public_key
  cd_is_channel_ready :: bool
  cd_is_usable :: bool
  cd_is_announced :: bool
  cd_short_channel_id :: "u64 option"
  cd_funding_txo :: "(string \<times> u32) option"
  cd_outbound_capacity_msat :: u64
  cd_inbound_capacity_msat :: u64
  cd_channel_value_sats :: u64
  cd_confirmations :: "u32 option"
  cd_config :: channel_config
  cd_inbound_htlc_minimum_msat :: u64
  cd_inbound_htlc_maximum_msat :: "u64 option"

record peer_details =
  pe_node_id :: public_key
  pe_address :: string
  pe_is_connected :: bool

section \<open>The network graph\<close>

text \<open>A \<open>NodeId\<close> is a byte string and is ordered as one.\<close>

datatype node_id = NodeId (as_slice: "u8 list")

instantiation node_id :: linorder
begin

definition less_eq_node_id :: "node_id \<Rightarrow> node_id \<Rightarrow> bool" where
  "less_eq_node_id a b \<longleftrightarrow> as_slice a \<le> as_slice b"

definition less_node_id :: "node_id \<Rightarrow> node_id \<Rightarrow> bool" where
  "less_node_id a b \<longleftrightarrow> as_slice a < as_slice b"

instance
  by standard (auto simp: less_eq_node_id_def less_node_id_def intro: node_id.expand)

end

record channel_update =
  cu_enabled :: bool
  cu_last_update :: u32
  cu_cltv_expiry_delta :: u16
  cu_htlc_minimum_msat :: u64
  cu_htlc_maximum_msat :: u64
  cu_base_msat :: u32
  cu_proportional_millionths :: u32

record graph_channel =
  gc_node_one :: node_id
  gc_node_two :: node_id
  gc_one_to_two :: "channel_update option"
  gc_two_to_one :: "channel_update option"
  gc_capacity_sats :: "u64 option"

record node_announcement =
  an_alias :: string
  an_rgb :: "u8 \<times> u8 \<times> u8"
  an_addresses :: "string list"
  an_last_update :: u32

record graph_node =
  gn_channels :: "u64 list"
  gn_announcement_info :: "node_announcement option"

text \<open>The graph handle: what its four readers answer while one request is served.\<close>

record network_graph =
  ng_list_nodes :: "node_id list"
  ng_node :: "node_id \<Rightarrow> graph_node option"
  ng_list_channels :: "u64 list"
  ng_channel :: "u64 \<Rightarrow> graph_channel option"

section \<open>BIP 321 URIs\<close>

record bip321_uri =
  u_address :: "string option"
  u_address_str :: "string option"
  u_amount :: "u64 option"
  u_label :: "string option"
  u_message :: "string option"
  u_lightning :: "string list"
  u_lno :: "string list"

definition new_uri :: bip321_uri where
  "new_uri = \<lparr>u_address = None, u_address_str = None, u_amount = None, u_label = None,
     u_message = None, u_lightning = [], u_lno = []\<rparr>"

section \<open>Events\<close>

datatype closure_reason = CounterpartyForceClosed | HolderForceClosed
  | LegacyCooperativeClosure | CounterpartyInitiatedCooperativeClosure
  | LocallyInitiatedCooperativeClosure | OtherClosure

datatype ldk_event =
    PaymentReceived (ev_hash: "u8 list") (ev_amount_msat: u64)
  | PaymentSuccessful (ev_hash: "u8 list") (ev_fee_paid_msat: "u64 option")
  | PaymentClaimable (ev_hash: "u8 list") (ev_claimable_amount_msat: u64) (ev_claim_deadline: "u32 option")
  | ChannelReady (ev_channel_id: string) (ev_user_channel_id: u128) (ev_counterparty: "public_key option")
  | ChannelClosed (ev_channel_id: string) (ev_counterparty: "public_key option") (ev_reason: "closure_reason option")
  | PaymentForwarded (ev_prev_channel_id: string) (ev_next_channel_id: string)
      (ev_total_fee_earned_msat: "u64 option") (ev_outbound_amount_forwarded_msat: "u64 option")
  | OtherEvent

end
