(* ===== verification/AddressStore.thy ===== *)
theory AddressStore
  imports Store
begin

text \<open>
  \<^verbatim>\<open>src/state/address_store.rs\<close>: the on-chain addresses the node generated, with the transactions
  recorded for each.
\<close>

record address_transaction =
  at_txid :: string
  at_amount_sats :: u64
  at_timestamp :: u64

record address_record =
  ar_address :: string
  ar_transactions :: "address_transaction list"

type_synonym address_store = "address_record hash_map rwlock"

definition address_store_init :: address_store where
  "address_store_init = RwLock [] False"

definition register_address :: "buckets \<Rightarrow> string \<Rightarrow> (address_store, 'e, unit) exec" where
  "register_address bkt address = write_lock ''address store lock poisoned''
     (\<lambda>m. (Ok (), hm_or_insert bkt address \<lparr>ar_address = address, ar_transactions = []\<rparr> m))"

definition get_address :: "string \<Rightarrow> (address_store, 'e, address_record option) exec" where
  "get_address address = read_lock ''address store lock poisoned'' (\<lambda>m. map_of m address)"

definition list_addresses :: "(address_store, 'e, address_record list) exec" where
  "list_addresses = read_lock ''address store lock poisoned'' (map snd)"

definition push_transaction :: "address_transaction \<Rightarrow> address_record \<Rightarrow> address_record" where
  "push_transaction t r = r\<lparr>ar_transactions := ar_transactions r @ [t]\<rparr>"

definition record_transaction :: "string \<Rightarrow> string \<Rightarrow> u64 \<Rightarrow> u64 \<Rightarrow> (address_store, 'e, unit) exec" where
  "record_transaction address txid amount_sats timestamp =
     write_lock ''address store lock poisoned'' (\<lambda>m. (Ok (),
       hm_modify address (push_transaction
         \<lparr>at_txid = txid, at_amount_sats = amount_sats, at_timestamp = timestamp\<rparr>) m))"

definition clear_addresses :: "(address_store, 'e, unit) exec" where
  "clear_addresses = write_lock ''address store lock poisoned'' (\<lambda>m. (Ok (), []))"

interpretation addrs: keyed_records ar_address "\<lambda>f. \<exists>t. f = push_transaction t"
  by unfold_locales (auto simp: push_transaction_def)

definition addresses_filed :: "address_store \<Rightarrow> bool" where
  "addresses_filed l \<longleftrightarrow> addrs.filed (guarded l)"

lemmas address_store_defs = register_address_def get_address_def list_addresses_def
  record_transaction_def clear_addresses_def

lemma register_address_filed: "addresses_filed l \<Longrightarrow> addresses_filed (snd (register_address bkt a l))"
  using addrs.filed_or_insert [of "guarded l" bkt "\<lparr>ar_address = a, ar_transactions = []\<rparr>"]
  by (simp add: addresses_filed_def register_address_def write_lock_def)

lemma record_transaction_filed:
  "addresses_filed l \<Longrightarrow> addresses_filed (snd (record_transaction a txid amt ts l))"
  by (auto simp: addresses_filed_def record_transaction_def write_lock_def intro!: addrs.filed_modify)

lemma register_address_run [exec_simps]:
  "\<not> poisoned l \<Longrightarrow> register_address bkt a l =
     (Ok (), RwLock (hm_or_insert bkt a \<lparr>ar_address = a, ar_transactions = []\<rparr> (guarded l)) False)"
  by (simp add: register_address_def exec_simps)

lemma get_address_run [exec_simps]:
  "\<not> poisoned l \<Longrightarrow> get_address a l = (Ok (map_of (guarded l) a), l)"
  by (simp add: get_address_def exec_simps)

lemma list_addresses_run [exec_simps]:
  "\<not> poisoned l \<Longrightarrow> list_addresses l = (Ok (map snd (guarded l)), l)"
  by (simp add: list_addresses_def exec_simps)

end
