(* ===== verification/OfferStore.thy ===== *)
theory OfferStore
  imports Store
begin

text \<open>
  \<^verbatim>\<open>src/state/offer_store.rs\<close>: the BOLT12 offers the node made. The counters are \<open>u64\<close>; adding to
  them may overflow, which in a build with overflow checks panics while the write guard is held
  and so poisons the store.
\<close>

record offer_record =
  or_offer :: string
  or_description :: string
  or_amount_msat :: u64
  or_active :: bool
  or_num_payments_received :: u64
  or_total_received_msat :: u64
  or_offer_id :: "u8 list"

type_synonym offer_store = "offer_record hash_map rwlock"

definition offer_store_init :: offer_store where
  "offer_store_init = RwLock [] False"

definition new_offer_record :: "string \<Rightarrow> string \<Rightarrow> u64 \<Rightarrow> u8 list \<Rightarrow> offer_record" where
  "new_offer_record offer description amount_msat offer_id =
     \<lparr>or_offer = offer, or_description = description, or_amount_msat = amount_msat,
      or_active = True, or_num_payments_received = 0, or_total_received_msat = 0,
      or_offer_id = offer_id\<rparr>"

definition insert_offer ::
  "buckets \<Rightarrow> string \<Rightarrow> string \<Rightarrow> u64 \<Rightarrow> u8 list \<Rightarrow> (offer_store, 'e, unit) exec" where
  "insert_offer bkt offer description amount_msat offer_id =
     write_lock ''offer store lock poisoned'' (\<lambda>m. (Ok (),
       hm_insert bkt offer (new_offer_record offer description amount_msat offer_id) m))"

definition find_by_offer_id :: "u8 list \<Rightarrow> (offer_store, 'e, string option) exec" where
  "find_by_offer_id offer_id = read_lock ''offer store lock poisoned''
     (\<lambda>m. map_option fst (find (\<lambda>(_, r). or_offer_id r = offer_id) m))"

definition get_offer :: "string \<Rightarrow> (offer_store, 'e, offer_record option) exec" where
  "get_offer offer = read_lock ''offer store lock poisoned'' (\<lambda>m. map_of m offer)"

definition list_offers :: "(offer_store, 'e, offer_record list) exec" where
  "list_offers = read_lock ''offer store lock poisoned'' (map snd)"

definition deactivate :: "offer_record \<Rightarrow> offer_record" where
  "deactivate r = r\<lparr>or_active := False\<rparr>"

definition disable_offer :: "string \<Rightarrow> (offer_store, 'e, bool) exec" where
  "disable_offer offer = write_lock ''offer store lock poisoned'' (\<lambda>m.
     case map_of m offer of
       Some _ \<Rightarrow> (Ok True, hm_modify offer deactivate m)
     | None \<Rightarrow> (Ok False, m))"

text \<open>
  The two \<open>+=\<close> of \<open>record_payment\<close>: the count first, then the total. A panic in the second leaves
  the first done.
\<close>

definition count_payment :: "bool \<Rightarrow> u64 \<Rightarrow> offer_record \<Rightarrow> ('e, unit) res \<times> offer_record" where
  "count_payment ck amount_msat r =
     (case add_ck ck (or_num_payments_received r) 1 of
        Ok n \<Rightarrow> (let r1 = r\<lparr>or_num_payments_received := n\<rparr> in
          (case add_ck ck (or_total_received_msat r1) amount_msat of
             Ok t \<Rightarrow> (Ok (), r1\<lparr>or_total_received_msat := t\<rparr>)
           | Err e \<Rightarrow> (Err e, r1) | Panic p \<Rightarrow> (Panic p, r1) | Hang \<Rightarrow> (Hang, r1)))
      | Err e \<Rightarrow> (Err e, r) | Panic p \<Rightarrow> (Panic p, r) | Hang \<Rightarrow> (Hang, r))"

definition record_payment :: "bool \<Rightarrow> string \<Rightarrow> u64 \<Rightarrow> (offer_store, 'e, unit) exec" where
  "record_payment ck offer amount_msat = write_lock ''offer store lock poisoned'' (\<lambda>m.
     case map_of m offer of
       Some r \<Rightarrow> (fst (count_payment ck amount_msat r),
                  hm_modify offer (\<lambda>r. snd (count_payment ck amount_msat r :: ('e, unit) res \<times> _)) m)
     | None \<Rightarrow> (Ok (), m))"

definition clear_offers :: "(offer_store, 'e, unit) exec" where
  "clear_offers = write_lock ''offer store lock poisoned'' (\<lambda>m. (Ok (), []))"

definition offer_update :: "(offer_record \<Rightarrow> offer_record) \<Rightarrow> bool" where
  "offer_update f \<longleftrightarrow> (\<forall>r. or_offer (f r) = or_offer r)"

interpretation offs: keyed_records or_offer offer_update
  by unfold_locales (auto simp: offer_update_def)

definition offers_filed :: "offer_store \<Rightarrow> bool" where
  "offers_filed l \<longleftrightarrow> offs.filed (guarded l)"

lemma deactivate_update: "offer_update deactivate"
  by (simp add: offer_update_def deactivate_def)

lemma or_offer_new [simp]: "or_offer (new_offer_record o' d a i) = o'"
  by (simp add: new_offer_record_def)

lemma count_payment_key: "or_offer (snd (count_payment ck a r)) = or_offer r"
  by (auto simp: count_payment_def Let_def split: res.splits)

lemma insert_offer_filed: "offers_filed l \<Longrightarrow> offers_filed (snd (insert_offer bkt o' d a i l))"
  using offs.filed_insert [of "guarded l" bkt "new_offer_record o' d a i"]
  by (simp add: offers_filed_def insert_offer_def write_lock_def)

lemma disable_offer_filed: "offers_filed l \<Longrightarrow> offers_filed (snd (disable_offer o' l))"
  by (auto simp: offers_filed_def disable_offer_def write_lock_def split: option.splits
      intro!: offs.filed_modify deactivate_update)

lemma record_payment_filed:
  "offers_filed l \<Longrightarrow> offers_filed (snd (record_payment ck o' a l))"
  by (auto simp: offers_filed_def record_payment_def write_lock_def offer_update_def count_payment_key
      split: option.splits intro!: offs.filed_modify)

lemma insert_offer_run [exec_simps]:
  "\<not> poisoned l \<Longrightarrow> insert_offer bkt o' d a i l =
     (Ok (), RwLock (hm_insert bkt o' (new_offer_record o' d a i) (guarded l)) False)"
  by (simp add: insert_offer_def exec_simps)

lemma list_offers_run [exec_simps]:
  "\<not> poisoned l \<Longrightarrow> list_offers l = (Ok (map snd (guarded l)), l)"
  by (simp add: list_offers_def exec_simps)

lemma find_by_offer_id_run [exec_simps]:
  "\<not> poisoned l \<Longrightarrow> find_by_offer_id i l =
     (Ok (map_option fst (find (\<lambda>(_, r). or_offer_id r = i) (guarded l))), l)"
  by (simp add: find_by_offer_id_def exec_simps)

lemma disable_offer_run [exec_simps]:
  "\<not> poisoned l \<Longrightarrow> disable_offer o' l =
     (Ok (map_of (guarded l) o' \<noteq> None), RwLock (hm_modify o' deactivate (guarded l)) False)"
  by (auto simp: disable_offer_def write_lock_def is_panic_def hm_modify_absent split: option.splits)

end
