(* ===== verification/ForwardingStore.thy ===== *)
theory ForwardingStore
  imports Store
begin

text \<open>\<^verbatim>\<open>src/state/forwarding_store.rs\<close>: the log of forwarded payments.\<close>

record forwarding_entry =
  fe_incoming_channel_id :: string
  fe_outgoing_channel_id :: string
  fe_incoming_amount :: u64
  fe_outgoing_amount :: u64
  fe_fee_earned :: u64
  fe_settled_at :: u64

type_synonym forwarding_store = "forwarding_entry list rwlock"

definition forwarding_store_init :: forwarding_store where
  "forwarding_store_init = RwLock [] False"

definition record_forward :: "forwarding_entry \<Rightarrow> (forwarding_store, 'e, unit) exec" where
  "record_forward entry = write_lock ''forwarding store lock poisoned'' (\<lambda>v. (Ok (), v @ [entry]))"

definition in_window :: "u64 option \<Rightarrow> u64 option \<Rightarrow> forwarding_entry \<Rightarrow> bool" where
  "in_window from_ts until_ts e =
     (if (case from_ts of Some t \<Rightarrow> fe_settled_at e < t | None \<Rightarrow> False) then False
      else if (case until_ts of Some t \<Rightarrow> fe_settled_at e > t | None \<Rightarrow> False) then False
      else True)"

definition get_history ::
  "u64 option \<Rightarrow> u64 option \<Rightarrow> nat \<Rightarrow> nat \<Rightarrow> (forwarding_store, 'e, forwarding_entry list) exec" where
  "get_history from_ts until_ts limit offset = read_lock ''forwarding store lock poisoned''
     (\<lambda>v. take limit (drop offset (filter (in_window from_ts until_ts) v)))"

definition clear_forwards :: "(forwarding_store, 'e, unit) exec" where
  "clear_forwards = write_lock ''forwarding store lock poisoned'' (\<lambda>v. (Ok (), []))"

lemma in_window_iff:
  "in_window f u e \<longleftrightarrow> (\<forall>t. f = Some t \<longrightarrow> t \<le> fe_settled_at e) \<and> (\<forall>t. u = Some t \<longrightarrow> fe_settled_at e \<le> t)"
  by (auto simp: in_window_def not_less split: option.splits)

lemma get_history_run [exec_simps]:
  "\<not> poisoned l \<Longrightarrow> get_history f u lim off l =
     (Ok (page off lim (filter (in_window f u) (guarded l))), l)"
  by (simp add: get_history_def exec_simps page_def)

lemma record_forward_run [exec_simps]:
  "\<not> poisoned l \<Longrightarrow> record_forward e l = (Ok (), RwLock (guarded l @ [e]) False)"
  by (simp add: record_forward_def exec_simps)

end
