(* ===== verification/LdkEnv.thy ===== *)
theory LdkEnv
  imports LdkTypes AddressStore OfferStore ForwardingStore
begin

text \<open>
  The world around the node. Everything outside the repository is a parameter, collected in
  \<open>deps\<close>: the parsers and codecs of the crates, the calls on the LDK node and its signer, the clock
  and the publisher of notifications. A call on the node, the clock or the relay reads and changes
  the outside state \<open>'n\<close>, so two calls may answer differently and time may pass between them.
  \<open>world\<close> is that outside state and the three stores the program itself keeps.
\<close>

section \<open>Parameters\<close>

record crates =
  cr_bolt11_from_str :: "string \<Rightarrow> string + bolt11_invoice"
  cr_description_new :: "string \<Rightarrow> string + string"
  cr_offer_from_str :: "string \<Rightarrow> string + bolt12_offer"
  cr_public_key_from_str :: "string \<Rightarrow> string + public_key"
  cr_node_id_from_pubkey :: "public_key \<Rightarrow> node_id"
  cr_node_id_text :: "node_id \<Rightarrow> string"
  cr_socket_address_from_str :: "string \<Rightarrow> string + string"
  cr_address_for_network :: "network \<Rightarrow> string \<Rightarrow> string + string"
  cr_uri_address_parse :: "string \<Rightarrow> string option"
  cr_bip321_parse :: "string \<Rightarrow> string + bip321_uri"
  cr_bip321_text :: "bip321_uri \<Rightarrow> string"
  cr_hex_decode :: "string \<Rightarrow> string + u8 list"
  cr_hex_encode :: "u8 list \<Rightarrow> string"
  cr_sha256 :: "u8 list \<Rightarrow> u8 list"
  cr_sha256_text :: "u8 list \<Rightarrow> string"

record 'n wallet_api =
  wa_sync_wallets :: "'n \<Rightarrow> (string + unit) \<times> 'n"
  wa_list_balances :: "'n \<Rightarrow> balance_details \<times> 'n"
  wa_new_address :: "'n \<Rightarrow> (string + string) \<times> 'n"
  wa_receive :: "u64 \<Rightarrow> string \<Rightarrow> u32 \<Rightarrow> 'n \<Rightarrow> (string + bolt11_invoice) \<times> 'n"
  wa_receive_for_hash :: "u64 \<Rightarrow> string \<Rightarrow> u32 \<Rightarrow> u8 list \<Rightarrow> 'n \<Rightarrow> (string + bolt11_invoice) \<times> 'n"
  wa_claim_for_hash :: "u8 list \<Rightarrow> u64 \<Rightarrow> u8 list \<Rightarrow> 'n \<Rightarrow> (string + unit) \<times> 'n"
  wa_fail_for_hash :: "u8 list \<Rightarrow> 'n \<Rightarrow> (string + unit) \<times> 'n"
  wa_send :: "bolt11_invoice \<Rightarrow> 'n \<Rightarrow> (string + u8 list) \<times> 'n"
  wa_send_using_amount :: "bolt11_invoice \<Rightarrow> u64 \<Rightarrow> 'n \<Rightarrow> (string + u8 list) \<times> 'n"
  wa_spontaneous_send :: "u64 \<Rightarrow> public_key \<Rightarrow> 'n \<Rightarrow> (string + u8 list) \<times> 'n"
  wa_bolt12_receive :: "u64 \<Rightarrow> string \<Rightarrow> u32 option \<Rightarrow> 'n \<Rightarrow> (string + bolt12_offer) \<times> 'n"
  wa_bolt12_send :: "bolt12_offer \<Rightarrow> string option \<Rightarrow> 'n \<Rightarrow> (string + u8 list) \<times> 'n"
  wa_send_to_address :: "string \<Rightarrow> u64 \<Rightarrow> 'n \<Rightarrow> (string + string) \<times> 'n"
  wa_payment :: "u8 list \<Rightarrow> 'n \<Rightarrow> payment_details option \<times> 'n"
  wa_list_payments :: "'n \<Rightarrow> payment_details list \<times> 'n"

record 'n channel_api =
  ca_open_channel :: "public_key \<Rightarrow> string \<Rightarrow> u64 \<Rightarrow> u64 option \<Rightarrow> 'n \<Rightarrow> (string + u128) \<times> 'n"
  ca_connect :: "public_key \<Rightarrow> string \<Rightarrow> bool \<Rightarrow> 'n \<Rightarrow> (string + unit) \<times> 'n"
  ca_disconnect :: "public_key \<Rightarrow> 'n \<Rightarrow> (string + unit) \<times> 'n"
  ca_stop :: "'n \<Rightarrow> (string + unit) \<times> 'n"
  ca_list_channels :: "'n \<Rightarrow> channel_details list \<times> 'n"
  ca_list_peers :: "'n \<Rightarrow> peer_details list \<times> 'n"
  ca_close_channel :: "u128 \<Rightarrow> public_key \<Rightarrow> 'n \<Rightarrow> (string + unit) \<times> 'n"
  ca_force_close_channel :: "u128 \<Rightarrow> public_key \<Rightarrow> string option \<Rightarrow> 'n \<Rightarrow> (string + unit) \<times> 'n"
  ca_update_channel_config :: "u128 \<Rightarrow> public_key \<Rightarrow> channel_config \<Rightarrow> 'n \<Rightarrow> (string + unit) \<times> 'n"
  ca_signer_channel_ready :: "u128 \<Rightarrow> 'n \<Rightarrow> (string + unit) \<times> 'n"
  ca_node_id :: "'n \<Rightarrow> public_key \<times> 'n"
  ca_best_block_height :: "'n \<Rightarrow> u32 \<times> 'n"
  ca_network_graph :: "'n \<Rightarrow> network_graph \<times> 'n"
  ca_next_event :: "'n \<Rightarrow> ldk_event \<times> 'n"
  ca_event_handled :: "'n \<Rightarrow> (string + unit) \<times> 'n"

text \<open>
  The clock answers the seconds since the epoch, or \<open>None\<close> when it is set before it; \<open>pl_instant\<close> is
  the monotonic clock and \<open>pl_sleep\<close> the sleep, both in nanoseconds.
\<close>

record 'n platform =
  pl_clock :: "'n \<Rightarrow> u64 option \<times> 'n"
  pl_instant :: "'n \<Rightarrow> nat \<times> 'n"
  pl_sleep :: "nat \<Rightarrow> 'n \<Rightarrow> 'n"
  pl_env_var :: "string \<Rightarrow> 'n \<Rightarrow> string option \<times> 'n"

record ldk_service =
  svc_network :: network
  svc_keys_manager :: bool

record 'n deps =
  overflow_checks :: bool
  hash_buckets :: buckets
  crate :: crates
  wallet_node :: "'n wallet_api"
  channel_node :: "'n channel_api"
  platform :: "'n platform"
  service :: ldk_service

record 'n world =
  host :: 'n
  address_db :: address_store
  offer_db :: offer_store
  forward_db :: forwarding_store

definition init_world :: "'n \<Rightarrow> 'n world" where
  "init_world n = \<lparr>host = n, address_db = address_store_init, offer_db = offer_store_init,
     forward_db = forwarding_store_init\<rparr>"

section \<open>Calls\<close>

text \<open>A call that cannot fail, and one whose error the source maps with \<open>map_err\<close>.\<close>

definition call :: "('n \<Rightarrow> 'r \<times> 'n) \<Rightarrow> ('n world, 'e, 'r) exec" where
  "call f w = (case f (host w) of (r, n) \<Rightarrow> (Ok r, w\<lparr>host := n\<rparr>))"

definition try_call :: "('n \<Rightarrow> (string + 'r) \<times> 'n) \<Rightarrow> (string \<Rightarrow> 'e) \<Rightarrow> ('n world, 'e, 'r) exec" where
  "try_call f h w = (case f (host w) of
       (Inl m, n) \<Rightarrow> (Err (h m), w\<lparr>host := n\<rparr>)
     | (Inr r, n) \<Rightarrow> (Ok r, w\<lparr>host := n\<rparr>))"

text \<open>\<open>T::from_str(s).map_err(h)?\<close>.\<close>

definition try_parse :: "string + 'r \<Rightarrow> (string \<Rightarrow> 'e) \<Rightarrow> ('w, 'e, 'r) exec" where
  "try_parse p h = (case p of Inl m \<Rightarrow> raise (h m) | Inr r \<Rightarrow> ret r)"

definition on_addresses :: "(address_store, 'e, 'a) exec \<Rightarrow> ('n world, 'e, 'a) exec" where
  "on_addresses m w = (case m (address_db w) of (r, a) \<Rightarrow> (r, w\<lparr>address_db := a\<rparr>))"

definition on_offers :: "(offer_store, 'e, 'a) exec \<Rightarrow> ('n world, 'e, 'a) exec" where
  "on_offers m w = (case m (offer_db w) of (r, a) \<Rightarrow> (r, w\<lparr>offer_db := a\<rparr>))"

definition on_forwards :: "(forwarding_store, 'e, 'a) exec \<Rightarrow> ('n world, 'e, 'a) exec" where
  "on_forwards m w = (case m (forward_db w) of (r, a) \<Rightarrow> (r, w\<lparr>forward_db := a\<rparr>))"

text \<open>\<open>now()\<close> of \<^verbatim>\<open>wallet.rs\<close> and of \<^verbatim>\<open>events.rs\<close>: zero when the clock is before the epoch.\<close>

definition wallet_now :: "'n deps \<Rightarrow> ('n world, 'e, u64) exec" where
  "wallet_now D = bnd (call (pl_clock (platform D)))
     (\<lambda>t. ret (case t of None \<Rightarrow> 0 | Some secs \<Rightarrow> secs))"

definition events_now :: "'n deps \<Rightarrow> ('n world, 'e, u64) exec" where
  "events_now D = bnd (call (pl_clock (platform D)))
     (\<lambda>t. ret (case t of None \<Rightarrow> 0 | Some secs \<Rightarrow> secs))"

lemma try_parse_simps [simp]: "try_parse (Inl m) h = raise (h m)" "try_parse (Inr r) h = ret r"
  by (simp_all add: try_parse_def)

lemma call_eq [simp]: "call f w = (r, w') \<longleftrightarrow> (\<exists>x n. f (host w) = (x, n) \<and> r = Ok x \<and> w' = w\<lparr>host := n\<rparr>)"
  by (auto simp: call_def split: prod.splits)

lemma try_call_eq_Ok [simp]:
  "try_call f h w = (Ok x, w') \<longleftrightarrow> (\<exists>n. f (host w) = (Inr x, n) \<and> w' = w\<lparr>host := n\<rparr>)"
  by (auto simp: try_call_def split: prod.splits sum.splits)

lemma try_parse_eq_Ok [simp]: "try_parse p h w = (Ok x, w') \<longleftrightarrow> p = Inr x \<and> w' = w"
  by (cases p) auto

lemma call_run [exec_simps]: "f (host w) = (r, n) \<Longrightarrow> call f w = (Ok r, w\<lparr>host := n\<rparr>)"
  by (simp add: call_def)

lemma try_call_run [exec_simps]:
  "f (host w) = (Inl m, n) \<Longrightarrow> try_call f h w = (Err (h m), w\<lparr>host := n\<rparr>)"
  "f (host w) = (Inr r, n) \<Longrightarrow> try_call f h w = (Ok r, w\<lparr>host := n\<rparr>)"
  by (simp_all add: try_call_def)

lemma on_store_run [exec_simps]:
  "m (address_db w) = (r, a) \<Longrightarrow> on_addresses m w = (r, w\<lparr>address_db := a\<rparr>)"
  "mo (offer_db w) = (r, b) \<Longrightarrow> on_offers mo w = (r, w\<lparr>offer_db := b\<rparr>)"
  "mf (forward_db w) = (r, c) \<Longrightarrow> on_forwards mf w = (r, w\<lparr>forward_db := c\<rparr>)"
  by (simp_all add: on_addresses_def on_offers_def on_forwards_def)

section \<open>Invariants of the stores\<close>

text \<open>
  An invariant that says nothing of the outside state is kept by every outside call and by every
  reader of a store.
\<close>

locale host_invariant =
  fixes I :: "'n world \<Rightarrow> bool"
  assumes outside: "I w \<Longrightarrow> I (w\<lparr>host := n\<rparr>)"
begin

lemma keeps_call: "keeps I (call f)"
  by (rule keepsI) (simp add: call_def outside split: prod.splits)

lemma keeps_try_call: "keeps I (try_call f h)"
  by (rule keepsI) (auto simp: try_call_def outside split: prod.splits sum.splits)

lemma keeps_try_parse: "keeps I (try_parse p h)"
  by (cases p) (auto simp: keeps_basic)

lemma keeps_clock: "keeps I (wallet_now D)" "keeps I (events_now D)"
  by (auto simp: wallet_now_def events_now_def intro!: keeps_intros keeps_call)

text \<open>A reader leaves its store as it was.\<close>

lemma keeps_readers:
  "keeps I (on_offers list_offers)" "keeps I (on_offers (find_by_offer_id i))"
  "keeps I (on_offers (get_offer o'))" "keeps I (on_addresses list_addresses)"
  "keeps I (on_addresses (get_address a))" "keeps I (on_forwards (get_history f u lim off))"
  by (auto intro!: keepsI simp: on_offers_def on_addresses_def on_forwards_def list_offers_def
      find_by_offer_id_def get_offer_def list_addresses_def get_address_def get_history_def
      read_lock_def)

lemmas keeps_host = keeps_intros keeps_call keeps_try_call keeps_try_parse keeps_clock keeps_readers

end

text \<open>The stores as a whole: what only talks to the outside leaves them alone.\<close>

definition stores_are :: "address_store \<Rightarrow> offer_store \<Rightarrow> forwarding_store \<Rightarrow> 'n world \<Rightarrow> bool" where
  "stores_are a b c w \<longleftrightarrow> address_db w = a \<and> offer_db w = b \<and> forward_db w = c"

interpretation frame: host_invariant "stores_are a b c"
  by unfold_locales (simp add: stores_are_def)

lemma stores_kept:
  assumes "\<And>a b c. keeps (stores_are a b c) m" and "m w = (r, w')"
  shows "address_db w' = address_db w" and "offer_db w' = offer_db w" and "forward_db w' = forward_db w"
  using keepsD [OF assms(1) _ assms(2), of "address_db w" "offer_db w" "forward_db w"]
  by (simp_all add: stores_are_def)

text \<open>
  An invariant of the program's own stores is besides kept by the four writes the program makes, each
  under a lock that is not poisoned: a new offer, a new address, a disabled offer, a logged forward.
  Everything the program does is built from these and from outside calls, so it keeps the invariant.
\<close>

locale store_invariant = host_invariant I for I :: "'n world \<Rightarrow> bool" +
  fixes D :: "'n deps"
  assumes new_offer: "I w \<Longrightarrow> \<not> poisoned (offer_db w) \<Longrightarrow> I (w\<lparr>offer_db :=
      RwLock (hm_insert (hash_buckets D) o' (new_offer_record o' d a i) (guarded (offer_db w))) False\<rparr>)"
    and offer_disabled: "I w \<Longrightarrow> \<not> poisoned (offer_db w) \<Longrightarrow> I (w\<lparr>offer_db :=
      RwLock (hm_modify o' deactivate (guarded (offer_db w))) False\<rparr>)"
    and new_address: "I w \<Longrightarrow> \<not> poisoned (address_db w) \<Longrightarrow> I (w\<lparr>address_db :=
      RwLock (hm_or_insert (hash_buckets D) s \<lparr>ar_address = s, ar_transactions = []\<rparr>
        (guarded (address_db w))) False\<rparr>)"
    and forward_logged: "I w \<Longrightarrow> \<not> poisoned (forward_db w) \<Longrightarrow> I (w\<lparr>forward_db := RwLock (guarded (forward_db w) @ [e]) False\<rparr>)"
begin

lemma keeps_writes:
  "keeps I (on_offers (insert_offer (hash_buckets D) o' d a i))"
  "keeps I (on_addresses (register_address (hash_buckets D) s))"
  "keeps I (on_offers (disable_offer o'))"
  "keeps I (on_forwards (record_forward e))"
proof -
  show "keeps I (on_offers (insert_offer (hash_buckets D) o' d a i))"
    by (rule keepsI) (auto simp: on_offers_def insert_offer_def write_lock_def is_panic_def new_offer)
  show "keeps I (on_addresses (register_address (hash_buckets D) s))"
    by (rule keepsI) (auto simp: on_addresses_def register_address_def write_lock_def is_panic_def new_address)
  show "keeps I (on_offers (disable_offer o'))"
  proof (rule keepsI)
    fix w assume "I w"
    with offer_disabled [OF this, of o'] show "I (snd (on_offers (disable_offer o') w))"
      by (auto simp: on_offers_def disable_offer_def write_lock_def is_panic_def hm_modify_absent
          split: option.splits)
  qed
  show "keeps I (on_forwards (record_forward e))"
    by (rule keepsI) (auto simp: on_forwards_def record_forward_def write_lock_def is_panic_def forward_logged)
qed

lemmas keeps_base = keeps_host keeps_writes

end

text \<open>A lock is never poisoned: none of the four writes panics.\<close>

definition unpoisoned :: "'n world \<Rightarrow> bool" where
  "unpoisoned w \<longleftrightarrow> \<not> poisoned (address_db w) \<and> \<not> poisoned (offer_db w) \<and> \<not> poisoned (forward_db w)"

interpretation live: store_invariant unpoisoned D
  by unfold_locales (auto simp: unpoisoned_def)

text \<open>Every record is filed under its own key.\<close>

definition stores_filed :: "'n world \<Rightarrow> bool" where
  "stores_filed w \<longleftrightarrow> addresses_filed (address_db w) \<and> offers_filed (offer_db w)"

interpretation filed: store_invariant stores_filed D
proof unfold_locales
  fix w :: "'n world" and o' d a i s
  assume w: "stores_filed w"
  show "stores_filed (w\<lparr>offer_db := RwLock (hm_insert (hash_buckets D) o' (new_offer_record o' d a i)
      (guarded (offer_db w))) False\<rparr>)"
    using w offs.filed_insert [of "guarded (offer_db w)" "hash_buckets D" "new_offer_record o' d a i"]
    by (simp add: stores_filed_def offers_filed_def)
  show "stores_filed (w\<lparr>address_db := RwLock (hm_or_insert (hash_buckets D) s
      \<lparr>ar_address = s, ar_transactions = []\<rparr> (guarded (address_db w))) False\<rparr>)"
    using w addrs.filed_or_insert [of "guarded (address_db w)" "hash_buckets D"
      "\<lparr>ar_address = s, ar_transactions = []\<rparr>"]
    by (simp add: stores_filed_def addresses_filed_def)
qed (auto simp: stores_filed_def offers_filed_def intro: offs.filed_modify deactivate_update)

text \<open>Nothing in the program credits an address or an offer with a payment.\<close>

definition nothing_credited :: "'n world \<Rightarrow> bool" where
  "nothing_credited w \<longleftrightarrow>
     list_all (\<lambda>(_, r). ar_transactions r = []) (guarded (address_db w)) \<and>
     list_all (\<lambda>(_, r). or_num_payments_received r = 0 \<and> or_total_received_msat r = 0)
       (guarded (offer_db w))"

interpretation uncredited: store_invariant nothing_credited D
  by unfold_locales (auto simp: nothing_credited_def new_offer_record_def deactivate_def
      intro!: list_all_hm_insert list_all_hm_or_insert list_all_hm_modify)

end
