(* ===== verification/LdkPayments.thy ===== *)
theory LdkPayments
  imports LdkEnv
begin

text \<open>
  The payment half of \<open>LdkService\<close> (\<^verbatim>\<open>src/lightning/ldk_service.rs\<close>): balances, invoices, hold
  invoices, payments and the loop that waits for their outcome, payment records, offers and
  on-chain sends.
\<close>

record ldk_balance =
  lb_total_msat :: u64
  lb_lightning_msat :: u64
  lb_onchain_msat :: u64

record ldk_payment_result =
  pr_preimage :: string
  pr_fees_paid_msat :: "u64 option"

record ldk_invoice_result =
  ir_invoice :: string
  ir_payment_hash :: "string option"
  ir_amount_msat :: "u64 option"
  ir_expires_at :: "u64 option"

section \<open>Wallet\<close>

definition ldk_sync_wallets :: "'n deps \<Rightarrow> ('n world, ldk_service_error, unit) exec" where
  "ldk_sync_wallets D = try_call (wa_sync_wallets (wallet_node D)) SyncFailed"

text \<open>
  The argument of the last \<open>ok_or\<close> is evaluated whether or not it is needed, so its addition is a
  step of its own.
\<close>

definition ldk_get_balance :: "'n deps \<Rightarrow> ('n world, ldk_service_error, ldk_balance) exec" where
  "ldk_get_balance D =
     bnd (call (wa_list_balances (wallet_node D))) (\<lambda>b.
     bnd (ok_or (BalanceOverflow (bal_spendable_onchain_balance_sats b))
            (checked_mul (bal_spendable_onchain_balance_sats b) 1000)) (\<lambda>onchain_msat.
     bnd (ok_or (BalanceOverflow (bal_total_lightning_balance_sats b))
            (checked_mul (bal_total_lightning_balance_sats b) 1000)) (\<lambda>lightning_msat.
     bnd (lift (add_ck (overflow_checks D) (bal_spendable_onchain_balance_sats b)
            (bal_total_lightning_balance_sats b))) (\<lambda>sats.
     bnd (ok_or (BalanceOverflow sats) (checked_add onchain_msat lightning_msat)) (\<lambda>total_msat.
     ret \<lparr>lb_total_msat = total_msat, lb_lightning_msat = lightning_msat,
          lb_onchain_msat = onchain_msat\<rparr>)))))"

definition ldk_get_balance_msat :: "'n deps \<Rightarrow> ('n world, ldk_service_error, u64) exec" where
  "ldk_get_balance_msat D = bnd (ldk_get_balance D) (\<lambda>b. ret (lb_total_msat b))"

definition ldk_new_onchain_address :: "'n deps \<Rightarrow> ('n world, ldk_service_error, string) exec" where
  "ldk_new_onchain_address D = try_call (wa_new_address (wallet_node D)) AddressGenerationFailed"

section \<open>Hashes and preimages\<close>

definition hex_to_32 :: "crates \<Rightarrow> string \<Rightarrow> string \<Rightarrow> (ldk_service_error, u8 list) res" where
  "hex_to_32 C s what = (case cr_hex_decode C (trim s) of
       Inl e \<Rightarrow> Err (InvalidInvoiceRequest (what @ '' is not valid hex: '' @ e))
     | Inr raw \<Rightarrow> (if length raw = 32 then Ok raw
         else Err (InvalidInvoiceRequest (what @ '' must be 32 bytes''))))"

definition parse_payment_hash :: "crates \<Rightarrow> string \<Rightarrow> (ldk_service_error, u8 list) res" where
  "parse_payment_hash C hex = hex_to_32 C hex ''payment_hash''"

definition parse_preimage :: "crates \<Rightarrow> string \<Rightarrow> (ldk_service_error, u8 list) res" where
  "parse_preimage C hex = hex_to_32 C hex ''preimage''"

section \<open>Invoices\<close>

text \<open>The expiry of both invoice makers: \<open>u32::try_from\<close>, an error when it does not fit, one hour when absent.\<close>

definition invoice_expiry :: "u64 option \<Rightarrow> (ldk_service_error, u32) res" where
  "invoice_expiry expiry_secs = (case expiry_secs of
       None \<Rightarrow> Ok 3600
     | Some e \<Rightarrow> (case u32_try_from e of
         None \<Rightarrow> Err (InvalidInvoiceRequest ''expiry exceeds u32::MAX'')
       | Some x \<Rightarrow> Ok x))"

definition invoice_result :: "bolt11_invoice \<Rightarrow> ldk_invoice_result" where
  "invoice_result invoice = \<lparr>ir_invoice = bi_text invoice, ir_payment_hash = Some (bi_payment_hash invoice),
     ir_amount_msat = bi_amount_milli_satoshis invoice, ir_expires_at = bi_expires_at invoice\<rparr>"

definition ldk_make_hold_invoice ::
  "'n deps \<Rightarrow> u64 \<Rightarrow> string option \<Rightarrow> u64 option \<Rightarrow> string
     \<Rightarrow> ('n world, ldk_service_error, ldk_invoice_result) exec" where
  "ldk_make_hold_invoice D amount_msat description expiry_secs payment_hash_hex =
     bnd (reject_if (amount_msat = 0) (InvalidAmount amount_msat)) (\<lambda>_.
     bnd (lift (parse_payment_hash (crate D) payment_hash_hex)) (\<lambda>payment_hash.
     bnd (try_parse (cr_description_new (crate D)
            (case description of None \<Rightarrow> ''nwc hold invoice'' | Some d \<Rightarrow> d)) InvalidInvoiceRequest) (\<lambda>desc.
     bnd (lift (invoice_expiry expiry_secs)) (\<lambda>expiry_u32.
     bnd (try_call (wa_receive_for_hash (wallet_node D) amount_msat desc expiry_u32 payment_hash)
            InvalidInvoiceRequest) (\<lambda>invoice.
     ret (invoice_result invoice))))))"

definition ldk_settle_hold_invoice :: "'n deps \<Rightarrow> string \<Rightarrow> ('n world, ldk_service_error, unit) exec" where
  "ldk_settle_hold_invoice D preimage_hex =
     bnd (lift (parse_preimage (crate D) preimage_hex)) (\<lambda>preimage.
     let payment_hash = cr_sha256 (crate D) preimage in
     bnd (call (wa_payment (wallet_node D) payment_hash)) (\<lambda>found.
     bnd (ok_or (InvalidInvoiceRequest ''no pending payment for that preimage'') found) (\<lambda>details.
     bnd (ok_or (InvalidInvoiceRequest ''payment has no amount'') (pd_amount_msat details)) (\<lambda>amount_msat.
     try_call (wa_claim_for_hash (wallet_node D) payment_hash amount_msat preimage) InvalidInvoiceRequest))))"

definition ldk_cancel_hold_invoice :: "'n deps \<Rightarrow> string \<Rightarrow> ('n world, ldk_service_error, unit) exec" where
  "ldk_cancel_hold_invoice D payment_hash_hex =
     bnd (lift (parse_payment_hash (crate D) payment_hash_hex)) (\<lambda>payment_hash.
     try_call (wa_fail_for_hash (wallet_node D) payment_hash) InvalidInvoiceRequest)"

definition ldk_make_invoice ::
  "'n deps \<Rightarrow> u64 \<Rightarrow> string option \<Rightarrow> string option \<Rightarrow> u64 option
     \<Rightarrow> ('n world, ldk_service_error, ldk_invoice_result) exec" where
  "ldk_make_invoice D amount_msat description description_hash expiry_secs =
     bnd (reject_if (amount_msat = 0) (InvalidAmount amount_msat)) (\<lambda>_.
     bnd (reject_if (description_hash \<noteq> None)
            (InvalidInvoiceRequest ''description_hash is not supported yet'')) (\<lambda>_.
     bnd (try_parse (cr_description_new (crate D)
            (case description of None \<Rightarrow> ''nwc invoice'' | Some d \<Rightarrow> d)) InvalidInvoiceRequest) (\<lambda>desc.
     bnd (lift (invoice_expiry expiry_secs)) (\<lambda>expiry_u32.
     bnd (try_call (wa_receive (wallet_node D) amount_msat desc expiry_u32) InvalidInvoiceRequest) (\<lambda>invoice.
     ret (invoice_result invoice))))))"

section \<open>Waiting for an outbound payment\<close>

fun outcome_preimage :: "payment_kind \<Rightarrow> u8 list option" where
  "outcome_preimage (Bolt11 _ preimage) = preimage"
| "outcome_preimage (Bolt11Jit _ preimage) = preimage"
| "outcome_preimage (Spontaneous _ preimage) = preimage"
| "outcome_preimage (Bolt12Offer _ preimage) = preimage"
| "outcome_preimage (Bolt12Refund _ preimage) = preimage"
| "outcome_preimage OtherKind = None"

text \<open>One look at the payments: \<open>None\<close> when the loop has to go on.\<close>

definition payment_outcome ::
  "u8 list \<Rightarrow> payment_details list \<Rightarrow> (ldk_service_error, ldk_payment_result) res option" where
  "payment_outcome payment_id payments =
     (case find (\<lambda>p. pd_id p = payment_id \<and> pd_direction p = Outbound) payments of
        None \<Rightarrow> None
      | Some payment \<Rightarrow> (case pd_status payment of
          Succeeded \<Rightarrow> Some (case outcome_preimage (pd_kind payment) of
              None \<Rightarrow> Err (PaymentFailed ''payment succeeded but preimage missing'')
            | Some preimage \<Rightarrow> Ok \<lparr>pr_preimage = hex_string preimage,
                 pr_fees_paid_msat = pd_fee_paid_msat payment\<rparr>)
        | Failed \<Rightarrow> Some (Err (PaymentFailed ''payment marked failed''))
        | Pending \<Rightarrow> None))"

definition poll_interval_ns :: nat where
  "poll_interval_ns = 100 * 10 ^ 6"

partial_function (option) wait_loop ::
  "'n deps \<Rightarrow> u8 list \<Rightarrow> nat \<Rightarrow> nat \<Rightarrow> 'n
     \<Rightarrow> ((ldk_service_error, ldk_payment_result) res \<times> 'n) option" where
  "wait_loop D payment_id timeout start n =
     (case wa_list_payments (wallet_node D) n of (payments, n1) \<Rightarrow>
      (case payment_outcome payment_id payments of
         Some r \<Rightarrow> Some (r, n1)
       | None \<Rightarrow>
         (case pl_instant (platform D) n1 of (t, n2) \<Rightarrow>
          (if timeout < t - start
           then Some (Err (PaymentFailed ''timeout waiting for payment outcome''), n2)
           else wait_loop D payment_id timeout start (pl_sleep (platform D) poll_interval_ns n2)))))"

definition wait_timeout_ns :: "string option \<Rightarrow> nat" where
  "wait_timeout_ns v = (case v of
       None \<Rightarrow> 600 * 10 ^ 9
     | Some s \<Rightarrow> (case u64_parse s of Inl _ \<Rightarrow> 600 * 10 ^ 9 | Inr secs \<Rightarrow> unat secs * 10 ^ 9))"

definition run_wait ::
  "'n deps \<Rightarrow> u8 list \<Rightarrow> nat \<Rightarrow> nat \<Rightarrow> ('n world, ldk_service_error, ldk_payment_result) exec" where
  "run_wait D payment_id timeout start w = (case wait_loop D payment_id timeout start (host w) of
       None \<Rightarrow> (Hang, w)
     | Some (r, n) \<Rightarrow> (r, w\<lparr>host := n\<rparr>))"

definition wait_for_outbound_payment ::
  "'n deps \<Rightarrow> u8 list \<Rightarrow> ('n world, ldk_service_error, ldk_payment_result) exec" where
  "wait_for_outbound_payment D payment_id =
     bnd (call (pl_env_var (platform D) ''DLN_PAYMENT_TIMEOUT_SECS'')) (\<lambda>v.
     bnd (call (pl_instant (platform D))) (\<lambda>start.
     run_wait D payment_id (wait_timeout_ns v) start))"

section \<open>Payments\<close>

definition ldk_pay_invoice ::
  "'n deps \<Rightarrow> string \<Rightarrow> u64 option \<Rightarrow> ('n world, ldk_service_error, ldk_payment_result) exec" where
  "ldk_pay_invoice D invoice_str amount_msat =
     bnd (try_parse (cr_bolt11_from_str (crate D) invoice_str) InvalidInvoice) (\<lambda>invoice.
     bnd (case amount_msat of
            Some amount \<Rightarrow> try_call (wa_send_using_amount (wallet_node D) invoice amount) PaymentFailed
          | None \<Rightarrow> try_call (wa_send (wallet_node D) invoice) PaymentFailed) (\<lambda>payment_id.
     wait_for_outbound_payment D payment_id))"

definition ldk_pay_keysend ::
  "'n deps \<Rightarrow> string \<Rightarrow> u64 \<Rightarrow> ('n world, ldk_service_error, ldk_payment_result) exec" where
  "ldk_pay_keysend D dest_pubkey amount_msat =
     bnd (reject_if (amount_msat = 0) (InvalidAmount amount_msat)) (\<lambda>_.
     bnd (try_parse (cr_public_key_from_str (crate D) dest_pubkey) InvalidPubkey) (\<lambda>node_id.
     bnd (try_call (wa_spontaneous_send (wallet_node D) amount_msat node_id) PaymentFailed) (\<lambda>payment_id.
     wait_for_outbound_payment D payment_id)))"

definition ldk_pay_onchain ::
  "'n deps \<Rightarrow> string \<Rightarrow> u64 \<Rightarrow> u64 option \<Rightarrow> ('n world, ldk_service_error, string) exec" where
  "ldk_pay_onchain D address amount_sats feerate =
     bnd (try_parse (cr_address_for_network (crate D) (svc_network (service D)) address) InvalidAddress) (\<lambda>addr.
     try_call (wa_send_to_address (wallet_node D) addr amount_sats) PaymentFailed)"

definition ldk_make_offer ::
  "'n deps \<Rightarrow> u64 \<Rightarrow> string \<Rightarrow> u32 option \<Rightarrow> ('n world, ldk_service_error, string) exec" where
  "ldk_make_offer D amount_msat description expiry_secs =
     bnd (try_call (wa_bolt12_receive (wallet_node D) amount_msat description expiry_secs) OfferFailed) (\<lambda>offer.
     ret (bo_text offer))"

definition ldk_pay_offer ::
  "'n deps \<Rightarrow> string \<Rightarrow> u64 option \<Rightarrow> string option
     \<Rightarrow> ('n world, ldk_service_error, ldk_payment_result) exec" where
  "ldk_pay_offer D offer_str amount payer_note =
     bnd (try_parse (cr_offer_from_str (crate D) offer_str) (\<lambda>e. OfferFailed (''invalid offer: '' @ e))) (\<lambda>offer.
     bnd (try_call (wa_bolt12_send (wallet_node D) offer payer_note) PaymentFailed) (\<lambda>payment_id.
     wait_for_outbound_payment D payment_id))"

section \<open>Payment records\<close>

definition ldk_lookup_payment_by_hash ::
  "'n deps \<Rightarrow> string \<Rightarrow> ('n world, ldk_service_error, payment_details) exec" where
  "ldk_lookup_payment_by_hash D payment_hash =
     bnd (map_err (\<lambda>e. PaymentNotFound (''invalid payment hash hex: '' @ e))
            (lift (decode_hex payment_hash))) (\<lambda>hash_bytes.
     bnd (reject_if (length hash_bytes \<noteq> 32) (PaymentNotFound ''payment hash must be 32 bytes'')) (\<lambda>_.
     bnd (call (wa_payment (wallet_node D) hash_bytes)) (\<lambda>found.
     ok_or (PaymentNotFound payment_hash) found)))"

definition ldk_lookup_payment_by_bolt11 ::
  "'n deps \<Rightarrow> string \<Rightarrow> ('n world, ldk_service_error, payment_details) exec" where
  "ldk_lookup_payment_by_bolt11 D invoice_str =
     bnd (try_parse (cr_bolt11_from_str (crate D) invoice_str) InvalidInvoice) (\<lambda>invoice.
     ldk_lookup_payment_by_hash D (bi_payment_hash invoice))"

fun method_matches :: "payment_method \<Rightarrow> payment_kind \<Rightarrow> bool" where
  "method_matches MBolt11 (Bolt11 _ _) = True"
| "method_matches MBolt11 (Bolt11Jit _ _) = True"
| "method_matches MBolt12 (Bolt12Offer _ _) = True"
| "method_matches MBolt12 (Bolt12Refund _ _) = True"
| "method_matches MKeysend (Spontaneous _ _) = True"
| "method_matches _ _ = False"

definition payment_selected ::
  "u64 option \<Rightarrow> u64 option \<Rightarrow> bool option \<Rightarrow> payment_direction option \<Rightarrow> payment_method option
     \<Rightarrow> payment_details \<Rightarrow> bool" where
  "payment_selected from_ts until_ts unpaid direction payment_method p =
     (if (case from_ts of Some t \<Rightarrow> pd_latest_update_timestamp p < t | None \<Rightarrow> False) then False
      else if (case until_ts of Some t \<Rightarrow> pd_latest_update_timestamp p > t | None \<Rightarrow> False) then False
      else if (case direction of Some d \<Rightarrow> pd_direction p \<noteq> d | None \<Rightarrow> False) then False
      else if (case payment_method of Some pm \<Rightarrow> \<not> method_matches pm (pd_kind p) | None \<Rightarrow> False) then False
      else let include_unpaid = (case unpaid of None \<Rightarrow> False | Some b \<Rightarrow> b) in
        if \<not> include_unpaid \<and> pd_status p = Pending then False else True)"

text \<open>The stable sort by descending timestamp, then the offset and the limit.\<close>

definition newest_first :: "payment_details list \<Rightarrow> payment_details list" where
  "newest_first = sort_key (\<lambda>p. - int (unat (pd_latest_update_timestamp p)))"

definition select_payments ::
  "u64 option \<Rightarrow> u64 option \<Rightarrow> u64 option \<Rightarrow> u64 option \<Rightarrow> bool option \<Rightarrow> payment_direction option
     \<Rightarrow> payment_method option \<Rightarrow> payment_details list \<Rightarrow> payment_details list" where
  "select_payments from_ts until_ts limit offset unpaid direction payment_method all_payments =
     (let payments = newest_first (filter (payment_selected from_ts until_ts unpaid direction payment_method)
            all_payments);
          offset_val = unat (case offset of None \<Rightarrow> 0 | Some x \<Rightarrow> x);
          payments = (if offset_val > 0 then drop offset_val payments else payments)
      in (case limit of Some lim \<Rightarrow> take (unat lim) payments | None \<Rightarrow> payments))"

definition ldk_list_payments_filtered ::
  "'n deps \<Rightarrow> u64 option \<Rightarrow> u64 option \<Rightarrow> u64 option \<Rightarrow> u64 option \<Rightarrow> bool option
     \<Rightarrow> payment_direction option \<Rightarrow> payment_method option
     \<Rightarrow> ('n world, 'e, payment_details list) exec" where
  "ldk_list_payments_filtered D from_ts until_ts limit offset unpaid direction payment_method =
     bnd (call (wa_list_payments (wallet_node D))) (\<lambda>ps.
     ret (select_payments from_ts until_ts limit offset unpaid direction payment_method ps))"

end
