(* ===== verification/WalletTypes.thy ===== *)
theory WalletTypes
  imports LdkPayments
begin

text \<open>
  The requests and responses of the wallet methods (\<^verbatim>\<open>nostr_ln::nwc\<close>), with the fields the handlers
  of \<^verbatim>\<open>src/wallet.rs\<close> read and write. A JSON value the node only passes on is its text.
\<close>

section \<open>Requests\<close>

record pay_invoice_request =
  qi_invoice :: string
  qi_amount :: "u64 option"

record make_invoice_request =
  qm_amount :: u64
  qm_description :: "string option"
  qm_description_hash :: "string option"
  qm_expiry :: "u64 option"
  qm_metadata :: "string option"

record lookup_invoice_request =
  ql_payment_hash :: "string option"
  ql_invoice :: "string option"

record pay_onchain_request =
  qc_address :: string
  qc_amount_sats :: u64
  qc_feerate :: "u64 option"

record make_hold_invoice_request =
  qh_amount :: u64
  qh_description :: "string option"
  qh_description_hash :: "string option"
  qh_expiry :: "u64 option"
  qh_payment_hash :: string

record pay_keysend_request =
  qk_pubkey :: string
  qk_amount :: u64

datatype transaction_type = Incoming | Outgoing
datatype transaction_state = TxSettled | TxFailed | TxPending | TxAccepted | TxExpired

record list_transactions_request =
  qt_from :: "u64 option"
  qt_until :: "u64 option"
  qt_limit :: "u64 option"
  qt_offset :: "u64 option"
  qt_unpaid :: "bool option"
  qt_transaction_type :: "transaction_type option"

text \<open>The \<open>lookup\<close> object of a payment lookup: a member is a string or something else.\<close>

datatype json_member = JString string | JOther

record lookup_payment_request =
  qp_transaction_id :: "string option"
  qp_payment_hash :: "string option"
  qp_invoice :: "string option"
  qp_payment_type :: "string option"
  qp_lookup :: "(string \<times> json_member) list option"

datatype invoice_state = InvSettled | InvExpired | InvPending

record list_invoices_request =
  qv_from :: "u64 option"
  qv_until :: "u64 option"
  qv_limit :: "u64 option"
  qv_offset :: "u64 option"
  qv_state :: "invoice_state option"

record make_offer_request =
  qo_amount :: "u64 option"
  qo_description :: "string option"
  qo_issuer :: "string option"
  qo_single_use :: "bool option"
  qo_expires_at :: "u64 option"

record pay_offer_request =
  qf_offer :: string
  qf_amount :: "u64 option"
  qf_payer_note :: "string option"

record quote_payment_request =
  qq_invoice :: string
  qq_amount :: "u64 option"

record pay_request =
  qy_payment :: string
  qy_amount :: "u64 option"
  qy_max_fee :: "u64 option"
  qy_payer_note :: "string option"

record bip321_method =
  bm_method :: string
  bm_expiry :: "u64 option"
  bm_address_type :: "string option"

record receive_request =
  qr_amount :: "u64 option"
  qr_label :: "string option"
  qr_description :: "string option"
  qr_methods :: "bip321_method list option"

section \<open>Responses\<close>

record transaction =
  tx_type :: transaction_type
  tx_state :: "transaction_state option"
  tx_invoice :: "string option"
  tx_description :: "string option"
  tx_description_hash :: "string option"
  tx_preimage :: "string option"
  tx_payment_hash :: string
  tx_amount :: u64
  tx_fees_paid :: u64
  tx_created_at :: u64
  tx_expires_at :: "u64 option"
  tx_settled_at :: "u64 option"
  tx_metadata :: "string option"

record bip321_capability =
  bc_method :: string
  bc_address_types :: "string list option"

record get_info_response =
  gi_alias :: "string option"
  gi_pubkey :: "string option"
  gi_network :: "string option"
  gi_block_height :: "u64 option"
  gi_methods :: "string list"
  gi_notifications :: "string list option"
  gi_bip321_methods :: "bip321_capability list option"

record get_balance_response =
  gb_balance :: u64
  gb_lightning_balance :: "u64 option"
  gb_onchain_balance_sats :: "u64 option"

record paid_response =
  pp_preimage :: string
  pp_fees_paid :: "u64 option"

record make_hold_invoice_response =
  mh_kind :: string
  mh_invoice :: "string option"
  mh_payment_hash :: string
  mh_amount :: u64
  mh_created_at :: u64
  mh_expires_at :: "u64 option"
  mh_description :: "string option"
  mh_description_hash :: "string option"
  mh_metadata :: "string option"

record address_response_tx =
  ax_txid :: string
  ax_amount_sats :: u64
  ax_confirmations :: u64
  ax_timestamp :: u64

record lookup_address_response =
  la_address :: string
  la_address_type :: string
  la_total_received_sats :: u64
  la_transactions :: "address_response_tx list"

record address_row =
  aw_address_type :: string
  aw_total_received_sats :: u64
  aw_created_at :: u64
  aw_address :: string

datatype payment_state = PSettled | PFailed | PAccepted | PExpired | PPending

record lookup_payment_response =
  lr_transaction_id :: string
  lr_payment_direction :: transaction_type
  lr_state :: payment_state
  lr_payment_type :: string
  lr_amount :: u64
  lr_fees_paid :: "u64 option"
  lr_created_at :: u64
  lr_expires_at :: "u64 option"
  lr_settled_at :: "u64 option"
  lr_details_payment_hash :: string
  lr_details_invoice :: "string option"
  lr_details_preimage :: "string option"
  lr_details_description :: "string option"

record invoice_row =
  iv_invoice :: string
  iv_description :: "string option"
  iv_payment_hash :: string
  iv_amount :: u64
  iv_preimage :: "string option"
  iv_settled_at :: "u64 option"
  iv_state :: invoice_state
  iv_created_at :: u64
  iv_expires_at :: u64

record make_offer_response =
  mo_offer_id :: string
  mo_offer :: string
  mo_amount :: "u64 option"
  mo_description :: "string option"
  mo_issuer :: "string option"
  mo_single_use :: bool
  mo_created_at :: u64
  mo_expires_at :: "u64 option"

record pay_offer_response =
  po_transaction_id :: string
  po_preimage :: string
  po_fees_paid :: "u64 option"

record offer_row =
  ow_offer_id :: string
  ow_offer :: string
  ow_description :: "string option"
  ow_issuer :: "string option"
  ow_amount :: "u64 option"
  ow_active :: bool
  ow_single_use :: bool
  ow_num_payments_received :: u64
  ow_total_received :: u64
  ow_created_at :: u64
  ow_expires_at :: "u64 option"

record quote_payment_response =
  qu_amount :: u64
  qu_fee_msat :: u64
  qu_cltv_expiry_delta :: u32
  qu_route_found :: bool

record pay_response =
  py_transaction_id :: string
  py_state :: string
  py_instruction_type :: string
  py_amount :: u64
  py_fees_paid :: u64
  py_payment_hash :: "string option"
  py_preimage :: "string option"
  py_txid :: "string option"
  py_created_at :: u64
  py_settled_at :: "u64 option"

end
