(* ===== verification/Routing.thy ===== *)
theory Routing
  imports LdkEnv
begin

text \<open>
  \<open>LdkService::find_routes\<close> (\<^verbatim>\<open>src/lightning/ldk_service.rs\<close>): a best-first search over the network
  graph. The priority queue is an interface of its own, the locale \<open>min_queue\<close>, provided by the
  model of \<open>BinaryHeap<Reverse<_>>\<close>.
\<close>

record route_hop =
  rh_pubkey :: string
  rh_short_channel_id :: string
  rh_fee :: u64
  rh_expiry :: u16

record found_route =
  fr_total_fee :: u64
  fr_total_time_lock :: u32
  fr_hops :: "route_hop list"

section \<open>The priority queue\<close>

locale min_queue =
  fixes empty :: 'q
    and push :: "'a::linorder \<Rightarrow> 'q \<Rightarrow> 'q"
    and pop :: "'q \<Rightarrow> ('a \<times> 'q) option"
    and ok :: "'q \<Rightarrow> bool"
    and bag :: "'q \<Rightarrow> 'a multiset"
  assumes bag_empty: "bag empty = {#}"
    and ok_empty: "ok empty"
    and bag_push: "bag (push x q) = add_mset x (bag q)"
    and ok_push: "ok q \<Longrightarrow> ok (push x q)"
    and pop_None: "pop q = None \<Longrightarrow> bag q = {#}"
    and bag_pop: "pop q = Some (x, q') \<Longrightarrow> bag q = add_mset x (bag q')"
    and ok_pop: "ok q \<Longrightarrow> pop q = Some (x, q') \<Longrightarrow> ok q'"
    and pop_least: "ok q \<Longrightarrow> pop q = Some (x, q') \<Longrightarrow> y \<in># bag q \<Longrightarrow> x \<le> y"
begin

lemma size_pop: "pop q = Some (x, q') \<Longrightarrow> size (bag q') < size (bag q)"
  by (simp add: bag_pop)

lemma pop_in_bag: "pop q = Some (x, q') \<Longrightarrow> x \<in># bag q"
  by (simp add: bag_pop)

lemma rest_in_bag: "pop q = Some (x, q') \<Longrightarrow> y \<in># bag q' \<Longrightarrow> y \<in># bag q"
  by (simp add: bag_pop)

lemma pop_empty_iff: "pop q = None \<longleftrightarrow> bag q = {#}"
proof (cases "pop q")
  case (Some p)
  then show ?thesis by (cases p) (auto dest: bag_pop)
qed (simp add: pop_None)

text \<open>A fold that pushes keeps the queue well-formed and adds exactly what it pushed.\<close>

lemma ok_fold_push: "ok q \<Longrightarrow> ok (fold push xs q)"
  by (induction xs arbitrary: q) (auto simp: ok_push)

lemma bag_fold_push: "bag (fold push xs q) = mset xs + bag q"
  by (induction xs arbitrary: q) (auto simp: bag_push)

end

text \<open>\<open>BinaryHeap<Reverse<T>>\<close>: \<open>pop\<close> returns a least element. Kept as the ascending list of its elements.\<close>

type_synonym 'a reverse_heap = "'a list"

definition heap_new :: "'a reverse_heap" where
  "heap_new = []"

definition heap_push :: "'a::linorder \<Rightarrow> 'a reverse_heap \<Rightarrow> 'a reverse_heap" where
  "heap_push x q = insort x q"

fun heap_pop :: "'a reverse_heap \<Rightarrow> ('a \<times> 'a reverse_heap) option" where
  "heap_pop [] = None"
| "heap_pop (x # q) = Some (x, q)"

interpretation pq: min_queue heap_new heap_push heap_pop sorted mset
proof unfold_locales
  fix q q' :: "'a list" and x y :: 'a
  show "heap_pop q = None \<Longrightarrow> mset q = {#}" by (cases q) auto
  show "heap_pop q = Some (x, q') \<Longrightarrow> mset q = add_mset x (mset q')" by (cases q) auto
  show "sorted q \<Longrightarrow> heap_pop q = Some (x, q') \<Longrightarrow> sorted q'" by (cases q) auto
  show "sorted q \<Longrightarrow> heap_pop q = Some (x, q') \<Longrightarrow> y \<in># mset q \<Longrightarrow> x \<le> y" by (cases q) auto
qed (auto simp: heap_new_def heap_push_def sorted_insort)

section \<open>Adjacency\<close>

text \<open>An edge: neighbour, short channel id, base fee, proportional fee, expiry delta.\<close>

type_synonym edge = "node_id \<times> u64 \<times> u32 \<times> u32 \<times> u16"
type_synonym adjacency = "(node_id \<times> edge list) list"

text \<open>\<open>adj.entry(n).or_default().push(e)\<close>.\<close>

fun adj_push :: "node_id \<Rightarrow> edge \<Rightarrow> adjacency \<Rightarrow> adjacency" where
  "adj_push n e [] = [(n, [e])]"
| "adj_push n e ((k, es) # rest) = (if k = n then (k, es @ [e]) # rest else (k, es) # adj_push n e rest)"

definition admits :: "u64 \<Rightarrow> channel_update \<Rightarrow> bool" where
  "admits amount_msat upd \<longleftrightarrow>
     amount_msat \<ge> cu_htlc_minimum_msat upd \<and> amount_msat \<le> cu_htlc_maximum_msat upd"

definition update_edge :: "node_id \<Rightarrow> u64 \<Rightarrow> channel_update \<Rightarrow> edge" where
  "update_edge n scid upd =
     (n, scid, cu_base_msat upd, cu_proportional_millionths upd, cu_cltv_expiry_delta upd)"

definition add_channel :: "network_graph \<Rightarrow> u64 \<Rightarrow> adjacency \<Rightarrow> u64 \<Rightarrow> adjacency" where
  "add_channel G amount_msat adj scid = (case ng_channel G scid of
       None \<Rightarrow> adj
     | Some ch \<Rightarrow>
        (let adj = (case gc_one_to_two ch of
               Some upd \<Rightarrow> (if admits amount_msat upd
                 then adj_push (gc_node_one ch) (update_edge (gc_node_two ch) scid upd) adj else adj)
             | None \<Rightarrow> adj)
         in (case gc_two_to_one ch of
               Some upd \<Rightarrow> (if admits amount_msat upd
                 then adj_push (gc_node_two ch) (update_edge (gc_node_one ch) scid upd) adj else adj)
             | None \<Rightarrow> adj)))"

definition build_adjacency :: "network_graph \<Rightarrow> u64 \<Rightarrow> adjacency" where
  "build_adjacency G amount_msat = foldl (add_channel G amount_msat) [] (ng_list_channels G)"

section \<open>The search\<close>

text \<open>A step of a path: node, short channel id, fee, expiry delta. An entry: cost, node, path.\<close>

type_synonym path_step = "node_id \<times> u64 \<times> u64 \<times> u16"
type_synonym search_entry = "u64 \<times> node_id \<times> path_step list"

definition hop_fee :: "bool \<Rightarrow> u64 \<Rightarrow> u32 \<Rightarrow> u32 \<Rightarrow> ('e, u64) res" where
  "hop_fee ck amount_msat base prop =
     rbind (mul_ck ck amount_msat (ucast prop)) (\<lambda>m. add_ck ck (ucast base) (m div 1000000))"

definition relax_edge ::
  "bool \<Rightarrow> u64 \<Rightarrow> u64 \<Rightarrow> path_step list \<Rightarrow> node_id set \<Rightarrow> edge \<Rightarrow> search_entry reverse_heap
     \<Rightarrow> ('e, search_entry reverse_heap) res" where
  "relax_edge ck amount_msat cost path visited e heap = (case e of (nxt, scid, base, prop, cltv) \<Rightarrow>
     (if nxt \<in> visited then Ok heap
      else rbind (hop_fee ck amount_msat base prop) (\<lambda>fee.
           rbind (add_ck ck cost fee) (\<lambda>new_cost.
           Ok (heap_push (new_cost, nxt, path @ [(nxt, scid, fee, cltv)]) heap)))))"

definition hop_of :: "path_step \<Rightarrow> route_hop" where
  "hop_of s = (case s of (n, scid, fee, cltv) \<Rightarrow>
     \<lparr>rh_pubkey = hex_string (as_slice n), rh_short_channel_id = format_scid scid,
      rh_fee = fee, rh_expiry = cltv\<rparr>)"

definition route_of :: "bool \<Rightarrow> u64 \<Rightarrow> path_step list \<Rightarrow> ('e, found_route) res" where
  "route_of ck cost path = (let hops = map hop_of path in
     rbind (sum_ck ck (map (\<lambda>h. ucast (rh_expiry h) :: u32) hops)) (\<lambda>total_time_lock.
     Ok \<lparr>fr_total_fee = cost, fr_total_time_lock = total_time_lock, fr_hops = hops\<rparr>))"

lemma rbind_fundef_cong [fundef_cong]:
  "r = r' \<Longrightarrow> (\<And>x. r' = Ok x \<Longrightarrow> f x = g x) \<Longrightarrow> rbind r f = rbind r' g"
  by (cases r') auto

function search_loop ::
  "bool \<Rightarrow> u64 \<Rightarrow> nat \<Rightarrow> node_id \<Rightarrow> adjacency
     \<Rightarrow> search_entry reverse_heap \<Rightarrow> node_id set \<Rightarrow> found_route list \<Rightarrow> ('e, found_route list) res" where
  "search_loop ck amount_msat max_routes dest adj heap visited found =
     (case heap_pop heap of
        None \<Rightarrow> Ok found
      | Some ((cost, node, path), heap') \<Rightarrow>
          if length found \<ge> max_routes then Ok found
          else if length path > 6 then search_loop ck amount_msat max_routes dest adj heap' visited found
          else if node = dest then
            rbind (route_of ck cost path) (\<lambda>r.
              search_loop ck amount_msat max_routes dest adj heap' visited (found @ [r]))
          else if node \<in> visited then search_loop ck amount_msat max_routes dest adj heap' visited found
          else (case map_of adj node of
              None \<Rightarrow> search_loop ck amount_msat max_routes dest adj heap' (insert node visited) found
            | Some edges \<Rightarrow>
                rbind (fold_res (relax_edge ck amount_msat cost path (insert node visited)) edges heap')
                  (\<lambda>heap''. search_loop ck amount_msat max_routes dest adj heap'' (insert node visited) found)))"
  by pat_completeness auto

lemma unvisited_le:
  "length (filter (\<lambda>p. fst p \<notin> insert n V) adj) \<le> length (filter (\<lambda>p. fst p \<notin> V) adj)"
  by (induction adj) auto

lemma unvisited_shrinks:
  "map_of adj n = Some es \<Longrightarrow> n \<notin> V \<Longrightarrow>
     length (filter (\<lambda>p. fst p \<notin> insert n V) adj) < length (filter (\<lambda>p. fst p \<notin> V) adj)"
proof (induction adj)
  case (Cons a adj)
  then show ?case
    using unvisited_le [of n V adj] by (cases a) (auto simp: le_imp_less_Suc split: if_splits)
qed simp

lemma unvisited_absent:
  "map_of adj n = None \<Longrightarrow>
     length (filter (\<lambda>p. fst p \<notin> insert n V) adj) = length (filter (\<lambda>p. fst p \<notin> V) adj)"
  by (induction adj) (auto split: if_splits)

lemma heap_pop_shorter: "heap_pop h = Some (x, h') \<Longrightarrow> length h' < length h"
  by (cases h) auto

termination search_loop
  by (relation "measures [\<lambda>(ck, amt, m, dest, adj, heap, visited, found). length (filter (\<lambda>p. fst p \<notin> visited) adj),
         \<lambda>(ck, amt, m, dest, adj, heap, visited, found). length heap]")
    (auto simp: unvisited_absent dest: heap_pop_shorter unvisited_shrinks simp del: insert_iff)

declare search_loop.simps [simp del]

definition search_routes ::
  "bool \<Rightarrow> network_graph \<Rightarrow> node_id \<Rightarrow> node_id \<Rightarrow> u64 \<Rightarrow> nat \<Rightarrow> ('e, found_route list) res" where
  "search_routes ck G our_node dest_node amount_msat max_routes =
     search_loop ck amount_msat max_routes dest_node (build_adjacency G amount_msat)
       (heap_push (0, our_node, []) heap_new) {} []"

definition ldk_find_routes ::
  "'n deps \<Rightarrow> string \<Rightarrow> u64 \<Rightarrow> nat \<Rightarrow> ('n world, 'e, found_route list) exec" where
  "ldk_find_routes D dest_pubkey amount_msat max_routes =
     (case cr_public_key_from_str (crate D) dest_pubkey of
        Inl _ \<Rightarrow> ret []
      | Inr dest_pk \<Rightarrow>
         bnd (call (ca_node_id (channel_node D))) (\<lambda>our_pk.
         let dest_node = cr_node_id_from_pubkey (crate D) dest_pk;
             our_node = cr_node_id_from_pubkey (crate D) our_pk in
         if our_node = dest_node then ret []
         else bnd (call (ca_network_graph (channel_node D))) (\<lambda>G.
           lift (search_routes (overflow_checks D) G our_node dest_node amount_msat max_routes))))"

end
