(* ===== verification/LdkChannels.thy ===== *)
theory LdkChannels
  imports LdkEnv
begin

text \<open>
  The channel and peer half of \<open>LdkService\<close> (\<^verbatim>\<open>src/lightning/ldk_service.rs\<close>): identity and status
  of the node, opening and closing channels, connecting peers, listings, and forwarding fees.
\<close>

record ldk_channel_info =
  li_id :: string
  li_short_channel_id :: "string option"
  li_peer_pubkey :: string
  li_state :: string
  li_is_private :: bool
  li_local_balance :: u64
  li_remote_balance :: u64
  li_capacity :: u64
  li_funding_txid :: "string option"
  li_funding_output_index :: "u32 option"
  li_confirmations :: "u32 option"

record ldk_peer_info =
  lp_pubkey :: string
  lp_address :: string
  lp_connected :: bool
  lp_alias :: "string option"
  lp_num_channels :: nat

record ldk_channel_fees =
  lf_id :: string
  lf_short_channel_id :: "string option"
  lf_peer_pubkey :: string
  lf_base_fee :: u32
  lf_fee_rate :: u32
  lf_min_htlc :: u64
  lf_max_htlc :: "u64 option"

section \<open>The node\<close>

definition ldk_notify_channel_ready :: "'n deps \<Rightarrow> u128 \<Rightarrow> ('n world, 'e, unit) exec" where
  "ldk_notify_channel_ready D user_channel_id =
     (if svc_keys_manager (service D)
      then bnd (call (ca_signer_channel_ready (channel_node D) user_channel_id)) (\<lambda>_. ret ())
      else ret ())"

definition ldk_node_id :: "'n deps \<Rightarrow> ('n world, 'e, string) exec" where
  "ldk_node_id D = bnd (call (ca_node_id (channel_node D))) (\<lambda>pk. ret (pk_text pk))"

definition ldk_status :: "'n deps \<Rightarrow> ('n world, 'e, u32) exec" where
  "ldk_status D = call (ca_best_block_height (channel_node D))"

fun network_name :: "network \<Rightarrow> string" where
  "network_name Regtest = ''regtest''"
| "network_name Testnet = ''testnet''"
| "network_name Bitcoin = ''bitcoin''"
| "network_name Signet = ''signet''"
| "network_name OtherNetwork = ''unknown''"

definition ldk_stop :: "'n deps \<Rightarrow> ('n world, ldk_service_error, unit) exec" where
  "ldk_stop D = try_call (ca_stop (channel_node D)) StopFailed"

section \<open>Opening channels, connecting peers\<close>

definition ldk_open_channel ::
  "'n deps \<Rightarrow> string \<Rightarrow> string \<Rightarrow> u64 \<Rightarrow> u64 option \<Rightarrow> ('n world, ldk_service_error, unit) exec" where
  "ldk_open_channel D counterparty_pubkey counterparty_addr channel_amount_sats push_to_counterparty_msat =
     bnd (try_parse (cr_public_key_from_str (crate D) counterparty_pubkey) InvalidPubkey) (\<lambda>node_id.
     bnd (try_parse (cr_socket_address_from_str (crate D) counterparty_addr) ChannelFailed) (\<lambda>addr.
     bnd (try_call (ca_open_channel (channel_node D) node_id addr channel_amount_sats
            push_to_counterparty_msat) ChannelFailed) (\<lambda>_.
     ret ())))"

definition ldk_connect_peer ::
  "'n deps \<Rightarrow> string \<Rightarrow> string \<Rightarrow> ('n world, ldk_service_error, unit) exec" where
  "ldk_connect_peer D counterparty_pubkey counterparty_addr =
     bnd (try_parse (cr_public_key_from_str (crate D) counterparty_pubkey) InvalidPubkey) (\<lambda>node_id.
     bnd (try_parse (cr_socket_address_from_str (crate D) counterparty_addr) PeerFailed) (\<lambda>addr.
     bnd (try_call (ca_connect (channel_node D) node_id addr True) PeerFailed) (\<lambda>_.
     ret ())))"

definition ldk_disconnect_peer :: "'n deps \<Rightarrow> string \<Rightarrow> ('n world, ldk_service_error, unit) exec" where
  "ldk_disconnect_peer D counterparty_pubkey =
     bnd (try_parse (cr_public_key_from_str (crate D) counterparty_pubkey) InvalidPubkey) (\<lambda>node_id.
     bnd (try_call (ca_disconnect (channel_node D) node_id) PeerFailed) (\<lambda>_.
     ret ()))"

section \<open>Listings\<close>

definition ldk_has_ready_channel_with :: "'n deps \<Rightarrow> string \<Rightarrow> ('n world, 'e, bool) exec" where
  "ldk_has_ready_channel_with D counterparty_pubkey =
     (case cr_public_key_from_str (crate D) counterparty_pubkey of
        Inl _ \<Rightarrow> ret False
      | Inr counterparty \<Rightarrow> bnd (call (ca_list_channels (channel_node D))) (\<lambda>cs.
          ret (list_ex (\<lambda>c. cd_counterparty_node_id c = counterparty \<and> cd_is_channel_ready c) cs)))"

definition ldk_has_channel_with :: "'n deps \<Rightarrow> string \<Rightarrow> ('n world, 'e, bool) exec" where
  "ldk_has_channel_with D counterparty_pubkey =
     (case cr_public_key_from_str (crate D) counterparty_pubkey of
        Inl _ \<Rightarrow> ret False
      | Inr counterparty \<Rightarrow> bnd (call (ca_list_channels (channel_node D))) (\<lambda>cs.
          ret (list_ex (\<lambda>c. cd_counterparty_node_id c = counterparty) cs)))"

definition channel_state_name :: "channel_details \<Rightarrow> string" where
  "channel_state_name c =
     (if cd_is_channel_ready c \<and> cd_is_usable c then ''active''
      else if cd_is_channel_ready c then ''inactive''
      else ''pending_open'')"

definition channel_row :: "bool \<Rightarrow> channel_details \<Rightarrow> ('e, ldk_channel_info) res" where
  "channel_row ck c = rbind (mul_ck ck (cd_channel_value_sats c) 1000) (\<lambda>capacity.
     let (funding_txid, funding_output_index) =
           (case cd_funding_txo c of Some (txid, vout) \<Rightarrow> (Some txid, Some vout) | None \<Rightarrow> (None, None))
     in Ok \<lparr>li_id = cd_channel_id c,
        li_short_channel_id = map_option format_scid (cd_short_channel_id c),
        li_peer_pubkey = pk_text (cd_counterparty_node_id c),
        li_state = channel_state_name c,
        li_is_private = (\<not> cd_is_announced c),
        li_local_balance = cd_outbound_capacity_msat c,
        li_remote_balance = cd_inbound_capacity_msat c,
        li_capacity = capacity,
        li_funding_txid = funding_txid,
        li_funding_output_index = funding_output_index,
        li_confirmations = cd_confirmations c\<rparr>)"

definition ldk_list_channels :: "'n deps \<Rightarrow> ('n world, 'e, ldk_channel_info list) exec" where
  "ldk_list_channels D = bnd (call (ca_list_channels (channel_node D))) (\<lambda>cs.
     lift (collect_res (channel_row (overflow_checks D)) cs))"

definition ldk_list_peers :: "'n deps \<Rightarrow> ('n world, 'e, ldk_peer_info list) exec" where
  "ldk_list_peers D =
     bnd (call (ca_list_channels (channel_node D))) (\<lambda>channels.
     bnd (call (ca_list_peers (channel_node D))) (\<lambda>peers.
     ret (map (\<lambda>peer. \<lparr>lp_pubkey = pk_text (pe_node_id peer), lp_address = pe_address peer,
            lp_connected = pe_is_connected peer, lp_alias = None,
            lp_num_channels = length (filter (\<lambda>c. cd_counterparty_node_id c = pe_node_id peer) channels)\<rparr>)
          peers)))"

section \<open>Closing channels\<close>

definition ldk_close_channel :: "'n deps \<Rightarrow> string \<Rightarrow> bool \<Rightarrow> ('n world, ldk_service_error, unit) exec" where
  "ldk_close_channel D channel_id force =
     bnd (call (ca_list_channels (channel_node D))) (\<lambda>channels.
     bnd (ok_or (ChannelFailed (''channel not found: '' @ channel_id))
            (find (\<lambda>c. cd_channel_id c = channel_id) channels)) (\<lambda>details.
     bnd (if force
          then try_call (ca_force_close_channel (channel_node D) (cd_user_channel_id details)
                 (cd_counterparty_node_id details) (Some ''closed via control API'')) ChannelFailed
          else try_call (ca_close_channel (channel_node D) (cd_user_channel_id details)
                 (cd_counterparty_node_id details)) ChannelFailed) (\<lambda>_.
     ret ())))"

section \<open>Forwarding fees\<close>

definition ldk_get_channel_fees :: "'n deps \<Rightarrow> string option \<Rightarrow> ('n world, 'e, ldk_channel_fees list) exec" where
  "ldk_get_channel_fees D channel_id =
     bnd (call (ca_list_channels (channel_node D))) (\<lambda>channels.
     ret (map (\<lambda>c. \<lparr>lf_id = cd_channel_id c,
            lf_short_channel_id = map_option format_scid (cd_short_channel_id c),
            lf_peer_pubkey = pk_text (cd_counterparty_node_id c),
            lf_base_fee = cc_forwarding_fee_base_msat (cd_config c),
            lf_fee_rate = cc_forwarding_fee_proportional_millionths (cd_config c),
            lf_min_htlc = cd_inbound_htlc_minimum_msat c,
            lf_max_htlc = cd_inbound_htlc_maximum_msat c\<rparr>)
          (filter (\<lambda>c. case channel_id of Some i \<Rightarrow> cd_channel_id c = i | None \<Rightarrow> True) channels)))"

definition updated_config :: "u32 option \<Rightarrow> u32 option \<Rightarrow> channel_config \<Rightarrow> channel_config" where
  "updated_config base_fee_msat fee_rate config =
     (let config = (case base_fee_msat of
            Some base \<Rightarrow> config\<lparr>cc_forwarding_fee_base_msat := base\<rparr> | None \<Rightarrow> config)
      in (case fee_rate of
            Some rate \<Rightarrow> config\<lparr>cc_forwarding_fee_proportional_millionths := rate\<rparr> | None \<Rightarrow> config))"

definition ldk_set_channel_fees ::
  "'n deps \<Rightarrow> string \<Rightarrow> u32 option \<Rightarrow> u32 option \<Rightarrow> ('n world, ldk_service_error, unit) exec" where
  "ldk_set_channel_fees D channel_id base_fee_msat fee_rate =
     bnd (call (ca_list_channels (channel_node D))) (\<lambda>channels.
     bnd (ok_or (ChannelFailed (''channel not found: '' @ channel_id))
            (find (\<lambda>c. cd_channel_id c = channel_id) channels)) (\<lambda>details.
     try_call (ca_update_channel_config (channel_node D) (cd_user_channel_id details)
       (cd_counterparty_node_id details) (updated_config base_fee_msat fee_rate (cd_config details)))
       ChannelFailed))"

end
