(* ===== verification/WalletHandlers.thy ===== *)
theory WalletHandlers
  imports WalletTypes LdkChannels
begin

text \<open>
  \<^verbatim>\<open>src/wallet.rs\<close>, first part: the published core, on-chain addresses, hold invoices, keysend and
  the payment records. A handler runs on the \<open>world\<close> and answers a response or an \<open>NncError\<close>.
\<close>

section \<open>Payment records as transactions\<close>

definition transaction_direction :: "payment_direction \<Rightarrow> transaction_type" where
  "transaction_direction d = (case d of Inbound \<Rightarrow> Incoming | Outbound \<Rightarrow> Outgoing)"

definition transaction_status :: "payment_status \<Rightarrow> transaction_state" where
  "transaction_status s = (case s of Succeeded \<Rightarrow> TxSettled | Failed \<Rightarrow> TxFailed | Pending \<Rightarrow> TxPending)"

definition to_transaction :: "payment_details \<Rightarrow> transaction" where
  "to_transaction p = (let settled = (pd_status p = Succeeded) in
     \<lparr>tx_type = transaction_direction (pd_direction p),
      tx_state = Some (transaction_status (pd_status p)),
      tx_invoice = None, tx_description = None, tx_description_hash = None,
      tx_preimage = preimage_from_kind (pd_kind p),
      tx_payment_hash = (case payment_hash_from_kind (pd_kind p) of None \<Rightarrow> [] | Some h \<Rightarrow> h),
      tx_amount = (case pd_amount_msat p of None \<Rightarrow> 0 | Some a \<Rightarrow> a),
      tx_fees_paid = (case pd_fee_paid_msat p of None \<Rightarrow> 0 | Some f \<Rightarrow> f),
      tx_created_at = pd_latest_update_timestamp p,
      tx_expires_at = None,
      tx_settled_at = (if settled then Some (pd_latest_update_timestamp p) else None),
      tx_metadata = None\<rparr>)"

section \<open>The published core\<close>

definition wallet_notifications :: "string list" where
  "wallet_notifications = [''payment_received'', ''payment_sent'', ''hold_invoice_accepted'']"

text \<open>\<open>methods\<close> is the list the service macro generates from the handlers.\<close>

definition wallet_get_info ::
  "'n deps \<Rightarrow> string list \<Rightarrow> string option \<Rightarrow> ('n world, nnc_error, get_info_response) exec" where
  "wallet_get_info D methods own_alias =
     bnd (ldk_node_id D) (\<lambda>pubkey.
     bnd (ldk_status D) (\<lambda>height.
     ret \<lparr>gi_alias = (case own_alias of Some a \<Rightarrow> Some a | None \<Rightarrow> Some ''dln-node''),
          gi_pubkey = Some pubkey,
          gi_network = Some (network_name (svc_network (service D))),
          gi_block_height = Some (ucast height),
          gi_methods = methods,
          gi_notifications = Some wallet_notifications,
          gi_bip321_methods = Some
            [\<lparr>bc_method = ''bolt11'', bc_address_types = None\<rparr>,
             \<lparr>bc_method = ''bolt12'', bc_address_types = None\<rparr>,
             \<lparr>bc_method = ''onchain'', bc_address_types = Some [''p2tr'']\<rparr>]\<rparr>))"

definition wallet_get_balance :: "'n deps \<Rightarrow> ('n world, nnc_error, get_balance_response) exec" where
  "wallet_get_balance D =
     bnd (map_err (ldk_err ''sync'' Internal) (ldk_sync_wallets D)) (\<lambda>_.
     bnd (map_err (ldk_err ''balance'' Internal) (ldk_get_balance D)) (\<lambda>b.
     ret \<lparr>gb_balance = lb_total_msat b, gb_lightning_balance = Some (lb_lightning_msat b),
          gb_onchain_balance_sats = Some (lb_onchain_msat b div 1000)\<rparr>))"

definition wallet_pay_invoice ::
  "'n deps \<Rightarrow> pay_invoice_request \<Rightarrow> ('n world, nnc_error, paid_response) exec" where
  "wallet_pay_invoice D r =
     bnd (reject_if (qi_amount r = Some 0) (NncError BadRequest ''amount must be greater than 0'')) (\<lambda>_.
     bnd (reject_if (is_blank (qi_invoice r)) (NncError BadRequest ''invoice is required'')) (\<lambda>_.
     bnd (map_err (ldk_err ''pay_invoice'' EPaymentFailed)
            (ldk_pay_invoice D (trim (qi_invoice r)) (qi_amount r))) (\<lambda>p.
     ret \<lparr>pp_preimage = pr_preimage p, pp_fees_paid = pr_fees_paid_msat p\<rparr>)))"

definition wallet_make_invoice ::
  "'n deps \<Rightarrow> make_invoice_request \<Rightarrow> ('n world, nnc_error, transaction) exec" where
  "wallet_make_invoice D r =
     bnd (reject_if (qm_description_hash r \<noteq> None)
            (NncError BadRequest ''this node does not support description_hash'')) (\<lambda>_.
     bnd (map_err (ldk_err ''make_invoice'' Internal)
            (ldk_make_invoice D (qm_amount r) (qm_description r) (qm_description_hash r) (qm_expiry r))) (\<lambda>inv.
     bnd (wallet_now D) (\<lambda>created_at.
     ret \<lparr>tx_type = Incoming, tx_state = Some TxPending, tx_invoice = Some (ir_invoice inv),
          tx_description = qm_description r, tx_description_hash = qm_description_hash r,
          tx_preimage = None,
          tx_payment_hash = (case ir_payment_hash inv of None \<Rightarrow> [] | Some h \<Rightarrow> h),
          tx_amount = (case ir_amount_msat inv of None \<Rightarrow> qm_amount r | Some a \<Rightarrow> a),
          tx_fees_paid = 0, tx_created_at = created_at, tx_expires_at = ir_expires_at inv,
          tx_settled_at = None, tx_metadata = qm_metadata r\<rparr>)))"

definition wallet_lookup_invoice ::
  "'n deps \<Rightarrow> lookup_invoice_request \<Rightarrow> ('n world, nnc_error, transaction) exec" where
  "wallet_lookup_invoice D r =
     bnd (case (ql_payment_hash r, ql_invoice r) of
            (Some h, _) \<Rightarrow> map_err (ldk_err ''lookup_invoice'' NotFound) (ldk_lookup_payment_by_hash D h)
          | (None, Some i) \<Rightarrow> map_err (ldk_err ''lookup_invoice'' NotFound) (ldk_lookup_payment_by_bolt11 D i)
          | (None, None) \<Rightarrow> raise (NncError BadRequest ''one of payment_hash or invoice is required'')) (\<lambda>found.
     ret (to_transaction found))"

section \<open>On-chain\<close>

text \<open>The answer is the txid; the response's \<open>fee_sats\<close> is always absent.\<close>

definition wallet_pay_onchain ::
  "'n deps \<Rightarrow> pay_onchain_request \<Rightarrow> ('n world, nnc_error, string) exec" where
  "wallet_pay_onchain D r =
     map_err (ldk_err ''pay_onchain'' EPaymentFailed)
       (ldk_pay_onchain D (qc_address r) (qc_amount_sats r) (qc_feerate r))"

text \<open>The answer is the address; its type is always \<open>p2tr\<close>.\<close>

definition wallet_make_new_address ::
  "'n deps \<Rightarrow> string option \<Rightarrow> ('n world, nnc_error, string) exec" where
  "wallet_make_new_address D address_type =
     bnd (case address_type of
            None \<Rightarrow> ret ()
          | Some t \<Rightarrow> reject_if (t \<noteq> ''p2tr'')
              (NncError BadRequest (''this node generates p2tr, not '' @ t))) (\<lambda>_.
     bnd (map_err (ldk_err ''make_new_address'' Internal) (ldk_new_onchain_address D)) (\<lambda>address.
     bnd (on_addresses (register_address (hash_buckets D) address)) (\<lambda>_.
     ret address)))"

definition received_sats :: "'n deps \<Rightarrow> address_record \<Rightarrow> ('e, u64) res" where
  "received_sats D rec = sum_ck (overflow_checks D) (map at_amount_sats (ar_transactions rec))"

definition wallet_lookup_address ::
  "'n deps \<Rightarrow> string \<Rightarrow> ('n world, nnc_error, lookup_address_response) exec" where
  "wallet_lookup_address D address =
     bnd (on_addresses (get_address address)) (\<lambda>found.
     bnd (ok_or (NncError NotFound ''this node does not watch that address'') found) (\<lambda>rec.
     bnd (lift (received_sats D rec)) (\<lambda>total.
     ret \<lparr>la_address = ar_address rec, la_address_type = ''p2tr'', la_total_received_sats = total,
          la_transactions = map (\<lambda>t. \<lparr>ax_txid = at_txid t, ax_amount_sats = at_amount_sats t,
            ax_confirmations = 0, ax_timestamp = at_timestamp t\<rparr>) (ar_transactions rec)\<rparr>)))"

fun earliest :: "u64 list \<Rightarrow> u64" where
  "earliest [] = 0"
| "earliest (t # ts) = foldl min t ts"

definition address_row_of :: "'n deps \<Rightarrow> address_record \<Rightarrow> ('e, address_row) res" where
  "address_row_of D a = rbind (received_sats D a) (\<lambda>total.
     Ok \<lparr>aw_address_type = ''p2tr'', aw_total_received_sats = total,
         aw_created_at = earliest (map at_timestamp (ar_transactions a)), aw_address = ar_address a\<rparr>)"

definition wallet_list_addresses :: "'n deps \<Rightarrow> ('n world, nnc_error, address_row list) exec" where
  "wallet_list_addresses D =
     bnd (on_addresses list_addresses) (\<lambda>as. lift (collect_res (address_row_of D) as))"

section \<open>Hold invoices\<close>

definition wallet_make_hold_invoice ::
  "'n deps \<Rightarrow> make_hold_invoice_request \<Rightarrow> ('n world, nnc_error, make_hold_invoice_response) exec" where
  "wallet_make_hold_invoice D r =
     bnd (map_err (ldk_err ''make_hold_invoice'' Internal)
            (ldk_make_hold_invoice D (qh_amount r) (qh_description r) (qh_expiry r) (qh_payment_hash r))) (\<lambda>inv.
     bnd (wallet_now D) (\<lambda>created_at.
     ret \<lparr>mh_kind = ''incoming'', mh_invoice = Some (ir_invoice inv), mh_payment_hash = qh_payment_hash r,
          mh_amount = (case ir_amount_msat inv of None \<Rightarrow> qh_amount r | Some a \<Rightarrow> a),
          mh_created_at = created_at, mh_expires_at = ir_expires_at inv,
          mh_description = qh_description r, mh_description_hash = qh_description_hash r,
          mh_metadata = None\<rparr>))"

definition wallet_settle_hold_invoice :: "'n deps \<Rightarrow> string \<Rightarrow> ('n world, nnc_error, unit) exec" where
  "wallet_settle_hold_invoice D preimage =
     map_err (ldk_err ''settle_hold_invoice'' Internal) (ldk_settle_hold_invoice D preimage)"

definition wallet_cancel_hold_invoice :: "'n deps \<Rightarrow> string \<Rightarrow> ('n world, nnc_error, unit) exec" where
  "wallet_cancel_hold_invoice D payment_hash =
     map_err (ldk_err ''cancel_hold_invoice'' Internal) (ldk_cancel_hold_invoice D payment_hash)"

section \<open>Keysend and payment records\<close>

definition wallet_pay_keysend ::
  "'n deps \<Rightarrow> pay_keysend_request \<Rightarrow> ('n world, nnc_error, paid_response) exec" where
  "wallet_pay_keysend D r =
     bnd (reject_if (qk_amount r = 0) (NncError BadRequest ''amount must be greater than 0'')) (\<lambda>_.
     bnd (map_err (ldk_err ''pay_keysend'' EPaymentFailed) (ldk_pay_keysend D (qk_pubkey r) (qk_amount r))) (\<lambda>p.
     ret \<lparr>pp_preimage = pr_preimage p, pp_fees_paid = pr_fees_paid_msat p\<rparr>))"

definition requested_direction :: "transaction_type \<Rightarrow> payment_direction" where
  "requested_direction t = (case t of Incoming \<Rightarrow> Inbound | Outgoing \<Rightarrow> Outbound)"

text \<open>The transactions and their \<open>total_count\<close>.\<close>

definition wallet_list_transactions ::
  "'n deps \<Rightarrow> list_transactions_request \<Rightarrow> ('n world, nnc_error, transaction list \<times> u64 option) exec" where
  "wallet_list_transactions D r =
     bnd (ldk_list_payments_filtered D (qt_from r) (qt_until r) (qt_limit r) (qt_offset r) (qt_unpaid r)
            (map_option requested_direction (qt_transaction_type r)) None) (\<lambda>found.
     let transactions = map to_transaction found in
     ret (transactions, Some (of_nat (length transactions))))"

text \<open>The three selector forms of NWC-09, of which exactly one must be present.\<close>

definition selector_forms :: "lookup_payment_request \<Rightarrow> bool list" where
  "selector_forms r = [qp_transaction_id r \<noteq> None,
     qp_payment_hash r \<noteq> None \<or> qp_invoice r \<noteq> None,
     qp_payment_type r \<noteq> None \<and> qp_lookup r \<noteq> None]"

definition lookup_member :: "(string \<times> json_member) list option \<Rightarrow> string option" where
  "lookup_member l = Option.bind l (\<lambda>m. case map_of m ''payment_hash'' of
     Some (JString s) \<Rightarrow> Some s | _ \<Rightarrow> None)"

definition selected_hash :: "lookup_payment_request \<Rightarrow> string option" where
  "selected_hash r = (case qp_transaction_id r of
       Some t \<Rightarrow> Some t
     | None \<Rightarrow> (case qp_payment_hash r of
           Some h \<Rightarrow> Some h
         | None \<Rightarrow> lookup_member (qp_lookup r)))"

definition payment_state_of :: "transaction_state option \<Rightarrow> payment_state" where
  "payment_state_of s = (case s of
       Some TxSettled \<Rightarrow> PSettled
     | Some TxFailed \<Rightarrow> PFailed
     | Some TxAccepted \<Rightarrow> PAccepted
     | Some TxExpired \<Rightarrow> PExpired
     | _ \<Rightarrow> PPending)"

definition lookup_response :: "transaction \<Rightarrow> lookup_payment_response" where
  "lookup_response t = \<lparr>lr_transaction_id = tx_payment_hash t, lr_payment_direction = tx_type t,
     lr_state = payment_state_of (tx_state t), lr_payment_type = ''bolt11'', lr_amount = tx_amount t,
     lr_fees_paid = Some (tx_fees_paid t), lr_created_at = tx_created_at t,
     lr_expires_at = tx_expires_at t, lr_settled_at = tx_settled_at t,
     lr_details_payment_hash = tx_payment_hash t, lr_details_invoice = tx_invoice t,
     lr_details_preimage = tx_preimage t, lr_details_description = tx_description t\<rparr>"

definition wallet_lookup_payment ::
  "'n deps \<Rightarrow> lookup_payment_request \<Rightarrow> ('n world, nnc_error, lookup_payment_response) exec" where
  "wallet_lookup_payment D r =
     bnd (reject_if (length (filter (\<lambda>f. f) (selector_forms r)) \<noteq> 1)
            (NncError BadRequest
              ''exactly one of transaction_id, the bolt11 fields, or payment_type with lookup'')) (\<lambda>_.
     bnd (case (selected_hash r, qp_invoice r) of
            (Some h, _) \<Rightarrow> map_err (ldk_err ''lookup_payment'' NotFound) (ldk_lookup_payment_by_hash D h)
          | (None, Some i) \<Rightarrow> map_err (ldk_err ''lookup_payment'' NotFound) (ldk_lookup_payment_by_bolt11 D i)
          | (None, None) \<Rightarrow> raise (NncError BadRequest ''no usable selector'')) (\<lambda>found.
     ret (lookup_response (to_transaction found))))"

definition invoice_row_of :: "u64 \<Rightarrow> transaction \<Rightarrow> invoice_row" where
  "invoice_row_of now_secs t =
     (let state = (if tx_state t = Some TxSettled then InvSettled
                   else if (case tx_expires_at t of Some e \<Rightarrow> e < now_secs | None \<Rightarrow> False) then InvExpired
                   else InvPending)
      in \<lparr>iv_invoice = (case tx_invoice t of None \<Rightarrow> [] | Some i \<Rightarrow> i),
          iv_description = tx_description t,
          iv_payment_hash = tx_payment_hash t,
          iv_amount = tx_amount t,
          iv_preimage = (if state = InvSettled then tx_preimage t else None),
          iv_settled_at = (if state = InvSettled then tx_settled_at t else None),
          iv_state = state,
          iv_created_at = tx_created_at t,
          iv_expires_at = (case tx_expires_at t of None \<Rightarrow> 0 | Some e \<Rightarrow> e)\<rparr>)"

definition wallet_list_invoices ::
  "'n deps \<Rightarrow> list_invoices_request \<Rightarrow> ('n world, nnc_error, invoice_row list) exec" where
  "wallet_list_invoices D r =
     bnd (ldk_list_payments_filtered D (qv_from r) (qv_until r) (qv_limit r) (qv_offset r) (Some True)
            (Some Inbound) None) (\<lambda>found.
     bnd (wallet_now D) (\<lambda>now_secs.
     ret (filter (\<lambda>i. case qv_state r of None \<Rightarrow> True | Some w \<Rightarrow> w = iv_state i)
            (map (invoice_row_of now_secs) (map to_transaction found)))))"

end
