(* ===== verification/WalletOffers.thy ===== *)
theory WalletOffers
  imports WalletTypes Routing WalletHandlers
begin

text \<open>
  \<^verbatim>\<open>src/wallet.rs\<close>, second part: offers, quotes, and the two BIP 321 methods, \<open>pay\<close> and \<open>receive\<close>.
\<close>

section \<open>Offers\<close>

text \<open>\<open>Offer::from_str(\<dots>).map(|o| o.id().0).unwrap_or([0u8; 32])\<close>.\<close>

definition offer_id_or_zero :: "crates \<Rightarrow> string \<Rightarrow> u8 list" where
  "offer_id_or_zero C offer = (case cr_offer_from_str C offer of
       Inl _ \<Rightarrow> replicate 32 0
     | Inr o' \<Rightarrow> bo_id o')"

text \<open>
  The clock is read for the expiry only when the request names one. An expiry that does not fit in
  32 bits becomes \<open>None\<close>.
\<close>

definition offer_expiry :: "'n deps \<Rightarrow> u64 option \<Rightarrow> ('n world, 'e, u32 option) exec" where
  "offer_expiry D expires_at = (case expires_at of
       None \<Rightarrow> ret None
     | Some e \<Rightarrow> bnd (wallet_now D) (\<lambda>t. ret (u32_try_from (saturating_sub e t))))"

definition wallet_make_offer ::
  "'n deps \<Rightarrow> make_offer_request \<Rightarrow> ('n world, nnc_error, make_offer_response) exec" where
  "wallet_make_offer D r =
     bnd (reject_if (qo_amount r \<noteq> None \<and> qo_description r = None)
            (NncError BadRequest ''an amount-bearing offer requires a description'')) (\<lambda>_.
     let description = (case qo_description r of None \<Rightarrow> ''offer'' | Some d \<Rightarrow> d);
         amount = (case qo_amount r of None \<Rightarrow> 0 | Some a \<Rightarrow> a) in
     bnd (offer_expiry D (qo_expires_at r)) (\<lambda>expiry.
     bnd (map_err (ldk_err ''make_offer'' Internal) (ldk_make_offer D amount description expiry)) (\<lambda>offer.
     let offer_id = offer_id_or_zero (crate D) offer in
     bnd (on_offers (insert_offer (hash_buckets D) offer description amount offer_id)) (\<lambda>_.
     bnd (wallet_now D) (\<lambda>created_at.
     ret \<lparr>mo_offer_id = cr_hex_encode (crate D) offer_id, mo_offer = offer, mo_amount = qo_amount r,
          mo_description = qo_description r, mo_issuer = qo_issuer r,
          mo_single_use = (case qo_single_use r of None \<Rightarrow> False | Some b \<Rightarrow> b),
          mo_created_at = created_at, mo_expires_at = qo_expires_at r\<rparr>)))))"

definition wallet_pay_offer ::
  "'n deps \<Rightarrow> pay_offer_request \<Rightarrow> ('n world, nnc_error, pay_offer_response) exec" where
  "wallet_pay_offer D r =
     bnd (map_err (ldk_err ''pay_offer'' EPaymentFailed)
            (ldk_pay_offer D (qf_offer r) (qf_amount r) (qf_payer_note r))) (\<lambda>p.
     ret \<lparr>po_transaction_id = pr_preimage p, po_preimage = pr_preimage p,
          po_fees_paid = pr_fees_paid_msat p\<rparr>)"

definition offer_row_of :: "crates \<Rightarrow> offer_record \<Rightarrow> offer_row" where
  "offer_row_of C o' = \<lparr>ow_offer_id = cr_hex_encode C (or_offer_id o'), ow_offer = or_offer o',
     ow_description = Some (or_description o'), ow_issuer = None, ow_amount = Some (or_amount_msat o'),
     ow_active = or_active o', ow_single_use = False,
     ow_num_payments_received = or_num_payments_received o',
     ow_total_received = or_total_received_msat o', ow_created_at = 0, ow_expires_at = None\<rparr>"

definition wallet_list_offers ::
  "'n deps \<Rightarrow> bool option \<Rightarrow> ('n world, nnc_error, offer_row list) exec" where
  "wallet_list_offers D active_only_request =
     (let active_only = (case active_only_request of None \<Rightarrow> False | Some b \<Rightarrow> b) in
      bnd (on_offers list_offers) (\<lambda>offers.
      ret (map (offer_row_of (crate D)) (filter (\<lambda>o'. \<not> active_only \<or> or_active o') offers))))"

definition decode_offer_id :: "crates \<Rightarrow> string \<Rightarrow> u8 list option" where
  "decode_offer_id C s = (case cr_hex_decode C s of
       Inl _ \<Rightarrow> None
     | Inr b \<Rightarrow> (if length b = 32 then Some b else None))"

definition wallet_disable_offer :: "'n deps \<Rightarrow> string \<Rightarrow> ('n world, nnc_error, unit) exec" where
  "wallet_disable_offer D offer_id =
     bnd (ok_or (NncError BadRequest ''offer_id must be 32 bytes, hex'')
            (decode_offer_id (crate D) offer_id)) (\<lambda>i.
     bnd (on_offers (find_by_offer_id i)) (\<lambda>found.
     bnd (ok_or (NncError NotFound ''no such offer'') found) (\<lambda>offer.
     bnd (on_offers (disable_offer offer)) (\<lambda>_.
     ret ()))))"

section \<open>Quotes\<close>

definition wallet_quote_payment ::
  "'n deps \<Rightarrow> quote_payment_request \<Rightarrow> ('n world, nnc_error, quote_payment_response) exec" where
  "wallet_quote_payment D r =
     bnd (try_parse (cr_bolt11_from_str (crate D) (qq_invoice r))
            (\<lambda>e. NncError BadRequest (''invoice: '' @ e))) (\<lambda>invoice.
     bnd (ok_or (NncError BadRequest ''the invoice has no amount'')
            (case qq_amount r of Some a \<Rightarrow> Some a | None \<Rightarrow> bi_amount_milli_satoshis invoice)) (\<lambda>amount.
     bnd (ldk_find_routes D (bi_payee_pub_key invoice) amount 1) (\<lambda>routes.
     case routes of
       [] \<Rightarrow> ret \<lparr>qu_amount = amount, qu_fee_msat = 0, qu_cltv_expiry_delta = 0, qu_route_found = False\<rparr>
     | route # _ \<Rightarrow> ret \<lparr>qu_amount = amount, qu_fee_msat = fr_total_fee route,
         qu_cltv_expiry_delta = fr_total_time_lock route, qu_route_found = True\<rparr>)))"

section \<open>Paying a URI\<close>

text \<open>\<open>preimage.as_deref().and_then(decode_hex).map(sha256)\<close>; slicing a string may panic.\<close>

definition preimage_hash :: "crates \<Rightarrow> string option \<Rightarrow> ('e, string option) res" where
  "preimage_hash C preimage = (case preimage of
       None \<Rightarrow> Ok None
     | Some s \<Rightarrow> (case decode_hex_32 s of
           Ok b \<Rightarrow> Ok (Some (cr_sha256_text C b))
         | Err _ \<Rightarrow> Ok None
         | Panic m \<Rightarrow> Panic m
         | Hang \<Rightarrow> Hang))"

definition paid ::
  "'n deps \<Rightarrow> string \<Rightarrow> u64 \<Rightarrow> string option \<Rightarrow> string option \<Rightarrow> u64 \<Rightarrow> ('n world, 'e, pay_response) exec" where
  "paid D instruction_type amount preimage txid fees_paid =
     bnd (lift (preimage_hash (crate D) preimage)) (\<lambda>hash.
     bnd (wallet_now D) (\<lambda>created_at.
     bnd (wallet_now D) (\<lambda>settled_at.
     ret \<lparr>py_transaction_id = (case hash of Some h \<Rightarrow> h
              | None \<Rightarrow> (case txid of Some t \<Rightarrow> t | None \<Rightarrow> [])),
          py_state = ''settled'', py_instruction_type = instruction_type, py_amount = amount,
          py_fees_paid = fees_paid, py_payment_hash = hash, py_preimage = preimage, py_txid = txid,
          py_created_at = created_at, py_settled_at = Some settled_at\<rparr>)))"

definition or_zero :: "u64 option \<Rightarrow> u64" where
  "or_zero x = (case x of None \<Rightarrow> 0 | Some v \<Rightarrow> v)"

text \<open>\<open>r.amount.or_else(|| uri.amount.map(|a| a.to_sat() * 1_000))\<close>.\<close>

definition pay_amount_msat :: "bool \<Rightarrow> u64 option \<Rightarrow> u64 option \<Rightarrow> ('e, u64 option) res" where
  "pay_amount_msat ck requested uri_sats = (case requested of
       Some a \<Rightarrow> Ok (Some a)
     | None \<Rightarrow> (case uri_sats of
           None \<Rightarrow> Ok None
         | Some sats \<Rightarrow> rbind (mul_ck ck sats 1000) (\<lambda>m. Ok (Some m))))"

definition wallet_pay :: "'n deps \<Rightarrow> pay_request \<Rightarrow> ('n world, nnc_error, pay_response) exec" where
  "wallet_pay D r =
     bnd (try_parse (cr_bip321_parse (crate D) (qy_payment r))
            (\<lambda>e. NncError BadRequest (''bip321: '' @ e))) (\<lambda>uri.
     bnd (lift (pay_amount_msat (overflow_checks D) (qy_amount r) (u_amount uri))) (\<lambda>amount_msat.
     case u_lightning uri of
       invoice # _ \<Rightarrow>
         bnd (map_err (ldk_err ''pay/bolt11'' EPaymentFailed) (ldk_pay_invoice D invoice amount_msat)) (\<lambda>p.
         paid D ''bolt11'' (or_zero amount_msat) (Some (pr_preimage p)) None (or_zero (pr_fees_paid_msat p)))
     | [] \<Rightarrow>
       (case u_lno uri of
          offer # _ \<Rightarrow>
            bnd (map_err (ldk_err ''pay/bolt12'' EPaymentFailed)
                   (ldk_pay_offer D offer amount_msat (qy_payer_note r))) (\<lambda>p.
            paid D ''bolt12'' (or_zero amount_msat) (Some (pr_preimage p)) None (or_zero (pr_fees_paid_msat p)))
        | [] \<Rightarrow>
          (if u_address uri \<noteq> None
           then
             bnd (ok_or (NncError BadRequest ''an on-chain payment needs an amount'')
                    (map_option (\<lambda>m. m div 1000) amount_msat)) (\<lambda>amount_sat.
             bnd (ok_or (NncError BadRequest ''missing address'') (u_address_str uri)) (\<lambda>addr.
             bnd (map_err (ldk_err ''pay/onchain'' EPaymentFailed) (ldk_pay_onchain D addr amount_sat None)) (\<lambda>txid.
             bnd (lift (mul_ck (overflow_checks D) amount_sat 1000)) (\<lambda>amount.
             paid D ''onchain'' amount None (Some txid) 0))))
           else raise (NncError UnsupportedPaymentInstruction
             ''no instruction in this URI is one this node can pay'')))))"

section \<open>Making a URI\<close>

definition default_methods :: "bip321_method list" where
  "default_methods = map (\<lambda>m. \<lparr>bm_method = m, bm_expiry = None, bm_address_type = None\<rparr>)
     [''bolt11'', ''bolt12'', ''onchain'']"

text \<open>The URI under construction and whether it holds an instruction yet.\<close>

type_synonym receive_acc = "bip321_uri \<times> bool"

definition receive_bolt11 ::
  "'n deps \<Rightarrow> receive_request \<Rightarrow> bip321_method \<Rightarrow> receive_acc \<Rightarrow> ('n world, nnc_error, receive_acc) exec" where
  "receive_bolt11 D r entry acc = (case qr_amount r of
       None \<Rightarrow> ret acc
     | Some amount \<Rightarrow>
         bnd (attempt (ldk_make_invoice D amount (qr_description r) None (bm_expiry entry))) (\<lambda>made.
         case made of
           Inr made_invoice \<Rightarrow> ret ((fst acc)\<lparr>u_lightning := u_lightning (fst acc) @ [ir_invoice made_invoice]\<rparr>, True)
         | Inl _ \<Rightarrow> ret acc))"

definition receive_bolt12 ::
  "'n deps \<Rightarrow> receive_request \<Rightarrow> bip321_method \<Rightarrow> receive_acc \<Rightarrow> ('n world, nnc_error, receive_acc) exec" where
  "receive_bolt12 D r entry acc =
     (let desc = (case qr_description r of None \<Rightarrow> ''bip321 offer'' | Some d \<Rightarrow> d);
          expiry = Option.bind (bm_expiry entry) u32_try_from in
      bnd (attempt (ldk_make_offer D (or_zero (qr_amount r)) desc expiry)) (\<lambda>made.
      case made of
        Inr offer \<Rightarrow>
          bnd (on_offers (insert_offer (hash_buckets D) offer desc (or_zero (qr_amount r))
                 (offer_id_or_zero (crate D) offer))) (\<lambda>_.
          ret ((fst acc)\<lparr>u_lno := u_lno (fst acc) @ [offer]\<rparr>, True))
      | Inl _ \<Rightarrow> ret acc))"

definition receive_onchain ::
  "'n deps \<Rightarrow> bip321_method \<Rightarrow> receive_acc \<Rightarrow> ('n world, nnc_error, receive_acc) exec" where
  "receive_onchain D entry acc =
     (if (case bm_address_type entry of None \<Rightarrow> False | Some t \<Rightarrow> t \<noteq> ''p2tr'') then ret acc
      else bnd (attempt (ldk_new_onchain_address D)) (\<lambda>made.
        case made of
          Inr addr \<Rightarrow>
            bnd (on_addresses (register_address (hash_buckets D) addr)) (\<lambda>_.
            case cr_uri_address_parse (crate D) addr of
              Some parsed \<Rightarrow> ret ((fst acc)\<lparr>u_address := Some parsed, u_address_str := Some addr\<rparr>, True)
            | None \<Rightarrow> ret acc)
        | Inl _ \<Rightarrow> ret acc))"

definition receive_entry ::
  "'n deps \<Rightarrow> receive_request \<Rightarrow> bip321_method \<Rightarrow> receive_acc \<Rightarrow> ('n world, nnc_error, receive_acc) exec" where
  "receive_entry D r entry acc =
     (if bm_method entry = ''bolt11'' then receive_bolt11 D r entry acc
      else if bm_method entry = ''bolt12'' then receive_bolt12 D r entry acc
      else if bm_method entry = ''onchain'' then receive_onchain D entry acc
      else ret acc)"

definition receive_uri :: "receive_request \<Rightarrow> bip321_uri" where
  "receive_uri r = new_uri\<lparr>u_amount := map_option (\<lambda>m. m div 1000) (qr_amount r),
     u_label := qr_label r, u_message := qr_description r\<rparr>"

definition wallet_receive :: "'n deps \<Rightarrow> receive_request \<Rightarrow> ('n world, nnc_error, string) exec" where
  "wallet_receive D r =
     (let wanted = (case qr_methods r of Some ms \<Rightarrow> ms | None \<Rightarrow> default_methods) in
      bnd (for_each (receive_entry D r) wanted (receive_uri r, False)) (\<lambda>(uri, any).
      bnd (reject_if (\<not> any) (NncError BadRequest ''no payment instruction could be generated'')) (\<lambda>_.
      ret (cr_bip321_text (crate D) uri))))"

end
