(* ===== verification/LdkGraph.thy ===== *)
theory LdkGraph
  imports LdkEnv
begin

text \<open>
  The network graph as \<open>LdkService\<close> reports it (\<^verbatim>\<open>src/lightning/ldk_service.rs\<close>): nodes, channels
  and the statistics over them. A request reads one snapshot of the graph, \<open>ca_network_graph\<close>, where the
  source locks the live graph anew for every node and channel it reads, so the listings are those of a graph that
  does not change within a request.
\<close>

record network_node_info =
  nn_pubkey :: string
  nn_alias :: string
  nn_color :: string
  nn_num_channels :: nat
  nn_total_capacity :: u64
  nn_addresses :: "string list"
  nn_last_update :: u32

record network_channel_policy =
  np_base_fee :: u32
  np_fee_rate :: u32
  np_min_htlc :: u64
  np_max_htlc :: u64
  np_time_lock_delta :: u16
  np_disabled :: bool
  np_last_update :: u32

record network_channel_info =
  nc_short_channel_id :: string
  nc_capacity :: "u64 option"
  nc_node1_pubkey :: string
  nc_node2_pubkey :: string
  nc_node1_policy :: "network_channel_policy option"
  nc_node2_policy :: "network_channel_policy option"

record network_stats =
  ns_num_nodes :: nat
  ns_num_channels :: nat
  ns_total_capacity :: u64
  ns_avg_channel_size :: u64
  ns_max_channel_size :: u64

definition capacity_or_zero :: "graph_channel \<Rightarrow> u64" where
  "capacity_or_zero ch = (case gc_capacity_sats ch of None \<Rightarrow> 0 | Some c \<Rightarrow> c)"

definition map_node_info ::
  "bool \<Rightarrow> crates \<Rightarrow> network_graph \<Rightarrow> node_id \<Rightarrow> graph_node \<Rightarrow> ('e, network_node_info) res" where
  "map_node_info ck C G node_id info =
     (let (nalias, color, addresses, last_update) =
        (case gn_announcement_info info of
           Some ann \<Rightarrow> (case an_rgb ann of (r, g, b) \<Rightarrow>
             (an_alias ann, ''#'' @ fmt_02x r @ fmt_02x g @ fmt_02x b, an_addresses ann, an_last_update ann))
         | None \<Rightarrow> ('''', ''#000000'', [], 0))
      in rbind (sum_ck ck (map capacity_or_zero (List.map_filter (ng_channel G) (gn_channels info)))) (\<lambda>total_capacity.
         Ok \<lparr>nn_pubkey = cr_node_id_text C node_id, nn_alias = nalias, nn_color = color,
             nn_num_channels = length (gn_channels info), nn_total_capacity = total_capacity,
             nn_addresses = addresses, nn_last_update = last_update\<rparr>))"

definition network_nodes_page ::
  "bool \<Rightarrow> crates \<Rightarrow> network_graph \<Rightarrow> nat \<Rightarrow> nat \<Rightarrow> ('e, network_node_info list) res" where
  "network_nodes_page ck C G limit offset =
     rbind (collect_res (\<lambda>node_id. case ng_node G node_id of
              None \<Rightarrow> Ok None
            | Some info \<Rightarrow> rbind (map_node_info ck C G node_id info) (\<lambda>i. Ok (Some i)))
           (take limit (drop offset (ng_list_nodes G)))) (\<lambda>infos.
     Ok (List.map_filter id infos))"

definition ldk_list_network_nodes :: "'n deps \<Rightarrow> nat \<Rightarrow> nat \<Rightarrow> ('n world, 'e, network_node_info list) exec" where
  "ldk_list_network_nodes D limit offset =
     bnd (call (ca_network_graph (channel_node D))) (\<lambda>G.
     lift (network_nodes_page (overflow_checks D) (crate D) G limit offset))"

definition ldk_get_network_node ::
  "'n deps \<Rightarrow> string \<Rightarrow> ('n world, ldk_service_error, network_node_info option) exec" where
  "ldk_get_network_node D pubkey =
     bnd (try_parse (cr_public_key_from_str (crate D) pubkey) InvalidPubkey) (\<lambda>pk.
     let node_id = cr_node_id_from_pubkey (crate D) pk in
     bnd (call (ca_network_graph (channel_node D))) (\<lambda>G.
     case ng_node G node_id of
       None \<Rightarrow> ret None
     | Some info \<Rightarrow> lift (rbind (map_node_info (overflow_checks D) (crate D) G node_id info) (\<lambda>i. Ok (Some i)))))"

text \<open>The loop of \<open>get_network_stats\<close> over the channel ids, with its two running values.\<close>

definition stats_step :: "network_graph \<Rightarrow> u64 \<times> u64 \<Rightarrow> u64 \<Rightarrow> u64 \<times> u64" where
  "stats_step G acc scid = (case acc of (total_capacity, max_channel_size) \<Rightarrow>
     (case ng_channel G scid of
        None \<Rightarrow> (total_capacity, max_channel_size)
      | Some ch \<Rightarrow> (let cap = capacity_or_zero ch in
          (saturating_add total_capacity cap, if cap > max_channel_size then cap else max_channel_size))))"

definition graph_stats :: "network_graph \<Rightarrow> network_stats" where
  "graph_stats G =
     (let num_nodes = length (ng_list_nodes G);
          channel_ids = ng_list_channels G;
          num_channels = length channel_ids;
          (total_capacity, max_channel_size) = foldl (stats_step G) (0, 0) channel_ids;
          avg_channel_size = (if num_channels > 0 then total_capacity div of_nat num_channels else 0)
      in \<lparr>ns_num_nodes = num_nodes, ns_num_channels = num_channels, ns_total_capacity = total_capacity,
          ns_avg_channel_size = avg_channel_size, ns_max_channel_size = max_channel_size\<rparr>)"

definition ldk_get_network_stats :: "'n deps \<Rightarrow> ('n world, 'e, network_stats) exec" where
  "ldk_get_network_stats D = bnd (call (ca_network_graph (channel_node D))) (\<lambda>G. ret (graph_stats G))"

definition channel_policy :: "channel_update \<Rightarrow> network_channel_policy" where
  "channel_policy p = \<lparr>np_base_fee = cu_base_msat p, np_fee_rate = cu_proportional_millionths p,
     np_min_htlc = cu_htlc_minimum_msat p, np_max_htlc = cu_htlc_maximum_msat p,
     np_time_lock_delta = cu_cltv_expiry_delta p, np_disabled = (\<not> cu_enabled p),
     np_last_update = cu_last_update p\<rparr>"

definition ldk_get_network_channel ::
  "'n deps \<Rightarrow> string \<Rightarrow> ('n world, ldk_service_error, network_channel_info option) exec" where
  "ldk_get_network_channel D scid_str =
     bnd (ok_or (ChannelFailed (''invalid scid format: '' @ scid_str)) (parse_scid scid_str)) (\<lambda>scid.
     bnd (call (ca_network_graph (channel_node D))) (\<lambda>G.
     ret (map_option (\<lambda>ch. \<lparr>nc_short_channel_id = format_scid scid, nc_capacity = gc_capacity_sats ch,
            nc_node1_pubkey = cr_node_id_text (crate D) (gc_node_one ch),
            nc_node2_pubkey = cr_node_id_text (crate D) (gc_node_two ch),
            nc_node1_policy = map_option channel_policy (gc_one_to_two ch),
            nc_node2_policy = map_option channel_policy (gc_two_to_one ch)\<rparr>) (ng_channel G scid))))"

end
