(* ===== verification/ControlHandlers.thy ===== *)
theory ControlHandlers
  imports LdkChannels LdkGraph Routing
begin

text \<open>
  \<^verbatim>\<open>src/control.rs\<close>: the fourteen node-control methods, with the request and response fields the
  handlers read and write (\<^verbatim>\<open>nostr_ln::nnc\<close>).
\<close>

section \<open>Requests and responses\<close>

record open_channel_request =
  ko_pubkey :: string
  ko_host :: "string option"
  ko_amount_sats :: u64
  ko_push_amount :: "u64 option"

record close_channel_request =
  kc_id :: string
  kc_force :: "bool option"

record connect_peer_request =
  kp_pubkey :: string
  kp_host :: "string option"

record set_channel_fees_request =
  kf_id :: "string option"
  kf_base_fee :: "u64 option"
  kf_fee_rate :: "u64 option"
  kf_min_htlc :: "u64 option"
  kf_max_htlc :: "u64 option"

record query_routes_request =
  kq_destination :: string
  kq_amount :: u64
  kq_max_routes :: "u64 option"

record forwarding_history_request =
  kh_from :: "u64 option"
  kh_until :: "u64 option"
  kh_limit :: "u64 option"
  kh_offset :: "u64 option"

record network_nodes_request =
  kn_limit :: "u64 option"
  kn_offset :: "u64 option"

datatype channel_state = Active | Inactive | PendingOpen | PendingClose | ForceClosing | UnknownState string

text \<open>The members \<open>extra\<close> flattens: a name and a number.\<close>

record channel_response =
  rc_id :: string
  rc_short_channel_id :: "string option"
  rc_peer_pubkey :: string
  rc_state :: "channel_state option"
  rc_is_private :: bool
  rc_capacity :: "u64 option"
  rc_local_balance :: "u64 option"
  rc_remote_balance :: "u64 option"
  rc_funding_txid :: "string option"
  rc_extra :: "(string \<times> u32) list"

record peer_response =
  rp_pubkey :: string
  rp_address :: "string option"
  rp_connected :: bool
  rp_alias :: "string option"
  rp_num_channels :: "u64 option"

record channel_fees_response =
  rf_id :: string
  rf_short_channel_id :: "string option"
  rf_peer_pubkey :: "string option"
  rf_base_fee :: u64
  rf_fee_rate :: u64
  rf_min_htlc :: "u64 option"
  rf_max_htlc :: "u64 option"

record hop_response =
  rh2_pubkey :: string
  rh2_short_channel_id :: "string option"
  rh2_fee :: u64

record route_response =
  rr_total_fee :: u64
  rr_total_time_lock :: u64
  rr_hops :: "hop_response list"

record network_node_response =
  rn_pubkey :: string
  rn_alias :: "string option"
  rn_color :: "string option"
  rn_num_channels :: "u64 option"
  rn_total_capacity :: "u64 option"
  rn_addresses :: "string list option"
  rn_last_update :: "u64 option"

record network_stats_response =
  rs_num_nodes :: u64
  rs_num_channels :: u64
  rs_total_capacity :: u64
  rs_avg_channel_size :: "u64 option"
  rs_max_channel_size :: "u64 option"

record policy_response =
  ry_base_fee :: "u64 option"
  ry_fee_rate :: "u64 option"
  ry_min_htlc :: "u64 option"
  ry_max_htlc :: "u64 option"
  ry_time_lock_delta :: "u64 option"
  ry_disabled :: bool
  ry_last_update :: "u64 option"

record network_channel_response =
  rx_short_channel_id :: string
  rx_capacity :: "u64 option"
  rx_node1_pubkey :: string
  rx_node2_pubkey :: string
  rx_node1_policy :: "policy_response option"
  rx_node2_policy :: "policy_response option"

section \<open>Channels\<close>

definition control_ldk_err :: "string \<Rightarrow> error_code \<Rightarrow> ldk_service_error \<Rightarrow> nnc_error" where
  "control_ldk_err what code e = NncError code (what @ '': '' @ service_error_text e)"

definition channel_state_of :: "string \<Rightarrow> channel_state" where
  "channel_state_of s = (if s = ''active'' then Active
     else if s = ''inactive'' then Inactive
     else if s = ''pending_open'' then PendingOpen
     else if s = ''pending_close'' then PendingClose
     else if s = ''force_closing'' then ForceClosing
     else UnknownState s)"

definition channel_response_of :: "ldk_channel_info \<Rightarrow> channel_response" where
  "channel_response_of c = \<lparr>rc_id = li_id c, rc_short_channel_id = li_short_channel_id c,
     rc_peer_pubkey = li_peer_pubkey c, rc_state = Some (channel_state_of (li_state c)),
     rc_is_private = li_is_private c, rc_capacity = Some (li_capacity c),
     rc_local_balance = Some (li_local_balance c), rc_remote_balance = Some (li_remote_balance c),
     rc_funding_txid = li_funding_txid c,
     rc_extra =
       (case li_confirmations c of Some n \<Rightarrow> [(''confirmations'', n)] | None \<Rightarrow> []) @
       (case li_funding_output_index c of Some i \<Rightarrow> [(''funding_output_index'', i)] | None \<Rightarrow> [])\<rparr>"

definition control_list_channels :: "'n deps \<Rightarrow> ('n world, nnc_error, channel_response list) exec" where
  "control_list_channels D = bnd (ldk_list_channels D) (\<lambda>cs. ret (map channel_response_of cs))"

definition control_open_channel :: "'n deps \<Rightarrow> open_channel_request \<Rightarrow> ('n world, nnc_error, unit) exec" where
  "control_open_channel D r =
     bnd (ok_or (NncError BadRequest ''host is required to open a channel'') (ko_host r)) (\<lambda>host.
     bnd (map_err (control_ldk_err ''open_channel'' EChannelFailed)
            (ldk_open_channel D (ko_pubkey r) host (ko_amount_sats r) (ko_push_amount r))) (\<lambda>_.
     ret ()))"

definition control_close_channel :: "'n deps \<Rightarrow> close_channel_request \<Rightarrow> ('n world, nnc_error, unit) exec" where
  "control_close_channel D r =
     bnd (map_err (control_ldk_err ''close_channel'' EChannelFailed)
            (ldk_close_channel D (kc_id r) (case kc_force r of None \<Rightarrow> False | Some b \<Rightarrow> b))) (\<lambda>_.
     ret ())"

section \<open>Peers\<close>

definition peer_response_of :: "ldk_peer_info \<Rightarrow> peer_response" where
  "peer_response_of p = \<lparr>rp_pubkey = lp_pubkey p, rp_address = Some (lp_address p),
     rp_connected = lp_connected p, rp_alias = lp_alias p,
     rp_num_channels = Some (of_nat (lp_num_channels p))\<rparr>"

definition control_list_peers :: "'n deps \<Rightarrow> ('n world, nnc_error, peer_response list) exec" where
  "control_list_peers D = bnd (ldk_list_peers D) (\<lambda>ps. ret (map peer_response_of ps))"

definition control_connect_peer :: "'n deps \<Rightarrow> connect_peer_request \<Rightarrow> ('n world, nnc_error, unit) exec" where
  "control_connect_peer D r =
     bnd (ok_or (NncError BadRequest ''host is required to connect'') (kp_host r)) (\<lambda>host.
     bnd (map_err (control_ldk_err ''connect_peer'' EConnectionFailed)
            (ldk_connect_peer D (kp_pubkey r) host)) (\<lambda>_.
     ret ()))"

definition control_disconnect_peer :: "'n deps \<Rightarrow> string \<Rightarrow> ('n world, nnc_error, unit) exec" where
  "control_disconnect_peer D pubkey =
     bnd (map_err (control_ldk_err ''disconnect_peer'' EConnectionFailed) (ldk_disconnect_peer D pubkey)) (\<lambda>_.
     ret ())"

section \<open>Fees\<close>

definition fees_response_of :: "ldk_channel_fees \<Rightarrow> channel_fees_response" where
  "fees_response_of f = \<lparr>rf_id = lf_id f, rf_short_channel_id = lf_short_channel_id f,
     rf_peer_pubkey = Some (lf_peer_pubkey f), rf_base_fee = ucast (lf_base_fee f),
     rf_fee_rate = ucast (lf_fee_rate f), rf_min_htlc = Some (lf_min_htlc f), rf_max_htlc = lf_max_htlc f\<rparr>"

definition control_get_channel_fees ::
  "'n deps \<Rightarrow> string option \<Rightarrow> ('n world, nnc_error, channel_fees_response list) exec" where
  "control_get_channel_fees D channel_id =
     bnd (ldk_get_channel_fees D channel_id) (\<lambda>fs. ret (map fees_response_of fs))"

definition control_set_channel_fees ::
  "'n deps \<Rightarrow> set_channel_fees_request \<Rightarrow> ('n world, nnc_error, unit) exec" where
  "control_set_channel_fees D r =
     bnd (ok_or (NncError BadRequest ''this node sets fees per channel, so id is required'') (kf_id r)) (\<lambda>channel_id.
     bnd (reject_if (kf_min_htlc r \<noteq> None \<or> kf_max_htlc r \<noteq> None)
            (NncError BadRequest ''this node cannot set min_htlc or max_htlc'')) (\<lambda>_.
     bnd (map_err (control_ldk_err ''set_channel_fees'' EChannelFailed)
            (ldk_set_channel_fees D channel_id (Option.bind (kf_base_fee r) u32_try_from)
               (Option.bind (kf_fee_rate r) u32_try_from))) (\<lambda>_.
     ret ())))"

section \<open>Routing and history\<close>

definition hop_response_of :: "route_hop \<Rightarrow> hop_response" where
  "hop_response_of h = \<lparr>rh2_pubkey = rh_pubkey h, rh2_short_channel_id = Some (rh_short_channel_id h),
     rh2_fee = rh_fee h\<rparr>"

definition route_response_of :: "found_route \<Rightarrow> route_response" where
  "route_response_of r = \<lparr>rr_total_fee = fr_total_fee r, rr_total_time_lock = ucast (fr_total_time_lock r),
     rr_hops = map hop_response_of (fr_hops r)\<rparr>"

definition requested_routes :: "u64 option \<Rightarrow> u64" where
  "requested_routes max_routes = max (case max_routes of None \<Rightarrow> 1 | Some m \<Rightarrow> m) 1"

definition control_query_routes ::
  "'n deps \<Rightarrow> query_routes_request \<Rightarrow> ('n world, nnc_error, route_response list) exec" where
  "control_query_routes D r =
     bnd (ldk_find_routes D (kq_destination r) (kq_amount r) (unat (requested_routes (kq_max_routes r)))) (\<lambda>rs.
     ret (map route_response_of rs))"

text \<open>A forwarding event carries the six fields of the log entry.\<close>

definition control_get_forwarding_history ::
  "'n deps \<Rightarrow> forwarding_history_request \<Rightarrow> ('n world, nnc_error, forwarding_entry list) exec" where
  "control_get_forwarding_history D r =
     on_forwards (get_history (kh_from r) (kh_until r)
       (unat (case kh_limit r of None \<Rightarrow> 100 | Some l \<Rightarrow> l))
       (unat (case kh_offset r of None \<Rightarrow> 0 | Some x \<Rightarrow> x)))"

section \<open>The graph\<close>

definition to_network_node :: "network_node_info \<Rightarrow> network_node_response" where
  "to_network_node n = \<lparr>rn_pubkey = nn_pubkey n, rn_alias = Some (nn_alias n),
     rn_color = Some (nn_color n), rn_num_channels = Some (of_nat (nn_num_channels n)),
     rn_total_capacity = Some (nn_total_capacity n), rn_addresses = Some (nn_addresses n),
     rn_last_update = Some (ucast (nn_last_update n))\<rparr>"

definition to_policy :: "network_channel_policy \<Rightarrow> policy_response" where
  "to_policy p = \<lparr>ry_base_fee = Some (ucast (np_base_fee p)), ry_fee_rate = Some (ucast (np_fee_rate p)),
     ry_min_htlc = Some (np_min_htlc p), ry_max_htlc = Some (np_max_htlc p),
     ry_time_lock_delta = Some (ucast (np_time_lock_delta p)), ry_disabled = np_disabled p,
     ry_last_update = Some (ucast (np_last_update p))\<rparr>"

definition control_list_network_nodes ::
  "'n deps \<Rightarrow> network_nodes_request \<Rightarrow> ('n world, nnc_error, network_node_response list) exec" where
  "control_list_network_nodes D r =
     bnd (ldk_list_network_nodes D
            (unat (case kn_limit r of None \<Rightarrow> 100 | Some l \<Rightarrow> l))
            (unat (case kn_offset r of None \<Rightarrow> 0 | Some x \<Rightarrow> x))) (\<lambda>ns.
     ret (map to_network_node ns))"

definition control_get_network_node ::
  "'n deps \<Rightarrow> string \<Rightarrow> ('n world, nnc_error, network_node_response) exec" where
  "control_get_network_node D pubkey =
     bnd (map_err (control_ldk_err ''get_network_node'' Internal) (ldk_get_network_node D pubkey)) (\<lambda>found.
     bnd (ok_or (NncError NotFound ''no such node in the graph'') found) (\<lambda>n.
     ret (to_network_node n)))"

definition control_get_network_stats :: "'n deps \<Rightarrow> ('n world, nnc_error, network_stats_response) exec" where
  "control_get_network_stats D = bnd (ldk_get_network_stats D) (\<lambda>s.
     ret \<lparr>rs_num_nodes = of_nat (ns_num_nodes s), rs_num_channels = of_nat (ns_num_channels s),
          rs_total_capacity = ns_total_capacity s, rs_avg_channel_size = Some (ns_avg_channel_size s),
          rs_max_channel_size = Some (ns_max_channel_size s)\<rparr>)"

definition control_get_network_channel ::
  "'n deps \<Rightarrow> string \<Rightarrow> ('n world, nnc_error, network_channel_response) exec" where
  "control_get_network_channel D short_channel_id =
     bnd (map_err (control_ldk_err ''get_network_channel'' Internal)
            (ldk_get_network_channel D short_channel_id)) (\<lambda>found.
     bnd (ok_or (NncError NotFound ''no such channel in the graph'') found) (\<lambda>ch.
     ret \<lparr>rx_short_channel_id = nc_short_channel_id ch, rx_capacity = nc_capacity ch,
          rx_node1_pubkey = nc_node1_pubkey ch, rx_node2_pubkey = nc_node2_pubkey ch,
          rx_node1_policy = map_option to_policy (nc_node1_policy ch),
          rx_node2_policy = map_option to_policy (nc_node2_policy ch)\<rparr>))"

end
