(* ===== verification/Events.thy ===== *)
theory Events
  imports WalletTypes ControlHandlers
begin

text \<open>
  \<^verbatim>\<open>src/events.rs\<close>: LDK events as notifications, and the forwarding log. Building a notification
  (a JSON serialization) and announcing it are \<open>nostr-ln\<close>'s, so both are parameters; a failure of
  either is only logged.
\<close>

section \<open>Notifications\<close>

record hold_invoice_accepted =
  ha_kind :: string
  ha_state :: "string option"
  ha_invoice :: string
  ha_payment_hash :: string
  ha_amount :: u64
  ha_created_at :: u64
  ha_expires_at :: u64
  ha_settle_deadline :: "u64 option"
  ha_description :: "string option"
  ha_description_hash :: "string option"
  ha_metadata :: "string option"

datatype close_type = ForceRemote | ForceLocal | Cooperative | UnknownClose string

record channel_closed =
  xc_id :: string
  xc_short_channel_id :: "string option"
  xc_peer_pubkey :: "string option"
  xc_capacity :: "u64 option"
  xc_closing_txid :: "string option"
  xc_close_type :: close_type

datatype wallet_notification_type = NPaymentReceived | NPaymentSent | NHoldInvoiceAccepted
datatype wallet_notification_body = PaymentBody transaction | HoldBody hold_invoice_accepted
datatype notification_type = NChannelOpened | NChannelClosed
datatype notification_body = OpenedBody channel_response | ClosedBody channel_closed

text \<open>\<open>nf_*_new\<close> answers the built notification or the serializer's error.\<close>

record ('n, 'm) notifier =
  nf_wallet_new :: "wallet_notification_type \<Rightarrow> wallet_notification_body \<Rightarrow> string + 'm"
  nf_control_new :: "notification_type \<Rightarrow> notification_body \<Rightarrow> string + 'm"
  nf_announce :: "'m \<Rightarrow> 'n \<Rightarrow> (string + unit) \<times> 'n"

definition announce_wallet :: "('n, 'm) notifier \<Rightarrow> string + 'm \<Rightarrow> ('n world, 'e, unit) exec" where
  "announce_wallet N n = (case n of
       Inr m \<Rightarrow> bnd (call (nf_announce N m)) (\<lambda>_. ret ())
     | Inl _ \<Rightarrow> ret ())"

definition announce_control :: "('n, 'm) notifier \<Rightarrow> string + 'm \<Rightarrow> ('n world, 'e, unit) exec" where
  "announce_control N n = (case n of
       Inr m \<Rightarrow> bnd (call (nf_announce N m)) (\<lambda>_. ret ())
     | Inl _ \<Rightarrow> ret ())"

section \<open>Payments\<close>

definition event_payment ::
  "'n deps \<Rightarrow> transaction_type \<Rightarrow> string \<Rightarrow> u64 \<Rightarrow> ('n world, 'e, transaction) exec" where
  "event_payment D direction hash amount =
     bnd (events_now D) (\<lambda>created_at.
     bnd (events_now D) (\<lambda>settled_at.
     ret \<lparr>tx_type = direction, tx_state = Some TxSettled, tx_invoice = None, tx_description = None,
          tx_description_hash = None, tx_preimage = None, tx_payment_hash = hash, tx_amount = amount,
          tx_fees_paid = 0, tx_created_at = created_at, tx_expires_at = None,
          tx_settled_at = Some settled_at, tx_metadata = None\<rparr>))"

section \<open>Channels\<close>

definition close_type_of :: "closure_reason option \<Rightarrow> close_type" where
  "close_type_of reason = (case reason of
       Some CounterpartyForceClosed \<Rightarrow> ForceRemote
     | Some HolderForceClosed \<Rightarrow> ForceLocal
     | Some LegacyCooperativeClosure \<Rightarrow> Cooperative
     | Some CounterpartyInitiatedCooperativeClosure \<Rightarrow> Cooperative
     | Some LocallyInitiatedCooperativeClosure \<Rightarrow> Cooperative
     | _ \<Rightarrow> UnknownClose ''unknown'')"

definition opened_channel ::
  "string \<Rightarrow> public_key option \<Rightarrow> ldk_channel_info option \<Rightarrow> channel_response" where
  "opened_channel i counterparty found = \<lparr>rc_id = i,
     rc_short_channel_id = Option.bind found li_short_channel_id,
     rc_peer_pubkey = (case counterparty of None \<Rightarrow> [] | Some p \<Rightarrow> pk_text p),
     rc_state = Some Active,
     rc_is_private = (case found of None \<Rightarrow> False | Some c \<Rightarrow> li_is_private c),
     rc_capacity = map_option li_capacity found,
     rc_local_balance = map_option li_local_balance found,
     rc_remote_balance = map_option li_remote_balance found,
     rc_funding_txid = Option.bind found li_funding_txid,
     rc_extra = []\<rparr>"

section \<open>One event\<close>

text \<open>\<open>incoming_amount\<close> saturates: \<open>outgoing.saturating_add(fee)\<close>.\<close>

definition forwarded_entry ::
  "string \<Rightarrow> string \<Rightarrow> u64 option \<Rightarrow> u64 option \<Rightarrow> u64 \<Rightarrow> forwarding_entry" where
  "forwarded_entry prev nxt total_fee_earned outbound_amount t =
     (let fee = (case total_fee_earned of None \<Rightarrow> 0 | Some f \<Rightarrow> f);
          outgoing = (case outbound_amount of None \<Rightarrow> 0 | Some a \<Rightarrow> a)
      in \<lparr>fe_incoming_channel_id = prev, fe_outgoing_channel_id = nxt,
          fe_incoming_amount = saturating_add outgoing fee, fe_outgoing_amount = outgoing,
          fe_fee_earned = fee, fe_settled_at = t\<rparr>)"

fun handle_event :: "'n deps \<Rightarrow> ('n, 'm) notifier \<Rightarrow> ldk_event \<Rightarrow> ('n world, 'e, unit) exec" where
  "handle_event D N (PaymentReceived payment_hash amount_msat) =
     bnd (event_payment D Incoming (hex_hash payment_hash) amount_msat) (\<lambda>t.
     announce_wallet N (nf_wallet_new N NPaymentReceived (PaymentBody t)))"
| "handle_event D N (PaymentSuccessful payment_hash fee_paid_msat) =
     bnd (event_payment D Outgoing (hex_hash payment_hash) 0) (\<lambda>t.
     let t = t\<lparr>tx_fees_paid := (case fee_paid_msat of None \<Rightarrow> 0 | Some f \<Rightarrow> f)\<rparr> in
     announce_wallet N (nf_wallet_new N NPaymentSent (PaymentBody t)))"
| "handle_event D N (PaymentClaimable payment_hash claimable_amount_msat claim_deadline) =
     bnd (events_now D) (\<lambda>created_at.
     announce_wallet N (nf_wallet_new N NHoldInvoiceAccepted (HoldBody
       \<lparr>ha_kind = ''incoming'', ha_state = Some ''accepted'', ha_invoice = [],
        ha_payment_hash = hex_hash payment_hash, ha_amount = claimable_amount_msat,
        ha_created_at = created_at, ha_expires_at = 0,
        ha_settle_deadline = map_option ucast claim_deadline,
        ha_description = None, ha_description_hash = None, ha_metadata = None\<rparr>)))"
| "handle_event D N (ChannelReady channel_id user_channel_id counterparty_node_id) =
     bnd (ldk_notify_channel_ready D user_channel_id) (\<lambda>_.
     bnd (ldk_list_channels D) (\<lambda>channels.
     let found = find (\<lambda>c. li_id c = channel_id) channels in
     announce_control N (nf_control_new N NChannelOpened
       (OpenedBody (opened_channel channel_id counterparty_node_id found)))))"
| "handle_event D N (ChannelClosed channel_id counterparty_node_id reason) =
     announce_control N (nf_control_new N NChannelClosed (ClosedBody
       \<lparr>xc_id = channel_id, xc_short_channel_id = None,
        xc_peer_pubkey = map_option pk_text counterparty_node_id, xc_capacity = None,
        xc_closing_txid = None, xc_close_type = close_type_of reason\<rparr>))"
| "handle_event D N (PaymentForwarded prev_channel_id next_channel_id total_fee_earned_msat
       outbound_amount_forwarded_msat) =
     bnd (events_now D) (\<lambda>t.
     on_forwards (record_forward (forwarded_entry prev_channel_id next_channel_id
       total_fee_earned_msat outbound_amount_forwarded_msat t)))"
| "handle_event D N OtherEvent = ret ()"

end
