(* ===== verification/LdkConfig.thy ===== *)
theory LdkConfig
  imports LdkEnv
begin

text \<open>
  The configuration of the node (\<open>LdkServiceConfig\<close> in \<^verbatim>\<open>src/lightning/ldk_service.rs\<close>): parsing the
  network, validation, and \<open>start_from_config\<close>. The builder of \<^verbatim>\<open>ldk-node\<close>, the transports and the
  keys manager of the signer are parameters over opaque states: \<open>'b\<close> a builder, \<open>'t\<close> a transport,
  \<open>'k\<close> a keys manager, \<open>'a\<close> a built node.
\<close>

record ldk_service_config =
  lc_network :: string
  lc_bitcoind_rpc_host :: string
  lc_bitcoind_rpc_port :: u16
  lc_bitcoind_rpc_user :: string
  lc_bitcoind_rpc_password :: string
  lc_ldk_storage_dir :: string
  lc_ldk_listen_addr :: "string option"
  lc_node_alias :: "string option"
  lc_signer_transport :: string
  lc_signer_relay :: "string option"
  lc_signer_nsec :: "string option"
  lc_signer_pubkey :: "string option"

definition parse_network :: "ldk_service_config \<Rightarrow> (ldk_service_init_error, network) res" where
  "parse_network cfg = (let n = to_lowercase (lc_network cfg) in
     if n = ''regtest'' then Ok Regtest
     else if n = ''testnet'' then Ok Testnet
     else if n = ''bitcoin'' \<or> n = ''mainnet'' then Ok Bitcoin
     else if n = ''signet'' then Ok Signet
     else Err (InvalidNetwork n))"

definition validate :: "ldk_service_config \<Rightarrow> (ldk_service_init_error, unit) res" where
  "validate cfg =
     (if is_blank (lc_bitcoind_rpc_host cfg) then Err (InvalidConfig ''bitcoind_rpc_host must not be empty'')
      else if is_blank (lc_bitcoind_rpc_user cfg) then Err (InvalidConfig ''bitcoind_rpc_user must not be empty'')
      else if is_blank (lc_bitcoind_rpc_password cfg) then Err (InvalidConfig ''bitcoind_rpc_password must not be empty'')
      else if is_blank (lc_ldk_storage_dir cfg) then Err (InvalidConfig ''ldk_storage_dir must not be empty'')
      else Ok ())"

section \<open>Starting\<close>

record ('n, 'b, 't, 'k, 'a) start_api =
  st_nostr_transport :: "string \<Rightarrow> string \<Rightarrow> string \<Rightarrow> 'n \<Rightarrow> (string + 't) \<times> 'n"
  st_embedded_transport :: "network \<Rightarrow> string list \<Rightarrow> u32 \<Rightarrow> 'n \<Rightarrow> (string + 't) \<times> 'n"
  st_keys_manager :: "'t \<Rightarrow> string \<Rightarrow> 'n \<Rightarrow> 'k \<times> 'n"
  st_builder_new :: 'b
  st_set_network :: "network \<Rightarrow> 'b \<Rightarrow> 'b"
  st_set_chain_source :: "string \<Rightarrow> u16 \<Rightarrow> string \<Rightarrow> string \<Rightarrow> 'b \<Rightarrow> 'b"
  st_set_storage_dir :: "string \<Rightarrow> 'b \<Rightarrow> 'b"
  st_set_custom_keys :: "'k \<Rightarrow> 'b \<Rightarrow> 'b"
  st_set_custom_wallet :: "'k \<Rightarrow> 'b \<Rightarrow> 'b"
  st_set_listening_addresses :: "string list \<Rightarrow> 'b \<Rightarrow> string + 'b"
  st_set_node_alias :: "string \<Rightarrow> 'b \<Rightarrow> string + 'b"
  st_build :: "'b \<Rightarrow> 'n \<Rightarrow> (string + 'a) \<times> 'n"
  st_start :: "'a \<Rightarrow> 'n \<Rightarrow> (string + unit) \<times> 'n"

text \<open>The service: the running node, the network, and the keys manager when VLS is used.\<close>

record ('a, 'k) started_service =
  ss_node :: 'a
  ss_network :: network
  ss_keys_manager :: "'k option"

definition from_node :: "'a \<Rightarrow> network \<Rightarrow> ('a, 'k) started_service" where
  "from_node node network = \<lparr>ss_node = node, ss_network = network, ss_keys_manager = None\<rparr>"

definition init_call :: "('n \<Rightarrow> (string + 'r) \<times> 'n) \<Rightarrow> (string \<Rightarrow> 'e) \<Rightarrow> ('n, 'e, 'r) exec" where
  "init_call f h n = (case f n of (Inl m, n') \<Rightarrow> (Err (h m), n') | (Inr r, n') \<Rightarrow> (Ok r, n'))"

definition policy_filters :: "string list" where
  "policy_filters = [''policy-commitment-htlc-routing-balance:warn'', ''policy-routing-balanced:warn'']"

definition vls_network :: "ldk_service_config \<Rightarrow> network \<Rightarrow> (ldk_service_init_error, network) res" where
  "vls_network cfg network = (case network of
       Regtest \<Rightarrow> Ok Regtest
     | Testnet \<Rightarrow> Ok Testnet
     | Bitcoin \<Rightarrow> Ok Bitcoin
     | Signet \<Rightarrow> Ok Signet
     | OtherNetwork \<Rightarrow> Err (InvalidNetwork (lc_network cfg)))"

definition signer_setting ::
  "string option \<Rightarrow> string \<Rightarrow> ('n, ldk_service_init_error, string) exec" where
  "signer_setting v name = ok_or (InvalidConfig (name @ '' required for nostr transport'')) v"

definition signer_link ::
  "('n, 'b, 't, 'k, 'a) start_api \<Rightarrow> ldk_service_config \<Rightarrow> network \<Rightarrow> ('n, ldk_service_init_error, 't) exec" where
  "signer_link S cfg vls =
     (if lc_signer_transport cfg = ''nostr'' then
        bnd (signer_setting (lc_signer_relay cfg) ''signer.relay'') (\<lambda>relay.
        bnd (signer_setting (lc_signer_nsec cfg) ''signer.nsec'') (\<lambda>nsec.
        bnd (signer_setting (lc_signer_pubkey cfg) ''signer.signer_pubkey'') (\<lambda>pubkey.
        init_call (st_nostr_transport S relay nsec pubkey)
          (\<lambda>e. BuildFailed (''NostrTransport init: '' @ e)))))
      else init_call (st_embedded_transport S vls policy_filters 6)
        (\<lambda>e. BuildFailed (''VLS signer init: '' @ e)))"

definition configure_listening ::
  "('n, 'b, 't, 'k, 'a) start_api \<Rightarrow> crates \<Rightarrow> ldk_service_config \<Rightarrow> 'b
     \<Rightarrow> ('n, ldk_service_init_error, 'b) exec" where
  "configure_listening S C cfg b = (case lc_ldk_listen_addr cfg of
       None \<Rightarrow> ret b
     | Some listen_addr \<Rightarrow>
         bnd (try_parse (cr_socket_address_from_str C listen_addr)
                (\<lambda>_. InvalidListeningAddress listen_addr)) (\<lambda>socket.
         try_parse (st_set_listening_addresses S [socket] b) BuildFailed))"

definition configure_alias ::
  "('n, 'b, 't, 'k, 'a) start_api \<Rightarrow> ldk_service_config \<Rightarrow> 'b \<Rightarrow> ('n, ldk_service_init_error, 'b) exec" where
  "configure_alias S cfg b = (case lc_node_alias cfg of
       None \<Rightarrow> ret b
     | Some a \<Rightarrow> try_parse (st_set_node_alias S a b) (\<lambda>e. BuildFailed (''invalid node alias: '' @ e)))"

definition start_from_config ::
  "('n, 'b, 't, 'k, 'a) start_api \<Rightarrow> crates \<Rightarrow> ldk_service_config
     \<Rightarrow> ('n, ldk_service_init_error, ('a, 'k) started_service) exec" where
  "start_from_config S C cfg =
     bnd (lift (validate cfg)) (\<lambda>_.
     bnd (lift (parse_network cfg)) (\<lambda>network.
     bnd (lift (vls_network cfg network)) (\<lambda>vls.
     let use_vls = (lc_signer_transport cfg \<noteq> ''none'') in
     bnd (signer_link S cfg vls) (\<lambda>transport.
     bnd (if use_vls
          then bnd (\<lambda>n. case st_keys_manager S transport (to_lowercase (lc_network cfg)) n of
                 (k, n') \<Rightarrow> (Ok k, n')) (\<lambda>k. ret (Some k))
          else ret None) (\<lambda>keys_manager.
     let b = st_set_storage_dir S (lc_ldk_storage_dir cfg)
               (st_set_chain_source S (lc_bitcoind_rpc_host cfg) (lc_bitcoind_rpc_port cfg)
                 (lc_bitcoind_rpc_user cfg) (lc_bitcoind_rpc_password cfg)
                 (st_set_network S network (st_builder_new S)));
         b = (case keys_manager of
                None \<Rightarrow> b
              | Some k \<Rightarrow> st_set_custom_wallet S k (st_set_custom_keys S k b)) in
     bnd (configure_listening S C cfg b) (\<lambda>b.
     bnd (configure_alias S cfg b) (\<lambda>b.
     bnd (init_call (st_build S b) BuildFailed) (\<lambda>node.
     bnd (init_call (st_start S node) StartFailed) (\<lambda>_.
     ret \<lparr>ss_node = node, ss_network = network, ss_keys_manager = keys_manager\<rparr>)))))))))"

end
