(* ===== verification/NodeMain.thy ===== *)
theory NodeMain
  imports LdkConfig
begin

text \<open>
  \<^verbatim>\<open>src/main.rs\<close>: from \<^verbatim>\<open>config.toml\<close> to the arguments of \<open>service::run\<close>, and the end of the program.
  What it prints is left out; key handling is \<^verbatim>\<open>nostr-sdk\<close>'s and a parameter (\<open>'key\<close> a key pair, \<open>'p\<close> a public key).
\<close>

record bitcoind_config =
  gb_rpc_host :: string
  gb_rpc_port :: u16
  gb_rpc_user :: string
  gb_rpc_password :: string

record signer_config =
  gs_transport :: string
  gs_relay :: "string option"
  gs_nsec :: "string option"
  gs_signer_pubkey :: "string option"

record config =
  g_network :: string
  g_listening_port :: u16
  g_data_dir :: string
  g_alias :: "string option"
  g_relay :: string
  g_private_key :: string
  g_owners :: "string list"
  g_max_channel_size_sats :: u64
  g_min_channel_size_sats :: u64
  g_auto_accept_channels :: bool
  g_bitcoind :: "bitcoind_config option"
  g_signer :: "signer_config option"

text \<open>\<open>service::NodeConfig\<close>.\<close>

record ('key, 'p) node_config =
  no_keys :: 'key
  no_relays :: "string list"
  no_owners :: "'p list"
  no_alias :: "string option"

record ('n, 'key, 'p) main_api =
  ma_keys_parse :: "string \<Rightarrow> string + 'key"
  ma_keys_generate :: "'n \<Rightarrow> 'key \<times> 'n"
  ma_public_key_bech32 :: "'key \<Rightarrow> string + string"
  ma_public_key_parse :: "string \<Rightarrow> string + 'p"

definition node_keys :: "('n, 'key, 'p) main_api \<Rightarrow> config \<Rightarrow> ('n, string, 'key) exec" where
  "node_keys M g = (case ma_keys_parse M (g_private_key g) of
       Inr keys \<Rightarrow> ret keys
     | Inl _ \<Rightarrow> (\<lambda>n. case ma_keys_generate M n of (keys, n') \<Rightarrow>
         (case ma_public_key_bech32 M keys of
            Inl e \<Rightarrow> (Err e, n')
          | Inr _ \<Rightarrow> (Ok keys, n'))))"

definition parse_owners :: "('n, 'key, 'p) main_api \<Rightarrow> string list \<Rightarrow> (string, 'p list) res" where
  "parse_owners M = collect_res (\<lambda>o'. case ma_public_key_parse M o' of
       Inr p \<Rightarrow> Ok p
     | Inl e \<Rightarrow> Panic (''nostr.owners: '' @ o' @ '' is not a public key: '' @ e))"

definition ldk_config_of :: "config \<Rightarrow> bitcoind_config \<Rightarrow> ldk_service_config" where
  "ldk_config_of g bitcoind =
     \<lparr>lc_network = g_network g,
      lc_bitcoind_rpc_host = gb_rpc_host bitcoind,
      lc_bitcoind_rpc_port = gb_rpc_port bitcoind,
      lc_bitcoind_rpc_user = gb_rpc_user bitcoind,
      lc_bitcoind_rpc_password = gb_rpc_password bitcoind,
      lc_ldk_storage_dir = g_data_dir g,
      lc_ldk_listen_addr = Some (''0.0.0.0:'' @ show_nat (unat (g_listening_port g))),
      lc_node_alias = g_alias g,
      lc_signer_transport = (case g_signer g of None \<Rightarrow> ''embedded'' | Some s \<Rightarrow> gs_transport s),
      lc_signer_relay = Option.bind (g_signer g) gs_relay,
      lc_signer_nsec = Option.bind (g_signer g) gs_nsec,
      lc_signer_pubkey = Option.bind (g_signer g) gs_signer_pubkey\<rparr>"

text \<open>\<open>Result::expect\<close>, by its fixed message.\<close>

definition expect :: "string \<Rightarrow> ('s, 'e, 'a) exec \<Rightarrow> ('s, 'f, 'a) exec" where
  "expect msg m s = (case m s of
       (Ok x, s') \<Rightarrow> (Ok x, s')
     | (Err _, s') \<Rightarrow> (Panic msg, s')
     | (Panic p, s') \<Rightarrow> (Panic p, s')
     | (Hang, s') \<Rightarrow> (Hang, s'))"

definition main_setup ::
  "('n, 'key, 'p) main_api \<Rightarrow> ('n, 'b, 't, 'k, 'a) start_api \<Rightarrow> crates \<Rightarrow> config
     \<Rightarrow> ('n, string, ('key, 'p) node_config \<times> ('a, 'k) started_service) exec" where
  "main_setup M S C g =
     bnd (node_keys M g) (\<lambda>keys.
     bnd (lift (parse_owners M (g_owners g))) (\<lambda>owners.
     bnd (case g_bitcoind g of
            None \<Rightarrow> panic (''bitcoind configuration is required: this node serves a Lightning '' @
              ''node and has nothing to answer with when there is none'')
          | Some b \<Rightarrow> ret b) (\<lambda>bitcoind.
     bnd (expect ''Failed to start LDK service'' (start_from_config S C (ldk_config_of g bitcoind))) (\<lambda>ldk.
     ret (\<lparr>no_keys = keys, no_relays = [g_relay g], no_owners = owners, no_alias = g_alias g\<rparr>, ldk)))))"

text \<open>
  \<open>main\<close>: the file system, the \<^verbatim>\<open>toml\<close> reader and \<open>service::run\<close> are parameters. The \<open>select!\<close> ends with
  whichever comes first, the service or the interrupt; a service that stops with an error ends in a panic.
\<close>

datatype serving_end = ServiceStopped "string option" | CtrlC

record ('n, 'key, 'p, 'a, 'k) program_api =
  pg_read_to_string :: "string \<Rightarrow> 'n \<Rightarrow> (string + string) \<times> 'n"
  pg_toml_from_str :: "string \<Rightarrow> string + config"
  pg_serve :: "('key, 'p) node_config \<Rightarrow> ('a, 'k) started_service \<Rightarrow> 'n \<Rightarrow> serving_end \<times> 'n"

definition load_config :: "('n, 'key, 'p, 'a, 'k) program_api \<Rightarrow> ('n, string, config) exec" where
  "load_config P =
     bnd (expect ''Failed to read config.toml'' (init_call (pg_read_to_string P ''config.toml'') id)) (\<lambda>contents.
     expect ''Failed to parse config.toml'' (try_parse (pg_toml_from_str P contents) id))"

definition serve_until_stopped ::
  "('n, 'key, 'p, 'a, 'k) program_api \<Rightarrow> ('key, 'p) node_config \<Rightarrow> ('a, 'k) started_service
     \<Rightarrow> ('n, string, unit) exec" where
  "serve_until_stopped P cfg ldk n = (case pg_serve P cfg ldk n of (stop, n') \<Rightarrow>
     (case stop of
        ServiceStopped (Some e) \<Rightarrow> (Panic ''service stopped'', n')
      | ServiceStopped None \<Rightarrow> (Ok (), n')
      | CtrlC \<Rightarrow> (Ok (), n')))"

definition node_main ::
  "('n, 'key, 'p) main_api \<Rightarrow> ('n, 'b, 't, 'k, 'a) start_api \<Rightarrow> crates
     \<Rightarrow> ('n, 'key, 'p, 'a, 'k) program_api \<Rightarrow> ('n, string, unit) exec" where
  "node_main M S C P =
     bnd (load_config P) (\<lambda>g.
     bnd (main_setup M S C g) (\<lambda>(cfg, ldk).
     serve_until_stopped P cfg ldk))"

end
