(* ===== verification/Service.thy ===== *)
theory Service
  imports WalletOffers ControlHandlers Events NodeMain
begin

text \<open>
  \<^verbatim>\<open>src/service.rs\<close>: the node as a whole. \<open>run\<close> hands the configuration and the two handlers to
  the service of \<^verbatim>\<open>nostr-ln\<close> and spawns the event pump. A state of the node is the world and whether
  the pump still runs; a step serves one wallet or control request, pumps one event, or is a move of
  the outside. What the service does before and after a handler (relays, grants, encryption) is
  \<^verbatim>\<open>nostr-ln\<close>'s; the steps below hold for every request it may pass on.
\<close>

section \<open>Wiring\<close>

text \<open>\<open>Control\<close> with its notifier slot.\<close>

record 'm control =
  ct_notifier :: "'m option"

definition control_new :: "'m control" where
  "control_new = \<lparr>ct_notifier = None\<rparr>"

definition with_notifier :: "'m \<Rightarrow> 'm control \<Rightarrow> 'm control" where
  "with_notifier notifier c = c\<lparr>ct_notifier := Some notifier\<rparr>"

definition control_notifier :: "'m control \<Rightarrow> 'm option" where
  "control_notifier c = ct_notifier c"

text \<open>What \<open>run\<close> passes to \<open>Service::new\<close>, and the handlers it registers.\<close>

record ('key, 'p, 'm) served =
  sv_keys :: 'key
  sv_relays :: "string list"
  sv_owners :: "'p list"
  sv_wallet_alias :: "string option"
  sv_control :: "'m control"
  sv_pump_notifier :: 'm

definition service_wiring :: "('key, 'p) node_config \<Rightarrow> 'm \<Rightarrow> ('key, 'p, 'm) served" where
  "service_wiring cfg notifier =
     \<lparr>sv_keys = no_keys cfg, sv_relays = no_relays cfg, sv_owners = no_owners cfg,
      sv_wallet_alias = no_alias cfg, sv_control = with_notifier notifier control_new,
      sv_pump_notifier = notifier\<rparr>"

section \<open>Requests\<close>

datatype wallet_request =
    RqGetInfo
  | RqGetBalance
  | RqPayInvoice pay_invoice_request
  | RqMakeInvoice make_invoice_request
  | RqLookupInvoice lookup_invoice_request
  | RqPayOnchain pay_onchain_request
  | RqMakeNewAddress "string option"
  | RqLookupAddress string
  | RqListAddresses
  | RqMakeHoldInvoice make_hold_invoice_request
  | RqSettleHoldInvoice string
  | RqCancelHoldInvoice string
  | RqPayKeysend pay_keysend_request
  | RqListTransactions list_transactions_request
  | RqLookupPayment lookup_payment_request
  | RqListInvoices list_invoices_request
  | RqMakeOffer make_offer_request
  | RqPayOffer pay_offer_request
  | RqListOffers "bool option"
  | RqDisableOffer string
  | RqQuotePayment quote_payment_request
  | RqPay pay_request
  | RqReceive receive_request

datatype control_request =
    RqListChannels
  | RqOpenChannel open_channel_request
  | RqCloseChannel close_channel_request
  | RqListPeers
  | RqConnectPeer connect_peer_request
  | RqDisconnectPeer string
  | RqGetChannelFees "string option"
  | RqSetChannelFees set_channel_fees_request
  | RqQueryRoutes query_routes_request
  | RqGetForwardingHistory forwarding_history_request
  | RqListNetworkNodes network_nodes_request
  | RqGetNetworkNode string
  | RqGetNetworkStats
  | RqGetNetworkChannel string

text \<open>The response goes to the service; what remains is whether there is one, and the world.\<close>

definition answered :: "('s, 'e, 'a) exec \<Rightarrow> ('s, 'e, unit) exec" where
  "answered m = bnd m (\<lambda>_. ret ())"

fun serve_wallet ::
  "'n deps \<Rightarrow> string list \<Rightarrow> string option \<Rightarrow> wallet_request \<Rightarrow> ('n world, nnc_error, unit) exec" where
  "serve_wallet D ms al RqGetInfo = answered (wallet_get_info D ms al)"
| "serve_wallet D ms al RqGetBalance = answered (wallet_get_balance D)"
| "serve_wallet D ms al (RqPayInvoice r) = answered (wallet_pay_invoice D r)"
| "serve_wallet D ms al (RqMakeInvoice r) = answered (wallet_make_invoice D r)"
| "serve_wallet D ms al (RqLookupInvoice r) = answered (wallet_lookup_invoice D r)"
| "serve_wallet D ms al (RqPayOnchain r) = answered (wallet_pay_onchain D r)"
| "serve_wallet D ms al (RqMakeNewAddress t) = answered (wallet_make_new_address D t)"
| "serve_wallet D ms al (RqLookupAddress a) = answered (wallet_lookup_address D a)"
| "serve_wallet D ms al RqListAddresses = answered (wallet_list_addresses D)"
| "serve_wallet D ms al (RqMakeHoldInvoice r) = answered (wallet_make_hold_invoice D r)"
| "serve_wallet D ms al (RqSettleHoldInvoice p) = answered (wallet_settle_hold_invoice D p)"
| "serve_wallet D ms al (RqCancelHoldInvoice h) = answered (wallet_cancel_hold_invoice D h)"
| "serve_wallet D ms al (RqPayKeysend r) = answered (wallet_pay_keysend D r)"
| "serve_wallet D ms al (RqListTransactions r) = answered (wallet_list_transactions D r)"
| "serve_wallet D ms al (RqLookupPayment r) = answered (wallet_lookup_payment D r)"
| "serve_wallet D ms al (RqListInvoices r) = answered (wallet_list_invoices D r)"
| "serve_wallet D ms al (RqMakeOffer r) = answered (wallet_make_offer D r)"
| "serve_wallet D ms al (RqPayOffer r) = answered (wallet_pay_offer D r)"
| "serve_wallet D ms al (RqListOffers a) = answered (wallet_list_offers D a)"
| "serve_wallet D ms al (RqDisableOffer i) = answered (wallet_disable_offer D i)"
| "serve_wallet D ms al (RqQuotePayment r) = answered (wallet_quote_payment D r)"
| "serve_wallet D ms al (RqPay r) = answered (wallet_pay D r)"
| "serve_wallet D ms al (RqReceive r) = answered (wallet_receive D r)"

fun serve_control :: "'n deps \<Rightarrow> control_request \<Rightarrow> ('n world, nnc_error, unit) exec" where
  "serve_control D RqListChannels = answered (control_list_channels D)"
| "serve_control D (RqOpenChannel r) = answered (control_open_channel D r)"
| "serve_control D (RqCloseChannel r) = answered (control_close_channel D r)"
| "serve_control D RqListPeers = answered (control_list_peers D)"
| "serve_control D (RqConnectPeer r) = answered (control_connect_peer D r)"
| "serve_control D (RqDisconnectPeer p) = answered (control_disconnect_peer D p)"
| "serve_control D (RqGetChannelFees i) = answered (control_get_channel_fees D i)"
| "serve_control D (RqSetChannelFees r) = answered (control_set_channel_fees D r)"
| "serve_control D (RqQueryRoutes r) = answered (control_query_routes D r)"
| "serve_control D (RqGetForwardingHistory r) = answered (control_get_forwarding_history D r)"
| "serve_control D (RqListNetworkNodes r) = answered (control_list_network_nodes D r)"
| "serve_control D (RqGetNetworkNode p) = answered (control_get_network_node D p)"
| "serve_control D RqGetNetworkStats = answered (control_get_network_stats D)"
| "serve_control D (RqGetNetworkChannel i) = answered (control_get_network_channel D i)"

section \<open>The event pump\<close>

text \<open>One round of the loop; an event is marked handled after it was announced. The wait for the next event may
take for ever; \<open>ca_next_event\<close> stands for the event it ends with, so a round is the loop from there on.\<close>

definition pump_once :: "'n deps \<Rightarrow> ('n, 'm) notifier \<Rightarrow> ('n world, nnc_error, unit) exec" where
  "pump_once D N =
     bnd (call (ca_next_event (channel_node D))) (\<lambda>event.
     bnd (handle_event D N event) (\<lambda>_.
     bnd (call (ca_event_handled (channel_node D))) (\<lambda>_.
     ret ())))"

section \<open>Steps of the node\<close>

text \<open>
  A panic in a handler ends that request only. A panic while an event is handled ends the spawned
  task, so the pump stops and the requests go on.
\<close>

inductive node_step ::
  "'n deps \<Rightarrow> ('n, 'm) notifier \<Rightarrow> string list \<Rightarrow> string option
     \<Rightarrow> 'n world \<times> bool \<Rightarrow> 'n world \<times> bool \<Rightarrow> bool"
  for D N ms al where
  wallet_served: "serve_wallet D ms al q w = (r, w') \<Longrightarrow> node_step D N ms al (w, p) (w', p)"
| control_served: "serve_control D k w = (r, w') \<Longrightarrow> node_step D N ms al (w, p) (w', p)"
| event_pumped: "pump_once D N w = (Ok (), w') \<Longrightarrow> node_step D N ms al (w, True) (w', True)"
| pump_stopped: "pump_once D N w = (Panic m, w') \<Longrightarrow> node_step D N ms al (w, True) (w', False)"
| outside_moved: "node_step D N ms al (w, p) (w\<lparr>host := n\<rparr>, p)"

inductive reachable ::
  "'n deps \<Rightarrow> ('n, 'm) notifier \<Rightarrow> string list \<Rightarrow> string option \<Rightarrow> 'n world \<times> bool \<Rightarrow> bool"
  for D N ms al where
  at_start: "reachable D N ms al (init_world n, True)"
| stepped: "reachable D N ms al s \<Longrightarrow> node_step D N ms al s s' \<Longrightarrow> reachable D N ms al s'"

end
