(* ===== verification/LdkInvariants.thy ===== *)
theory LdkInvariants
  imports LdkPayments LdkChannels LdkGraph Routing
begin

text \<open>
  The operations of \<open>LdkService\<close> as clients of \<open>host_invariant\<close>: they only talk to the outside, so each
  keeps every invariant that says nothing of it, and each leaves the three stores as they were
  (the interpretation \<open>frame\<close>).
\<close>

context host_invariant
begin

lemma keeps_run_wait: "keeps I (run_wait D' i t s)"
  by (rule keepsI) (auto simp: run_wait_def outside split: option.splits prod.splits)

lemma keeps_waiting: "keeps I (wait_for_outbound_payment D' i)"
  by (auto simp: wait_for_outbound_payment_def intro!: keeps_host keeps_run_wait)

lemma keeps_ldk_payments:
  "keeps I (ldk_sync_wallets D')" "keeps I (ldk_get_balance D')" "keeps I (ldk_new_onchain_address D')"
  "keeps I (ldk_make_hold_invoice D' a d e h)" "keeps I (ldk_settle_hold_invoice D' p)"
  "keeps I (ldk_cancel_hold_invoice D' h)" "keeps I (ldk_make_invoice D' a d dh e)"
  "keeps I (ldk_pay_invoice D' i am)" "keeps I (ldk_pay_keysend D' k a)"
  "keeps I (ldk_pay_onchain D' ad a f)" "keeps I (ldk_make_offer D' a desc ex)"
  "keeps I (ldk_pay_offer D' o' am pn)" "keeps I (ldk_lookup_payment_by_hash D' h)"
  "keeps I (ldk_lookup_payment_by_bolt11 D' i)"
  "keeps I (ldk_list_payments_filtered D' f u l off un dir pm)"
  unfolding ldk_sync_wallets_def ldk_get_balance_def ldk_new_onchain_address_def
    ldk_make_hold_invoice_def ldk_settle_hold_invoice_def ldk_cancel_hold_invoice_def
    ldk_make_invoice_def ldk_pay_invoice_def ldk_pay_keysend_def ldk_pay_onchain_def
    ldk_make_offer_def ldk_pay_offer_def ldk_lookup_payment_by_bolt11_def
    ldk_lookup_payment_by_hash_def ldk_list_payments_filtered_def
  by (intro keeps_host keeps_waiting)+

lemma keeps_ldk_channels:
  "keeps I (ldk_notify_channel_ready D' u)" "keeps I (ldk_node_id D')" "keeps I (ldk_status D')"
  "keeps I (ldk_open_channel D' k h a pm)" "keeps I (ldk_connect_peer D' k h)"
  "keeps I (ldk_disconnect_peer D' k)" "keeps I (ldk_list_channels D')" "keeps I (ldk_list_peers D')"
  "keeps I (ldk_close_channel D' i f)" "keeps I (ldk_get_channel_fees D' ci)"
  "keeps I (ldk_set_channel_fees D' i b r)"
  unfolding ldk_notify_channel_ready_def ldk_node_id_def ldk_status_def ldk_open_channel_def
    ldk_connect_peer_def ldk_disconnect_peer_def ldk_list_channels_def ldk_list_peers_def
    ldk_close_channel_def ldk_get_channel_fees_def ldk_set_channel_fees_def
  by (intro keeps_host)+

lemma keeps_ldk_graph:
  "keeps I (ldk_list_network_nodes D' l off)" "keeps I (ldk_get_network_node D' k)"
  "keeps I (ldk_get_network_stats D')" "keeps I (ldk_get_network_channel D' i)"
  "keeps I (ldk_find_routes D' d a m)"
  unfolding ldk_list_network_nodes_def ldk_get_network_node_def ldk_get_network_stats_def
    ldk_get_network_channel_def ldk_find_routes_def Let_def
  by (intro keeps_host)+

end

end
