(* ===== verification/SimNode.thy ===== *)
theory SimNode
  imports LdkEnv
begin

text \<open>
  One concrete environment for the parameters of \<open>deps\<close>: a node that answers from fixed data. The
  examples of the development run the model on it. Nothing is proved from its shape; the
  theorems quantify over every environment.
\<close>

record sim_host =
  sh_secs :: "u64 option"
  sh_ns :: nat
  sh_payments :: "payment_details list"
  sh_channels :: "channel_details list"
  sh_graph :: network_graph
  sh_balance :: balance_details
  sh_next :: ldk_event

definition sim_invoice :: "string \<Rightarrow> u64 option \<Rightarrow> bolt11_invoice" where
  "sim_invoice s amount = \<lparr>bi_text = s, bi_payment_hash = replicate 64 (CHR ''0''),
     bi_amount_milli_satoshis = amount, bi_expires_at = None, bi_payee_pub_key = ''b''\<rparr>"

definition sim_text :: "string \<Rightarrow> string + string" where
  "sim_text s = (if s = [] then Inl ''empty'' else Inr s)"

definition sim_hex_decode :: "string \<Rightarrow> string + u8 list" where
  "sim_hex_decode s = (case decode_hex s of Ok b \<Rightarrow> Inr b | _ \<Rightarrow> Inl ''not hex'')"

text \<open>A node id is the bytes of its text; the hash is the reversed input.\<close>

definition sim_crates :: crates where
  "sim_crates = \<lparr>
     cr_bolt11_from_str = (\<lambda>s. if s = [] then Inl ''empty'' else Inr (sim_invoice s None)),
     cr_description_new = Inr,
     cr_offer_from_str = (\<lambda>s. if s = [] then Inl ''empty'' else Inr \<lparr>bo_text = s, bo_id = replicate 32 7\<rparr>),
     cr_public_key_from_str = (\<lambda>s. if s = [] then Inl ''empty'' else Inr (PublicKey s)),
     cr_node_id_from_pubkey = (\<lambda>p. NodeId (map of_char (pk_text p))),
     cr_node_id_text = (\<lambda>n. hex_string (as_slice n)),
     cr_socket_address_from_str = sim_text,
     cr_address_for_network = (\<lambda>_. sim_text),
     cr_uri_address_parse = Some,
     cr_bip321_parse = (\<lambda>s. if s = [] then Inl ''empty'' else Inr (new_uri\<lparr>u_lightning := [s]\<rparr>)),
     cr_bip321_text = (\<lambda>u. concat (u_lightning u) @ concat (u_lno u)),
     cr_hex_decode = sim_hex_decode,
     cr_hex_encode = hex_string,
     cr_sha256 = rev,
     cr_sha256_text = (\<lambda>b. hex_string (rev b))\<rparr>"

definition sim_wallet :: "sim_host wallet_api" where
  "sim_wallet = \<lparr>
     wa_sync_wallets = (\<lambda>h. (Inr (), h)),
     wa_list_balances = (\<lambda>h. (sh_balance h, h)),
     wa_new_address = (\<lambda>h. (Inr ''bc1p'', h)),
     wa_receive = (\<lambda>a d e h. (Inr (sim_invoice ''lnbc'' (Some a)), h)),
     wa_receive_for_hash = (\<lambda>a d e p h. (Inr (sim_invoice ''lnbc'' (Some a)), h)),
     wa_claim_for_hash = (\<lambda>p a pre h. (Inr (), h)),
     wa_fail_for_hash = (\<lambda>p h. (Inr (), h)),
     wa_send = (\<lambda>i h. (Inr (replicate 32 1), h)),
     wa_send_using_amount = (\<lambda>i a h. (Inr (replicate 32 1), h)),
     wa_spontaneous_send = (\<lambda>a k h. (Inr (replicate 32 1), h)),
     wa_bolt12_receive = (\<lambda>a d e h. (Inr \<lparr>bo_text = ''lno1'', bo_id = replicate 32 7\<rparr>, h)),
     wa_bolt12_send = (\<lambda>off pn h. (Inr (replicate 32 1), h)),
     wa_send_to_address = (\<lambda>ad a h. (Inr ''txid'', h)),
     wa_payment = (\<lambda>i h. (find (\<lambda>p. pd_id p = i) (sh_payments h), h)),
     wa_list_payments = (\<lambda>h. (sh_payments h, h))\<rparr>"

definition sim_channel :: "sim_host channel_api" where
  "sim_channel = \<lparr>
     ca_open_channel = (\<lambda>k ad a p h. (Inr 1, h)),
     ca_connect = (\<lambda>k ad b h. (Inr (), h)),
     ca_disconnect = (\<lambda>k h. (Inr (), h)),
     ca_stop = (\<lambda>h. (Inr (), h)),
     ca_list_channels = (\<lambda>h. (sh_channels h, h)),
     ca_list_peers = (\<lambda>h. ([], h)),
     ca_close_channel = (\<lambda>u k h. (Inr (), h)),
     ca_force_close_channel = (\<lambda>u k m h. (Inr (), h)),
     ca_update_channel_config = (\<lambda>u k c h. (Inr (),
       h\<lparr>sh_channels := map (\<lambda>d. if cd_user_channel_id d = u then d\<lparr>cd_config := c\<rparr> else d) (sh_channels h)\<rparr>)),
     ca_signer_channel_ready = (\<lambda>u h. (Inr (), h)),
     ca_node_id = (\<lambda>h. (PublicKey ''a'', h)),
     ca_best_block_height = (\<lambda>h. (1, h)),
     ca_network_graph = (\<lambda>h. (sh_graph h, h)),
     ca_next_event = (\<lambda>h. (sh_next h, h)),
     ca_event_handled = (\<lambda>h. (Inr (), h))\<rparr>"

definition sim_platform :: "sim_host platform" where
  "sim_platform = \<lparr>
     pl_clock = (\<lambda>h. (sh_secs h, h)),
     pl_instant = (\<lambda>h. (sh_ns h, h)),
     pl_sleep = (\<lambda>d h. h\<lparr>sh_ns := sh_ns h + d\<rparr>),
     pl_env_var = (\<lambda>v h. (None, h))\<rparr>"

definition sim_deps :: "bool \<Rightarrow> sim_host deps" where
  "sim_deps ck = \<lparr>overflow_checks = ck, hash_buckets = (\<lambda>ks k. length k), crate = sim_crates,
     wallet_node = sim_wallet, channel_node = sim_channel, platform = sim_platform,
     service = \<lparr>svc_network = Regtest, svc_keys_manager = False\<rparr>\<rparr>"

definition empty_graph :: network_graph where
  "empty_graph = \<lparr>ng_list_nodes = [], ng_node = (\<lambda>_. None), ng_list_channels = [], ng_channel = (\<lambda>_. None)\<rparr>"

definition sim_start :: sim_host where
  "sim_start = \<lparr>sh_secs = Some 1000, sh_ns = 0, sh_payments = [], sh_channels = [], sh_graph = empty_graph,
     sh_balance = \<lparr>bal_spendable_onchain_balance_sats = 5, bal_total_lightning_balance_sats = 7\<rparr>,
     sh_next = OtherEvent\<rparr>"

lemmas sim_defs = sim_deps_def sim_platform_def sim_channel_def sim_wallet_def sim_crates_def
  sim_invoice_def sim_text_def sim_start_def empty_graph_def init_world_def

text \<open>Two small graphs: a channel is two nodes and the base fee it charges either way.\<close>

definition sim_update :: "u32 \<Rightarrow> channel_update" where
  "sim_update fee = \<lparr>cu_enabled = True, cu_last_update = 0, cu_cltv_expiry_delta = 10,
     cu_htlc_minimum_msat = 1, cu_htlc_maximum_msat = 1000000, cu_base_msat = fee,
     cu_proportional_millionths = 0\<rparr>"

definition sim_graph :: "(u8 \<times> u8 \<times> u32) list \<Rightarrow> network_graph" where
  "sim_graph cs = \<lparr>ng_list_nodes = [], ng_node = (\<lambda>_. None),
     ng_list_channels = map of_nat [0 ..< length cs],
     ng_channel = (\<lambda>i. if unat i < length cs then (case cs ! unat i of (a, b, fee) \<Rightarrow>
       Some \<lparr>gc_node_one = NodeId [a], gc_node_two = NodeId [b], gc_one_to_two = Some (sim_update fee),
         gc_two_to_one = Some (sim_update fee), gc_capacity_sats = Some 1000\<rparr>) else None)\<rparr>"

text \<open>97, 98, 99: a triangle in which the way over the middle node is the cheaper one.\<close>

definition triangle :: network_graph where
  "triangle = sim_graph [(97, 98, 1), (98, 99, 2), (97, 99, 10)]"

text \<open>A free chain of six channels from 97 to 103, a direct channel 97 to 103, and 103 to 104.\<close>

definition detour :: network_graph where
  "detour = sim_graph [(97, 98, 0), (98, 99, 0), (99, 100, 0), (100, 101, 0), (101, 102, 0), (102, 103, 0),
     (97, 103, 5), (103, 104, 0)]"

end
