(* ===== verification/Invariants.thy ===== *)
theory Invariants
  imports Service LdkInvariants SimNode "HOL-Library.Sublist"
begin

text \<open>
  Every operation of the node keeps every invariant of the locale \<open>store_invariant\<close>: the client side
  of that contract, one lemma per operation in the order of the code. The lemmas are then used on
  the interpretations of \<^verbatim>\<open>LdkEnv\<close> and on the one below, \<open>traced\<close>, which says that whatever the node
  does to its stores is a sequence of atomic writes.
\<close>

context store_invariant
begin

lemmas keeps_ldk = keeps_base keeps_ldk_payments keeps_ldk_channels keeps_ldk_graph

lemma keeps_wallet_core:
  "keeps I (wallet_get_info D ms al)" "keeps I (wallet_get_balance D)"
  "keeps I (wallet_pay_invoice D r1)" "keeps I (wallet_make_invoice D r2)"
  "keeps I (wallet_lookup_invoice D r3)" "keeps I (wallet_pay_onchain D r4)"
  "keeps I (wallet_make_new_address D t)" "keeps I (wallet_lookup_address D a)"
  "keeps I (wallet_list_addresses D)"
  unfolding wallet_get_info_def wallet_get_balance_def wallet_pay_invoice_def wallet_make_invoice_def
    wallet_lookup_invoice_def wallet_pay_onchain_def wallet_make_new_address_def
    wallet_lookup_address_def wallet_list_addresses_def
  by (intro keeps_ldk)+

lemma keeps_wallet_records:
  "keeps I (wallet_make_hold_invoice D r1)" "keeps I (wallet_settle_hold_invoice D p)"
  "keeps I (wallet_cancel_hold_invoice D h)" "keeps I (wallet_pay_keysend D r2)"
  "keeps I (wallet_list_transactions D r3)" "keeps I (wallet_lookup_payment D r4)"
  "keeps I (wallet_list_invoices D r5)"
  unfolding wallet_make_hold_invoice_def wallet_settle_hold_invoice_def
    wallet_cancel_hold_invoice_def wallet_pay_keysend_def wallet_list_transactions_def
    wallet_lookup_payment_def wallet_list_invoices_def Let_def
  by (intro keeps_ldk)+

lemma keeps_offer_expiry: "keeps I (offer_expiry D e)"
  unfolding offer_expiry_def by (intro keeps_ldk)

lemma keeps_paid: "keeps I (paid D i a p t f)"
  unfolding paid_def by (intro keeps_ldk)

lemma keeps_receive_entry: "keeps I (receive_entry D r e acc)"
  unfolding receive_entry_def receive_bolt11_def receive_bolt12_def receive_onchain_def Let_def
  by (intro keeps_ldk)

lemma keeps_wallet_offers:
  "keeps I (wallet_make_offer D r1)" "keeps I (wallet_pay_offer D r2)" "keeps I (wallet_list_offers D a)"
  "keeps I (wallet_disable_offer D i)" "keeps I (wallet_quote_payment D r3)" "keeps I (wallet_pay D r4)"
  "keeps I (wallet_receive D r5)"
  unfolding wallet_make_offer_def wallet_pay_offer_def wallet_list_offers_def wallet_disable_offer_def
    wallet_quote_payment_def wallet_pay_def wallet_receive_def Let_def
  by (intro keeps_ldk keeps_offer_expiry keeps_paid keeps_receive_entry)+

lemma keeps_control:
  "keeps I (control_list_channels D)" "keeps I (control_open_channel D r1)"
  "keeps I (control_close_channel D r2)" "keeps I (control_list_peers D)"
  "keeps I (control_connect_peer D r3)" "keeps I (control_disconnect_peer D p)"
  "keeps I (control_get_channel_fees D ci)" "keeps I (control_set_channel_fees D r4)"
  "keeps I (control_query_routes D r5)" "keeps I (control_get_forwarding_history D r6)"
  "keeps I (control_list_network_nodes D r7)" "keeps I (control_get_network_node D p)"
  "keeps I (control_get_network_stats D)" "keeps I (control_get_network_channel D i)"
  unfolding control_list_channels_def control_open_channel_def control_close_channel_def
    control_list_peers_def control_connect_peer_def control_disconnect_peer_def
    control_get_channel_fees_def control_set_channel_fees_def control_query_routes_def
    control_get_forwarding_history_def control_list_network_nodes_def control_get_network_node_def
    control_get_network_stats_def control_get_network_channel_def
  by (intro keeps_ldk)+

lemma keeps_announce: "keeps I (announce_wallet N n)" "keeps I (announce_control N n)"
  unfolding announce_wallet_def announce_control_def by (intro keeps_ldk)+

lemma keeps_handle_event: "keeps I (handle_event D N ev)"
  by (cases ev) (auto simp: event_payment_def Let_def intro!: keeps_ldk keeps_announce)

lemma keeps_answered: "keeps I m \<Longrightarrow> keeps I (answered m)"
  unfolding answered_def by (intro keeps_ldk)

lemma keeps_served: "keeps I (serve_wallet D ms al q)" "keeps I (serve_control D k)"
proof -
  show "keeps I (serve_wallet D ms al q)"
    by (cases q) (simp_all add: keeps_answered keeps_wallet_core keeps_wallet_records keeps_wallet_offers)
  show "keeps I (serve_control D k)"
    by (cases k) (simp_all add: keeps_answered keeps_control)
qed

lemma keeps_pump_once: "keeps I (pump_once D N)"
  unfolding pump_once_def by (intro keeps_ldk keeps_handle_event)

lemma node_step_keeps: "node_step D N ms al s s' \<Longrightarrow> I (fst s) \<Longrightarrow> I (fst s')"
  by (induction rule: node_step.induct)
    (auto dest: keepsD [OF keeps_served(1)] keepsD [OF keeps_served(2)] keepsD [OF keeps_pump_once]
      intro: outside)

lemma reachable_keeps:
  assumes "reachable D N ms al s" and "\<And>n. I (init_world n)"
  shows "I (fst s)"
  using assms by (induction rule: reachable.induct) (auto intro: node_step_keeps)

end

section \<open>Atomic writes\<close>

text \<open>
  The finest view of the node's state: one write to one store under its lock, or a move of the
  outside. Handlers of concurrent requests interleave at this grain.
\<close>

inductive atomic_write :: "'n deps \<Rightarrow> 'n world \<Rightarrow> 'n world \<Rightarrow> bool"
  for D where
  host_moved: "atomic_write D w (w\<lparr>host := n\<rparr>)"
| offer_added: "\<not> poisoned (offer_db w) \<Longrightarrow> atomic_write D w (w\<lparr>offer_db :=
    RwLock (hm_insert (hash_buckets D) o' (new_offer_record o' d a i) (guarded (offer_db w))) False\<rparr>)"
| offer_switched_off: "\<not> poisoned (offer_db w) \<Longrightarrow> atomic_write D w (w\<lparr>offer_db :=
    RwLock (hm_modify o' deactivate (guarded (offer_db w))) False\<rparr>)"
| address_added: "\<not> poisoned (address_db w) \<Longrightarrow> atomic_write D w (w\<lparr>address_db :=
    RwLock (hm_or_insert (hash_buckets D) s \<lparr>ar_address = s, ar_transactions = []\<rparr>
      (guarded (address_db w))) False\<rparr>)"
| forward_added: "\<not> poisoned (forward_db w) \<Longrightarrow> atomic_write D w (w\<lparr>forward_db :=
    RwLock (guarded (forward_db w) @ [e]) False\<rparr>)"

inductive_cases atomic_writeE: "atomic_write D w w'"

interpretation traced: store_invariant "\<lambda>w. (atomic_write D)\<^sup>*\<^sup>* w0 w" D
  by unfold_locales (auto intro: rtranclp.rtrancl_into_rtrancl atomic_write.intros)

text \<open>An invariant of the locale is one of the interleaved writes of any number of handlers.\<close>

context store_invariant
begin

lemma atomic_write_keeps: "atomic_write D w w' \<Longrightarrow> I w \<Longrightarrow> I w'"
  by (induction rule: atomic_write.induct)
    (auto intro: outside new_offer offer_disabled new_address forward_logged)

lemma atomic_writes_keep: "(atomic_write D)\<^sup>*\<^sup>* w w' \<Longrightarrow> I w \<Longrightarrow> I w'"
  by (induction rule: rtranclp_induct) (auto intro: atomic_write_keeps)

end

end
