(* ===== verification/PaymentProps.thy ===== *)
theory PaymentProps
  imports WalletOffers SimNode
begin

text \<open>
  Properties of the payment half of \<open>LdkService\<close> and of the handlers over it: balances, the loop that
  waits for an outbound payment, hold invoices, payment records and their listing.
\<close>

section \<open>Balances\<close>

lemma checked_add_of_nat:
  assumes "a < 2 ^ 64" and "b < 2 ^ 64"
  shows "checked_add (of_nat a :: u64) (of_nat b) = (if 2 ^ 64 \<le> a + b then None else Some (of_nat (a + b)))"
proof -
  have "unat (of_nat c :: u64) = c" if "c < 2 ^ 64" for c
    using that by (simp add: unat_of_nat take_bit_eq_mod)
  then show ?thesis using assms by (simp add: checked_add_def)
qed

text \<open>The sum of satoshis computed for the error never overflows, so neither build profile panics.\<close>

lemma ldk_get_balance_run:
  assumes "wa_list_balances (wallet_node D) (host w) = (b, n)"
  shows "ldk_get_balance D w =
    (let onchain = bal_spendable_onchain_balance_sats b; lightning = bal_total_lightning_balance_sats b in
     if 2 ^ 64 \<le> unat onchain * 1000 then Err (BalanceOverflow onchain)
     else if 2 ^ 64 \<le> unat lightning * 1000 then Err (BalanceOverflow lightning)
     else if 2 ^ 64 \<le> (unat onchain + unat lightning) * 1000 then Err (BalanceOverflow (onchain + lightning))
     else Ok \<lparr>lb_total_msat = of_nat ((unat onchain + unat lightning) * 1000),
       lb_lightning_msat = of_nat (unat lightning * 1000), lb_onchain_msat = of_nat (unat onchain * 1000)\<rparr>,
     w\<lparr>host := n\<rparr>)"
proof -
  let ?a = "bal_spendable_onchain_balance_sats b" and ?l = "bal_total_lightning_balance_sats b"
  define A where "A \<longleftrightarrow> 2 ^ 64 \<le> unat ?a * 1000"
  define L where "L \<longleftrightarrow> 2 ^ 64 \<le> unat ?l * 1000"
  define S where "S \<longleftrightarrow> 2 ^ 64 \<le> (unat ?a + unat ?l) * 1000"
  have mul: "checked_mul ?a 1000 = (if A then None else Some (of_nat (unat ?a * 1000)))"
    "checked_mul ?l 1000 = (if L then None else Some (of_nat (unat ?l * 1000)))"
    by (auto simp: checked_mul_def A_def L_def)
  have small: "add_ck ck ?a ?l = Ok (?a + ?l)" if "\<not> A" "\<not> L" for ck
    using that by (simp add: add_ck_def A_def L_def)
  have add: "checked_add (of_nat (unat ?a * 1000) :: u64) (of_nat (unat ?l * 1000)) =
      (if S then None else Some (of_nat ((unat ?a + unat ?l) * 1000)))" if "\<not> A" "\<not> L"
    using that checked_add_of_nat [of "unat ?a * 1000" "unat ?l * 1000"]
    by (simp only: A_def L_def S_def not_le distrib_right)
  have run: "ldk_get_balance D w =
    (if A then Err (BalanceOverflow ?a) else if L then Err (BalanceOverflow ?l)
     else if S then Err (BalanceOverflow (?a + ?l))
     else Ok \<lparr>lb_total_msat = of_nat ((unat ?a + unat ?l) * 1000),
       lb_lightning_msat = of_nat (unat ?l * 1000), lb_onchain_msat = of_nat (unat ?a * 1000)\<rparr>, w\<lparr>host := n\<rparr>)"
    unfolding ldk_get_balance_def bnd_def call_def assms lift_def
    by (cases A; cases L; cases S) (simp_all add: mul small add ret_def raise_def del: of_nat_mult of_nat_add)
  show ?thesis unfolding Let_def A_def [symmetric] L_def [symmetric] S_def [symmetric] by (rule run)
qed

lemma whole_msat: "unat (a :: u64) * 1000 < 2 ^ 64 \<Longrightarrow> of_nat (unat a * 1000) div 1000 = a"
proof -
  assume fits: "unat a * 1000 < 2 ^ 64"
  then have "unat (of_nat (unat a * 1000) :: u64) = unat a * 1000" by (simp add: unat_of_nat take_bit_eq_mod del: of_nat_mult)
  then have "unat (of_nat (unat a * 1000) div 1000 :: u64) = unat a" by (simp add: unat_div)
  then show ?thesis by (simp add: word_unat_eq_iff)
qed

text \<open>C20: \<open>get_balance\<close> answers, after a successful synchronization, the total and the Lightning balance exactly in
millisatoshi and the on-chain balance exactly in satoshi, or an error that names the balance whose millisatoshi
do not fit in 64 bits; when the synchronization fails that is the error, and no balance is read. It does not
panic in either build profile.\<close>

theorem get_balance_exact:
  assumes "wa_sync_wallets (wallet_node D) (host w) = (synced, n0)" and "wa_list_balances (wallet_node D) n0 = (b, n)"
  shows "wallet_get_balance D w = (case synced of
      Inl e \<Rightarrow> (Err (NncError Internal (''sync: ldk wallet sync failed: '' @ e)), w\<lparr>host := n0\<rparr>)
    | Inr _ \<Rightarrow> (let onchain = bal_spendable_onchain_balance_sats b; lightning = bal_total_lightning_balance_sats b;
          too_big = (\<lambda>sats. Err (NncError Internal (''balance: balance conversion overflow for sats='' @ show_word sats))) in
        if 2 ^ 64 \<le> unat onchain * 1000 then too_big onchain
        else if 2 ^ 64 \<le> unat lightning * 1000 then too_big lightning
        else if 2 ^ 64 \<le> (unat onchain + unat lightning) * 1000 then too_big (onchain + lightning)
        else Ok \<lparr>gb_balance = of_nat ((unat onchain + unat lightning) * 1000),
          gb_lightning_balance = Some (of_nat (unat lightning * 1000)), gb_onchain_balance_sats = Some onchain\<rparr>,
       w\<lparr>host := n\<rparr>))"
proof (cases synced)
  case (Inl e)
  with assms(1) show ?thesis
    by (simp add: wallet_get_balance_def ldk_sync_wallets_def exec_defs try_call_def ldk_err_def)
next
  case (Inr u)
  let ?w = "w\<lparr>host := n0\<rparr>" and ?a = "bal_spendable_onchain_balance_sats b" and ?l = "bal_total_lightning_balance_sats b"
  have "ldk_sync_wallets D w = (Ok u, ?w)" using assms(1) Inr by (simp add: ldk_sync_wallets_def)
  moreover have "wa_list_balances (wallet_node D) (host ?w) = (b, n)" using assms(2) by simp
  note run = ldk_get_balance_run [OF this]
  ultimately show ?thesis
    by (simp add: Inr wallet_get_balance_def exec_defs run Let_def ldk_err_def whole_msat not_le del: of_nat_mult of_nat_add)
qed

theorem get_balance_exact_witness:
  "fst (wallet_get_balance (sim_deps True) (init_world sim_start)) =
     Ok \<lparr>gb_balance = 12000, gb_lightning_balance = Some 7000, gb_onchain_balance_sats = Some 5\<rparr>"
  using get_balance_exact [of "sim_deps True" "init_world sim_start" "Inr ()" sim_start "sh_balance sim_start" sim_start]
  by (simp add: sim_deps_def sim_wallet_def init_world_def sim_start_def)

section \<open>Waiting for an outbound payment\<close>

text \<open>
  What the standard library says of \<open>Instant\<close> and \<open>sleep\<close>: the clock does not go back, and a sleep
  lasts at least as long as asked.
\<close>

definition steady :: "'n deps \<Rightarrow> ('n \<Rightarrow> nat) \<Rightarrow> bool" where
  "steady D clock \<longleftrightarrow>
     (\<forall>n. fst (pl_instant (platform D) n) = clock n \<and> clock n \<le> clock (snd (pl_instant (platform D) n))) \<and>
     (\<forall>n. clock n \<le> clock (snd (wa_list_payments (wallet_node D) n))) \<and>
     (\<forall>d n. clock n + d \<le> clock (pl_sleep (platform D) d n))"

text \<open>The loop with a bound on the number of looks at the payments.\<close>

fun wait_polls ::
  "nat \<Rightarrow> 'n deps \<Rightarrow> u8 list \<Rightarrow> nat \<Rightarrow> nat \<Rightarrow> 'n
     \<Rightarrow> ((ldk_service_error, ldk_payment_result) res \<times> 'n) option" where
  "wait_polls 0 D payment_id timeout start n = None"
| "wait_polls (Suc k) D payment_id timeout start n =
     (case wa_list_payments (wallet_node D) n of (payments, n1) \<Rightarrow>
      (case payment_outcome payment_id payments of
         Some r \<Rightarrow> Some (r, n1)
       | None \<Rightarrow>
         (case pl_instant (platform D) n1 of (t, n2) \<Rightarrow>
          (if timeout < t - start
           then Some (Err (PaymentFailed ''timeout waiting for payment outcome''), n2)
           else wait_polls k D payment_id timeout start (pl_sleep (platform D) poll_interval_ns n2)))))"

lemma wait_polls_loop: "wait_polls k D i timeout start n = Some x \<Longrightarrow> wait_loop D i timeout start n = Some x"
proof (induction k arbitrary: n)
  case (Suc k)
  then show ?case
    by (subst wait_loop.simps) (auto split: prod.splits option.splits if_splits)
qed simp

lemma wait_polls_enough:
  assumes "steady D clock"
  shows "timeout + start < clock n + k * poll_interval_ns \<Longrightarrow> wait_polls (Suc k) D i timeout start n \<noteq> None"
proof (induction k arbitrary: n)
  case 0
  obtain ps n1 where l: "wa_list_payments (wallet_node D) n = (ps, n1)" by fastforce
  obtain t n2 where t: "pl_instant (platform D) n1 = (t, n2)" by fastforce
  have "clock n \<le> clock n1" "t = clock n1"
    using assms l t unfolding steady_def by (metis snd_conv, metis fst_conv)
  with 0 l t show ?case by (auto split: option.splits)
next
  case (Suc k)
  obtain ps n1 where l: "wa_list_payments (wallet_node D) n = (ps, n1)" by fastforce
  obtain t n2 where t: "pl_instant (platform D) n1 = (t, n2)" by fastforce
  let ?n3 = "pl_sleep (platform D) poll_interval_ns n2"
  have "clock n \<le> clock n1" "clock n1 \<le> clock n2"
    using assms l t unfolding steady_def by (metis snd_conv)+
  moreover have "clock n2 + poll_interval_ns \<le> clock ?n3" using assms by (simp add: steady_def)
  ultimately have "timeout + start < clock ?n3 + k * poll_interval_ns" using Suc.prems by simp
  from Suc.IH [OF this] show ?case
    by (subst wait_polls.simps(2)) (auto simp: l t split: option.splits simp del: wait_polls.simps)
qed

lemma wait_loop_returns:
  assumes "steady D clock" and "start \<le> clock n"
  shows "\<exists>x. wait_polls (timeout div poll_interval_ns + 2) D i timeout start n = Some x \<and>
    wait_loop D i timeout start n = Some x"
proof -
  let ?k = "Suc (timeout div poll_interval_ns)"
  have pos: "0 < poll_interval_ns" by (simp add: poll_interval_ns_def)
  have "timeout < ?k * poll_interval_ns"
    using dividend_less_times_div [OF pos, of timeout] by (simp add: mult.commute)
  then have "timeout + start < clock n + ?k * poll_interval_ns" using assms(2) by linarith
  from wait_polls_enough [OF assms(1) this, of i] obtain x where
    "wait_polls (Suc ?k) D i timeout start n = Some x" by auto
  with wait_polls_loop show ?thesis by (metis add_2_eq_Suc')
qed

text \<open>The loop's own outcome is a result or an error; success is a listed payment that succeeded.\<close>

definition settled_payment :: "u8 list \<Rightarrow> payment_details list \<Rightarrow> ldk_payment_result \<Rightarrow> bool" where
  "settled_payment i ps r \<longleftrightarrow> (\<exists>p preimage. p \<in> set ps \<and> pd_id p = i \<and> pd_direction p = Outbound \<and>
     pd_status p = Succeeded \<and> outcome_preimage (pd_kind p) = Some preimage \<and>
     pr_preimage r = hex_string preimage \<and> pr_fees_paid_msat r = pd_fee_paid_msat p)"

lemma payment_outcome_Ok: "payment_outcome i ps = Some (Ok r) \<Longrightarrow> settled_payment i ps r"
  unfolding payment_outcome_def settled_payment_def
  by (auto dest!: find_Some_iff [THEN iffD1] split: option.splits payment_status.splits) (metis nth_mem)+

lemma payment_outcome_plain: "payment_outcome i ps = Some r \<Longrightarrow> (\<exists>x. r = Ok x) \<or> (\<exists>e. r = Err e)"
  unfolding payment_outcome_def by (auto split: option.splits payment_status.splits)

lemma wait_loop_outcome:
  assumes "wait_loop D i timeout start (n :: 'n) = Some (r, n')"
  shows "((\<exists>x. r = Ok x) \<or> (\<exists>e. r = Err e)) \<and>
    (\<forall>x. r = Ok x \<longrightarrow> (\<exists>n0 ps. wa_list_payments (wallet_node D) n0 = (ps, n') \<and> settled_payment i ps x))"
proof -
  let ?P = "\<lambda>D i (timeout :: nat) (start :: nat) (n :: 'n) y. ((\<exists>x. fst y = Ok x) \<or> (\<exists>e. fst y = Err e)) \<and>
    (\<forall>x. fst y = Ok x \<longrightarrow> (\<exists>n0 ps. wa_list_payments (wallet_node D) n0 = (ps, snd y) \<and> settled_payment i ps x))"
  have "?P D i timeout start n (r, n')"
  proof (rule wait_loop.raw_induct [where P = ?P, OF _ assms], goal_cases)
    case loop: (1 wait D i timeout start n y)
    obtain ps n1 where l: "wa_list_payments (wallet_node D) n = (ps, n1)" by fastforce
    obtain t n2 where t: "pl_instant (platform D) n1 = (t, n2)" by fastforce
    show ?case
    proof (cases "payment_outcome i ps")
      case (Some o')
      with loop(2) l have "y = (o', n1)" by simp
      with payment_outcome_plain [OF Some] l Some show ?thesis
        by (auto intro!: exI [of _ n] payment_outcome_Ok)
    next
      case None
      with loop l t show ?thesis by (auto split: if_splits)
    qed
  qed
  then show ?thesis by simp
qed

text \<open>C5: waiting for an outbound payment ends. With a steady clock the loop looks at the payments at
most as often as 100 millisecond sleeps fit in the timeout, plus two, and what it then answers is a
result or an error.\<close>

theorem wait_loop_bounded:
  assumes "steady D clock" and "start \<le> clock n"
  shows "\<exists>r n'. wait_polls (timeout div poll_interval_ns + 2) D i timeout start n = Some (r, n') \<and>
    wait_loop D i timeout start n = Some (r, n') \<and> ((\<exists>x. r = Ok x) \<or> (\<exists>e. r = Err e))"
proof -
  from wait_loop_returns [OF assms, of timeout i] obtain x where
    x: "wait_polls (timeout div poll_interval_ns + 2) D i timeout start n = Some x"
    "wait_loop D i timeout start n = Some x" by blast
  then show ?thesis using wait_loop_outcome [of D i timeout start n "fst x" "snd x"]
    by (intro exI [of _ "fst x"] exI [of _ "snd x"]) simp
qed

lemma sim_steady: "steady (sim_deps ck) sh_ns"
  by (simp add: steady_def sim_deps_def sim_platform_def sim_wallet_def)

theorem wait_loop_bounded_witness:
  "\<exists>r n'. wait_polls (250000000 div poll_interval_ns + 2) (sim_deps True) [1] 250000000 0 sim_start = Some (r, n') \<and>
    wait_loop (sim_deps True) [1] 250000000 0 sim_start = Some (r, n') \<and> ((\<exists>x. r = Ok x) \<or> (\<exists>e. r = Err e))"
  by (rule wait_loop_bounded [OF sim_steady]) (simp add: sim_start_def)

section \<open>Paying an invoice\<close>

lemma wait_for_outbound_payment_Ok:
  assumes "wait_for_outbound_payment D i w = (Ok r, w')"
  shows "\<exists>n0 ps. wa_list_payments (wallet_node D) n0 = (ps, host w') \<and> settled_payment i ps r"
proof -
  from assms obtain timeout start n where "wait_loop D i timeout start n = Some (Ok r, host w')"
    unfolding wait_for_outbound_payment_def bnd_eq_Ok run_wait_def
    by (auto split: option.splits prod.splits)
  from wait_loop_outcome [OF this] show ?thesis by blast
qed

text \<open>C4: \<open>pay_invoice\<close> reports success only for the payment it sent: the invoice parsed,
LDK accepted it under some id, and the last listing of payments holds an outbound payment of that id
that succeeded and whose preimage and fee are the ones answered.\<close>

theorem ldk_pay_invoice_sound:
  assumes "ldk_pay_invoice D text amount w = (Ok r, w')"
  shows "\<exists>invoice i n n0 ps. cr_bolt11_from_str (crate D) text = Inr invoice \<and>
    (case amount of Some a \<Rightarrow> wa_send_using_amount (wallet_node D) invoice a (host w)
       | None \<Rightarrow> wa_send (wallet_node D) invoice (host w)) = (Inr i, n) \<and>
    wa_list_payments (wallet_node D) n0 = (ps, host w') \<and> settled_payment i ps r"
proof -
  from assms obtain invoice i w1 where p: "cr_bolt11_from_str (crate D) text = Inr invoice"
    and s: "(case amount of Some a \<Rightarrow> try_call (wa_send_using_amount (wallet_node D) invoice a) PaymentFailed
        | None \<Rightarrow> try_call (wa_send (wallet_node D) invoice) PaymentFailed) w = (Ok i, w1)"
    and t: "wait_for_outbound_payment D i w1 = (Ok r, w')"
    unfolding ldk_pay_invoice_def by (cases "cr_bolt11_from_str (crate D) text") (auto simp: bnd_eq_Ok)
  from s obtain n where "(case amount of Some a \<Rightarrow> wa_send_using_amount (wallet_node D) invoice a (host w)
       | None \<Rightarrow> wa_send (wallet_node D) invoice (host w)) = (Inr i, n)"
    by (auto simp: try_call_def split: option.splits prod.splits sum.splits)
  with p wait_for_outbound_payment_Ok [OF t] show ?thesis by blast
qed

definition paid_host :: sim_host where
  "paid_host = sim_start\<lparr>sh_payments := [\<lparr>pd_id = replicate 32 1, pd_kind = Bolt11 (replicate 32 1) (Some (replicate 32 5)),
     pd_amount_msat = Some 1000, pd_fee_paid_msat = Some 3, pd_direction = Outbound, pd_status = Succeeded,
     pd_latest_update_timestamp = 900\<rparr>]\<rparr>"

lemma paid_wait_any:
  assumes "wallet_node D = sim_wallet" and "platform D = sim_platform"
  shows "wait_for_outbound_payment D (replicate 32 1) (init_world paid_host) =
    (Ok \<lparr>pr_preimage = hex_string (replicate 32 5), pr_fees_paid_msat = Some 3\<rparr>, init_world paid_host)"
proof -
  have loop: "wait_loop D (replicate 32 1) t start paid_host =
      Some (Ok \<lparr>pr_preimage = hex_string (replicate 32 5), pr_fees_paid_msat = Some 3\<rparr>, paid_host)" for t start
    by (subst wait_loop.simps)
      (simp add: assms sim_wallet_def paid_host_def payment_outcome_def)
  have "wait_for_outbound_payment D (replicate 32 1) (init_world paid_host) =
      run_wait D (replicate 32 1) (wait_timeout_ns None) (sh_ns paid_host) (init_world paid_host)"
    by (simp add: wait_for_outbound_payment_def bnd_def call_def assms sim_platform_def init_world_def)
  then show ?thesis by (simp add: run_wait_def init_world_def loop)
qed

lemma paid_wait: "wait_for_outbound_payment (sim_deps ck) (replicate 32 1) (init_world paid_host) =
    (Ok \<lparr>pr_preimage = hex_string (replicate 32 5), pr_fees_paid_msat = Some 3\<rparr>, init_world paid_host)"
  by (rule paid_wait_any) (simp_all add: sim_deps_def)

lemma paid_invoice_run: "ldk_pay_invoice (sim_deps ck) ''lnbc'' None (init_world paid_host) =
    (Ok \<lparr>pr_preimage = hex_string (replicate 32 5), pr_fees_paid_msat = Some 3\<rparr>, init_world paid_host)"
proof -
  have send: "try_call (wa_send (wallet_node (sim_deps ck)) i) PaymentFailed (init_world paid_host) =
      (Ok (replicate 32 1), init_world paid_host)" for i
    by (simp add: try_call_def sim_deps_def sim_wallet_def init_world_def)
  have "cr_bolt11_from_str (crate (sim_deps ck)) ''lnbc'' = Inr (sim_invoice ''lnbc'' None)"
    by (simp add: sim_deps_def sim_crates_def)
  then show ?thesis by (simp add: ldk_pay_invoice_def bnd_simps(1) [where m = "try_call _ _", OF send] paid_wait)
qed

theorem ldk_pay_invoice_sound_witness:
  "\<exists>i ps. settled_payment i ps \<lparr>pr_preimage = hex_string (replicate 32 5), pr_fees_paid_msat = Some 3\<rparr>"
  using ldk_pay_invoice_sound [OF paid_invoice_run [of True]] by blast

section \<open>Hold invoices\<close>

text \<open>C3: a hold invoice is settled only with its own secret: when \<open>settle_hold_invoice\<close> succeeds, LDK was
asked to claim exactly the hash of the given 32 byte preimage, with that preimage, and for the amount
its record of that payment holds.\<close>

theorem settle_claims_own_hash:
  assumes "wallet_settle_hold_invoice D preimage_hex w = (Ok (), w')"
  shows "\<exists>preimage n1 details amount. cr_hex_decode (crate D) (trim preimage_hex) = Inr preimage \<and>
    length preimage = 32 \<and>
    wa_payment (wallet_node D) (cr_sha256 (crate D) preimage) (host w) = (Some details, n1) \<and>
    pd_amount_msat details = Some amount \<and>
    wa_claim_for_hash (wallet_node D) (cr_sha256 (crate D) preimage) amount preimage n1 = (Inr (), host w')"
proof -
  have "ldk_settle_hold_invoice D preimage_hex w = (Ok (), w')"
    using assms by (simp add: wallet_settle_hold_invoice_def map_err_eq_Ok)
  then show ?thesis
    unfolding ldk_settle_hold_invoice_def bnd_eq_Ok Let_def parse_preimage_def hex_to_32_def
    by (auto simp: bnd_eq_Ok split: sum.splits if_splits)
qed

text \<open>A payment held for the preimage of 32 bytes of 5.\<close>

definition held_host :: sim_host where
  "held_host = sim_start\<lparr>sh_payments := [\<lparr>pd_id = replicate 32 5, pd_kind = Bolt11 (replicate 32 5) None,
     pd_amount_msat = Some 1000, pd_fee_paid_msat = None, pd_direction = Inbound, pd_status = Pending,
     pd_latest_update_timestamp = 900\<rparr>]\<rparr>"

definition fives_hex :: string where
  "fives_hex = concat (replicate 32 ''05'')"

lemma trim_fives: "trim fives_hex = fives_hex"
  by code_simp

lemma decode_fives: "decode_hex fives_hex = Ok (replicate 32 5)"
proof -
  have "fives_hex = hex_hash (replicate 32 5)" by code_simp
  then show ?thesis by (metis decode_hex_hex_hash)
qed

lemma held_settled:
  "wallet_settle_hold_invoice (sim_deps ck) fives_hex (init_world held_host) = (Ok (), init_world held_host)"
  by (simp add: wallet_settle_hold_invoice_def exec_defs ldk_settle_hold_invoice_def
      parse_preimage_def hex_to_32_def sim_deps_def sim_crates_def sim_hex_decode_def trim_fives decode_fives
      call_def try_call_def sim_wallet_def held_host_def sim_start_def init_world_def)

theorem settle_claims_own_hash_witness:
  "\<exists>details n. wa_payment (wallet_node (sim_deps True)) (replicate 32 5) (host (init_world held_host)) = (Some details, n)"
  using settle_claims_own_hash [OF held_settled [of True]]
  by (simp add: sim_deps_def sim_crates_def sim_hex_decode_def trim_fives decode_fives) (metis rev_replicate)

section \<open>Payment records\<close>

text \<open>C23: a page of payments is a page of one list: the payments that pass the filters, each once,
newest first; a limit and an offset cut that list and nothing else.\<close>

theorem select_payments_pages:
  "let all_rows = select_payments from_ts until_ts None None unpaid direction method ps in
     sorted_wrt (\<lambda>p q. pd_latest_update_timestamp q \<le> pd_latest_update_timestamp p) all_rows \<and>
     mset all_rows = filter_mset (payment_selected from_ts until_ts unpaid direction method) (mset ps) \<and>
     (\<forall>limit offset. select_payments from_ts until_ts (Some limit) (Some offset) unpaid direction method ps =
        page (unat offset) (unat limit) all_rows)"
proof -
  let ?rows = "newest_first (filter (payment_selected from_ts until_ts unpaid direction method) ps)"
  have all_rows: "select_payments from_ts until_ts None None unpaid direction method ps = ?rows"
    by (simp add: select_payments_def Let_def)
  have "sorted (map (\<lambda>p. - int (unat (pd_latest_update_timestamp p))) ?rows)"
    by (simp add: newest_first_def)
  then have "sorted_wrt (\<lambda>p q. pd_latest_update_timestamp q \<le> pd_latest_update_timestamp p) ?rows"
    by (simp add: sorted_map word_le_def)
  moreover have "mset ?rows = filter_mset (payment_selected from_ts until_ts unpaid direction method) (mset ps)"
    by (simp add: newest_first_def mset_filter)
  moreover have "select_payments from_ts until_ts (Some limit) (Some offset) unpaid direction method ps =
      page (unat offset) (unat limit) ?rows" for limit offset
    by (simp add: select_payments_def Let_def page_def)
  ultimately show ?thesis by (simp add: all_rows Let_def)
qed










text \<open>C27: \<open>list_invoices\<close> never reports an invoice as expired, and reports a failed payment as pending: the
records it reads carry no expiry. The preimage is shown for settled invoices only. Its state filter comes
after the page is cut.\<close>

theorem list_invoices_states:
  assumes "wallet_list_invoices D r w = (Ok rows, w')" and "row \<in> set rows"
  shows "iv_state row \<noteq> InvExpired \<and> iv_expires_at row = 0 \<and> iv_invoice row = [] \<and>
    (iv_preimage row \<noteq> None \<longrightarrow> iv_state row = InvSettled) \<and>
    (\<exists>p n. p \<in> set (select_payments (qv_from r) (qv_until r) (qv_limit r) (qv_offset r) (Some True) (Some Inbound) None
          (fst (wa_list_payments (wallet_node D) n))) \<and>
       iv_payment_hash row = tx_payment_hash (to_transaction p) \<and>
       (iv_state row = InvSettled \<longleftrightarrow> pd_status p = Succeeded))"
proof -
  from assms obtain n ps now_secs p where
    ps: "wa_list_payments (wallet_node D) (host w) = (ps, n)"
    and p: "p \<in> set (select_payments (qv_from r) (qv_until r) (qv_limit r) (qv_offset r) (Some True) (Some Inbound) None ps)"
    and row: "row = invoice_row_of now_secs (to_transaction p)"
    by (auto simp: wallet_list_invoices_def ldk_list_payments_filtered_def bnd_eq_Ok)
  have "iv_state row \<noteq> InvExpired \<and> iv_expires_at row = 0 \<and> iv_invoice row = [] \<and>
      (iv_preimage row \<noteq> None \<longrightarrow> iv_state row = InvSettled) \<and> iv_payment_hash row = tx_payment_hash (to_transaction p) \<and>
      (iv_state row = InvSettled \<longleftrightarrow> pd_status p = Succeeded)"
    by (auto simp: row invoice_row_of_def to_transaction_def transaction_status_def Let_def
        split: payment_status.splits if_splits)
  moreover have "p \<in> set (select_payments (qv_from r) (qv_until r) (qv_limit r) (qv_offset r) (Some True) (Some Inbound) None
        (fst (wa_list_payments (wallet_node D) (host w))))"
    using p ps by simp
  ultimately show ?thesis by blast
qed

definition any_invoices :: list_invoices_request where
  "any_invoices = \<lparr>qv_from = None, qv_until = None, qv_limit = None, qv_offset = None, qv_state = None\<rparr>"

lemma held_listed: "wallet_list_invoices (sim_deps ck) any_invoices (init_world held_host) =
    (Ok [invoice_row_of 1000 (to_transaction (hd (sh_payments held_host)))], init_world held_host)"
  by (simp add: wallet_list_invoices_def ldk_list_payments_filtered_def wallet_now_def exec_defs call_def any_invoices_def
      select_payments_def newest_first_def payment_selected_def Let_def
      sim_deps_def sim_wallet_def sim_platform_def init_world_def held_host_def sim_start_def)

theorem list_invoices_states_witness:
  "iv_state (invoice_row_of 1000 (to_transaction (hd (sh_payments held_host)))) \<noteq> InvExpired"
  using list_invoices_states [OF held_listed [of True]] by simp

end
