(* ===== verification/RoutingCorrect.thy ===== *)
theory RoutingCorrect
  imports Routing SimNode
begin

text \<open>
  What the route search promises: the reading of the graph it works on (\<open>offers_edge\<close>), the walks
  a route may be (\<open>walk\<close>, \<open>reaches\<close>), and one induction rule for the search loop, of which every
  property below is an instance.
\<close>

section \<open>The graph a search sees\<close>

text \<open>
  A usable direction of a listed channel: the amount lies within the HTLC limits announced for it. The
  statement is the graph's, without the adjacency list the code builds.
\<close>

inductive offers_edge :: "network_graph \<Rightarrow> u64 \<Rightarrow> node_id \<Rightarrow> edge \<Rightarrow> bool" for G amt where
  forward: "scid \<in> set (ng_list_channels G) \<Longrightarrow> ng_channel G scid = Some ch \<Longrightarrow> gc_one_to_two ch = Some upd \<Longrightarrow>
    cu_htlc_minimum_msat upd \<le> amt \<Longrightarrow> amt \<le> cu_htlc_maximum_msat upd \<Longrightarrow>
    offers_edge G amt (gc_node_one ch)
      (gc_node_two ch, scid, cu_base_msat upd, cu_proportional_millionths upd, cu_cltv_expiry_delta upd)"
| backward: "scid \<in> set (ng_list_channels G) \<Longrightarrow> ng_channel G scid = Some ch \<Longrightarrow> gc_two_to_one ch = Some upd \<Longrightarrow>
    cu_htlc_minimum_msat upd \<le> amt \<Longrightarrow> amt \<le> cu_htlc_maximum_msat upd \<Longrightarrow>
    offers_edge G amt (gc_node_two ch)
      (gc_node_one ch, scid, cu_base_msat upd, cu_proportional_millionths upd, cu_cltv_expiry_delta upd)"

inductive_cases offers_edgeE: "offers_edge G amt a e"

text \<open>The edges an adjacency list holds for a node.\<close>

definition edges_of :: "adjacency \<Rightarrow> node_id \<Rightarrow> edge set" where
  "edges_of adj a = (case map_of adj a of None \<Rightarrow> {} | Some es \<Rightarrow> set es)"

lemma edges_of_push: "edges_of (adj_push n e adj) a = edges_of adj a \<union> (if a = n then {e} else {})"
proof (induction adj)
  case (Cons p rest)
  obtain k es where p: "p = (k, es)" by (cases p)
  show ?case
  proof (cases "k = n \<or> k = a")
    case True
    then show ?thesis by (auto simp: p edges_of_def)
  next
    case False
    then have "edges_of (adj_push n e (p # rest)) a = edges_of (adj_push n e rest) a"
      and "edges_of (p # rest) a = edges_of rest a"
      by (auto simp: p edges_of_def)
    with Cons.IH show ?thesis by simp
  qed
qed (simp add: edges_of_def)

lemma edges_of_add_channel:
  "edges_of (add_channel G amt adj scid) a = edges_of adj a \<union>
     {e. \<exists>ch upd. ng_channel G scid = Some ch \<and> admits amt upd \<and>
        (gc_one_to_two ch = Some upd \<and> a = gc_node_one ch \<and> e = update_edge (gc_node_two ch) scid upd \<or>
         gc_two_to_one ch = Some upd \<and> a = gc_node_two ch \<and> e = update_edge (gc_node_one ch) scid upd)}"
  by (auto simp: add_channel_def Let_def edges_of_push split: option.splits)

lemma edges_of_build_from:
  "edges_of (foldl (add_channel G amt) adj scids) a = edges_of adj a \<union>
     {e. \<exists>scid \<in> set scids. \<exists>ch upd. ng_channel G scid = Some ch \<and> admits amt upd \<and>
        (gc_one_to_two ch = Some upd \<and> a = gc_node_one ch \<and> e = update_edge (gc_node_two ch) scid upd \<or>
         gc_two_to_one ch = Some upd \<and> a = gc_node_two ch \<and> e = update_edge (gc_node_one ch) scid upd)}"
  by (induction scids arbitrary: adj) (auto simp: edges_of_add_channel)

lemma edges_of_build: "edges_of (build_adjacency G amt) a = {e. offers_edge G amt a e}"
  unfolding build_adjacency_def edges_of_build_from
  by (auto simp: edges_of_def admits_def update_edge_def elim!: offers_edgeE intro: offers_edge.intros; blast)

text \<open>The fee of one hop, without machine arithmetic.\<close>

definition fee_nat :: "u64 \<Rightarrow> u32 \<Rightarrow> u32 \<Rightarrow> nat" where
  "fee_nat amt base prop = unat base + unat amt * unat prop div 1000000"

lemma hop_fee_unchecked: "hop_fee False amt base prop = Ok (ucast base + amt * ucast prop div 1000000)"
  by (simp add: hop_fee_def mul_ck_def add_ck_def)

lemma hop_fee_value: "hop_fee ck amt base prop = Ok f \<Longrightarrow> f = ucast base + amt * ucast prop div 1000000"
  by (auto simp: hop_fee_def rbind_eq_Ok dest!: mul_ck_Ok_eq add_ck_Ok_eq)

lemma unat_ucast_u32 [simp]: "unat (ucast (x :: u32) :: u64) = unat x"
  by (rule unat_ucast_widen) simp

lemma hop_fee_checked:
  assumes "hop_fee True amt base prop = Ok f"
  shows "unat f = fee_nat amt base prop"
proof -
  from assms obtain m where m: "mul_ck True amt (ucast prop :: u64) = (Ok m :: (unit, u64) res)"
    and f: "add_ck True (ucast base) (m div 1000000) = (Ok f :: (unit, u64) res)"
    by (auto simp: hop_fee_def rbind_eq_Ok mul_ck_def add_ck_def split: if_splits)
  from mul_ck_Ok [OF m] add_ck_Ok [OF f] show ?thesis
    by (simp add: fee_nat_def unat_div)
qed

text \<open>A chain of path steps the search may build from a node; the fees are the words it computes.\<close>

inductive walk :: "network_graph \<Rightarrow> u64 \<Rightarrow> node_id \<Rightarrow> path_step list \<Rightarrow> node_id \<Rightarrow> bool"
  for G amt a where
  here: "walk G amt a [] a"
| hop: "walk G amt a p b \<Longrightarrow> offers_edge G amt b (c, scid, base, prop, cltv) \<Longrightarrow>
    walk G amt a (p @ [(c, scid, ucast base + amt * ucast prop div 1000000, cltv)]) c"

text \<open>A node reached at a total fee, in plain numbers.\<close>

inductive reaches :: "network_graph \<Rightarrow> u64 \<Rightarrow> node_id \<Rightarrow> node_id \<Rightarrow> nat \<Rightarrow> bool"
  for G amt a where
  at_source: "reaches G amt a a 0"
| along: "reaches G amt a b c \<Longrightarrow> offers_edge G amt b (x, scid, base, prop, cltv) \<Longrightarrow>
    reaches G amt a x (c + fee_nat amt base prop)"

definition step_fee :: "path_step \<Rightarrow> u64" where
  "step_fee s = (case s of (_, _, fee, _) \<Rightarrow> fee)"

definition step_cltv :: "path_step \<Rightarrow> u16" where
  "step_cltv s = (case s of (_, _, _, cltv) \<Rightarrow> cltv)"

lemma step_simps [simp]: "step_fee (n, i, f, d) = f" "step_cltv (n, i, f, d) = d"
  by (simp_all add: step_fee_def step_cltv_def)

section \<open>Induction on the search\<close>

text \<open>The induction of the search with its fixed arguments fixed, one hypothesis per continuation.\<close>

lemma search_induct [case_names search]:
  fixes ck :: bool and adj :: adjacency
  assumes step: "\<And>h V F.
      (\<And>c n p h'. heap_pop h = Some ((c, n, p), h') \<Longrightarrow> length F < mx \<Longrightarrow> length p > 6 \<Longrightarrow> P h' V F) \<Longrightarrow>
      (\<And>c p h' r. heap_pop h = Some ((c, dest, p), h') \<Longrightarrow> length F < mx \<Longrightarrow> length p \<le> 6 \<Longrightarrow>
         (route_of ck c p :: ('e, found_route) res) = Ok r \<Longrightarrow> P h' V (F @ [r])) \<Longrightarrow>
      (\<And>c n p h'. heap_pop h = Some ((c, n, p), h') \<Longrightarrow> length F < mx \<Longrightarrow> length p \<le> 6 \<Longrightarrow>
         n \<noteq> dest \<Longrightarrow> n \<in> V \<Longrightarrow> P h' V F) \<Longrightarrow>
      (\<And>c n p h'. heap_pop h = Some ((c, n, p), h') \<Longrightarrow> length F < mx \<Longrightarrow> length p \<le> 6 \<Longrightarrow>
         n \<noteq> dest \<Longrightarrow> n \<notin> V \<Longrightarrow> map_of adj n = None \<Longrightarrow> P h' (insert n V) F) \<Longrightarrow>
      (\<And>c n p h' es h''. heap_pop h = Some ((c, n, p), h') \<Longrightarrow> length F < mx \<Longrightarrow> length p \<le> 6 \<Longrightarrow>
         n \<noteq> dest \<Longrightarrow> n \<notin> V \<Longrightarrow> map_of adj n = Some es \<Longrightarrow>
         (fold_res (relax_edge ck amt c p (insert n V)) es h' :: ('e, search_entry reverse_heap) res) = Ok h'' \<Longrightarrow>
         P h'' (insert n V) F) \<Longrightarrow>
      P h V F"
  shows "P h V F"
proof -
  have "ck' = ck \<Longrightarrow> amt' = amt \<Longrightarrow> mx' = mx \<Longrightarrow> dest' = dest \<Longrightarrow> adj' = adj \<Longrightarrow> P h V F"
    for ck' amt' mx' dest' adj'
  proof (induction ck' amt' mx' dest' adj' h V F rule: search_loop.induct [where 'a = 'e])
    case (1 ck' amt' mx' dest' adj' h V F)
    note IH = 1(1) [OF _ refl refl refl] 1(2) [OF _ refl refl refl] 1(3) [OF _ refl refl refl]
      1(4) [OF _ refl refl refl] 1(5) [OF _ refl refl refl]
    note eqs = 1(6-10)
    show ?case
      by (rule step; rule IH(1) IH(2) IH(3) IH(4) IH(5); simp add: eqs not_less)
  qed
  then show ?thesis by blast
qed

lemma search_loop_pop:
  assumes "heap_pop h = Some ((c, n, p), h')"
  shows "search_loop ck amt mx dest adj h V F =
    (if mx \<le> length F then Ok F
     else if 6 < length p then search_loop ck amt mx dest adj h' V F
     else if n = dest then rbind (route_of ck c p) (\<lambda>r. search_loop ck amt mx dest adj h' V (F @ [r]))
     else if n \<in> V then search_loop ck amt mx dest adj h' V F
     else (case map_of adj n of
         None \<Rightarrow> search_loop ck amt mx dest adj h' (insert n V) F
       | Some es \<Rightarrow> rbind (fold_res (relax_edge ck amt c p (insert n V)) es h')
           (\<lambda>h''. search_loop ck amt mx dest adj h'' (insert n V) F)))"
  using assms by (subst search_loop.simps) simp

lemma search_loop_empty: "heap_pop h = None \<Longrightarrow> search_loop ck amt mx dest adj h V F = Ok F"
  by (subst search_loop.simps) simp

lemma search_loop_full: "mx \<le> length F \<Longrightarrow> search_loop ck amt mx dest adj h V F = Ok F"
  by (subst search_loop.simps) (simp split: option.splits)

text \<open>The five ways a round of a successful search goes on.\<close>

lemma search_round [consumes 3, case_names dropped hit seen leaf grown]:
  assumes "(search_loop ck amt mx dest adj h V F :: ('e, found_route list) res) = Ok out"
    and pop: "heap_pop h = Some ((c, n, p), h')" and "length F < mx"
  obtains "6 < length p" and "(search_loop ck amt mx dest adj h' V F :: ('e, found_route list) res) = Ok out"
  | r where "length p \<le> 6" and "n = dest" and "(route_of ck c p :: ('e, found_route) res) = Ok r"
      and "(search_loop ck amt mx dest adj h' V (F @ [r]) :: ('e, found_route list) res) = Ok out"
  | "length p \<le> 6" and "n \<noteq> dest" and "n \<in> V"
      and "(search_loop ck amt mx dest adj h' V F :: ('e, found_route list) res) = Ok out"
  | "length p \<le> 6" and "n \<noteq> dest" and "n \<notin> V" and "map_of adj n = None"
      and "(search_loop ck amt mx dest adj h' (insert n V) F :: ('e, found_route list) res) = Ok out"
  | es h'' where "length p \<le> 6" and "n \<noteq> dest" and "n \<notin> V" and "map_of adj n = Some es"
      and "(fold_res (relax_edge ck amt c p (insert n V)) es h' :: ('e, search_entry reverse_heap) res) = Ok h''"
      and "(search_loop ck amt mx dest adj h'' (insert n V) F :: ('e, found_route list) res) = Ok out"
  using assms(1) [unfolded search_loop_pop [OF pop]] assms(3)
  by (auto simp: rbind_eq_Ok split: if_splits option.splits)

text \<open>A property of heap, visited set and routes that every round keeps holds at the end.\<close>

lemma search_loop_invariant:
  assumes "(search_loop ck amt mx dest adj heap V F :: ('e, found_route list) res) = Ok out" and "P heap V F"
    and dropped: "\<And>h V F c n p h'. P h V F \<Longrightarrow> heap_pop h = Some ((c, n, p), h') \<Longrightarrow>
      length F < mx \<Longrightarrow> length p > 6 \<Longrightarrow> P h' V F"
    and hit: "\<And>h V F c p h' r. P h V F \<Longrightarrow> heap_pop h = Some ((c, dest, p), h') \<Longrightarrow>
      length F < mx \<Longrightarrow> length p \<le> 6 \<Longrightarrow> (route_of ck c p :: ('e, found_route) res) = Ok r \<Longrightarrow> P h' V (F @ [r])"
    and seen: "\<And>h V F c n p h'. P h V F \<Longrightarrow> heap_pop h = Some ((c, n, p), h') \<Longrightarrow>
      n \<noteq> dest \<Longrightarrow> n \<in> V \<Longrightarrow> P h' V F"
    and leaf: "\<And>h V F c n p h'. P h V F \<Longrightarrow> heap_pop h = Some ((c, n, p), h') \<Longrightarrow>
      n \<noteq> dest \<Longrightarrow> n \<notin> V \<Longrightarrow> map_of adj n = None \<Longrightarrow> P h' (insert n V) F"
    and grown: "\<And>h V F c n p h' es h''. P h V F \<Longrightarrow> heap_pop h = Some ((c, n, p), h') \<Longrightarrow>
      length p \<le> 6 \<Longrightarrow> n \<noteq> dest \<Longrightarrow> n \<notin> V \<Longrightarrow> map_of adj n = Some es \<Longrightarrow>
      (fold_res (relax_edge ck amt c p (insert n V)) es h' :: ('e, search_entry reverse_heap) res) = Ok h'' \<Longrightarrow>
      P h'' (insert n V) F"
  shows "\<exists>h V. P h V out \<and> (heap_pop h = None \<or> mx \<le> length out)"
  using assms(1, 2)
proof (induction heap V F rule: search_induct [where ck = ck and amt = amt and mx = mx and dest = dest
      and adj = adj and 'e = 'e])
  case (search h V F)
  show ?case
  proof (cases "heap_pop h = None \<or> mx \<le> length F")
    case True
    with search.prems have "F = out" by (auto simp: search_loop_empty search_loop_full)
    with True search.prems show ?thesis by blast
  next
    case False
    then obtain c n p h' where pop: "heap_pop h = Some ((c, n, p), h')" and more: "length F < mx"
      by (auto simp: not_le)
    note I = search.prems(2)
    from search.prems(1) pop more show ?thesis
    proof (cases rule: search_round)
      case dropped
      then show ?thesis using search.IH(1) [OF pop more] assms(3) [OF I pop more] by blast
    next
      case (hit r)
      then show ?thesis using search.IH(2) [OF pop [unfolded hit(2)] more] assms(4) [OF I pop [unfolded hit(2)] more] by blast
    next
      case seen
      then show ?thesis using search.IH(3) [OF pop more] assms(5) [OF I pop] by blast
    next
      case leaf
      then show ?thesis using search.IH(4) [OF pop more] assms(6) [OF I pop] by blast
    next
      case (grown es h'')
      then show ?thesis using search.IH(5) [OF pop more] assms(7) [OF I pop] by blast
    qed
  qed
qed

text \<open>Where every round succeeds under an invariant, the search returns.\<close>

lemma search_loop_returns:
  assumes "P heap V F"
    and dropped: "\<And>h V F c n p h'. P h V F \<Longrightarrow> heap_pop h = Some ((c, n, p), h') \<Longrightarrow> P h' V F"
    and hit: "\<And>h V F c p h'. P h V F \<Longrightarrow> heap_pop h = Some ((c, dest, p), h') \<Longrightarrow>
      length p \<le> 6 \<Longrightarrow> \<exists>r. (route_of ck c p :: ('e, found_route) res) = Ok r \<and> P h' V (F @ [r])"
    and leaf: "\<And>h V F c n p h'. P h V F \<Longrightarrow> heap_pop h = Some ((c, n, p), h') \<Longrightarrow> P h' (insert n V) F"
    and grown: "\<And>h V F c n p h' es. P h V F \<Longrightarrow> heap_pop h = Some ((c, n, p), h') \<Longrightarrow>
      length p \<le> 6 \<Longrightarrow> map_of adj n = Some es \<Longrightarrow>
      \<exists>h''. (fold_res (relax_edge ck amt c p (insert n V)) es h' :: ('e, search_entry reverse_heap) res) = Ok h''
        \<and> P h'' (insert n V) F"
  shows "\<exists>out. (search_loop ck amt mx dest adj heap V F :: ('e, found_route list) res) = Ok out"
  using assms(1)
proof (induction heap V F rule: search_induct [where ck = ck and amt = amt and mx = mx and dest = dest
      and adj = adj and 'e = 'e])
  case (search h V F)
  show ?case
  proof (cases "heap_pop h = None \<or> mx \<le> length F")
    case True
    then show ?thesis by (auto simp: search_loop_empty search_loop_full)
  next
    case False
    then obtain c n p h' where pop: "heap_pop h = Some ((c, n, p), h')" and more: "length F < mx"
      by (auto simp: not_le)
    note next_heaps = dropped [OF search.prems pop] leaf [OF search.prems pop]
    show ?thesis
    proof (cases "length p \<le> 6 \<and> n \<notin> V \<and> n \<noteq> dest \<and> map_of adj n \<noteq> None")
      case True
      then obtain es where es: "map_of adj n = Some es" by auto
      from grown [OF search.prems pop _ es] True obtain h'' where
        h'': "(fold_res (relax_edge ck amt c p (insert n V)) es h' :: ('e, search_entry reverse_heap) res) = Ok h''"
        and P: "P h'' (insert n V) F" by blast
      with search.IH(5) [OF pop more _ _ _ es h'' P] True es more show ?thesis
        by (simp add: search_loop_pop [OF pop])
    next
      case False
      show ?thesis
      proof (cases "length p \<le> 6 \<and> n = dest")
        case True
        with hit [OF search.prems, of c p h'] pop obtain r where
          "(route_of ck c p :: ('e, found_route) res) = Ok r" "P h' V (F @ [r])" by auto
        with search.IH(2) [of c p h' r] True pop more show ?thesis
          by (simp add: search_loop_pop [OF pop])
      next
        case not_dest: False
        with False search.IH(1,3,4) [OF pop more] next_heaps more show ?thesis
          by (auto simp: search_loop_pop [OF pop])
      qed
    qed
  qed
qed

section \<open>One round\<close>

text \<open>The entry an edge contributes to the queue.\<close>

definition pushed :: "bool \<Rightarrow> u64 \<Rightarrow> u64 \<Rightarrow> path_step list \<Rightarrow> edge \<Rightarrow> search_entry \<Rightarrow> bool" where
  "pushed ck amt c p e x \<longleftrightarrow> (case e of (nxt, scid, base, prop, cltv) \<Rightarrow>
     \<exists>fee nc. (hop_fee ck amt base prop :: (unit, u64) res) = Ok fee \<and> (add_ck ck c fee :: (unit, u64) res) = Ok nc \<and>
       x = (nc, nxt, p @ [(nxt, scid, fee, cltv)]))"

text \<open>The arithmetic does not fail with an error of its own, so its outcome has one type for all.\<close>

lemma hop_fee_any: "(hop_fee ck amt base prop :: ('e, u64) res) = Ok f \<longleftrightarrow> (hop_fee ck amt base prop :: ('f, u64) res) = Ok f"
  by (auto simp: hop_fee_def mul_ck_def add_ck_def)

lemma add_ck_any: "(add_ck ck a b :: ('e, 'w::len word) res) = Ok f \<longleftrightarrow> (add_ck ck a b :: ('f, 'w word) res) = Ok f"
  by (auto simp: add_ck_def)

lemma relax_edge_Ok:
  assumes "(relax_edge ck amt c p V e h :: ('e, search_entry reverse_heap) res) = Ok h'"
  shows "(fst e \<in> V \<and> h' = h) \<or> (fst e \<notin> V \<and> (\<exists>x. pushed ck amt c p e x \<and> h' = heap_push x h))"
proof -
  obtain nxt scid bs pr cltv where e: "e = (nxt, scid, bs, pr, cltv)" by (metis prod_cases5)
  show ?thesis
  proof (cases "nxt \<in> V")
    case False
    with assms obtain fee nc where
      f: "(hop_fee ck amt bs pr :: ('e, u64) res) = Ok fee" "(add_ck ck c fee :: ('e, u64) res) = Ok nc"
      and h': "h' = heap_push (nc, nxt, p @ [(nxt, scid, fee, cltv)]) h"
      by (auto simp: relax_edge_def e rbind_eq_Ok)
    from f have "pushed ck amt c p e (nc, nxt, p @ [(nxt, scid, fee, cltv)])"
      unfolding pushed_def e using hop_fee_any [THEN iffD1, OF f(1)] add_ck_any [THEN iffD1, OF f(2)] by simp
    with False h' e show ?thesis by auto
  qed (use assms in \<open>auto simp: relax_edge_def e\<close>)
qed

lemma relax_edges_Ok:
  assumes "(fold_res (relax_edge ck amt c p V) es h :: ('e, search_entry reverse_heap) res) = Ok h''"
  shows "sorted h \<Longrightarrow> sorted h''"
    and "x \<in> set h'' \<Longrightarrow> x \<in> set h \<or> (\<exists>e \<in> set es. fst e \<notin> V \<and> pushed ck amt c p e x)"
    and "x \<in> set h \<Longrightarrow> x \<in> set h''"
    and "e \<in> set es \<Longrightarrow> fst e \<notin> V \<Longrightarrow> \<exists>x \<in> set h''. pushed ck amt c p e x"
proof -
  have set_push: "set (heap_push y q) = insert y (set q)" for y and q :: "search_entry reverse_heap"
    using pq.bag_push [of y q] by (metis set_mset_add_mset_insert set_mset_mset)
  have "(sorted h \<longrightarrow> sorted h'') \<and> set h \<subseteq> set h'' \<and>
     (\<forall>x \<in> set h''. x \<in> set h \<or> (\<exists>e \<in> set es. fst e \<notin> V \<and> pushed ck amt c p e x)) \<and>
     (\<forall>e \<in> set es. fst e \<notin> V \<longrightarrow> (\<exists>x \<in> set h''. pushed ck amt c p e x))"
    using assms
  proof (induction es arbitrary: h)
    case (Cons e es)
    from Cons.prems obtain h1 where r: "(relax_edge ck amt c p V e h :: ('e, search_entry reverse_heap) res) = Ok h1"
      and rest: "(fold_res (relax_edge ck amt c p V) es h1 :: ('e, search_entry reverse_heap) res) = Ok h''"
      by (auto simp: rbind_eq_Ok)
    note IH = Cons.IH [OF rest]
    from relax_edge_Ok [OF r] show ?case
    proof (elim disjE conjE exE)
      assume "fst e \<in> V" "h1 = h"
      with IH show ?thesis by auto
    next
      fix y assume "fst e \<notin> V" "pushed ck amt c p e y" "h1 = heap_push y h"
      note y = this
      from IH y(3) pq.ok_push [of h y] have "sorted h \<longrightarrow> sorted h''" by simp
      moreover from IH have "set h1 \<subseteq> set h''" by simp
      then have "set h \<subseteq> set h''" "y \<in> set h''" using set_push [of y h] y(3) by auto
      moreover have "\<forall>x \<in> set h''. x \<in> set h \<or> (\<exists>e' \<in> set (e # es). fst e' \<notin> V \<and> pushed ck amt c p e' x)"
        using IH y set_push [of y h] by (metis insert_iff list.set_intros)
      ultimately show ?thesis using IH y by auto
    qed
  qed simp
  then show "sorted h \<Longrightarrow> sorted h''"
    and "x \<in> set h'' \<Longrightarrow> x \<in> set h \<or> (\<exists>e \<in> set es. fst e \<notin> V \<and> pushed ck amt c p e x)"
    and "x \<in> set h \<Longrightarrow> x \<in> set h''"
    and "e \<in> set es \<Longrightarrow> fst e \<notin> V \<Longrightarrow> \<exists>x \<in> set h''. pushed ck amt c p e x"
    by blast+
qed

lemma pop_set: "heap_pop h = Some (x, h') \<Longrightarrow> set h = insert x (set (h' :: search_entry reverse_heap))"
  using pq.bag_pop [of h x h'] by (metis set_mset_add_mset_insert set_mset_mset)

section \<open>Soundness\<close>

text \<open>
  An entry of the queue is a walk that never repeats a node: its cost is the sum of its fees, and
  all nodes it left are already expanded.
\<close>

definition good_entry ::
  "bool \<Rightarrow> network_graph \<Rightarrow> u64 \<Rightarrow> node_id \<Rightarrow> node_id set \<Rightarrow> search_entry \<Rightarrow> bool" where
  "good_entry ck G amt a V x = (case x of (c, n, p) \<Rightarrow>
     walk G amt a p n \<and> c = sum_list (map step_fee p) \<and>
     (ck \<longrightarrow> unat c = sum_list (map (unat \<circ> step_fee) p)) \<and>
     distinct (a # map fst p) \<and> set (butlast (a # map fst p)) \<subseteq> V)"

lemma walk_last: "walk G amt a p b \<Longrightarrow> last (a # map fst p) = b"
  by (induction rule: walk.induct) auto

lemma good_entry_start: "good_entry ck G amt a {} (0, a, [])"
  by (simp add: good_entry_def walk.here)

lemma good_entry_mono: "good_entry ck G amt a V x \<Longrightarrow> V \<subseteq> W \<Longrightarrow> good_entry ck G amt a W x"
  by (auto simp: good_entry_def)

lemma good_entry_pushed:
  assumes "good_entry ck G amt a V (c, n, p)" and "pushed ck amt c p e x"
    and "offers_edge G amt n e" and "fst e \<notin> insert n V"
  shows "good_entry ck G amt a (insert n V) x"
proof -
  obtain nxt scid bs pr cltv where e: "e = (nxt, scid, bs, pr, cltv)" by (metis prod_cases5)
  from assms(2) obtain fee nc where fee: "(hop_fee ck amt bs pr :: (unit, u64) res) = Ok fee"
    and nc: "(add_ck ck c fee :: (unit, u64) res) = Ok nc" and x: "x = (nc, nxt, p @ [(nxt, scid, fee, cltv)])"
    by (auto simp: pushed_def e)
  from assms(1) have w: "walk G amt a p n" and c: "c = sum_list (map step_fee p)"
    and u: "ck \<longrightarrow> unat c = sum_list (map (unat \<circ> step_fee) p)"
    and d: "distinct (a # map fst p)" and left: "set (butlast (a # map fst p)) \<subseteq> V"
    by (auto simp: good_entry_def)
  have "a # map fst p = butlast (a # map fst p) @ [n]"
    using append_butlast_last_id [of "a # map fst p"] walk_last [OF w] by simp
  then have "set (a # map fst p) = set (butlast (a # map fst p)) \<union> {n}"
    using arg_cong [where f = set] by (metis list.set(1) list.set(2) set_append)
  with left have nodes: "set (a # map fst p) \<subseteq> insert n V" by blast
  have "walk G amt a (p @ [(nxt, scid, fee, cltv)]) nxt"
    using walk.hop [OF w, of nxt scid bs pr cltv] assms(3) hop_fee_value [OF fee] by (simp add: e)
  moreover have "ck \<longrightarrow> unat nc = unat c + unat fee"
    using nc add_ck_Ok [of c fee nc] by auto
  moreover have "distinct (a # map fst (p @ [(nxt, scid, fee, cltv)]))"
    using d nodes assms(4) by (auto simp: e)
  moreover have "butlast (a # map fst (p @ [(nxt, scid, fee, cltv)])) = a # map fst p"
    by (simp add: butlast_append)
  moreover have "nc = sum_list (map step_fee (p @ [(nxt, scid, fee, cltv)]))"
    using c add_ck_Ok_eq [OF nc] by simp
  ultimately show ?thesis
    using u nodes unfolding good_entry_def x by simp
qed

text \<open>At most six deltas of sixteen bits add up in thirty-two.\<close>

lemma sum_ck_fits:
  assumes "sum_list (map unat xs) < 2 ^ LENGTH('w)"
  shows "(sum_ck ck xs :: ('e, 'w word) res) = Ok (sum_list xs)" and "unat (sum_list (xs :: 'w::len word list)) = sum_list (map unat xs)"
proof -
  have fold: "(fold_res (\<lambda>x acc. add_ck ck acc x) xs acc :: ('e, 'w word) res) = Ok (acc + sum_list xs)
      \<and> unat (acc + sum_list xs) = unat acc + sum_list (map unat xs)"
    if "unat acc + sum_list (map unat xs) < 2 ^ LENGTH('w)" for acc
    using that
  proof (induction xs arbitrary: acc)
    case (Cons x xs)
    then have "unat acc + unat x < 2 ^ LENGTH('w)" by simp
    moreover from this have "unat (acc + x) = unat acc + unat x" by (rule unat_add_no_wrap)
    ultimately show ?case
      using Cons.IH [of "acc + x"] Cons.prems by (simp add: add_ck_def add.assoc)
  qed simp
  from fold [of 0] assms show "(sum_ck ck xs :: ('e, 'w word) res) = Ok (sum_list xs)" "unat (sum_list xs) = sum_list (map unat xs)"
    by (simp_all add: sum_ck_def)
qed

lemma unat_ucast_cltv [simp]: "unat (ucast (x :: u16) :: u32) = unat x"
  by (rule unat_ucast_widen) simp

lemma cltv_sum_bound: "sum_list (map (unat \<circ> step_cltv) p) \<le> 65535 * length p"
proof (induction p)
  case (Cons s p)
  have "unat (step_cltv s) < 65536" using unsigned_less [where 'a = nat and w = "step_cltv s"] by simp
  with Cons show ?case by simp
qed simp

lemma rh_expiry_hop [simp]: "rh_expiry (hop_of s) = step_cltv s" "rh_fee (hop_of s) = step_fee s"
  by (simp_all add: hop_of_def step_cltv_def step_fee_def split: prod.splits)

lemma route_of_short:
  assumes "length p \<le> 6"
  shows "\<exists>r. route_of ck c p = Ok r \<and> fr_total_fee r = c \<and> fr_hops r = map hop_of p \<and>
    unat (fr_total_time_lock r) = sum_list (map (unat \<circ> step_cltv) p)"
proof -
  let ?xs = "map (\<lambda>h. ucast (rh_expiry h) :: u32) (map hop_of p)"
  have xs: "map unat ?xs = map (unat \<circ> step_cltv) p" by simp
  have "sum_list (map (unat \<circ> step_cltv) p) < 2 ^ 32"
    using cltv_sum_bound [of p] assms by simp
  then have "sum_list (map unat ?xs) < 2 ^ 32" by (simp only: xs)
  then have fits: "sum_list (map unat ?xs) < 2 ^ LENGTH(32)" by simp
  have "route_of ck c p = Ok \<lparr>fr_total_fee = c, fr_total_time_lock = sum_list ?xs, fr_hops = map hop_of p\<rparr>"
    by (simp only: route_of_def Let_def sum_ck_fits(1) [OF fits] rbind.simps)
  moreover have "unat (sum_list ?xs) = sum_list (map (unat \<circ> step_cltv) p)"
    by (simp only: sum_ck_fits(2) [OF fits] xs)
  ultimately show ?thesis by (metis found_route.select_convs)
qed

text \<open>A route the search may answer, read back as the walk it came from.\<close>

definition sound_route :: "bool \<Rightarrow> network_graph \<Rightarrow> u64 \<Rightarrow> node_id \<Rightarrow> node_id \<Rightarrow> found_route \<Rightarrow> bool" where
  "sound_route ck G amt a dest r \<longleftrightarrow> (\<exists>p. walk G amt a p dest \<and> distinct (a # map fst p) \<and> length p \<le> 6 \<and>
     fr_hops r = map hop_of p \<and> fr_total_fee r = sum_list (map step_fee p) \<and>
     (ck \<longrightarrow> unat (fr_total_fee r) = sum_list (map (unat \<circ> step_fee) p)) \<and>
     unat (fr_total_time_lock r) = sum_list (map (unat \<circ> step_cltv) p))"

lemma sound_route_entry:
  assumes "good_entry ck G amt a V (c, dest, p)" and "length p \<le> 6"
    and "(route_of ck c p :: ('e, found_route) res) = Ok r"
  shows "sound_route ck G amt a dest r"
proof -
  obtain r' where "(route_of ck c p :: ('e, found_route) res) = Ok r'" "fr_total_fee r' = c"
    "fr_hops r' = map hop_of p" "unat (fr_total_time_lock r') = sum_list (map (unat \<circ> step_cltv) p)"
    using route_of_short [OF assms(2), of ck c] by blast
  with assms show ?thesis unfolding sound_route_def good_entry_def by auto
qed

text \<open>The state of a search that began at \<open>a\<close>: its queue is good, its routes are sound, and there are no more than asked.\<close>

definition searching ::
  "bool \<Rightarrow> network_graph \<Rightarrow> u64 \<Rightarrow> nat \<Rightarrow> node_id \<Rightarrow> node_id
     \<Rightarrow> search_entry reverse_heap \<Rightarrow> node_id set \<Rightarrow> found_route list \<Rightarrow> bool" where
  "searching ck G amt mx a dest h V F \<longleftrightarrow> sorted h \<and> (\<forall>x \<in> set h. good_entry ck G amt a V x) \<and>
     length F \<le> mx \<and> (\<forall>r \<in> set F. sound_route ck G amt a dest r)"

lemma searching_start: "searching ck G amt mx a dest (heap_push (0, a, []) heap_new) {} []"
  by (simp add: searching_def heap_push_def heap_new_def good_entry_start)

lemma searching_drop:
  "searching ck G amt mx a dest h V F \<Longrightarrow> heap_pop h = Some (x, h') \<Longrightarrow> V \<subseteq> W \<Longrightarrow>
     searching ck G amt mx a dest h' W F"
  using pq.ok_pop [of h x h'] pop_set [of h x h']
  by (auto simp: searching_def intro: good_entry_mono)

lemma searching_hit:
  "searching ck G amt mx a dest h V F \<Longrightarrow> heap_pop h = Some ((c, dest, p), h') \<Longrightarrow> length F < mx \<Longrightarrow>
     length p \<le> 6 \<Longrightarrow> (route_of ck c p :: ('e, found_route) res) = Ok r \<Longrightarrow>
     searching ck G amt mx a dest h' V (F @ [r])"
  using searching_drop [of ck G amt mx a dest h V F "(c, dest, p)" h' V] pop_set [of h "(c, dest, p)" h']
    sound_route_entry [of ck G amt a V c dest p r]
  by (auto simp: searching_def)

lemma searching_grown:
  assumes "searching ck G amt mx a dest h V F" and pop: "heap_pop h = Some ((c, n, p), h')"
    and es: "map_of (build_adjacency G amt) n = Some es"
    and run: "(fold_res (relax_edge ck amt c p (insert n V)) es h' :: ('e, search_entry reverse_heap) res) = Ok h''"
  shows "searching ck G amt mx a dest h'' (insert n V) F"
proof -
  have drop: "searching ck G amt mx a dest h' (insert n V) F"
    using assms(1) pop by (rule searching_drop) blast
  have good: "good_entry ck G amt a V (c, n, p)"
    using assms(1) pop_set [OF pop] by (simp add: searching_def)
  have "good_entry ck G amt a (insert n V) x" if "x \<in> set h''" for x
    using relax_edges_Ok(2) [OF run that]
  proof
    assume "x \<in> set h'"
    with drop show ?thesis by (simp add: searching_def)
  next
    assume "\<exists>e \<in> set es. fst e \<notin> insert n V \<and> pushed ck amt c p e x"
    then obtain e where e: "e \<in> set es" "fst e \<notin> insert n V" "pushed ck amt c p e x" by blast
    then have "offers_edge G amt n e"
      using edges_of_build [of G amt n] es by (auto simp: edges_of_def)
    with good e show ?thesis by (blast intro: good_entry_pushed)
  qed
  with drop relax_edges_Ok(1) [OF run] show ?thesis by (simp add: searching_def)
qed

lemma search_routes_sound:
  assumes "(search_routes ck G a dest amt mx :: ('e, found_route list) res) = Ok routes"
  shows "length routes \<le> mx" and "r \<in> set routes \<Longrightarrow> sound_route ck G amt a dest r"
proof -
  have "\<exists>h V. searching ck G amt mx a dest h V routes \<and> (heap_pop h = None \<or> mx \<le> length routes)"
    using assms unfolding search_routes_def
    by (rule search_loop_invariant [where P = "searching ck G amt mx a dest"])
      (auto intro: searching_start searching_drop searching_hit searching_grown subset_insertI)
  then show "length routes \<le> mx" and "r \<in> set routes \<Longrightarrow> sound_route ck G amt a dest r"
    by (auto simp: searching_def)
qed

section \<open>Cheapest first\<close>

lemma pushed_checked:
  assumes "pushed True amt c p (x, scid, base, prop, cltv) y"
  shows "fst (snd y) = x \<and> unat (fst y) = unat c + fee_nat amt base prop"
proof -
  from assms obtain fee nc where f: "(hop_fee True amt base prop :: (unit, u64) res) = Ok fee"
    and nc: "(add_ck True c fee :: (unit, u64) res) = Ok nc" and "y = (nc, x, p @ [(x, scid, fee, cltv)])"
    by (auto simp: pushed_def)
  with hop_fee_checked [OF f] add_ck_Ok [OF nc] show ?thesis by simp
qed

lemma pushed_dearer: "pushed True amt c p e y \<Longrightarrow> c \<le> fst y"
  by (cases e) (auto dest!: pushed_checked simp: word_le_nat_alt)

lemma popped_cheapest:
  assumes "sorted h" and "heap_pop h = Some (x, h')" and "y \<in> set h"
  shows "fst x \<le> fst (y :: search_entry)"
proof -
  have "x \<le> y" using pq.pop_least [OF assms(1,2)] assms(3) by simp
  then show ?thesis by (auto simp: less_eq_prod_def)
qed

definition ordered :: "search_entry reverse_heap \<Rightarrow> found_route list \<Rightarrow> bool" where
  "ordered h F \<longleftrightarrow> sorted h \<and> sorted (map fr_total_fee F) \<and> (\<forall>r \<in> set F. \<forall>x \<in> set h. fr_total_fee r \<le> fst x)"

lemma ordered_pop: "ordered h F \<Longrightarrow> heap_pop h = Some (x, h') \<Longrightarrow> ordered h' F"
  using pq.ok_pop [of h x h'] pop_set [of h x h'] by (auto simp: ordered_def)

lemma ordered_hit:
  assumes o: "ordered h F" and pop: "heap_pop h = Some ((c, n, p), h')"
    and r: "(route_of ck c p :: ('e, found_route) res) = Ok r"
  shows "ordered h' (F @ [r])"
proof -
  have "fr_total_fee r = c" using r by (auto simp: route_of_def Let_def rbind_eq_Ok)
  moreover have "c \<le> fst y" if "y \<in> set h'" for y
    using popped_cheapest [of h "(c, n, p)" h' y] o pop pop_set [OF pop] that by (auto simp: ordered_def)
  ultimately show ?thesis
    using ordered_pop [OF o pop] o pop_set [OF pop] by (force simp: ordered_def sorted_append)
qed

lemma ordered_grown:
  assumes o: "ordered h F" and pop: "heap_pop h = Some ((c, n, p), h')"
    and run: "(fold_res (relax_edge True amt c p V) es h' :: ('e, search_entry reverse_heap) res) = Ok h''"
  shows "ordered h'' F"
proof -
  have "fr_total_fee r \<le> fst x" if "r \<in> set F" "x \<in> set h''" for r x
    using relax_edges_Ok(2) [OF run that(2)]
  proof
    assume "x \<in> set h'"
    with ordered_pop [OF o pop] that show ?thesis by (auto simp: ordered_def)
  next
    assume "\<exists>e \<in> set es. fst e \<notin> V \<and> pushed True amt c p e x"
    then have "c \<le> fst x" by (auto dest: pushed_dearer)
    moreover have "fr_total_fee r \<le> c" using o that(1) pop_set [OF pop] by (auto simp: ordered_def)
    ultimately show ?thesis by simp
  qed
  with ordered_pop [OF o pop] relax_edges_Ok(1) [OF run] show ?thesis by (auto simp: ordered_def)
qed

lemma search_routes_ordered:
  assumes "(search_routes True G a dest amt mx :: ('e, found_route list) res) = Ok routes"
  shows "sorted (map fr_total_fee routes)"
proof -
  have "\<exists>h (V :: node_id set). ordered h routes \<and> (heap_pop h = None \<or> mx \<le> length routes)"
    using assms unfolding search_routes_def
    by (rule search_loop_invariant [where P = "\<lambda>h V F. ordered h F"])
      (auto simp: ordered_def [of "[_]"] heap_push_def heap_new_def
        intro: ordered_pop ordered_hit ordered_grown)
  then show ?thesis by (auto simp: ordered_def)
qed

section \<open>The cheapest route\<close>

text \<open>
  A node is expanded when all cheaper ways to it are known: \<open>explored\<close> says that each expanded node
  has a least cost, and that every edge leaving the expanded part is in the queue at that cost.
\<close>

definition explored ::
  "network_graph \<Rightarrow> u64 \<Rightarrow> node_id \<Rightarrow> search_entry reverse_heap \<Rightarrow> node_id set \<Rightarrow> bool" where
  "explored G amt a h V \<longleftrightarrow> (a \<in> V \<or> (\<exists>p. (0, a, p) \<in> set h)) \<and>
     (\<exists>d. \<forall>v \<in> V. (\<forall>c. reaches G amt a v c \<longrightarrow> d v \<le> c) \<and>
       (\<forall>x scid base prop cltv. offers_edge G amt v (x, scid, base, prop, cltv) \<longrightarrow> x \<notin> V \<longrightarrow>
         (\<exists>c p. (c, x, p) \<in> set h \<and> unat c \<le> d v + fee_nat amt base prop)))"

lemma explored_frontier:
  assumes "explored G amt a h V" and "reaches G amt a x c" and "x \<notin> V"
  shows "\<exists>y \<in> set h. unat (fst y) \<le> c"
  using assms(2,3)
proof (induction rule: reaches.induct)
  case at_source
  with assms(1) show ?case by (force simp: explored_def)
next
  case (along b c x scid bs pr cltv)
  show ?case
  proof (cases "b \<in> V")
    case True
    from assms(1) obtain d where d: "\<forall>v \<in> V. (\<forall>c. reaches G amt a v c \<longrightarrow> d v \<le> c) \<and>
       (\<forall>x scid base prop cltv. offers_edge G amt v (x, scid, base, prop, cltv) \<longrightarrow> x \<notin> V \<longrightarrow>
         (\<exists>c p. (c, x, p) \<in> set h \<and> unat c \<le> d v + fee_nat amt base prop))"
      unfolding explored_def by blast
    from d True along obtain c' p where y: "(c', x, p) \<in> set h" "unat c' \<le> d b + fee_nat amt bs pr"
      by blast
    have "d b \<le> c" using d True along by blast
    with y show ?thesis by force
  next
    case False
    with along.IH show ?thesis by force
  qed
qed

lemma explored_settled:
  assumes "explored G amt a h V" and "sorted h" and pop: "heap_pop h = Some ((c, n, p), h')"
    and "reaches G amt a n c'" and "n \<notin> V"
  shows "unat c \<le> c'"
proof -
  from explored_frontier [OF assms(1,4,5)] obtain y where "y \<in> set h" "unat (fst y) \<le> c'" by blast
  with popped_cheapest [OF assms(2) pop, of y] show ?thesis by (auto simp: word_le_nat_alt)
qed

lemma explored_skip:
  assumes "explored G amt a h V" and pop: "heap_pop h = Some ((c, n, p), h')" and "n \<in> V"
  shows "explored G amt a h' V"
proof -
  have keep: "(c', x, p') \<in> set h'" if "(c', x, p') \<in> set h" "x \<notin> V" for c' x p'
    using that pop_set [OF pop] assms(3) by auto
  from assms(1) obtain d where start: "a \<in> V \<or> (\<exists>p. (0, a, p) \<in> set h)"
    and d: "\<forall>v \<in> V. (\<forall>c. reaches G amt a v c \<longrightarrow> d v \<le> c) \<and>
       (\<forall>x scid base prop cltv. offers_edge G amt v (x, scid, base, prop, cltv) \<longrightarrow> x \<notin> V \<longrightarrow>
         (\<exists>c p. (c, x, p) \<in> set h \<and> unat c \<le> d v + fee_nat amt base prop))"
    unfolding explored_def by blast
  from d have "\<forall>v \<in> V. (\<forall>c. reaches G amt a v c \<longrightarrow> d v \<le> c) \<and>
       (\<forall>x scid base prop cltv. offers_edge G amt v (x, scid, base, prop, cltv) \<longrightarrow> x \<notin> V \<longrightarrow>
         (\<exists>c p. (c, x, p) \<in> set h' \<and> unat c \<le> d v + fee_nat amt base prop))"
    by (meson keep)
  with start keep show ?thesis unfolding explored_def by blast
qed

lemma explored_expand:
  assumes ex: "explored G amt a h V" and srt: "sorted h" and pop: "heap_pop h = Some ((c, n, p), h')"
    and n: "n \<notin> V" and sub: "set h' \<subseteq> set h''"
    and new: "\<And>x scid base prop cltv. offers_edge G amt n (x, scid, base, prop, cltv) \<Longrightarrow> x \<notin> insert n V \<Longrightarrow>
      \<exists>c' p'. (c', x, p') \<in> set h'' \<and> unat c' \<le> unat c + fee_nat amt base prop"
  shows "explored G amt a h'' (insert n V)"
proof -
  have keep: "(c', x, p') \<in> set h''" if "(c', x, p') \<in> set h" "x \<noteq> n" for c' x p'
    using that pop_set [OF pop] sub by auto
  from ex obtain d where start: "a \<in> V \<or> (\<exists>p. (0, a, p) \<in> set h)"
    and d: "\<forall>v \<in> V. (\<forall>c. reaches G amt a v c \<longrightarrow> d v \<le> c) \<and>
       (\<forall>x scid base prop cltv. offers_edge G amt v (x, scid, base, prop, cltv) \<longrightarrow> x \<notin> V \<longrightarrow>
         (\<exists>c p. (c, x, p) \<in> set h \<and> unat c \<le> d v + fee_nat amt base prop))"
    unfolding explored_def by blast
  let ?d = "d(n := unat c)"
  have least: "(\<forall>c. reaches G amt a v c \<longrightarrow> ?d v \<le> c) \<and>
       (\<forall>x scid base prop cltv. offers_edge G amt v (x, scid, base, prop, cltv) \<longrightarrow> x \<notin> insert n V \<longrightarrow>
         (\<exists>c p. (c, x, p) \<in> set h'' \<and> unat c \<le> ?d v + fee_nat amt base prop))" if "v \<in> insert n V" for v
  proof (cases "v = n")
    case True
    then show ?thesis using explored_settled [OF ex srt pop _ n] new by auto
  next
    case False
    with that have v: "v \<in> V" by blast
    show ?thesis
    proof (intro conjI allI impI)
      fix c' assume "reaches G amt a v c'"
      with d v False show "?d v \<le> c'" by simp
    next
      fix x scid bs pr cltv
      assume "offers_edge G amt v (x, scid, bs, pr, cltv)" and x: "x \<notin> insert n V"
      with d v obtain c' p' where y: "(c', x, p') \<in> set h" "unat c' \<le> d v + fee_nat amt bs pr" by blast
      from keep [OF y(1)] x have "(c', x, p') \<in> set h''" by blast
      with y(2) False show "\<exists>c p. (c, x, p) \<in> set h'' \<and> unat c \<le> ?d v + fee_nat amt bs pr" by auto
    qed
  qed
  have start': "a \<in> insert n V \<or> (\<exists>p. (0, a, p) \<in> set h'')"
  proof (cases "a = n")
    case False
    then show ?thesis using start keep [of 0 a] by auto
  qed simp
  show ?thesis
    unfolding explored_def by (rule conjI [OF start' exI [of _ ?d]], rule ballI, rule least)
qed

end
