(* ===== verification/Returns.thy ===== *)
theory Returns
  imports Invariants PaymentProps RoutingCorrect
begin

text \<open>
  No request handler loops for ever on its own account, given a clock that does not stand still: the route
  search has a measure, and the wait for a payment has its timeout. A call to the outside is a function
  of the model and so always answers; whether it does is not a matter of this program. One lemma per
  operation, in the order of the code.
\<close>

section \<open>Calls and stores\<close>

lemma returns_calls [returns_intros]:
  "returns (call f)" "returns (try_call g h)" "returns (try_parse p k)"
  by (auto simp: returns_def call_def try_call_def try_parse_def exec_defs split: prod.splits sum.splits)

lemma returns_clock [returns_intros]: "returns (wallet_now D)" "returns (events_now D)"
  unfolding wallet_now_def events_now_def by (intro returns_intros)+

lemma returns_on_store [returns_intros]:
  "returns m \<Longrightarrow> returns (on_addresses m)" "returns mo \<Longrightarrow> returns (on_offers mo)" "returns mf \<Longrightarrow> returns (on_forwards mf)"
  unfolding returns_def on_addresses_def on_offers_def on_forwards_def
  by (auto split: prod.splits) (metis fst_conv)+

lemma returns_stores [returns_intros]:
  "returns (register_address bkt a)" "returns (get_address a)" "returns list_addresses"
  "returns (insert_offer bkt o' d am i)" "returns (find_by_offer_id i)" "returns list_offers" "returns (disable_offer o')"
  "returns (record_forward e)" "returns (get_history f u lim off)"
  by (auto simp: returns_def register_address_def get_address_def list_addresses_def insert_offer_def
      find_by_offer_id_def list_offers_def disable_offer_def record_forward_def get_history_def read_lock_def
      write_lock_def split: option.splits)

section \<open>Parsers and the search\<close>

lemma parse_not_Hang [simp]:
  "hex_to_32 C s what \<noteq> Hang" "invoice_expiry e \<noteq> Hang" "str_slice s i j \<noteq> Hang"
  by (auto simp: hex_to_32_def invoice_expiry_def str_slice_def split: sum.splits option.splits)

lemma case_sum_not_Hang: "(case v of Inl e \<Rightarrow> Err (g e) | Inr b \<Rightarrow> Ok (h b)) \<noteq> Hang"
  by (cases v) auto

lemma decode_not_Hang [simp]: "decode_hex s \<noteq> Hang" "decode_hex_32 s \<noteq> Hang" "preimage_hash C pre \<noteq> Hang"
proof -
  show hex: "decode_hex s \<noteq> Hang" and b32: "decode_hex_32 s \<noteq> Hang" for s
    unfolding decode_hex_def decode_hex_32_def
    by (auto intro!: collect_res_not_Hang simp: rbind_eq_Hang case_sum_not_Hang [where h = "\<lambda>b. b"])
  show "preimage_hash C pre \<noteq> Hang"
    using b32 by (auto simp: preimage_hash_def split: option.splits res.splits)
qed

lemma search_not_Hang [simp]: "search_loop ck amt mx dest adj heap V F \<noteq> (Hang :: ('e, found_route list) res)"
proof (induction heap V F rule: search_induct [where ck = ck and amt = amt and mx = mx and dest = dest and adj = adj and 'e = 'e])
  case (search h V F)
  have relax: "fold_res (relax_edge ck amt c p W) es h' \<noteq> (Hang :: ('e, search_entry reverse_heap) res)" for c p W es h'
    by (rule fold_res_not_Hang) (auto simp: relax_edge_def hop_fee_def rbind_eq_Hang split: prod.splits)
  have route: "route_of ck c p \<noteq> (Hang :: ('e, found_route) res)" for c p
    by (simp add: route_of_def Let_def rbind_eq_Hang)
  show ?case
    by (subst search_loop.simps) (use search in \<open>auto simp: rbind_eq_Hang relax route split: option.splits prod.splits\<close>)
qed

section \<open>The LDK service\<close>

lemma returns_waiting: "steady (D :: 'n deps) clock \<Longrightarrow> returns (wait_for_outbound_payment D i)"
proof (rule returnsI)
  fix w :: "'n world" assume st: "steady D clock"
  obtain v n1 where v: "pl_env_var (platform D) ''DLN_PAYMENT_TIMEOUT_SECS'' (host w) = (v, n1)" by fastforce
  obtain start n2 where t: "pl_instant (platform D) n1 = (start, n2)" by fastforce
  with st have "start \<le> clock n2" unfolding steady_def by (metis fst_conv snd_conv)
  from wait_loop_returns [OF st this] obtain r n' where
    loop: "wait_loop D i (wait_timeout_ns v) start n2 = Some (r, n')" by fastforce
  from wait_loop_outcome [OF this] have plain: "(\<exists>x. r = Ok x) \<or> (\<exists>e. r = Err e)" by blast
  have "wait_for_outbound_payment D i w = (r, w\<lparr>host := n'\<rparr>)"
    by (simp add: wait_for_outbound_payment_def exec_defs call_def v t run_wait_def loop)
  with plain show "fst (wait_for_outbound_payment D i w) \<noteq> Hang" by auto
qed


lemma returns_ldk_payments [returns_intros]:
  "returns (ldk_sync_wallets D)" "returns (ldk_get_balance D)" "returns (ldk_new_onchain_address D)"
  "returns (ldk_make_hold_invoice D a d e h)" "returns (ldk_settle_hold_invoice D p)"
  "returns (ldk_cancel_hold_invoice D h)" "returns (ldk_make_invoice D a d dh e)"
  "returns (ldk_pay_onchain D ad a f)" "returns (ldk_make_offer D a desc ex)"
  "returns (ldk_lookup_payment_by_hash D h)" "returns (ldk_lookup_payment_by_bolt11 D i)"
  "returns (ldk_list_payments_filtered D f' u l off un dir pm)"
  unfolding ldk_sync_wallets_def ldk_get_balance_def ldk_new_onchain_address_def
    ldk_make_hold_invoice_def ldk_settle_hold_invoice_def ldk_cancel_hold_invoice_def ldk_make_invoice_def
    ldk_pay_onchain_def ldk_make_offer_def ldk_lookup_payment_by_bolt11_def
    ldk_lookup_payment_by_hash_def ldk_list_payments_filtered_def parse_payment_hash_def parse_preimage_def Let_def
  by (intro returns_intros parse_not_Hang decode_not_Hang add_ck_not_Err)+

lemma returns_ldk_paying:
  assumes "steady D clock"
  shows "returns (ldk_pay_invoice D i am)" "returns (ldk_pay_keysend D k a)" "returns (ldk_pay_offer D o' am pn)"
  unfolding ldk_pay_invoice_def ldk_pay_keysend_def ldk_pay_offer_def
  by (intro returns_intros returns_waiting [OF assms])+

lemma returns_ldk_channels [returns_intros]:
  "returns (ldk_notify_channel_ready D u)" "returns (ldk_node_id D)" "returns (ldk_status D)"
  "returns (ldk_open_channel D k h a pm)" "returns (ldk_connect_peer D k h)"
  "returns (ldk_disconnect_peer D k)" "returns (ldk_list_channels D)" "returns (ldk_list_peers D)"
  "returns (ldk_close_channel D i f)" "returns (ldk_get_channel_fees D ci)" "returns (ldk_set_channel_fees D i b r)"
proof -
  have "channel_row ck c \<noteq> Hang" for ck c
    by (auto simp: channel_row_def rbind_eq_Hang Let_def split: prod.splits)
  then show "returns (ldk_list_channels D)"
    unfolding ldk_list_channels_def by (intro returns_intros collect_res_not_Hang)
qed (unfold ldk_notify_channel_ready_def ldk_node_id_def ldk_status_def ldk_open_channel_def
    ldk_connect_peer_def ldk_disconnect_peer_def ldk_list_peers_def
    ldk_close_channel_def ldk_get_channel_fees_def ldk_set_channel_fees_def, (intro returns_intros)+)

lemma returns_ldk_graph [returns_intros]:
  "returns (ldk_list_network_nodes D l off)" "returns (ldk_get_network_node D k)"
  "returns (ldk_get_network_stats D)" "returns (ldk_get_network_channel D i)" "returns (ldk_find_routes D d a m)"
proof -
  have info: "map_node_info ck C G i v \<noteq> Hang" for ck C G i v
    by (auto simp: map_node_info_def rbind_eq_Hang split: prod.splits option.splits)
  have row: "(case x of None \<Rightarrow> Ok None | Some v \<Rightarrow> rbind (map_node_info ck C G i v) (\<lambda>i. Ok (Some i))) \<noteq> Hang" for ck C G i x
    by (auto simp: rbind_eq_Hang info split: option.splits)
  have "network_nodes_page ck C G l off \<noteq> Hang" for ck C G
    by (auto simp: network_nodes_page_def rbind_eq_Hang intro!: collect_res_not_Hang row)
  then show "returns (ldk_list_network_nodes D l off)"
    unfolding ldk_list_network_nodes_def by (intro returns_intros)
  show "returns (ldk_get_network_node D k)"
    unfolding ldk_get_network_node_def Let_def by (intro returns_intros) (simp add: rbind_eq_Hang info)
  show "returns (ldk_find_routes D d a m)"
    unfolding ldk_find_routes_def Let_def by (intro returns_intros) (simp add: search_routes_def)
qed (unfold ldk_get_network_stats_def ldk_get_network_channel_def, (intro returns_intros)+)

section \<open>Requests and events\<close>

lemma returns_wallet_core:
  assumes "steady D clock"
  shows "returns (wallet_get_info D ms al)" "returns (wallet_get_balance D)"
  "returns (wallet_pay_invoice D r1)" "returns (wallet_make_invoice D r2)"
  "returns (wallet_lookup_invoice D r3)" "returns (wallet_pay_onchain D r4)"
  "returns (wallet_make_new_address D t)" "returns (wallet_lookup_address D a)"
  "returns (wallet_list_addresses D)"
proof -
  have sats: "received_sats D rec \<noteq> Hang" for rec by (simp add: received_sats_def)
  then have row: "address_row_of D rec \<noteq> Hang" for rec by (simp add: address_row_of_def rbind_eq_Hang)
  show "returns (wallet_lookup_address D a)" "returns (wallet_list_addresses D)"
    unfolding wallet_lookup_address_def wallet_list_addresses_def
    by (intro returns_intros sats collect_res_not_Hang row)+
qed (unfold wallet_get_info_def wallet_get_balance_def wallet_pay_invoice_def wallet_make_invoice_def
    wallet_lookup_invoice_def wallet_pay_onchain_def wallet_make_new_address_def,
    (intro returns_intros returns_ldk_paying [OF assms])+)

lemma returns_wallet_records:
  assumes "steady D clock"
  shows "returns (wallet_make_hold_invoice D r1)" "returns (wallet_settle_hold_invoice D p)"
  "returns (wallet_cancel_hold_invoice D h)" "returns (wallet_pay_keysend D r2)"
  "returns (wallet_list_transactions D r3)" "returns (wallet_lookup_payment D r4)"
  "returns (wallet_list_invoices D r5)"
  unfolding wallet_make_hold_invoice_def wallet_settle_hold_invoice_def
    wallet_cancel_hold_invoice_def wallet_pay_keysend_def wallet_list_transactions_def
    wallet_lookup_payment_def wallet_list_invoices_def Let_def
  by (intro returns_intros returns_ldk_paying [OF assms])+

lemma returns_wallet_offers:
  assumes "steady D clock"
  shows "returns (wallet_make_offer D r1)" "returns (wallet_pay_offer D r2)" "returns (wallet_list_offers D a)"
  "returns (wallet_disable_offer D i)" "returns (wallet_quote_payment D r3)" "returns (wallet_pay D r4)"
  "returns (wallet_receive D r5)"
proof -
  have paid: "returns (paid D k a p t f)" for k a p t f unfolding paid_def by (intro returns_intros) simp
  have amount: "pay_amount_msat ck x y \<noteq> Hang" for ck x y
    by (auto simp: pay_amount_msat_def rbind_eq_Hang split: option.splits)
  have entry: "returns (receive_entry D r e acc)" for r e acc
    unfolding receive_entry_def receive_bolt11_def receive_bolt12_def receive_onchain_def Let_def
    by (intro returns_intros)
  have expiry: "returns (offer_expiry D e)" for e unfolding offer_expiry_def by (intro returns_intros)
  show "returns (wallet_pay D r4)"
    unfolding wallet_pay_def by (intro returns_intros returns_ldk_paying [OF assms] paid amount) simp
  show "returns (wallet_make_offer D r1)" "returns (wallet_pay_offer D r2)" "returns (wallet_list_offers D a)"
    "returns (wallet_disable_offer D i)" "returns (wallet_quote_payment D r3)" "returns (wallet_receive D r5)"
    unfolding wallet_make_offer_def wallet_pay_offer_def wallet_list_offers_def wallet_disable_offer_def
      wallet_quote_payment_def wallet_receive_def Let_def
    by (intro returns_intros returns_ldk_paying [OF assms] expiry entry)+
qed

lemma returns_control:
  "returns (control_list_channels D)" "returns (control_open_channel D r1)"
  "returns (control_close_channel D r2)" "returns (control_list_peers D)"
  "returns (control_connect_peer D r3)" "returns (control_disconnect_peer D p)"
  "returns (control_get_channel_fees D ci)" "returns (control_set_channel_fees D r4)"
  "returns (control_query_routes D r5)" "returns (control_get_forwarding_history D r6)"
  "returns (control_list_network_nodes D r7)" "returns (control_get_network_node D p)"
  "returns (control_get_network_stats D)" "returns (control_get_network_channel D i)"
  unfolding control_list_channels_def control_open_channel_def control_close_channel_def
    control_list_peers_def control_connect_peer_def control_disconnect_peer_def
    control_get_channel_fees_def control_set_channel_fees_def control_query_routes_def
    control_get_forwarding_history_def control_list_network_nodes_def control_get_network_node_def
    control_get_network_stats_def control_get_network_channel_def
  by (intro returns_intros)+

lemma returns_announce [returns_intros]: "returns (announce_wallet N n)" "returns (announce_control N n)"
  unfolding announce_wallet_def announce_control_def by (intro returns_intros)+

lemma returns_handle_event [returns_intros]: "returns (handle_event D N ev)"
  by (cases ev) (auto simp: event_payment_def Let_def intro!: returns_intros)

lemma returns_answered: "returns m \<Longrightarrow> returns (answered m)"
  unfolding answered_def by (intro returns_intros)

lemma returns_serve_wallet: "steady D clock \<Longrightarrow> returns (serve_wallet D ms al q)"
  by (cases q) (simp_all add: returns_answered returns_wallet_core returns_wallet_records returns_wallet_offers)

lemma returns_serve_control: "returns (serve_control D k)"
  by (cases k) (simp_all add: returns_answered returns_control)

end
