(* ===== verification/RoutingProps.thy ===== *)
theory RoutingProps
  imports RoutingCorrect
begin

text \<open>
  The properties of the route search: soundness, order and number of the routes, the cheapest route,
  when the arithmetic cannot overflow, and the agreement of the two build profiles.
\<close>

section \<open>Optimality of the first route\<close>

text \<open>No walk without repeated nodes is longer than the search's limit of six hops.\<close>

definition hop_bounded :: "network_graph \<Rightarrow> u64 \<Rightarrow> node_id \<Rightarrow> bool" where
  "hop_bounded G amt a \<longleftrightarrow> (\<forall>p b. walk G amt a p b \<longrightarrow> distinct (a # map fst p) \<longrightarrow> length p \<le> 6)"

lemma walk_nodes:
  "walk G amt a p b \<Longrightarrow> set (map fst p) \<subseteq> {fst e | e v. offers_edge G amt v e}"
  by (induction rule: walk.induct) force+

lemma hop_bounded_small:
  assumes "\<And>v e. offers_edge G amt v e \<Longrightarrow> fst e \<in> N" and "a \<in> N" and "finite N" and "card N \<le> 7"
  shows "hop_bounded G amt a"
  unfolding hop_bounded_def
proof (intro allI impI)
  fix p b assume w: "walk G amt a p b" and d: "distinct (a # map fst p)"
  have "set (a # map fst p) \<subseteq> N" using walk_nodes [OF w] assms(1,2) by auto
  then have "card (set (a # map fst p)) \<le> 7" using card_mono [OF assms(3)] assms(4) by (meson le_trans)
  then show "length p \<le> 6" using distinct_card [OF d] by simp
qed

text \<open>Every entry of the queue reaches its node at its cost.\<close>

definition reaching :: "network_graph \<Rightarrow> u64 \<Rightarrow> node_id \<Rightarrow> search_entry \<Rightarrow> bool" where
  "reaching G amt a x \<longleftrightarrow> reaches G amt a (fst (snd x)) (unat (fst x))"

lemma reaching_pushed:
  "reaching G amt a (c, n, p) \<Longrightarrow> offers_edge G amt n e \<Longrightarrow> pushed True amt c p e x \<Longrightarrow> reaching G amt a x"
  by (cases e) (auto simp: reaching_def dest!: pushed_checked intro: along)

definition optimizing ::
  "network_graph \<Rightarrow> u64 \<Rightarrow> nat \<Rightarrow> node_id \<Rightarrow> node_id
     \<Rightarrow> search_entry reverse_heap \<Rightarrow> node_id set \<Rightarrow> found_route list \<Rightarrow> bool" where
  "optimizing G amt mx a dest h V F \<longleftrightarrow> searching True G amt mx a dest h V F \<and> (\<forall>x \<in> set h. reaching G amt a x) \<and>
     (case F of [] \<Rightarrow> dest \<notin> V \<and> explored G amt a h V
      | r # _ \<Rightarrow> reaches G amt a dest (unat (fr_total_fee r)) \<and>
          (\<forall>c. reaches G amt a dest c \<longrightarrow> unat (fr_total_fee r) \<le> c))"

lemma optimizing_start: "optimizing G amt mx a dest (heap_push (0, a, []) heap_new) {} []"
  using searching_start [of True G amt mx a dest]
  by (auto simp: optimizing_def explored_def reaching_def heap_push_def heap_new_def at_source)

lemma optimizing_hit:
  assumes o: "optimizing G amt mx a dest h V F" and pop: "heap_pop h = Some ((c, dest, p), h')"
    and more: "length F < mx" and short: "length p \<le> 6" and r: "(route_of True c p :: ('e, found_route) res) = Ok r"
  shows "optimizing G amt mx a dest h' V (F @ [r])"
proof -
  have fee: "fr_total_fee r = c" using r by (auto simp: route_of_def Let_def rbind_eq_Ok)
  have s: "searching True G amt mx a dest h V F" using o by (simp add: optimizing_def)
  have c: "reaches G amt a dest (unat c)"
    using o pop_set [OF pop] by (simp add: optimizing_def reaching_def)
  have least: "\<forall>c'. reaches G amt a dest c' \<longrightarrow> unat c \<le> c'" if "F = []"
    using that o explored_settled [OF _ _ pop] by (auto simp: optimizing_def searching_def)
  show ?thesis
    using searching_hit [OF s pop more short r] o pop_set [OF pop] c least fee
    by (cases F) (auto simp: optimizing_def)
qed

lemma optimizing_pop:
  assumes o: "optimizing G amt mx a dest h V F" and pop: "heap_pop h = Some ((c, n, p), h')" and n: "n \<in> V"
  shows "optimizing G amt mx a dest h' V F"
  using o searching_drop [OF _ pop subset_refl] pop_set [OF pop] explored_skip [OF _ pop n]
  by (auto simp: optimizing_def split: list.splits)

lemma optimizing_leaf:
  assumes o: "optimizing G amt mx a dest h V F" and pop: "heap_pop h = Some ((c, n, p), h')"
    and n: "n \<notin> V" "n \<noteq> dest" and none: "map_of (build_adjacency G amt) n = None"
  shows "optimizing G amt mx a dest h' (insert n V) F"
proof -
  have no: "\<not> offers_edge G amt n e" for e
    using edges_of_build [of G amt n] none unfolding edges_of_def by (cases e) auto
  have "explored G amt a h' (insert n V)" if "explored G amt a h V" "sorted h"
    by (rule explored_expand [OF that pop n(1)]) (auto simp: no)
  moreover have s: "searching True G amt mx a dest h V F" using o by (simp add: optimizing_def)
  moreover have "sorted h" using s by (simp add: searching_def)
  ultimately show ?thesis
    using o searching_drop [OF s pop subset_insertI] pop_set [OF pop] n
    by (auto simp: optimizing_def split: list.splits)
qed

lemma optimizing_grown:
  assumes o: "optimizing G amt mx a dest h V F" and pop: "heap_pop h = Some ((c, n, p), h')"
    and n: "n \<notin> V" "n \<noteq> dest" and es: "map_of (build_adjacency G amt) n = Some es"
    and run: "(fold_res (relax_edge True amt c p (insert n V)) es h' :: ('e, search_entry reverse_heap) res) = Ok h''"
  shows "optimizing G amt mx a dest h'' (insert n V) F"
proof -
  have s: "searching True G amt mx a dest h V F" using o by (simp add: optimizing_def)
  have edges: "e \<in> set es \<longleftrightarrow> offers_edge G amt n e" for e
    using edges_of_build [of G amt n] es by (auto simp: edges_of_def)
  have ex: "explored G amt a h'' (insert n V)" if "explored G amt a h V"
  proof (rule explored_expand [OF that _ pop n(1)])
    show "sorted h" using s by (simp add: searching_def)
    show "set h' \<subseteq> set h''" using relax_edges_Ok(3) [OF run] by blast
    fix x scid bs pr cltv
    assume "offers_edge G amt n (x, scid, bs, pr, cltv)" and "x \<notin> insert n V"
    then obtain y where "y \<in> set h''" "pushed True amt c p (x, scid, bs, pr, cltv) y"
      using relax_edges_Ok(4) [OF run, of "(x, scid, bs, pr, cltv)"] edges by auto
    with pushed_checked [of amt c p x scid bs pr cltv y]
    show "\<exists>c' p'. (c', x, p') \<in> set h'' \<and> unat c' \<le> unat c + fee_nat amt bs pr"
      by (metis order_refl prod.collapse)
  qed
  have reach: "reaching G amt a x" if "x \<in> set h''" for x
    using relax_edges_Ok(2) [OF run that]
  proof
    assume "x \<in> set h'"
    with o pop_set [OF pop] show ?thesis by (simp add: optimizing_def)
  next
    assume "\<exists>e \<in> set es. fst e \<notin> insert n V \<and> pushed True amt c p e x"
    with edges obtain e where "offers_edge G amt n e" "pushed True amt c p e x" by blast
    with o pop_set [OF pop] show ?thesis by (auto simp: optimizing_def intro: reaching_pushed)
  qed
  show ?thesis
    using o searching_grown [OF s pop es run] ex reach n by (auto simp: optimizing_def split: list.splits)
qed

lemma search_routes_optimal:
  assumes bounded: "hop_bounded G amt a" and mx: "0 < mx"
    and run: "(search_routes True G a dest amt mx :: ('e, found_route list) res) = Ok routes"
  shows "case routes of
      [] \<Rightarrow> \<not> (\<exists>c. reaches G amt a dest c)
    | r # _ \<Rightarrow> reaches G amt a dest (unat (fr_total_fee r)) \<and>
        (\<forall>c. reaches G amt a dest c \<longrightarrow> unat (fr_total_fee r) \<le> c)"
proof -
  have "\<exists>h V. optimizing G amt mx a dest h V routes \<and> (heap_pop h = None \<or> mx \<le> length routes)"
    using run unfolding search_routes_def
  proof (rule search_loop_invariant [where P = "optimizing G amt mx a dest"])
    show "optimizing G amt mx a dest (heap_push (0, a, []) heap_new) {} []" by (rule optimizing_start)
  next
    fix h V F c n p h'
    assume o: "optimizing G amt mx a dest h V F" and pop: "heap_pop h = Some ((c, n, p), h')" and long: "6 < length p"
    from o pop_set [OF pop] have "good_entry True G amt a V (c, n, p)" by (simp add: optimizing_def searching_def)
    with bounded long show "optimizing G amt mx a dest h' V F"
      by (fastforce simp: good_entry_def hop_bounded_def)
  qed (blast intro: optimizing_hit optimizing_pop optimizing_leaf optimizing_grown)+
  then obtain h V where o: "optimizing G amt mx a dest h V routes" and e: "heap_pop h = None \<or> mx \<le> length routes"
    by blast
  show ?thesis
  proof (cases routes)
    case Nil
    with e mx have "set h = {}" using pq.pop_None [of h] by auto
    with o Nil explored_frontier [of G amt a h V dest] show ?thesis by (auto simp: optimizing_def)
  qed (use o in \<open>simp add: optimizing_def\<close>)
qed

section \<open>Overflow\<close>

text \<open>Below 2^32 millisatoshi no fee, cost or delta overflows, on a path of at most seven steps.\<close>

definition fee_cap :: nat where
  "fee_cap = 2 ^ 45"

lemma hop_fee_small:
  assumes "unat amt < 2 ^ 32"
  shows "\<exists>f. hop_fee ck amt base prop = Ok f \<and> unat f \<le> fee_cap"
proof -
  have b: "unat base < 2 ^ 32" "unat prop < 2 ^ 32"
    using unsigned_less [where 'a = nat and w = "base"] unsigned_less [where 'a = nat and w = "prop"] by simp_all
  have m: "unat amt * unat (ucast prop :: u64) < 2 ^ 64"
    using mult_strict_mono [OF assms b(2)] by simp
  then have u: "unat (amt * ucast prop) = unat amt * unat prop" by (simp add: unat_mul_no_wrap)
  have d: "unat amt * unat prop div 1000000 \<le> 2 ^ 64 div 1000000" using m by (intro div_le_mono) simp
  have s: "unat (ucast base :: u64) + unat (amt * ucast prop div 1000000) < 2 ^ 64"
    using b d by (simp add: unat_div u)
  have "unat (ucast base + amt * ucast prop div 1000000) \<le> fee_cap"
    using b d unat_add_no_wrap [of "ucast base :: u64" "amt * ucast prop div 1000000"] s
    by (simp add: unat_div u fee_cap_def)
  with m s show ?thesis by (simp add: hop_fee_def mul_ck_def add_ck_def)
qed

definition light :: "search_entry \<Rightarrow> bool" where
  "light x \<longleftrightarrow> (case x of (c, n, p) \<Rightarrow> length p \<le> 7 \<and> unat c \<le> length p * fee_cap)"

lemma light_fold:
  assumes "unat amt < 2 ^ 32" and "light (c, n, p)" and "length p \<le> 6" and "\<forall>x \<in> set h. light x"
  shows "\<exists>h''. (fold_res (relax_edge ck amt c p V) es h :: ('e, search_entry reverse_heap) res) = Ok h''
    \<and> (\<forall>x \<in> set h''. light x)"
  using assms(4)
proof (induction es arbitrary: h)
  case (Cons e es)
  obtain x scid bs pr cltv where e: "e = (x, scid, bs, pr, cltv)" by (metis prod_cases5)
  have "\<exists>h1. (relax_edge ck amt c p V e h :: ('e, search_entry reverse_heap) res) = Ok h1 \<and> (\<forall>x \<in> set h1. light x)"
  proof (cases "x \<in> V")
    case False
    obtain f where f: "(hop_fee ck amt bs pr :: ('e, u64) res) = Ok f" and small: "unat f \<le> fee_cap"
      using hop_fee_small [OF assms(1)] by blast
    have c: "unat c \<le> length p * fee_cap" using assms(2) by (simp add: light_def)
    moreover have "length p * fee_cap \<le> 6 * fee_cap" using assms(3) by simp
    ultimately have fits: "unat c + unat f < 2 ^ 64" using small by (simp add: fee_cap_def)
    then have "unat (c + f) \<le> length (p @ [(x, scid, f, cltv)]) * fee_cap"
      using c small unat_add_no_wrap [of c f] by simp
    with assms(3) have "light (c + f, x, p @ [(x, scid, f, cltv)])" by (simp add: light_def)
    with f fits False Cons.prems show ?thesis
      by (simp add: relax_edge_def e add_ck_def heap_push_def set_insort_key)
  qed (use Cons.prems in \<open>simp add: relax_edge_def e\<close>)
  then obtain h1 where "(relax_edge ck amt c p V e h :: ('e, search_entry reverse_heap) res) = Ok h1"
    and "\<forall>x \<in> set h1. light x" by blast
  with Cons.IH show ?case by simp
qed simp

lemma search_routes_returns:
  assumes "unat amt < 2 ^ 32"
  shows "\<exists>routes. (search_routes ck G a dest amt mx :: ('e, found_route list) res) = Ok routes"
  unfolding search_routes_def
proof (rule search_loop_returns [where P = "\<lambda>h V F. \<forall>x \<in> set h. light x"])
  show "\<forall>x \<in> set (heap_push (0, a, []) heap_new). light x"
    by (simp add: heap_push_def heap_new_def light_def)
next
  fix h V F c n p h' es
  assume l: "\<forall>x \<in> set h. light x" and pop: "heap_pop h = Some ((c, n, p), h')" and short: "length p \<le> 6"
  from l pop_set [OF pop] have "light (c, n, p)" "\<forall>x \<in> set h'. light x" by auto
  from light_fold [OF assms this(1) short this(2)]
  show "\<exists>h''. (fold_res (relax_edge ck amt c p (insert n V)) es h' :: ('e, search_entry reverse_heap) res) = Ok h''
    \<and> (\<forall>x \<in> set h''. light x)" by blast
next
  fix h V F c p h'
  assume "\<forall>x \<in> set h. light x" and "heap_pop h = Some ((c, dest, p), h')" and "length p \<le> 6"
  then show "\<exists>r. (route_of ck c p :: ('e, found_route) res) = Ok r \<and> (\<forall>x \<in> set h'. light x)"
    using route_of_short [of p ck c] pop_set [of h "(c, dest, p)" h'] by auto
qed (auto dest!: pop_set)

section \<open>The two build profiles\<close>

lemma add_ck_release: "add_ck True a b = Ok c \<Longrightarrow> add_ck False a b = Ok c"
  by (auto simp: add_ck_def split: if_splits)

lemma mul_ck_release: "mul_ck True a b = Ok c \<Longrightarrow> mul_ck False a b = Ok c"
  by (auto simp: mul_ck_def split: if_splits)

lemma hop_fee_release: "hop_fee True amt base prop = Ok f \<Longrightarrow> hop_fee False amt base prop = Ok f"
  by (auto simp: hop_fee_def rbind_eq_Ok dest!: add_ck_release mul_ck_release)

lemma relax_edge_release: "relax_edge True amt c p V e h = Ok h' \<Longrightarrow> relax_edge False amt c p V e h = Ok h'"
  by (auto simp: relax_edge_def rbind_eq_Ok split: prod.splits if_splits dest!: hop_fee_release add_ck_release)

lemma fold_res_mono:
  assumes "\<And>x a b. f x a = Ok b \<Longrightarrow> g x a = Ok b" and "fold_res f xs acc = Ok r"
  shows "fold_res g xs acc = Ok r"
  using assms(2) by (induction xs arbitrary: acc) (auto simp: rbind_eq_Ok dest: assms(1))

lemma route_of_release: "route_of True c p = Ok r \<Longrightarrow> route_of False c p = Ok r"
proof -
  assume "route_of True c p = Ok r"
  moreover have "sum_ck True xs = Ok t \<Longrightarrow> sum_ck False xs = Ok t" for xs and t :: u32
    unfolding sum_ck_def by (rule fold_res_mono) (rule add_ck_release)
  ultimately show ?thesis by (auto simp: route_of_def Let_def rbind_eq_Ok)
qed

lemma search_loop_release:
  assumes "(search_loop True amt mx dest adj h V F :: ('e, found_route list) res) = Ok out"
  shows "(search_loop False amt mx dest adj h V F :: ('e, found_route list) res) = Ok out"
  using assms
proof (induction h V F rule: search_induct [where ck = True and amt = amt and mx = mx and dest = dest
      and adj = adj and 'e = 'e])
  case (search h V F)
  show ?case
  proof (cases "heap_pop h")
    case None
    with search.prems show ?thesis by (simp add: search_loop_empty)
  next
    case (Some x)
    then obtain c n p h' where pop: "heap_pop h = Some ((c, n, p), h')" by (cases x) auto
    note run = search.prems [unfolded search_loop_pop [OF pop]]
    have grown: ?thesis if "map_of adj n = Some es" "n \<notin> V" "n \<noteq> dest" "length p \<le> 6" "length F < mx" for es
    proof -
      from run that obtain h'' where h'': "(fold_res (relax_edge True amt c p (insert n V)) es h'
          :: ('e, search_entry reverse_heap) res) = Ok h''"
        and rest: "(search_loop True amt mx dest adj h'' (insert n V) F :: ('e, found_route list) res) = Ok out"
        by (auto simp: rbind_eq_Ok)
      have "(fold_res (relax_edge False amt c p (insert n V)) es h' :: ('e, search_entry reverse_heap) res) = Ok h''"
        by (rule fold_res_mono [OF _ h'']) (rule relax_edge_release)
      with search.IH(5) [OF pop that(5,4,3,2,1) h'' rest] that show ?thesis
        by (simp add: search_loop_pop [OF pop])
    qed
    show ?thesis
      using run search.IH(1) [OF pop] search.IH(2) [of c p h'] search.IH(3) [OF pop] search.IH(4) [OF pop]
        grown pop
      by (auto simp: search_loop_pop [OF pop] rbind_eq_Ok not_le split: if_splits option.splits
          dest: route_of_release)
  qed
qed

text \<open>So where nothing overflows, what either build answers is what the build with overflow checks answers.\<close>

lemma search_routes_checked:
  assumes "ck \<or> unat amt < 2 ^ 32" and "(search_routes ck G a dest amt mx :: ('e, found_route list) res) = Ok routes"
  shows "(search_routes True G a dest amt mx :: ('e, found_route list) res) = Ok routes"
proof (cases ck)
  case False
  with assms(1) obtain routes' where r: "(search_routes True G a dest amt mx :: ('e, found_route list) res) = Ok routes'"
    using search_routes_returns by blast
  then have "(search_routes False G a dest amt mx :: ('e, found_route list) res) = Ok routes'"
    unfolding search_routes_def by (rule search_loop_release)
  with r assms(2) False show ?thesis by simp
qed (use assms in simp)

section \<open>The operation\<close>

text \<open>What a search needs of the node: whom to reach, who asks, and the graph.\<close>

definition asks :: "'n deps \<Rightarrow> 'n world \<Rightarrow> string \<Rightarrow> node_id \<Rightarrow> node_id \<Rightarrow> network_graph \<Rightarrow> 'n \<Rightarrow> bool" where
  "asks D w dest a b G n \<longleftrightarrow> (\<exists>pk our n1.
     cr_public_key_from_str (crate D) dest = Inr pk \<and> b = cr_node_id_from_pubkey (crate D) pk \<and>
     ca_node_id (channel_node D) (host w) = (our, n1) \<and> a = cr_node_id_from_pubkey (crate D) our \<and>
     ca_network_graph (channel_node D) n1 = (G, n))"

lemma ldk_find_routes_asks:
  "asks D w dest a b G n \<Longrightarrow> a \<noteq> b \<Longrightarrow>
     ldk_find_routes D dest amt mx w = (search_routes (overflow_checks D) G a b amt mx, w\<lparr>host := n\<rparr>)"
  by (auto simp: asks_def ldk_find_routes_def bnd_def call_def lift_def split: res.splits)

lemma ldk_find_routes_Ok:
  assumes "asks D w dest a b G n" and "a \<noteq> b"
    and "ldk_find_routes D dest amt mx w = (Ok routes :: ('e, found_route list) res, w')"
  shows "(search_routes (overflow_checks D) G a b amt mx :: ('e, found_route list) res) = Ok routes"
  using assms(3) by (simp add: ldk_find_routes_asks [OF assms(1,2)])

lemma ldk_find_routes_self:
  "asks D w dest a a G n \<Longrightarrow> fst (ldk_find_routes D dest amt mx w) = Ok []"
  by (auto simp: asks_def ldk_find_routes_def bnd_def call_def ret_def split: prod.splits)

text \<open>Evaluation of a search on a concrete graph.\<close>

lemma rbind_weak_cong: "r = r' \<Longrightarrow> rbind r f = rbind r' f"
  by simp

lemmas search_run = search_routes_def search_loop_pop search_loop_empty search_loop_full heap_push_def heap_new_def
  relax_edge_def hop_fee_def mul_ck_def add_ck_def route_of_def sum_ck_def hop_of_def Let_def
  less_eq_node_id_def less_node_id_def less_eq_prod_def

lemma triangle_adjacency: "build_adjacency triangle 1000 =
  [(NodeId [97], [(NodeId [98], 0, 1, 0, 10), (NodeId [99], 2, 10, 0, 10)]),
   (NodeId [98], [(NodeId [97], 0, 1, 0, 10), (NodeId [99], 1, 2, 0, 10)]),
   (NodeId [99], [(NodeId [98], 1, 2, 0, 10), (NodeId [97], 2, 10, 0, 10)])]"
  by code_simp

lemma detour_adjacency: "build_adjacency detour 1000 =
  [(NodeId [97], [(NodeId [98], 0, 0, 0, 10), (NodeId [103], 6, 5, 0, 10)]),
   (NodeId [98], [(NodeId [97], 0, 0, 0, 10), (NodeId [99], 1, 0, 0, 10)]),
   (NodeId [99], [(NodeId [98], 1, 0, 0, 10), (NodeId [100], 2, 0, 0, 10)]),
   (NodeId [100], [(NodeId [99], 2, 0, 0, 10), (NodeId [101], 3, 0, 0, 10)]),
   (NodeId [101], [(NodeId [100], 3, 0, 0, 10), (NodeId [102], 4, 0, 0, 10)]),
   (NodeId [102], [(NodeId [101], 4, 0, 0, 10), (NodeId [103], 5, 0, 0, 10)]),
   (NodeId [103], [(NodeId [102], 5, 0, 0, 10), (NodeId [97], 6, 5, 0, 10), (NodeId [104], 7, 0, 0, 10)]),
   (NodeId [104], [(NodeId [103], 7, 0, 0, 10)])]"
  by code_simp

definition triangle_route :: found_route where
  "triangle_route = \<lparr>fr_total_fee = 3, fr_total_time_lock = 20,
     fr_hops = [\<lparr>rh_pubkey = hex_string [98], rh_short_channel_id = format_scid 0, rh_fee = 1, rh_expiry = 10\<rparr>,
                \<lparr>rh_pubkey = hex_string [99], rh_short_channel_id = format_scid 1, rh_fee = 2, rh_expiry = 10\<rparr>]\<rparr>"

definition direct_route :: found_route where
  "direct_route = \<lparr>fr_total_fee = 10, fr_total_time_lock = 10,
     fr_hops = [\<lparr>rh_pubkey = hex_string [99], rh_short_channel_id = format_scid 2, rh_fee = 10, rh_expiry = 10\<rparr>]\<rparr>"

lemma triangle_search: "search_routes ck triangle (NodeId [97]) (NodeId [99]) 1000 2 = Ok [triangle_route, direct_route]"
  by (simp add: search_run triangle_adjacency triangle_route_def direct_route_def cong: rbind_weak_cong)

definition triangle_world :: "sim_host world" where
  "triangle_world = init_world (sim_start\<lparr>sh_graph := triangle\<rparr>)"

lemma triangle_asks: "asks (sim_deps ck) triangle_world ''c'' (NodeId [97]) (NodeId [99]) triangle
    (sim_start\<lparr>sh_graph := triangle\<rparr>)"
  unfolding asks_def triangle_world_def sim_deps_def sim_crates_def sim_channel_def init_world_def by simp

lemma triangle_found:
  "ldk_find_routes (sim_deps ck) ''c'' 1000 2 triangle_world = (Ok [triangle_route, direct_route], triangle_world)"
  by (subst ldk_find_routes_asks [OF triangle_asks])
    (simp_all add: triangle_search sim_deps_def triangle_world_def init_world_def)

section \<open>Properties\<close>

text \<open>C1: every route \<open>find_routes\<close> answers is a walk from this node to the destination over usable
directions of listed channels, each admitting the amount; it repeats no node, has at most six hops,
its hops are the hops of the walk, its total fee is the sum of their fees and its time lock the sum
of their deltas; and there are at most as many routes as were asked for.\<close>

theorem find_routes_sound:
  assumes "ldk_find_routes D dest amt mx w = (Ok routes :: ('e, found_route list) res, w')" and "asks D w dest a b G n"
  shows "length routes \<le> mx \<and> (\<forall>r \<in> set routes. sound_route (overflow_checks D) G amt a b r)"
proof (cases "a = b")
  case True
  with assms(2) have "fst (ldk_find_routes D dest amt mx w :: ('e, found_route list) res \<times> _) = Ok []"
    by (simp add: ldk_find_routes_self)
  with assms(1) show ?thesis by simp
next
  case False
  from search_routes_sound [OF ldk_find_routes_Ok [OF assms(2) False assms(1)]] show ?thesis by blast
qed

theorem find_routes_sound_witness:
  "sound_route False triangle 1000 (NodeId [97]) (NodeId [99]) triangle_route \<and>
   sound_route False triangle 1000 (NodeId [97]) (NodeId [99]) direct_route"
  using find_routes_sound [OF triangle_found triangle_asks, of False] by (simp add: sim_deps_def)

text \<open>C6: in a build with overflow checks, and in any build below 2^32 millisatoshi, when the graph has no
repetition-free walk from this node longer than six hops, \<open>find_routes\<close> is exact: it answers no route only if the
destination cannot be reached, and the first route it answers has the least total fee of all ways to reach it.\<close>

theorem find_routes_cheapest:
  assumes "overflow_checks D \<or> unat amt < 2 ^ 32" and "asks D w dest a b G n" and "a \<noteq> b" and "0 < mx" and "hop_bounded G amt a"
    and "ldk_find_routes D dest amt mx w = (Ok routes :: ('e, found_route list) res, w')"
  shows "case routes of
      [] \<Rightarrow> \<not> (\<exists>c. reaches G amt a b c)
    | r # _ \<Rightarrow> reaches G amt a b (unat (fr_total_fee r)) \<and>
        (\<forall>c. reaches G amt a b c \<longrightarrow> unat (fr_total_fee r) \<le> c)"
  by (rule search_routes_optimal [OF assms(5,4) search_routes_checked [OF assms(1) ldk_find_routes_Ok [OF assms(2,3,6)]]])

lemma triangle_edges: "offers_edge triangle 1000 v e \<Longrightarrow> fst e \<in> {NodeId [97], NodeId [98], NodeId [99]}"
proof -
  assume "offers_edge triangle 1000 v e"
  then have "e \<in> edges_of (build_adjacency triangle 1000) v" by (simp add: edges_of_build)
  then show ?thesis by (auto simp: edges_of_def triangle_adjacency split: if_splits option.splits)
qed

theorem find_routes_cheapest_witness:
  "\<not> reaches triangle 1000 (NodeId [97]) (NodeId [99]) 2"
proof -
  have "hop_bounded triangle 1000 (NodeId [97])"
    by (rule hop_bounded_small [where N = "{NodeId [97], NodeId [98], NodeId [99]}"])
      (auto dest: triangle_edges)
  from find_routes_cheapest [OF _ triangle_asks [of False] _ _ this triangle_found]
  show ?thesis by (auto simp: triangle_route_def)
qed

text \<open>C16: in a build with overflow checks, and in any build below 2^32 millisatoshi, the routes come cheapest
first.\<close>

theorem find_routes_sorted:
  assumes "overflow_checks D \<or> unat amt < 2 ^ 32" and "ldk_find_routes D dest amt mx w = (Ok routes :: ('e, found_route list) res, w')"
  shows "sorted (map fr_total_fee routes)"
proof -
  have "routes = [] \<or> (\<exists>G a b. (search_routes (overflow_checks D) G a b amt mx :: ('e, found_route list) res) = Ok routes)"
    using assms(2) unfolding ldk_find_routes_def bnd_eq_Ok Let_def
    by (auto simp: bnd_eq_Ok split: sum.splits if_splits dest: sym)
  then show ?thesis by (auto dest!: search_routes_checked [OF assms(1)] search_routes_ordered)
qed

theorem find_routes_sorted_witness:
  "sorted (map fr_total_fee [triangle_route, direct_route]) \<and> fr_total_fee triangle_route < fr_total_fee direct_route"
  using find_routes_sorted [OF _ triangle_found [of False]]
  by (simp add: triangle_route_def direct_route_def)

text \<open>C17: below 2^32 millisatoshi the search neither panics nor overflows: it returns, and a build with
overflow checks and one without answer the same routes.\<close>

theorem find_routes_total:
  assumes "unat amt < 2 ^ 32"
  shows "\<exists>routes w'.
    ldk_find_routes (D\<lparr>overflow_checks := True\<rparr>) dest amt mx w = (Ok routes :: ('e, found_route list) res, w') \<and>
    ldk_find_routes (D\<lparr>overflow_checks := False\<rparr>) dest amt mx w = (Ok routes :: ('e, found_route list) res, w')"
proof -
  have same: "\<exists>routes. (search_routes True G a b amt mx :: ('e, found_route list) res) = Ok routes \<and>
      (search_routes False G a b amt mx :: ('e, found_route list) res) = Ok routes" for G a b
    using search_routes_returns [OF assms, of True G a b mx] search_loop_release
    unfolding search_routes_def by blast
  show ?thesis
  proof (cases "\<exists>a b G n. asks D w dest a b G n")
    case True
    then obtain a b G n where k: "asks D w dest a b G n" by blast
    then have k': "asks (D\<lparr>overflow_checks := ck\<rparr>) w dest a b G n" for ck by (simp add: asks_def)
    show ?thesis
    proof (cases "a = b")
      case True
      with k show ?thesis
        by (auto simp: asks_def ldk_find_routes_def bnd_def call_def ret_def)
    next
      case False
      from same [of G a b] obtain routes where
        "(search_routes True G a b amt mx :: ('e, found_route list) res) = Ok routes"
        "(search_routes False G a b amt mx :: ('e, found_route list) res) = Ok routes" by blast
      then show ?thesis by (simp add: ldk_find_routes_asks [OF k' False])
    qed
  next
    case False
    then have "\<exists>e. cr_public_key_from_str (crate D) dest = Inl e"
      by (cases "cr_public_key_from_str (crate D) dest") (auto simp: asks_def, metis surj_pair)
    then show ?thesis by (auto simp: ldk_find_routes_def)
  qed
qed

theorem find_routes_total_witness:
  "\<exists>routes w'. ldk_find_routes (sim_deps True\<lparr>overflow_checks := True\<rparr>) ''c'' 1000 2 triangle_world
      = (Ok routes :: (nnc_error, found_route list) res, w') \<and>
    ldk_find_routes (sim_deps True\<lparr>overflow_checks := False\<rparr>) ''c'' 1000 2 triangle_world
      = (Ok routes :: (nnc_error, found_route list) res, w')"
  by (rule find_routes_total) simp

text \<open>A hop whose proportional fee does not fit in 64 bits: a build with checks panics on it, and one without
charges for it at least 2^64 / 10^6 millisatoshi too little.\<close>

lemma wrapped_fee:
  assumes "2 ^ 64 \<le> unat amt * unat prop"
  shows "unat (ucast base + amt * ucast prop div 1000000 :: u64) + 2 ^ 64 div 1000000 \<le> fee_nat amt base prop"
proof -
  let ?N = "unat amt * unat prop"
  have m: "unat (amt * ucast prop :: u64) = ?N mod 2 ^ 64" by (simp add: unat_word_ariths)
  have "unat (ucast base + amt * ucast prop div 1000000 :: u64) \<le> unat (ucast base :: u64) + unat (amt * ucast prop div 1000000 :: u64)"
    by (simp only: unat_word_ariths mod_less_eq_dividend)
  then have low: "unat (ucast base + amt * ucast prop div 1000000 :: u64) \<le> unat base + ?N mod 2 ^ 64 div 1000000"
    by (simp add: unat_div m)
  have "1 * 2 ^ 64 \<le> ?N div 2 ^ 64 * 2 ^ 64"
    using div_le_mono [OF assms, of "2 ^ 64"] by (intro mult_le_mono1) simp
  then have "?N mod 2 ^ 64 + 2 ^ 64 \<le> ?N"
    using div_mult_mod_eq [of ?N "2 ^ 64"] by linarith
  then have "(?N mod 2 ^ 64 + 2 ^ 64) div 1000000 \<le> ?N div 1000000" by (rule div_le_mono)
  moreover have "?N mod 2 ^ 64 div 1000000 + 2 ^ 64 div 1000000 \<le> (?N mod 2 ^ 64 + 2 ^ 64) div 1000000"
    by (subst div_add1_eq) simp
  ultimately show ?thesis using low unfolding fee_nat_def by linarith
qed

lemma fold_res_panics:
  assumes "\<And>a. \<exists>m. f x a = Panic m" and "\<And>y a. (\<exists>b. f y a = Ok b) \<or> (\<exists>m. f y a = Panic m)"
  shows "x \<in> set xs \<Longrightarrow> \<exists>m. fold_res f xs acc = Panic m"
proof (induction xs arbitrary: acc)
  case (Cons y ys)
  from assms(2) [of y acc] show ?case
  proof
    assume "\<exists>b. f y acc = Ok b"
    then obtain b where b: "f y acc = Ok b" ..
    with assms(1) [of acc] have "y \<noteq> x" by auto
    with Cons b show ?thesis by simp
  qed auto
qed simp

lemma search_routes_panics:
  assumes "offers_edge G amt a (x, scid, base, prop, cltv)" and "x \<noteq> a" and "a \<noteq> dest" and "0 < mx"
    and big: "2 ^ 64 \<le> unat amt * unat prop"
  shows "\<exists>m. (search_routes True G a dest amt mx :: ('e, found_route list) res) = Panic m"
proof -
  obtain es where es: "map_of (build_adjacency G amt) a = Some es" and e: "(x, scid, base, prop, cltv) \<in> set es"
    using assms(1) edges_of_build [of G amt a] by (auto simp: edges_of_def split: option.splits)
  have "\<exists>m. (fold_res (relax_edge True amt 0 [] {a}) es [] :: ('e, search_entry reverse_heap) res) = Panic m"
  proof (rule fold_res_panics [OF _ _ e])
    show "\<exists>m. (relax_edge True amt 0 [] {a} (x, scid, base, prop, cltv) h :: ('e, search_entry reverse_heap) res) = Panic m" for h
      using assms(2) big by (simp add: relax_edge_def hop_fee_def mul_ck_def)
    show "(\<exists>h'. (relax_edge True amt 0 [] {a} y h :: ('e, search_entry reverse_heap) res) = Ok h') \<or>
        (\<exists>m. relax_edge True amt 0 [] {a} y h = Panic m)" for y h
      by (cases y) (simp add: relax_edge_def hop_fee_def mul_ck_def add_ck_def)
  qed
  moreover have "heap_pop (heap_push (0, a, []) heap_new) = Some ((0, a, []), [] :: search_entry reverse_heap)"
    by (simp add: heap_push_def heap_new_def)
  ultimately show ?thesis
    unfolding search_routes_def using assms(3,4) es by (auto simp: search_loop_pop)
qed

lemma edge_of_scid:
  assumes "offers_edge G amt a (x, scid, base, prop, cltv)" and "offers_edge G amt a (x, scid, base', prop', cltv')" and "x \<noteq> a"
  shows "base' = base \<and> prop' = prop"
  using assms(1)
proof (cases rule: offers_edge.cases)
  case (forward ch upd)
  from assms(2) show ?thesis by (cases rule: offers_edge.cases) (use forward assms(3) in simp_all)
next
  case (backward ch upd)
  from assms(2) show ?thesis by (cases rule: offers_edge.cases) (use backward assms(3) in simp_all)
qed

lemma walk_single:
  assumes "walk G amt a [s] b"
  shows "\<exists>i bs pr cl. offers_edge G amt a (b, i, bs, pr, cl) \<and> s = (b, i, ucast bs + amt * ucast pr div 1000000, cl)"
  using assms
proof (cases rule: walk.cases)
  case (hop p c i bs pr cl)
  then show ?thesis using walk_last [of G amt a p c] by auto
qed

text \<open>C28: one expensive channel of this node breaks route queries. When a channel of this node admits the amount
and amount times proportional fee does not fit in 64 bits, \<open>find_routes\<close> panics for every other destination in a
build with overflow checks; in a build without, the direct route over that channel is answered with a total
fee at least 18446744073709 millisatoshi below what the hop charges.\<close>

theorem route_fee_overflow:
  assumes "asks D w dest a b G n" and "a \<noteq> b" and "0 < mx"
    and "offers_edge G amt a (x, scid, base, prop, cltv)" and "x \<noteq> a" and "2 ^ 64 \<le> unat amt * unat prop"
  shows "if overflow_checks D
    then \<exists>m. ldk_find_routes D dest amt mx w = (Panic m :: ('e, found_route list) res, w\<lparr>host := n\<rparr>)
    else \<forall>routes w' r h. ldk_find_routes D dest amt mx w = (Ok routes :: ('e, found_route list) res, w') \<and> r \<in> set routes \<and>
      x = b \<and> fr_hops r = [h] \<and> rh_short_channel_id h = format_scid scid \<longrightarrow>
      unat (fr_total_fee r) + 18446744073709 \<le> fee_nat amt base prop"
proof (cases "overflow_checks D")
  case True
  with search_routes_panics [OF assms(4,5,2,3,6)] show ?thesis by (simp add: ldk_find_routes_asks [OF assms(1,2)])
next
  case False
  have "unat (fr_total_fee r) + 18446744073709 \<le> fee_nat amt base prop"
    if run: "ldk_find_routes D dest amt mx w = (Ok routes :: ('e, found_route list) res, w')" and r: "r \<in> set routes"
      and direct: "x = b" "fr_hops r = [h]" "rh_short_channel_id h = format_scid scid" for routes w' r h
  proof -
    from search_routes_sound [OF ldk_find_routes_Ok [OF assms(1,2) run]] r obtain p where
      p: "walk G amt a p b" "fr_hops r = map hop_of p" "fr_total_fee r = sum_list (map step_fee p)"
      by (auto simp: sound_route_def)
    from p(2) direct(2) obtain s where s: "p = [s]" and h: "h = hop_of s" by (cases p) auto
    from p(1) obtain i bs pr cl where e: "offers_edge G amt a (b, i, bs, pr, cl)"
      and step: "s = (b, i, ucast bs + amt * ucast pr div 1000000, cl)"
      using walk_single [of G amt a s b] unfolding s by blast
    from h direct(3) have "format_scid i = format_scid scid" by (simp add: step hop_of_def)
    then have "i = scid" by (metis parse_format_scid option.sel)
    with e assms(4,5) direct(1) edge_of_scid have "bs = base" "pr = prop" by blast+
    with p(3) wrapped_fee [OF assms(6), of base] show ?thesis by (simp add: s step)
  qed
  with False show ?thesis by auto
qed

text \<open>Two channels from 97 to 99: the first with the largest proportional fee, the second for 10000 millisatoshi.\<close>

definition dear :: network_graph where
  "dear = \<lparr>ng_list_nodes = [], ng_node = (\<lambda>_. None), ng_list_channels = [0, 1],
     ng_channel = (\<lambda>i. if i \<le> 1 then Some \<lparr>gc_node_one = NodeId [97], gc_node_two = NodeId [99],
       gc_one_to_two = Some \<lparr>cu_enabled = True, cu_last_update = 0, cu_cltv_expiry_delta = 10, cu_htlc_minimum_msat = 1,
         cu_htlc_maximum_msat = 2 ^ 33, cu_base_msat = (if i = 0 then 0 else 10000),
         cu_proportional_millionths = (if i = 0 then 4294967295 else 0)\<rparr>,
       gc_two_to_one = None, gc_capacity_sats = None\<rparr> else None)\<rparr>"

definition dear_world :: "sim_host world" where
  "dear_world = init_world (sim_start\<lparr>sh_graph := dear\<rparr>)"

lemma dear_asks: "asks (sim_deps ck) dear_world ''c'' (NodeId [97]) (NodeId [99]) dear (sim_start\<lparr>sh_graph := dear\<rparr>)"
  unfolding asks_def dear_world_def sim_deps_def sim_crates_def sim_channel_def init_world_def by simp

lemma dear_adjacency: "build_adjacency dear 4294967298 =
    [(NodeId [97], [(NodeId [99], 0, 0, 4294967295, 10), (NodeId [99], 1, 10000, 0, 10)])]"
  by code_simp

lemma dear_edge: "offers_edge dear (2 ^ 32 + 2) (NodeId [97]) (NodeId [99], 0, 0, 4294967295, 10)"
  using edges_of_build [of dear "2 ^ 32 + 2" "NodeId [97]"] dear_adjacency by (auto simp: edges_of_def)

definition dear_route :: found_route where
  "dear_route = \<lparr>fr_total_fee = 4294, fr_total_time_lock = 10,
     fr_hops = [\<lparr>rh_pubkey = hex_string [99], rh_short_channel_id = format_scid 0, rh_fee = 4294, rh_expiry = 10\<rparr>]\<rparr>"

lemma dear_found: "ldk_find_routes (sim_deps False) ''c'' (2 ^ 32 + 2) 1 dear_world = (Ok [dear_route], dear_world)"
proof -
  have "search_routes False dear (NodeId [97]) (NodeId [99]) 4294967298 1 = Ok [dear_route]"
    by (simp add: search_run dear_adjacency dear_route_def cong: rbind_weak_cong)
  then show ?thesis
    by (subst ldk_find_routes_asks [OF dear_asks]) (simp_all add: sim_deps_def dear_world_def init_world_def)
qed

theorem route_fee_overflow_witness:
  "(\<exists>m w'. ldk_find_routes (sim_deps True) ''c'' (2 ^ 32 + 2) 1 dear_world = (Panic m :: (nnc_error, found_route list) res, w')) \<and>
   unat (fr_total_fee dear_route) + 18446744073709 \<le> fee_nat (2 ^ 32 + 2) 0 4294967295"
proof
  have big: "2 ^ 64 \<le> unat (2 ^ 32 + 2 :: u64) * unat (4294967295 :: u32)" by simp
  have checks: "overflow_checks (sim_deps ck) = ck" for ck by (simp add: sim_deps_def)
  show "\<exists>m w'. ldk_find_routes (sim_deps True) ''c'' (2 ^ 32 + 2) 1 dear_world = (Panic m :: (nnc_error, found_route list) res, w')"
    using route_fee_overflow [OF dear_asks [of True] _ _ dear_edge _ big, of 1] by (simp add: checks) blast
  have "\<forall>routes w' r h. ldk_find_routes (sim_deps False) ''c'' (2 ^ 32 + 2) 1 dear_world = (Ok routes :: (nnc_error, found_route list) res, w') \<and>
      r \<in> set routes \<and> NodeId [99] = NodeId [99] \<and> fr_hops r = [h] \<and> rh_short_channel_id h = format_scid 0 \<longrightarrow>
      unat (fr_total_fee r) + 18446744073709 \<le> fee_nat (2 ^ 32 + 2) 0 4294967295"
    using route_fee_overflow [OF dear_asks [of False] _ _ dear_edge _ big, of 1] unfolding checks if_False by simp
  note at_dear = this [THEN spec, of "[dear_route]", THEN spec, of dear_world, THEN spec, of dear_route, THEN spec,
      of "hd (fr_hops dear_route)", THEN mp]
  show "unat (fr_total_fee dear_route) + 18446744073709 \<le> fee_nat (2 ^ 32 + 2) 0 4294967295"
    by (rule at_dear) (intro conjI dear_found, simp_all add: dear_route_def)
qed

lemma edge_listed: "offers_edge G amt a e \<longleftrightarrow> e \<in> edges_of (build_adjacency G amt) a"
  by (simp add: edges_of_build)

text \<open>C29: the search can miss a short route. In \<open>detour\<close> a free way of six hops reaches the node before
the destination first, so that node counts as visited, and its continuation is over the limit; the way
over the direct channel has two hops and is never tried.\<close>

theorem find_routes_incomplete:
  "(search_routes ck detour (NodeId [97]) (NodeId [104]) 1000 1 :: (unit, found_route list) res) = Ok [] \<and>
   (\<exists>p. walk detour 1000 (NodeId [97]) p (NodeId [104]) \<and> length p = 2)"
proof
  show "(search_routes ck detour (NodeId [97]) (NodeId [104]) 1000 1 :: (unit, found_route list) res) = Ok []"
    by (simp add: search_run detour_adjacency cong: rbind_weak_cong)
  have e: "offers_edge detour 1000 (NodeId [97]) (NodeId [103], 6, 5, 0, 10)"
    "offers_edge detour 1000 (NodeId [103]) (NodeId [104], 7, 0, 0, 10)"
    by (simp_all add: edge_listed edges_of_def detour_adjacency)
  show "\<exists>p. walk detour 1000 (NodeId [97]) p (NodeId [104]) \<and> length p = 2"
    using walk.hop [OF walk.hop [OF walk.here e(1)] e(2)]
    by (intro exI [of _ "[(NodeId [103], 6, 5, 10), (NodeId [104], 7, 0, 10)]"]) simp
qed

end
