(* ===== verification/WalletProps.thy ===== *)
theory WalletProps
  imports WalletOffers LdkInvariants SimNode
begin

text \<open>
  Properties of the wallet handlers (\<^verbatim>\<open>src/wallet.rs\<close>): what a successful answer means for invoices,
  lookups, offers and the two BIP 321 methods.
\<close>

section \<open>Invoices\<close>

lemma wallet_now_eq_Ok: "wallet_now D w = (Ok t, w') \<Longrightarrow> \<exists>n. w' = w\<lparr>host := n\<rparr>"
  by (auto simp: wallet_now_def bnd_eq_Ok)

lemma invoice_expiry_Ok:
  "invoice_expiry expiry = Ok e \<longleftrightarrow>
     (case expiry of None \<Rightarrow> e = 3600 | Some x \<Rightarrow> unat x < 2 ^ 32 \<and> e = ucast x)"
  by (auto simp: invoice_expiry_def u32_try_from_def split: option.splits if_splits)

text \<open>C25: an invoice is made only for a positive amount, without a description hash and with an expiry
that fits in 32 bits (one hour when none is given); the answer describes the invoice LDK issued for
exactly these terms, as pending and incoming.\<close>

theorem make_invoice_terms:
  assumes "wallet_make_invoice D r w = (Ok t, w')"
  shows "qm_amount r \<noteq> 0 \<and> qm_description_hash r = None \<and>
    (\<exists>desc e inv n. cr_description_new (crate D) (case qm_description r of None \<Rightarrow> ''nwc invoice'' | Some d \<Rightarrow> d) = Inr desc \<and>
      (case qm_expiry r of None \<Rightarrow> e = 3600 | Some x \<Rightarrow> unat x < 2 ^ 32 \<and> e = ucast x) \<and>
      wa_receive (wallet_node D) (qm_amount r) desc e (host w) = (Inr inv, n) \<and>
      tx_type t = Incoming \<and> tx_state t = Some TxPending \<and> tx_settled_at t = None \<and>
      tx_invoice t = Some (bi_text inv) \<and> tx_payment_hash t = bi_payment_hash inv \<and>
      tx_amount t = (case bi_amount_milli_satoshis inv of None \<Rightarrow> qm_amount r | Some a \<Rightarrow> a))"
  using assms
  by (auto simp: wallet_make_invoice_def ldk_make_invoice_def Ok_iff invoice_result_def invoice_expiry_Ok
      dest!: wallet_now_eq_Ok) blast

definition invoice_1000 :: make_invoice_request where
  "invoice_1000 = \<lparr>qm_amount = 1000, qm_description = None, qm_description_hash = None, qm_expiry = Some 60,
     qm_metadata = None\<rparr>"

lemma invoice_1000_made: "\<exists>t w'. wallet_make_invoice (sim_deps ck) invoice_1000 (init_world sim_start) = (Ok t, w')"
  by (simp add: wallet_make_invoice_def ldk_make_invoice_def wallet_now_def exec_defs invoice_1000_def invoice_expiry_def
      u32_try_from_def try_parse_def try_call_def call_def sim_deps_def sim_crates_def sim_wallet_def sim_platform_def
      init_world_def sim_start_def)

theorem make_invoice_terms_witness:
  "\<exists>t w'. wallet_make_invoice (sim_deps True) invoice_1000 (init_world sim_start) = (Ok t, w') \<and> qm_amount invoice_1000 \<noteq> 0"
  using invoice_1000_made [of True] make_invoice_terms [of "sim_deps True" invoice_1000 "init_world sim_start"] by blast

section \<open>Payment lookups\<close>

text \<open>
  The hash text a request selects a payment by: its transaction id, its payment hash, the hash of its invoice, or
  the \<open>payment_hash\<close> member of its \<open>lookup\<close> object. The rule \<open>stray\<close> is the one the code should not have.
\<close>

inductive selects :: "crates \<Rightarrow> lookup_payment_request \<Rightarrow> string \<Rightarrow> bool" for C r where
  by_transaction: "qp_transaction_id r = Some t \<Longrightarrow> selects C r t"
| by_hash: "qp_transaction_id r = None \<Longrightarrow> qp_payment_hash r = Some h \<Longrightarrow> selects C r h"
| by_invoice: "qp_transaction_id r = None \<Longrightarrow> qp_payment_hash r = None \<Longrightarrow> qp_invoice r = Some i \<Longrightarrow>
    (\<forall>members h. qp_lookup r = Some members \<longrightarrow> map_of members ''payment_hash'' \<noteq> Some (JString h)) \<Longrightarrow>
    cr_bolt11_from_str C i = Inr bolt11 \<Longrightarrow> selects C r (bi_payment_hash bolt11)"
| by_lookup: "qp_transaction_id r = None \<Longrightarrow> qp_payment_hash r = None \<Longrightarrow> qp_invoice r = None \<Longrightarrow>
    qp_payment_type r = Some ty \<Longrightarrow> qp_lookup r = Some members \<Longrightarrow>
    map_of members ''payment_hash'' = Some (JString h) \<Longrightarrow> selects C r h"
| stray: "qp_transaction_id r = None \<Longrightarrow> qp_payment_hash r = None \<Longrightarrow> qp_invoice r = Some i \<Longrightarrow>
    qp_lookup r = Some members \<Longrightarrow> map_of members ''payment_hash'' = Some (JString h) \<Longrightarrow> selects C r h"

inductive_simps selects_iff: "selects C r text"

lemma lookup_member_Some:
  "lookup_member l = Some h \<longleftrightarrow> (\<exists>members. l = Some members \<and> map_of members ''payment_hash'' = Some (JString h))"
  by (cases l) (auto simp: lookup_member_def split: option.splits json_member.splits)

lemma lookup_member_None:
  "lookup_member l = None \<longleftrightarrow> (\<forall>members h. l = Some members \<longrightarrow> map_of members ''payment_hash'' \<noteq> Some (JString h))"
  using lookup_member_Some [of l] by (metis not_Some_eq)

text \<open>The text the handler ends up with is one the request selects, and the other way round.\<close>

lemma selects_chosen:
  assumes "qp_transaction_id r \<noteq> None \<or> qp_payment_hash r \<noteq> None \<or> qp_invoice r \<noteq> None \<or> qp_payment_type r \<noteq> None"
  shows "(\<exists>text. selects C r text \<and> Q text) \<longleftrightarrow> (case (selected_hash r, qp_invoice r) of
      (Some h, _) \<Rightarrow> Q h
    | (None, Some i) \<Rightarrow> (\<exists>inv. cr_bolt11_from_str C i = Inr inv \<and> Q (bi_payment_hash inv))
    | (None, None) \<Rightarrow> False)"
proof (cases "qp_transaction_id r = None \<and> qp_payment_hash r = None")
  case False
  then show ?thesis by (cases "qp_transaction_id r"; cases "qp_payment_hash r") (auto simp: selects_iff selected_hash_def)
next
  case True
  then have chosen: "selected_hash r = lookup_member (qp_lookup r)" by (simp add: selected_hash_def)
  show ?thesis
  proof (cases "lookup_member (qp_lookup r)")
    case None
    then have "selects C r s \<longleftrightarrow> (\<exists>i inv. qp_invoice r = Some i \<and> cr_bolt11_from_str C i = Inr inv \<and> s = bi_payment_hash inv)" for s
      using True by (auto simp: selects_iff lookup_member_None)
    then show ?thesis by (cases "qp_invoice r") (auto simp: chosen None)
  next
    case (Some h)
    then obtain members where "qp_lookup r = Some members" "map_of members ''payment_hash'' = Some (JString h)"
      by (auto simp: lookup_member_Some)
    with True assms have "selects C r s \<longleftrightarrow> s = h" for s
      by (cases "qp_invoice r") (auto simp: selects_iff)
    then show ?thesis by (simp add: chosen Some)
  qed
qed

lemma lookup_by_hash_Ok:
  "ldk_lookup_payment_by_hash D text w = (Ok p, w') \<longleftrightarrow>
     (\<exists>h n. decode_hex text = Ok h \<and> length h = 32 \<and> wa_payment (wallet_node D) h (host w) = (Some p, n) \<and> w' = w\<lparr>host := n\<rparr>)"
  by (auto simp: ldk_lookup_payment_by_hash_def Ok_iff)

text \<open>C21: \<open>lookup_payment\<close> serves a request that names exactly one of a transaction id, the BOLT 11 fields, and a
payment type with a lookup object, and then answers exactly the payment LDK has under the 32 bytes the selected
text spells, when there is one; a request that names none or several of the three is a bad request and
touches nothing.\<close>

theorem lookup_payment_one_form:
  "let by_id = qp_transaction_id r \<noteq> None;
       by_bolt11 = (qp_payment_hash r \<noteq> None \<or> qp_invoice r \<noteq> None);
       by_type = (qp_payment_type r \<noteq> None \<and> qp_lookup r \<noteq> None) in
   if by_id \<and> \<not> by_bolt11 \<and> \<not> by_type \<or> \<not> by_id \<and> by_bolt11 \<and> \<not> by_type \<or> \<not> by_id \<and> \<not> by_bolt11 \<and> by_type
   then \<forall>t w'. wallet_lookup_payment D r w = (Ok t, w') \<longleftrightarrow>
     (\<exists>text h p n. selects (crate D) r text \<and> decode_hex text = Ok h \<and> length h = 32 \<and>
        wa_payment (wallet_node D) h (host w) = (Some p, n) \<and> w' = w\<lparr>host := n\<rparr> \<and> t = lookup_response (to_transaction p))
   else wallet_lookup_payment D r w = (Err (NncError BadRequest
      ''exactly one of transaction_id, the bolt11 fields, or payment_type with lookup''), w)"
  (is "let by_id = ?a; by_bolt11 = ?b; by_type = ?c in ?P by_id by_bolt11 by_type")
proof -
  let ?one = "?a \<and> \<not> ?b \<and> \<not> ?c \<or> \<not> ?a \<and> ?b \<and> \<not> ?c \<or> \<not> ?a \<and> \<not> ?b \<and> ?c"
  have count: "length (filter (\<lambda>f. f) (selector_forms r)) = 1 \<longleftrightarrow> ?one"
    unfolding selector_forms_def by (cases ?a; cases ?b; cases ?c) simp_all
  show ?thesis
  proof (cases ?one)
    case True
    let ?Q = "\<lambda>t w' text. \<exists>h p n. decode_hex text = Ok h \<and> length h = 32 \<and>
        wa_payment (wallet_node D) h (host w) = (Some p, n) \<and> w' = w\<lparr>host := n\<rparr> \<and> t = lookup_response (to_transaction p)"
    have "wallet_lookup_payment D r w = (Ok t, w') \<longleftrightarrow> (case (selected_hash r, qp_invoice r) of
        (Some h, _) \<Rightarrow> ?Q t w' h
      | (None, Some i) \<Rightarrow> (\<exists>inv. cr_bolt11_from_str (crate D) i = Inr inv \<and> ?Q t w' (bi_payment_hash inv))
      | (None, None) \<Rightarrow> False)" for t w'
      using True count
      by (auto simp: wallet_lookup_payment_def Ok_iff ldk_lookup_payment_by_bolt11_def lookup_by_hash_Ok split: option.splits)
    moreover have "qp_transaction_id r \<noteq> None \<or> qp_payment_hash r \<noteq> None \<or> qp_invoice r \<noteq> None \<or> qp_payment_type r \<noteq> None"
      using True by blast
    note selects_chosen [OF this, of "crate D"]
    ultimately show ?thesis using True unfolding Let_def by (simp only: if_True ex_simps) metis
  next
    case False
    have "wallet_lookup_payment D r w = (Err (NncError BadRequest
        ''exactly one of transaction_id, the bolt11 fields, or payment_type with lookup''), w)"
      if "length (filter (\<lambda>f. f) (selector_forms r)) \<noteq> 1"
      using that by (simp add: wallet_lookup_payment_def del: One_nat_def)
    with False count show ?thesis unfolding Let_def by (simp only: if_False) blast
  qed
qed

definition by_id :: "string \<Rightarrow> lookup_payment_request" where
  "by_id h = \<lparr>qp_transaction_id = Some h, qp_payment_hash = None, qp_invoice = None, qp_payment_type = None,
     qp_lookup = None\<rparr>"

theorem lookup_payment_one_form_witness:
  "wallet_lookup_payment (sim_deps True) ((by_id ''00'')\<lparr>qp_invoice := Some ''lnbc''\<rparr>) (init_world sim_start) =
    (Err (NncError BadRequest ''exactly one of transaction_id, the bolt11 fields, or payment_type with lookup''),
     init_world sim_start)"
  using lookup_payment_one_form [where D = "sim_deps True" and r = "(by_id ''00'')\<lparr>qp_invoice := Some ''lnbc''\<rparr>"
      and w = "init_world sim_start"]
  by (simp add: by_id_def)

text \<open>C31: a selector that does not count still selects. A request by invoice that also carries a \<open>lookup\<close>
object without \<open>payment_type\<close> counts one form, and is answered for the hash in that object; the invoice
is never read.\<close>

theorem lookup_payment_stray_selector:
  assumes "qp_transaction_id r = None" and "qp_payment_hash r = None" and "qp_payment_type r = None"
    and "qp_lookup r = Some members" and "map_of members ''payment_hash'' = Some (JString h)"
    and "qp_invoice r = Some invoice"
  shows "wallet_lookup_payment D r w = wallet_lookup_payment D (r\<lparr>qp_invoice := Some other_invoice\<rparr>) w \<and>
    wallet_lookup_payment D r w = wallet_lookup_payment D (by_id h) w"
  using assms
  by (simp add: wallet_lookup_payment_def selector_forms_def selected_hash_def lookup_member_def by_id_def)

theorem lookup_payment_stray_selector_witness:
  "wallet_lookup_payment (sim_deps True) \<lparr>qp_transaction_id = None, qp_payment_hash = None, qp_invoice = Some ''lnbc'',
      qp_payment_type = None, qp_lookup = Some [(''payment_hash'', JString ''00'')]\<rparr> (init_world sim_start) =
    wallet_lookup_payment (sim_deps True) (by_id ''00'') (init_world sim_start)"
  using lookup_payment_stray_selector [of "\<lparr>qp_transaction_id = None, qp_payment_hash = None, qp_invoice = Some ''lnbc'',
      qp_payment_type = None, qp_lookup = Some [(''payment_hash'', JString ''00'')]\<rparr>"
      "[(''payment_hash'', JString ''00'')]" "''00''" "''lnbc''" "sim_deps True" "init_world sim_start"] by simp

section \<open>Listing transactions\<close>

lemma payment_selected_iff:
  "payment_selected from_ts until_ts unpaid direction pm p \<longleftrightarrow>
     (\<forall>t. from_ts = Some t \<longrightarrow> t \<le> pd_latest_update_timestamp p) \<and>
     (\<forall>t. until_ts = Some t \<longrightarrow> pd_latest_update_timestamp p \<le> t) \<and>
     (\<forall>d. direction = Some d \<longrightarrow> pd_direction p = d) \<and>
     (\<forall>m. pm = Some m \<longrightarrow> method_matches m (pd_kind p)) \<and>
     (unpaid = Some True \<or> pd_status p \<noteq> Pending)"
  unfolding payment_selected_def Let_def by (cases from_ts; cases until_ts; cases direction; cases pm; cases unpaid) auto

lemma requested_direction_inverse: "transaction_direction (requested_direction d) = d"
  by (cases d) (simp_all add: transaction_direction_def requested_direction_def)

text \<open>C26: \<open>list_transactions\<close> leaves pending payments out unless they are asked for, answers only the
requested direction, and calls the length of the page it answers the total count.\<close>

theorem list_transactions_page:
  assumes "wallet_list_transactions D r w = (Ok (ts, counted), w')"
  shows "counted = Some (of_nat (length ts)) \<and>
    (\<forall>t \<in> set ts. (tx_state t = Some TxPending \<longrightarrow> qt_unpaid r = Some True) \<and>
       (\<forall>d. qt_transaction_type r = Some d \<longrightarrow> tx_type t = d) \<and>
       (\<forall>f. qt_from r = Some f \<longrightarrow> f \<le> tx_created_at t) \<and> (\<forall>u. qt_until r = Some u \<longrightarrow> tx_created_at t \<le> u))"
proof -
  from assms obtain ps where ts: "ts = map to_transaction (select_payments (qt_from r) (qt_until r) (qt_limit r) (qt_offset r)
      (qt_unpaid r) (map_option requested_direction (qt_transaction_type r)) None ps)"
    and counted: "counted = Some (of_nat (length ts))"
    by (auto simp: wallet_list_transactions_def ldk_list_payments_filtered_def bnd_eq_Ok Let_def)
  have sel: "payment_selected (qt_from r) (qt_until r) (qt_unpaid r) (map_option requested_direction (qt_transaction_type r)) None p"
    if "p \<in> set (select_payments (qt_from r) (qt_until r) (qt_limit r) (qt_offset r)
      (qt_unpaid r) (map_option requested_direction (qt_transaction_type r)) None ps)" for p
    using that
    by (auto simp: select_payments_def newest_first_def Let_def split: option.splits if_splits
        dest!: in_set_takeD in_set_dropD)
  have row: "(tx_state t = Some TxPending \<longrightarrow> qt_unpaid r = Some True) \<and>
       (\<forall>d. qt_transaction_type r = Some d \<longrightarrow> tx_type t = d) \<and>
       (\<forall>f. qt_from r = Some f \<longrightarrow> f \<le> tx_created_at t) \<and> (\<forall>u. qt_until r = Some u \<longrightarrow> tx_created_at t \<le> u)"
    if "t \<in> set ts" for t
  proof -
    from that obtain p where p: "p \<in> set (select_payments (qt_from r) (qt_until r) (qt_limit r) (qt_offset r)
      (qt_unpaid r) (map_option requested_direction (qt_transaction_type r)) None ps)" and t: "t = to_transaction p"
      unfolding ts by auto
    from sel [OF p] show ?thesis
      by (auto simp: payment_selected_iff t to_transaction_def transaction_status_def Let_def
          requested_direction_inverse split: payment_status.splits)
  qed
  with counted show ?thesis by blast
qed


definition one_payment :: sim_host where
  "one_payment = sim_start\<lparr>sh_payments := [\<lparr>pd_id = [1], pd_kind = OtherKind, pd_amount_msat = Some 7,
     pd_fee_paid_msat = None, pd_direction = Outbound, pd_status = Succeeded, pd_latest_update_timestamp = 900\<rparr>]\<rparr>"

definition list_everything :: list_transactions_request where
  "list_everything = \<lparr>qt_from = Some 800, qt_until = None, qt_limit = None, qt_offset = None, qt_unpaid = None,
     qt_transaction_type = Some Outgoing\<rparr>"

lemma one_payment_listed: "\<exists>t w'. wallet_list_transactions (sim_deps ck) list_everything (init_world one_payment) =
    (Ok ([t], Some 1), w')"
  by (simp add: wallet_list_transactions_def ldk_list_payments_filtered_def exec_defs call_def sim_deps_def sim_wallet_def
      init_world_def one_payment_def list_everything_def select_payments_def newest_first_def payment_selected_def
      requested_direction_def Let_def)

theorem list_transactions_page_witness:
  "\<exists>t w'. wallet_list_transactions (sim_deps True) list_everything (init_world one_payment) = (Ok ([t], Some 1), w') \<and>
    tx_type t = Outgoing \<and> 800 \<le> tx_created_at t"
proof -
  obtain t w' where run: "wallet_list_transactions (sim_deps True) list_everything (init_world one_payment) =
      (Ok ([t], Some 1), w')" using one_payment_listed by blast
  from list_transactions_page [OF run] run show ?thesis by (auto simp: list_everything_def)
qed

end
