(* ===== verification/UriProps.thy ===== *)
theory UriProps
  imports WalletProps PaymentProps
begin

text \<open>
  Properties of the offers and of the two BIP 321 methods (\<^verbatim>\<open>src/wallet.rs\<close>): what \<open>receive\<close> advertises,
  what \<open>pay\<close> attempts, and the identifiers payments are answered with.
\<close>

section \<open>Receiving\<close>

text \<open>
  The state of \<open>receive\<close>'s loop: the fields of the request are in the URI, \<open>any\<close> says whether it holds
  an instruction, and every offer and address in it is in the node's stores.
\<close>

definition advertised :: "receive_request \<Rightarrow> receive_acc \<Rightarrow> 'n world \<Rightarrow> bool" where
  "advertised r acc w \<longleftrightarrow> (case acc of (uri, any) \<Rightarrow>
     u_amount uri = map_option (\<lambda>m. m div 1000) (qr_amount r) \<and> u_label uri = qr_label r \<and>
     u_message uri = qr_description r \<and>
     (any \<longleftrightarrow> u_lightning uri \<noteq> [] \<or> u_lno uri \<noteq> [] \<or> u_address uri \<noteq> None) \<and>
     (u_lightning uri \<noteq> [] \<longrightarrow> qr_amount r \<noteq> None) \<and>
     (\<forall>off \<in> set (u_lno uri). \<exists>rec. map_of (guarded (offer_db w)) off = Some rec \<and> or_active rec) \<and>
     (\<forall>a. u_address_str uri = Some a \<longrightarrow> map_of (guarded (address_db w)) a \<noteq> None) \<and>
     hm_wf (guarded (offer_db w)) \<and> hm_wf (guarded (address_db w)))"

lemma advertised_frame:
  "advertised r acc w \<Longrightarrow> address_db w' = address_db w \<Longrightarrow> offer_db w' = offer_db w \<Longrightarrow> advertised r acc w'"
  by (simp add: advertised_def)

lemma attempt_frame:
  assumes "\<And>a b c. keeps (stores_are a b c) m" and "attempt m w = (v, w')" and "advertised r acc w"
  shows "advertised r acc w'"
  using advertised_frame [OF assms(3)] stores_kept [OF keeps_attempt [OF assms(1)] assms(2)] by blast

lemma advertised_bolt11:
  assumes "advertised r acc w" and "receive_bolt11 D r e acc w = (Ok acc', w')"
  shows "advertised r acc' w'"
proof (cases "qr_amount r")
  case None
  with assms show ?thesis by (simp add: receive_bolt11_def)
next
  case (Some amount)
  with assms(2) obtain made w1 where run: "attempt (ldk_make_invoice D amount (qr_description r) None (bm_expiry e)) w = (Ok made :: (nnc_error, _) res, w1)"
    and rest: "(case made of Inr made_invoice \<Rightarrow> ret ((fst acc)\<lparr>u_lightning := u_lightning (fst acc) @ [ir_invoice made_invoice]\<rparr>, True)
        | Inl _ \<Rightarrow> ret acc) w1 = (Ok acc' :: (nnc_error, receive_acc) res, w')"
    by (auto simp: receive_bolt11_def bnd_eq_Ok)
  from attempt_frame [OF frame.keeps_ldk_payments(7) run assms(1)] have "advertised r acc w1" .
  with rest Some show ?thesis by (cases acc; cases made) (auto simp: advertised_def)
qed

lemma advertised_bolt12:
  assumes "advertised r acc w" and "receive_bolt12 D r e acc w = (Ok acc', w')"
  shows "advertised r acc' w'"
proof -
  let ?desc = "case qr_description r of None \<Rightarrow> ''bip321 offer'' | Some d \<Rightarrow> d"
  let ?amt = "or_zero (qr_amount r)"
  from assms(2) obtain made w1 where run: "attempt (ldk_make_offer D ?amt ?desc (Option.bind (bm_expiry e) u32_try_from)) w
        = (Ok made :: (nnc_error, _) res, w1)"
    and rest: "(case made of
        Inr offer \<Rightarrow>
          bnd (on_offers (insert_offer (hash_buckets D) offer ?desc ?amt (offer_id_or_zero (crate D) offer))) (\<lambda>_.
          ret ((fst acc)\<lparr>u_lno := u_lno (fst acc) @ [offer]\<rparr>, True))
      | Inl _ \<Rightarrow> ret acc) w1 = (Ok acc' :: (nnc_error, receive_acc) res, w')"
    unfolding receive_bolt12_def Let_def bnd_eq_Ok by blast
  from attempt_frame [OF frame.keeps_ldk_payments(11) run assms(1)] have w1: "advertised r acc w1" .
  show ?thesis
  proof (cases made)
    case (Inr offer)
    let ?rec = "new_offer_record offer ?desc ?amt (offer_id_or_zero (crate D) offer)"
    from rest Inr have acc': "acc' = ((fst acc)\<lparr>u_lno := u_lno (fst acc) @ [offer]\<rparr>, True)"
      and w': "w' = w1\<lparr>offer_db := RwLock (hm_insert (hash_buckets D) offer ?rec (guarded (offer_db w1))) False\<rparr>"
      by (auto simp: bnd_eq_Ok on_offers_def insert_offer_def write_lock_def is_panic_def split: if_splits)
    have active: "or_active ?rec" by (simp add: new_offer_record_def)
    from w1 active show ?thesis
      by (cases acc) (auto simp: advertised_def acc' w' map_of_hm_insert)
  qed (use rest w1 in simp)
qed

lemma advertised_onchain:
  assumes "advertised r acc w" and "receive_onchain D e acc w = (Ok acc', w')"
  shows "advertised r acc' w'"
proof (cases "case bm_address_type e of None \<Rightarrow> False | Some t \<Rightarrow> t \<noteq> ''p2tr''")
  case True
  with assms show ?thesis by (simp add: receive_onchain_def)
next
  case False
  with assms(2) obtain made w1 where run: "attempt (ldk_new_onchain_address D) w = (Ok made :: (nnc_error, _) res, w1)"
    and rest: "(case made of
          Inr addr \<Rightarrow>
            bnd (on_addresses (register_address (hash_buckets D) addr)) (\<lambda>_.
            case cr_uri_address_parse (crate D) addr of
              Some parsed \<Rightarrow> ret ((fst acc)\<lparr>u_address := Some parsed, u_address_str := Some addr\<rparr>, True)
            | None \<Rightarrow> ret acc)
        | Inl _ \<Rightarrow> ret acc) w1 = (Ok acc' :: (nnc_error, receive_acc) res, w')"
    unfolding receive_onchain_def by (simp only: if_False bnd_eq_Ok) blast
  from attempt_frame [OF frame.keeps_ldk_payments(3) run assms(1)] have w1: "advertised r acc w1" .
  show ?thesis
  proof (cases made)
    case (Inr addr)
    let ?new = "\<lparr>ar_address = addr, ar_transactions = []\<rparr>"
    let ?w2 = "w1\<lparr>address_db := RwLock (hm_or_insert (hash_buckets D) addr ?new (guarded (address_db w1))) False\<rparr>"
    from rest Inr have rest2: "(case cr_uri_address_parse (crate D) addr of
              Some parsed \<Rightarrow> ret ((fst acc)\<lparr>u_address := Some parsed, u_address_str := Some addr\<rparr>, True)
            | None \<Rightarrow> ret acc) ?w2 = (Ok acc' :: (nnc_error, receive_acc) res, w')"
      by (auto simp: bnd_eq_Ok on_addresses_def register_address_def write_lock_def is_panic_def split: if_splits)
    from w1 have w2: "advertised r acc ?w2"
      by (cases acc) (auto simp: advertised_def map_of_hm_or_insert)
    have "map_of (guarded (address_db ?w2)) addr \<noteq> None"
      using w1 by (cases acc) (auto simp: advertised_def map_of_hm_or_insert)
    with w2 rest2 show ?thesis
      by (cases acc) (auto simp: advertised_def split: option.splits)
  qed (use rest w1 in simp)
qed

lemma advertised_entry:
  "advertised r acc w \<Longrightarrow> receive_entry D r e acc w = (Ok acc', w') \<Longrightarrow> advertised r acc' w'"
  unfolding receive_entry_def
  by (auto split: if_splits dest: advertised_bolt11 advertised_bolt12 advertised_onchain)

text \<open>C7: \<open>receive\<close> answers a URI only when it holds a payment instruction; the URI carries the request's
amount in whole satoshis, its label and its description, a BOLT 11 invoice only when an amount was named,
and only offers and addresses that the node has registered, the offers active.\<close>

theorem receive_registered:
  assumes "wallet_receive D r w = (Ok uri_text, w')"
    and "hm_wf (guarded (offer_db w))" and "hm_wf (guarded (address_db w))"
  shows "\<exists>uri. uri_text = cr_bip321_text (crate D) uri \<and> advertised r (uri, True) w'"
proof -
  from assms(1) obtain uri any where
    run: "for_each (receive_entry D r) (case qr_methods r of Some ms \<Rightarrow> ms | None \<Rightarrow> default_methods)
        (receive_uri r, False) w = (Ok (uri, any), w')"
    and any: "any" and out: "uri_text = cr_bip321_text (crate D) uri"
    by (auto simp: wallet_receive_def Let_def bnd_eq_Ok)
  have "advertised r (receive_uri r, False) w"
    using assms(2,3) by (simp add: advertised_def receive_uri_def new_uri_def)
  from for_each_invariant [where P = "advertised r", OF run this advertised_entry] have "advertised r (uri, any) w'" .
  with any out show ?thesis by auto
qed

definition any_methods :: receive_request where
  "any_methods = \<lparr>qr_amount = Some 2500, qr_label = None, qr_description = None, qr_methods = None\<rparr>"

lemma any_methods_received: "\<exists>w'. wallet_receive (sim_deps ck) any_methods (init_world sim_start) = (Ok ''lnbclno1'', w')"
  by (simp add: wallet_receive_def default_methods_def receive_entry_def receive_bolt11_def receive_bolt12_def
      receive_onchain_def any_methods_def receive_uri_def new_uri_def ldk_make_invoice_def ldk_make_offer_def
      ldk_new_onchain_address_def invoice_expiry_def invoice_result_def try_parse_def try_call_def exec_defs
      on_offers_def insert_offer_def on_addresses_def register_address_def write_lock_def is_panic_def
      sim_deps_def sim_crates_def sim_wallet_def sim_invoice_def init_world_def offer_store_init_def
      address_store_init_def or_zero_def)

theorem receive_registered_witness:
  "\<exists>uri w'. advertised any_methods (uri, True) (w' :: sim_host world)"
proof -
  obtain w' where run: "wallet_receive (sim_deps True) any_methods (init_world sim_start) = (Ok ''lnbclno1'', w')"
    using any_methods_received by blast
  from receive_registered [OF run] show ?thesis
    by (auto simp: init_world_def offer_store_init_def address_store_init_def)
qed

section \<open>Paying\<close>

lemma paid_eq_Ok:
  assumes "paid D kind amount preimage txid fees w = (Ok resp, w')"
  shows "py_state resp = ''settled'' \<and> py_settled_at resp \<noteq> None \<and> py_instruction_type resp = kind \<and>
    py_amount resp = amount \<and> py_preimage resp = preimage \<and> py_txid resp = txid \<and> py_fees_paid resp = fees \<and>
    (preimage_hash (crate D) preimage :: (nnc_error, string option) res) = Ok (py_payment_hash resp) \<and>
    py_transaction_id resp = (case py_payment_hash resp of Some h \<Rightarrow> h
      | None \<Rightarrow> (case txid of Some t \<Rightarrow> t | None \<Rightarrow> []))"
proof -
  from assms obtain h created settled where "(preimage_hash (crate D) preimage :: ('a, string option) res) = Ok h"
    and r: "resp = \<lparr>py_transaction_id = (case h of Some h \<Rightarrow> h | None \<Rightarrow> (case txid of Some t \<Rightarrow> t | None \<Rightarrow> [])),
          py_state = ''settled'', py_instruction_type = kind, py_amount = amount,
          py_fees_paid = fees, py_payment_hash = h, py_preimage = preimage, py_txid = txid,
          py_created_at = created, py_settled_at = Some settled\<rparr>"
    by (auto simp: paid_def bnd_eq_Ok)
  then have "(preimage_hash (crate D) preimage :: (nnc_error, string option) res) = Ok h"
    by (auto simp: preimage_hash_def split: option.splits res.splits)
  with r show ?thesis by simp
qed

text \<open>\<open>paid\<close> reads the clock twice, for the two times it answers, and does nothing else to the world.\<close>

definition clock_read_twice :: "'n deps \<Rightarrow> 'n world \<Rightarrow> 'n world" where
  "clock_read_twice D w = w\<lparr>host := snd (pl_clock (platform D) (snd (pl_clock (platform D) (host w))))\<rparr>"

lemma paid_run:
  assumes "(preimage_hash (crate D) preimage :: ('e, string option) res) = Ok h"
  shows "\<exists>resp. paid D kind amount preimage txid fees w = (Ok resp :: ('e, pay_response) res, clock_read_twice D w)"
  using assms by (simp add: paid_def wallet_now_def exec_defs call_def clock_read_twice_def case_prod_beta)

lemma paid_amount:
  "paid D kind a preimage txid fees w = (Ok resp :: ('e, pay_response) res, w') \<Longrightarrow>
     paid D kind b preimage txid fees w = (Ok (resp\<lparr>py_amount := b\<rparr>) :: ('e, pay_response) res, w')"
  by (auto simp: paid_def bnd_eq_Ok)

lemma hex_preimage_hashed: "\<exists>h. (preimage_hash C (Some (hex_string bs)) :: ('e, string option) res) = Ok h"
proof (cases "length bs = 32")
  case True
  then show ?thesis using decode_hex_32_hex_hash [OF True] hex_writers_agree by (simp add: preimage_hash_def)
next
  case False
  then have "decode_hex_32 (hex_hash bs) = Err ()" by (simp add: decode_hex_32_def)
  then show ?thesis using hex_writers_agree by (simp add: preimage_hash_def)
qed

lemma paid_preimage:
  assumes "ldk_pay_invoice D invoice amount w = (Ok p, w1) \<or> ldk_pay_offer D offer amount note w = (Ok p, w1)"
  shows "\<exists>bs. pr_preimage p = hex_string bs"
proof -
  from assms obtain i w0 where "wait_for_outbound_payment D i w0 = (Ok p, w1)"
    by (auto simp: ldk_pay_invoice_def ldk_pay_offer_def Ok_iff)
  from wait_for_outbound_payment_Ok [OF this] show ?thesis by (auto simp: settled_payment_def)
qed

text \<open>The answer to one Lightning attempt, by what came of it and the world it left.\<close>

definition reports_lightning ::
  "'n deps \<Rightarrow> string \<Rightarrow> u64 \<Rightarrow> (ldk_service_error, ldk_payment_result) res \<times> 'n world
     \<Rightarrow> (nnc_error, pay_response) res \<times> 'n world \<Rightarrow> bool" where
  "reports_lightning D kind amount att ans \<longleftrightarrow> (case att of
       (Ok p, w1) \<Rightarrow> (\<exists>resp. ans = (Ok resp, clock_read_twice D w1) \<and> py_state resp = ''settled'' \<and>
          py_settled_at resp \<noteq> None \<and> py_instruction_type resp = kind \<and> py_amount resp = amount \<and> py_txid resp = None \<and>
          py_preimage resp = Some (pr_preimage p) \<and> py_fees_paid resp = or_zero (pr_fees_paid_msat p))
     | (Err e, w1) \<Rightarrow> ans = (Err (NncError EPaymentFailed (''pay/'' @ kind @ '': '' @ service_error_text e)), w1)
     | (Panic m, w1) \<Rightarrow> ans = (Panic m, w1)
     | (Hang, w1) \<Rightarrow> ans = (Hang, w1))"

text \<open>The answer to an on-chain attempt: whole satoshis are paid, and the transaction is its own id.\<close>

definition reports_onchain ::
  "'n deps \<Rightarrow> u64 \<Rightarrow> (ldk_service_error, string) res \<times> 'n world \<Rightarrow> (nnc_error, pay_response) res \<times> 'n world \<Rightarrow> bool" where
  "reports_onchain D amount att ans \<longleftrightarrow> (case att of
       (Ok txid, w1) \<Rightarrow> (\<exists>resp. ans = (Ok resp, clock_read_twice D w1) \<and> py_state resp = ''settled'' \<and>
          py_settled_at resp \<noteq> None \<and> py_instruction_type resp = ''onchain'' \<and> py_preimage resp = None \<and>
          py_txid resp = Some txid \<and> py_transaction_id resp = txid \<and> py_fees_paid resp = 0 \<and>
          unat (py_amount resp) = unat amount - unat amount mod 1000)
     | (Err e, w1) \<Rightarrow> ans = (Err (NncError EPaymentFailed (''pay/onchain: '' @ service_error_text e)), w1)
     | (Panic m, w1) \<Rightarrow> ans = (Panic m, w1)
     | (Hang, w1) \<Rightarrow> ans = (Hang, w1))"

lemma reports_lightning_bnd:
  assumes "\<And>p w1. m w = (Ok p, w1) \<Longrightarrow> \<exists>bs. pr_preimage p = hex_string bs"
  shows "reports_lightning D kind amount (m w)
    (bnd (map_err (ldk_err (''pay/'' @ kind) EPaymentFailed) m) (\<lambda>p.
       paid D kind amount (Some (pr_preimage p)) None (or_zero (pr_fees_paid_msat p))) w)"
proof (cases "m w")
  case (Pair r w1)
  show ?thesis
  proof (cases r)
    case (Ok p)
    with assms Pair obtain bs where "pr_preimage p = hex_string bs" by blast
    with hex_preimage_hashed [of "crate D" bs] obtain h where
      "(preimage_hash (crate D) (Some (pr_preimage p)) :: (nnc_error, string option) res) = Ok h" by auto
    from paid_run [OF this] obtain resp where
      run: "paid D kind amount (Some (pr_preimage p)) None (or_zero (pr_fees_paid_msat p)) w1
        = (Ok resp :: (nnc_error, pay_response) res, clock_read_twice D w1)" by blast
    from paid_eq_Ok [OF run] Pair Ok run show ?thesis by (simp add: reports_lightning_def exec_simps)
  qed (use Pair in \<open>simp_all add: reports_lightning_def exec_simps ldk_err_def\<close>)
qed

lemma whole_sats: "mul_ck ck ((m :: u64) div 1000) 1000 = Ok a \<Longrightarrow> unat a = unat m - unat m mod 1000"
proof -
  assume a: "mul_ck ck (m div 1000) 1000 = Ok a"
  have "unat (m div 1000) * unat (1000 :: u64) = unat m - unat m mod 1000"
    by (simp add: unat_div minus_mod_eq_div_mult)
  moreover have "unat m - unat m mod 1000 < 2 ^ 64"
    using unsigned_less [where 'a = nat and w = m] by simp
  ultimately show ?thesis using mul_ck_Ok_eq [OF a] unat_mul_no_wrap [of "m div 1000" 1000] by simp
qed

lemma whole_sats_fit: "\<exists>a. (mul_ck ck ((m :: u64) div 1000) 1000 :: ('e, u64) res) = Ok a"
proof -
  have "unat (m div 1000) * unat (1000 :: u64) \<le> unat m" by (simp add: unat_div)
  also have "unat m < 2 ^ 64" using unsigned_less [where 'a = nat and w = m] by simp
  finally show ?thesis by (simp add: mul_ck_def)
qed

lemma reports_onchain_bnd:
  "reports_onchain D amount (m w)
    (bnd (map_err (ldk_err ''pay/onchain'' EPaymentFailed) m) (\<lambda>txid.
     bnd (lift (mul_ck (overflow_checks D) (amount div 1000) 1000)) (\<lambda>a.
     paid D ''onchain'' a None (Some txid) 0)) w)"
proof (cases "m w")
  case (Pair r w1)
  show ?thesis
  proof (cases r)
    case (Ok txid)
    obtain a where a: "(mul_ck (overflow_checks D) (amount div 1000) 1000 :: (nnc_error, u64) res) = Ok a"
      using whole_sats_fit by blast
    have "(preimage_hash (crate D) None :: (nnc_error, string option) res) = Ok None" by (simp add: preimage_hash_def)
    from paid_run [OF this] obtain resp where
      run: "paid D ''onchain'' a None (Some txid) 0 w1 = (Ok resp :: (nnc_error, pay_response) res, clock_read_twice D w1)"
      by blast
    from paid_eq_Ok [OF run] Pair Ok run a whole_sats [OF a] show ?thesis
      by (simp add: reports_onchain_def exec_simps lift_def preimage_hash_def)
  qed (use Pair in \<open>simp_all add: reports_onchain_def exec_simps ldk_err_def\<close>)
qed

text \<open>C8: \<open>pay\<close> makes at most one attempt and reports it: the first Lightning invoice of the URI, else the first
offer, else the address. Whatever becomes of the attempt, a payment, an error, a panic, is what the answer says,
and the world afterwards is the one that attempt left, but for two looks at the clock to date a success. When the
URI holds nothing payable, or an on-chain payment has no amount, the answer is an error and nothing is attempted.\<close>

theorem pay_single_attempt:
  assumes "cr_bip321_parse (crate D) (qy_payment r) = Inr uri"
    and "(pay_amount_msat (overflow_checks D) (qy_amount r) (u_amount uri) :: (nnc_error, u64 option) res) = Ok amount"
  shows "case (u_lightning uri, u_lno uri) of
      (invoice # _, _) \<Rightarrow>
        reports_lightning D ''bolt11'' (or_zero amount) (ldk_pay_invoice D invoice amount w) (wallet_pay D r w)
    | ([], offer # _) \<Rightarrow>
        reports_lightning D ''bolt12'' (or_zero amount) (ldk_pay_offer D offer amount (qy_payer_note r) w) (wallet_pay D r w)
    | ([], []) \<Rightarrow> (case (u_address uri, amount, u_address_str uri) of
        (Some _, Some m, Some addr) \<Rightarrow> reports_onchain D m (ldk_pay_onchain D addr (m div 1000) None w) (wallet_pay D r w)
      | (Some _, Some m, None) \<Rightarrow> wallet_pay D r w = (Err (NncError BadRequest ''missing address''), w)
      | (Some _, None, _) \<Rightarrow> wallet_pay D r w = (Err (NncError BadRequest ''an on-chain payment needs an amount''), w)
      | (None, _, _) \<Rightarrow> wallet_pay D r w = (Err (NncError UnsupportedPaymentInstruction
          ''no instruction in this URI is one this node can pay''), w))"
proof -
  have run: "wallet_pay D r w = (case u_lightning uri of
       invoice # _ \<Rightarrow>
         bnd (map_err (ldk_err ''pay/bolt11'' EPaymentFailed) (ldk_pay_invoice D invoice amount)) (\<lambda>p.
         paid D ''bolt11'' (or_zero amount) (Some (pr_preimage p)) None (or_zero (pr_fees_paid_msat p)))
     | [] \<Rightarrow>
       (case u_lno uri of
          offer # _ \<Rightarrow>
            bnd (map_err (ldk_err ''pay/bolt12'' EPaymentFailed) (ldk_pay_offer D offer amount (qy_payer_note r))) (\<lambda>p.
            paid D ''bolt12'' (or_zero amount) (Some (pr_preimage p)) None (or_zero (pr_fees_paid_msat p)))
        | [] \<Rightarrow>
          (if u_address uri \<noteq> None
           then
             bnd (ok_or (NncError BadRequest ''an on-chain payment needs an amount'')
                    (map_option (\<lambda>m. m div 1000) amount)) (\<lambda>amount_sat.
             bnd (ok_or (NncError BadRequest ''missing address'') (u_address_str uri)) (\<lambda>addr.
             bnd (map_err (ldk_err ''pay/onchain'' EPaymentFailed) (ldk_pay_onchain D addr amount_sat None)) (\<lambda>txid.
             bnd (lift (mul_ck (overflow_checks D) amount_sat 1000)) (\<lambda>a.
             paid D ''onchain'' a None (Some txid) 0))))
           else raise (NncError UnsupportedPaymentInstruction
             ''no instruction in this URI is one this node can pay'')))) w"
    unfolding wallet_pay_def using assms by (simp add: bnd_def [of "lift _"] lift_def)
  have bolt11: "reports_lightning D ''bolt11'' (or_zero amount) (ldk_pay_invoice D invoice amount w)
      (bnd (map_err (ldk_err ''pay/bolt11'' EPaymentFailed) (ldk_pay_invoice D invoice amount)) (\<lambda>p.
       paid D ''bolt11'' (or_zero amount) (Some (pr_preimage p)) None (or_zero (pr_fees_paid_msat p))) w)" for invoice
    using reports_lightning_bnd [of "ldk_pay_invoice D invoice amount" w D "''bolt11''"] paid_preimage by (simp, blast)
  have bolt12: "reports_lightning D ''bolt12'' (or_zero amount) (ldk_pay_offer D offer amount (qy_payer_note r) w)
      (bnd (map_err (ldk_err ''pay/bolt12'' EPaymentFailed) (ldk_pay_offer D offer amount (qy_payer_note r))) (\<lambda>p.
       paid D ''bolt12'' (or_zero amount) (Some (pr_preimage p)) None (or_zero (pr_fees_paid_msat p))) w)" for offer
    using reports_lightning_bnd [of "ldk_pay_offer D offer amount (qy_payer_note r)" w D "''bolt12''"] paid_preimage
    by (simp, blast)
  show ?thesis unfolding run
    by (auto simp: bolt11 bolt12 reports_onchain_bnd raise_def split: list.split option.split)
qed

definition pay_lnbc :: pay_request where
  "pay_lnbc = \<lparr>qy_payment = ''lnbc'', qy_amount = None, qy_max_fee = None, qy_payer_note = None\<rparr>"

lemma sim_uri: "cr_bip321_parse (crate (sim_deps ck)) (qy_payment pay_lnbc) = Inr (new_uri\<lparr>u_lightning := [''lnbc'']\<rparr>)"
  "pay_amount_msat b (qy_amount pay_lnbc) (u_amount (new_uri\<lparr>u_lightning := [''lnbc'']\<rparr>)) = Ok None"
  by (simp_all add: sim_deps_def sim_crates_def pay_lnbc_def pay_amount_msat_def new_uri_def)

text \<open>Whatever a computation answers, the answer was made by \<open>paid\<close>.\<close>

definition ends_paid :: "'n deps \<Rightarrow> ('n world, nnc_error, pay_response) exec \<Rightarrow> bool" where
  "ends_paid D m \<longleftrightarrow> (\<forall>w resp w'. m w = (Ok resp, w') \<longrightarrow>
     (\<exists>kind amount pre txid fees w1. paid D kind amount pre txid fees w1 = (Ok resp :: (nnc_error, pay_response) res, w')))"

lemma ends_paid_intros:
  "ends_paid D (paid D kind amount pre txid fees)"
  "ends_paid D (raise e)"
  "(\<And>x. ends_paid D (f x)) \<Longrightarrow> ends_paid D (bnd m f)"
  "ends_paid D m1 \<Longrightarrow> ends_paid D m2 \<Longrightarrow> ends_paid D (if b then m1 else m2)"
  "ends_paid D m1 \<Longrightarrow> (\<And>x xs. ends_paid D (g x xs)) \<Longrightarrow> ends_paid D (case v of [] \<Rightarrow> m1 | x # xs \<Rightarrow> g x xs)"
  by (auto simp: ends_paid_def bnd_eq_Ok split: list.splits) blast+

lemma wallet_pay_ends_paid: "ends_paid D (wallet_pay D r)"
  unfolding wallet_pay_def by (intro ends_paid_intros)

text \<open>C24: a Lightning \<open>pay\<close> is identified by the hash of its 32 byte preimage, never by the preimage.\<close>

theorem pay_identified_by_hash:
  assumes "wallet_pay D r w = (Ok resp, w')" and "py_preimage resp = Some (hex_string preimage)"
    and "length preimage = 32"
  shows "py_transaction_id resp = cr_sha256_text (crate D) preimage \<and>
    py_payment_hash resp = Some (cr_sha256_text (crate D) preimage)"
proof -
  have hash: "(preimage_hash (crate D) (Some (hex_string preimage)) :: (nnc_error, string option) res)
      = Ok (Some (cr_sha256_text (crate D) preimage))"
    using decode_hex_32_hex_hash [OF assms(3)] hex_writers_agree by (simp add: preimage_hash_def)
  from wallet_pay_ends_paid assms(1) obtain kind amount pre txid fees w1 where
    "paid D kind amount pre txid fees w1 = (Ok resp :: (nnc_error, pay_response) res, w')"
    unfolding ends_paid_def by blast
  from paid_eq_Ok [OF this] assms(2) hash show ?thesis by simp
qed

lemma sim_paid: "\<exists>resp w'. paid (sim_deps ck) kind a (Some (hex_string (replicate 32 5))) None f (init_world paid_host)
      = (Ok resp :: (nnc_error, pay_response) res, w') \<and> py_preimage resp = Some (hex_string (replicate 32 5))"
proof -
  have hash: "(preimage_hash C (Some (hex_string (replicate 32 5))) :: (nnc_error, string option) res) =
      Ok (Some (cr_sha256_text C (replicate 32 5)))" for C
    using decode_hex_32_hex_hash [of "replicate 32 5"] hex_writers_agree by (simp add: preimage_hash_def)
  show ?thesis unfolding paid_def hash
    by (simp add: wallet_now_def exec_defs call_def sim_deps_def sim_platform_def init_world_def paid_host_def sim_start_def)
qed

lemma paid_uri_run: "\<exists>resp w'. wallet_pay (sim_deps ck) pay_lnbc (init_world paid_host) = (Ok resp, w') \<and>
    py_preimage resp = Some (hex_string (replicate 32 5))"
proof -
  have p: "try_parse (cr_bip321_parse (crate (sim_deps ck)) (qy_payment pay_lnbc)) h = ret (new_uri\<lparr>u_lightning := [''lnbc'']\<rparr>)" for h
    by (simp add: try_parse_def sim_uri(1))
  have a: "lift (pay_amount_msat (overflow_checks (sim_deps ck)) (qy_amount pay_lnbc) (u_amount new_uri)) = ret None"
    by (rule ext) (simp add: lift_def ret_def pay_lnbc_def pay_amount_msat_def new_uri_def)
  have run: "map_err h (ldk_pay_invoice (sim_deps ck) ''lnbc'' None) (init_world paid_host) =
      (Ok \<lparr>pr_preimage = hex_string (replicate 32 5), pr_fees_paid_msat = Some 3\<rparr>, init_world paid_host)" for h
    by (simp add: map_err_def paid_invoice_run)
  have "\<exists>a f. wallet_pay (sim_deps ck) pay_lnbc (init_world paid_host) =
      paid (sim_deps ck) ''bolt11'' a (Some (hex_string (replicate 32 5))) None f (init_world paid_host)"
    by (simp add: wallet_pay_def p a bnd_simps(1) [where m = "map_err _ _", OF run]) blast
  then show ?thesis using sim_paid by metis
qed

theorem pay_single_attempt_witness:
  "\<exists>resp. wallet_pay (sim_deps True) pay_lnbc (init_world paid_host) =
      (Ok resp, clock_read_twice (sim_deps True) (init_world paid_host)) \<and> py_instruction_type resp = ''bolt11'' \<and>
    py_preimage resp = Some (hex_string (replicate 32 5)) \<and> py_fees_paid resp = 3"
  using pay_single_attempt [OF sim_uri(1) [of True] sim_uri(2), where w = "init_world paid_host"]
  by (auto simp: reports_lightning_def paid_invoice_run new_uri_def or_zero_def)

theorem pay_identified_by_hash_witness:
  "\<exists>resp w'. wallet_pay (sim_deps True) pay_lnbc (init_world paid_host) = (Ok resp, w') \<and>
    py_transaction_id resp = hex_string (replicate 32 5)"
proof -
  obtain resp w' where run: "wallet_pay (sim_deps True) pay_lnbc (init_world paid_host) = (Ok resp, w')"
    and pre: "py_preimage resp = Some (hex_string (replicate 32 5))" using paid_uri_run by blast
  from pay_identified_by_hash [OF run pre] run show ?thesis
    by (auto simp: sim_deps_def sim_crates_def)
qed

text \<open>C30: \<open>pay_offer\<close> on the other hand hands the preimage out as the transaction id.\<close>

theorem pay_offer_leaks_preimage:
  assumes "wallet_pay_offer D r w = (Ok resp, w')"
  shows "po_transaction_id resp = po_preimage resp \<and>
    (\<exists>i n0 ps. wa_list_payments (wallet_node D) n0 = (ps, host w') \<and>
       settled_payment i ps \<lparr>pr_preimage = po_transaction_id resp, pr_fees_paid_msat = po_fees_paid resp\<rparr>)"
proof -
  from assms obtain p i w1 where wait: "wait_for_outbound_payment D i w1 = (Ok p, w')"
    and resp: "resp = \<lparr>po_transaction_id = pr_preimage p, po_preimage = pr_preimage p, po_fees_paid = pr_fees_paid_msat p\<rparr>"
    by (auto simp: wallet_pay_offer_def ldk_pay_offer_def Ok_iff)
  from wait_for_outbound_payment_Ok [OF wait] obtain n0 ps where
    "wa_list_payments (wallet_node D) n0 = (ps, host w')" "settled_payment i ps p" by blast
  with resp show ?thesis by (intro conjI exI) (auto simp: settled_payment_def)
qed

theorem pay_offer_leaks_preimage_witness:
  "\<exists>resp w'. wallet_pay_offer (sim_deps True) \<lparr>qf_offer = ''lno1'', qf_amount = None, qf_payer_note = None\<rparr> (init_world paid_host)
      = (Ok resp, w') \<and> po_transaction_id resp = po_preimage resp"
proof -
  let ?r = "\<lparr>qf_offer = ''lno1'', qf_amount = None, qf_payer_note = None\<rparr>"
  have send: "try_call (wa_bolt12_send (wallet_node (sim_deps ck)) i pn) PaymentFailed (init_world paid_host) =
      (Ok (replicate 32 1), init_world paid_host)" for ck i pn
    by (simp add: try_call_def sim_deps_def sim_wallet_def init_world_def)
  have parsed: "cr_offer_from_str (crate (sim_deps ck)) ''lno1'' = Inr \<lparr>bo_text = ''lno1'', bo_id = replicate 32 7\<rparr>" for ck
    by (simp add: sim_deps_def sim_crates_def)
  have "ldk_pay_offer (sim_deps True) ''lno1'' None None (init_world paid_host) =
      (Ok \<lparr>pr_preimage = hex_string (replicate 32 5), pr_fees_paid_msat = Some 3\<rparr>, init_world paid_host)"
    unfolding ldk_pay_offer_def
    by (simp add: parsed bnd_simps(1) [where m = "try_call _ _", OF send] paid_wait)
  then have "\<exists>resp w'. wallet_pay_offer (sim_deps True) ?r (init_world paid_host) = (Ok resp, w')"
    by (simp add: wallet_pay_offer_def exec_defs)
  then obtain resp w' where run: "wallet_pay_offer (sim_deps True) ?r (init_world paid_host) = (Ok resp, w')" by blast
  from pay_offer_leaks_preimage [OF run] run show ?thesis by blast
qed

lemma pay_offer_run:
  assumes "cr_bip321_parse (crate D) (qy_payment r) = Inr uri" and "u_lightning uri = []" and "u_lno uri = offer # others"
  shows "wallet_pay D (r\<lparr>qy_amount := Some c\<rparr>) w = bnd (map_err (ldk_err ''pay/bolt12'' EPaymentFailed)
      (ldk_pay_offer D offer (Some c) (qy_payer_note r))) (\<lambda>p.
      paid D ''bolt12'' c (Some (pr_preimage p)) None (or_zero (pr_fees_paid_msat p))) w"
  unfolding wallet_pay_def using assms by (simp add: pay_amount_msat_def bnd_def [of "lift _"] lift_def or_zero_def)

text \<open>C11: the amount of a request plays no part in paying an offer. \<open>pay_offer\<close> does the same whatever amount is
named, and \<open>pay\<close>, for a URI whose first instruction is an offer, sends the offer without an amount and then
answers that it paid the amount named: for any other amount it leaves the same world and the same answer but
for that number.\<close>

theorem offer_amount_ignored:
  assumes "cr_bip321_parse (crate D) (qy_payment r) = Inr uri" and "u_lightning uri = []" and "u_lno uri = offer # others"
    and "wallet_pay D (r\<lparr>qy_amount := Some a\<rparr>) w = (Ok resp, w')"
  shows "py_amount resp = a \<and> wallet_pay D (r\<lparr>qy_amount := Some b\<rparr>) w = (Ok (resp\<lparr>py_amount := b\<rparr>), w') \<and>
    (\<exists>parsed i n. cr_offer_from_str (crate D) offer = Inr parsed \<and>
       wa_bolt12_send (wallet_node D) parsed (qy_payer_note r) (host w) = (Inr i, n)) \<and>
    wallet_pay_offer D (q\<lparr>qf_amount := Some a\<rparr>) = wallet_pay_offer D (q\<lparr>qf_amount := Some b\<rparr>)"
proof -
  note run = pay_offer_run [OF assms(1-3)]
  have same: "ldk_pay_offer D off x pn = ldk_pay_offer D off y pn" for off x y pn
    by (simp add: ldk_pay_offer_def)
  from assms(4) obtain p w1 where sent: "ldk_pay_offer D offer (Some a) (qy_payer_note r) w = (Ok p, w1)"
    and paid: "paid D ''bolt12'' a (Some (pr_preimage p)) None (or_zero (pr_fees_paid_msat p)) w1 = (Ok resp :: (nnc_error, pay_response) res, w')"
    unfolding run by (auto simp: Ok_iff)
  have "wallet_pay D (r\<lparr>qy_amount := Some b\<rparr>) w = (Ok (resp\<lparr>py_amount := b\<rparr>), w')"
    using sent paid_amount [OF paid, of b] same [of offer "Some b" "qy_payer_note r" "Some a"]
    by (simp add: run exec_simps)
  moreover from sent have "\<exists>parsed i n. cr_offer_from_str (crate D) offer = Inr parsed \<and>
       wa_bolt12_send (wallet_node D) parsed (qy_payer_note r) (host w) = (Inr i, n)"
    by (auto simp: ldk_pay_offer_def Ok_iff)
  moreover have "wallet_pay_offer D (q\<lparr>qf_amount := Some a\<rparr>) = wallet_pay_offer D (q\<lparr>qf_amount := Some b\<rparr>)"
    using same [of "qf_offer q" "Some a" "qf_payer_note q" "Some b"] by (simp add: wallet_pay_offer_def)
  ultimately show ?thesis using paid_eq_Ok [OF paid] by simp
qed

text \<open>The environment of the examples, with a reader of URIs that finds one offer.\<close>

definition offer_deps :: "sim_host deps" where
  "offer_deps = (sim_deps True)\<lparr>crate := sim_crates\<lparr>cr_bip321_parse := \<lambda>s. Inr (new_uri\<lparr>u_lno := [s]\<rparr>)\<rparr>\<rparr>"

lemma offer_deps_paid: "\<exists>resp w'. wallet_pay offer_deps (pay_lnbc\<lparr>qy_amount := Some a\<rparr>) (init_world paid_host) = (Ok resp, w')"
proof -
  let ?paid = "\<lparr>pr_preimage = hex_string (replicate 32 5), pr_fees_paid_msat = Some 3\<rparr>"
  have "wait_for_outbound_payment offer_deps (replicate 32 1) (init_world paid_host) = (Ok ?paid, init_world paid_host)"
    by (rule paid_wait_any) (simp_all add: offer_deps_def sim_deps_def)
  then have sent: "ldk_pay_offer offer_deps ''lnbc'' am None (init_world paid_host) = (Ok ?paid, init_world paid_host)" for am
    by (simp add: ldk_pay_offer_def exec_simps try_call_def bnd_def offer_deps_def sim_deps_def sim_crates_def sim_wallet_def init_world_def)
  from hex_preimage_hashed [of "crate offer_deps" "replicate 32 5"] obtain h where
    "(preimage_hash (crate offer_deps) (Some (hex_string (replicate 32 5))) :: (nnc_error, string option) res) = Ok h" by blast
  note answer = paid_run [OF this, of "''bolt12''" a None 3 "init_world paid_host"]
  have uri: "cr_bip321_parse (crate offer_deps) (qy_payment pay_lnbc) = Inr (new_uri\<lparr>u_lno := [''lnbc'']\<rparr>)"
    by (simp add: offer_deps_def pay_lnbc_def)
  have plain: "u_lightning (new_uri\<lparr>u_lno := [''lnbc'']\<rparr>) = []" "u_lno (new_uri\<lparr>u_lno := [''lnbc'']\<rparr>) = [''lnbc'']"
    "qy_payer_note pay_lnbc = None"
    by (simp_all add: new_uri_def pay_lnbc_def)
  show ?thesis
    using answer sent [of "Some a"] by (simp add: pay_offer_run [OF uri plain(1,2)] plain(3) exec_simps or_zero_def) blast
qed

theorem offer_amount_ignored_witness:
  "\<exists>resp w'. wallet_pay offer_deps (pay_lnbc\<lparr>qy_amount := Some 5000\<rparr>) (init_world paid_host) = (Ok (resp\<lparr>py_amount := 5000\<rparr>), w') \<and>
    wallet_pay offer_deps (pay_lnbc\<lparr>qy_amount := Some 7\<rparr>) (init_world paid_host) = (Ok (resp\<lparr>py_amount := 7\<rparr>), w')"
proof -
  obtain resp w' where run: "wallet_pay offer_deps (pay_lnbc\<lparr>qy_amount := Some 5000\<rparr>) (init_world paid_host) = (Ok resp, w')"
    using offer_deps_paid by blast
  have uri: "cr_bip321_parse (crate offer_deps) (qy_payment pay_lnbc) = Inr (new_uri\<lparr>u_lno := [''lnbc'']\<rparr>)"
    by (simp add: offer_deps_def pay_lnbc_def)
  from offer_amount_ignored [OF uri _ _ run, of "''lnbc''" "[]" 7] have
    "py_amount resp = 5000" "wallet_pay offer_deps (pay_lnbc\<lparr>qy_amount := Some 7\<rparr>) (init_world paid_host) = (Ok (resp\<lparr>py_amount := 7\<rparr>), w')"
    by (simp_all add: new_uri_def)
  with run show ?thesis by (intro exI [of _ resp] exI [of _ w']) simp
qed

end
