(* ===== verification/SystemProps.thy ===== *)
theory SystemProps
  imports Invariants UriProps
begin

text \<open>
  Properties of the node as a whole (\<^verbatim>\<open>src/service.rs\<close>, \<^verbatim>\<open>src/events.rs\<close>, the stores under
  \<^verbatim>\<open>src/state/\<close>): what holds of the stores in every reachable state, and what the
  methods that make and switch off offers do to them.
\<close>

section \<open>Offers\<close>

text \<open>C19: an offer that \<open>make_offer\<close> answers is in the store, active, with the amount and description asked
for, and every other offer is as it was. An amount without a description is refused and nothing is made.\<close>

theorem make_offer_recorded:
  assumes "hm_wf (guarded (offer_db w))"
  shows "(\<forall>resp w'. wallet_make_offer D r w = (Ok resp, w') \<longrightarrow>
      (qo_amount r = None \<or> qo_description r \<noteq> None) \<and>
      (\<exists>rec. map_of (guarded (offer_db w')) = (map_of (guarded (offer_db w)))(mo_offer resp \<mapsto> rec) \<and>
         or_active rec \<and> or_offer rec = mo_offer resp \<and> or_amount_msat rec = or_zero (qo_amount r) \<and>
         or_description rec = (case qo_description r of None \<Rightarrow> ''offer'' | Some d \<Rightarrow> d) \<and>
         mo_offer_id resp = cr_hex_encode (crate D) (or_offer_id rec))) \<and>
    (qo_amount r \<noteq> None \<and> qo_description r = None \<longrightarrow> wallet_make_offer D r w =
      (Err (NncError BadRequest ''an amount-bearing offer requires a description''), w))"
proof (intro conjI allI impI)
  fix resp w' assume run: "wallet_make_offer D r w = (Ok resp, w')"
  then show "qo_amount r = None \<or> qo_description r \<noteq> None"
    by (auto simp: wallet_make_offer_def Ok_iff)
  let ?desc = "case qo_description r of None \<Rightarrow> ''offer'' | Some d \<Rightarrow> d"
  let ?amt = "case qo_amount r of None \<Rightarrow> 0 | Some a \<Rightarrow> a"
  let ?rec = "\<lambda>off. new_offer_record off ?desc ?amt (offer_id_or_zero (crate D) off)"
  from run obtain e w1 offer w2 w3 t where "offer_expiry D (qo_expires_at r) w = (Ok e :: (nnc_error, u32 option) res, w1)"
    and "ldk_make_offer D ?amt ?desc e w1 = (Ok offer, w2)"
    and ins: "on_offers (insert_offer (hash_buckets D) offer ?desc ?amt (offer_id_or_zero (crate D) offer)) w2
      = (Ok () :: (nnc_error, unit) res, w3)"
    and now: "wallet_now D w3 = (Ok t :: (nnc_error, u64) res, w')"
    and resp: "mo_offer resp = offer" "mo_offer_id resp = cr_hex_encode (crate D) (offer_id_or_zero (crate D) offer)"
    unfolding wallet_make_offer_def Let_def by (auto simp: Ok_iff)
  moreover have "keeps (stores_are a b c) (offer_expiry D (qo_expires_at r) :: ('a world, nnc_error, u32 option) exec)" for a b c
    unfolding offer_expiry_def by (intro frame.keeps_host)
  ultimately have before: "offer_db w2 = offer_db w" and after: "offer_db w' = offer_db w3"
    using stores_kept(2) [of "offer_expiry D (qo_expires_at r)" w] stores_kept(2) [OF frame.keeps_ldk_payments(11)]
      stores_kept(2) [OF frame.keeps_clock(1)] by metis+
  have "map_of (guarded (offer_db w')) = (map_of (guarded (offer_db w)))(offer \<mapsto> ?rec offer)"
    using ins assms
    by (auto simp: after before on_offers_def insert_offer_def write_lock_def map_of_hm_insert split: if_splits)
  then show "\<exists>rec. map_of (guarded (offer_db w')) = (map_of (guarded (offer_db w)))(mo_offer resp \<mapsto> rec) \<and>
         or_active rec \<and> or_offer rec = mo_offer resp \<and> or_amount_msat rec = or_zero (qo_amount r) \<and>
         or_description rec = ?desc \<and> mo_offer_id resp = cr_hex_encode (crate D) (or_offer_id rec)"
    by (intro exI [of _ "?rec offer"]) (simp add: resp new_offer_record_def or_zero_def)
next
  assume "qo_amount r \<noteq> None \<and> qo_description r = None"
  then show "wallet_make_offer D r w = (Err (NncError BadRequest ''an amount-bearing offer requires a description''), w)"
    by (simp add: wallet_make_offer_def raise_def)
qed

definition plain_offer :: make_offer_request where
  "plain_offer = \<lparr>qo_amount = None, qo_description = None, qo_issuer = None, qo_single_use = None, qo_expires_at = None\<rparr>"

lemma plain_offer_made: "\<exists>resp w'. wallet_make_offer (sim_deps ck) plain_offer (init_world sim_start) = (Ok resp, w') \<and>
    mo_offer resp = ''lno1'' \<and> mo_offer_id resp = hex_string (replicate 32 7) \<and>
    offer_db w' = RwLock [(''lno1'', new_offer_record ''lno1'' ''offer'' 0 (replicate 32 7))] False"
  by (simp add: Let_def offer_id_or_zero_def sim_crates_def wallet_make_offer_def ldk_make_offer_def plain_offer_def offer_expiry_def wallet_now_def exec_defs
      try_call_def call_def on_offers_def insert_offer_def write_lock_def is_panic_def sim_deps_def sim_wallet_def
      sim_platform_def init_world_def sim_start_def offer_store_init_def hm_insert_def)

theorem make_offer_recorded_witness:
  "\<exists>w' rec. map_of (guarded (offer_db (w' :: sim_host world))) = [''lno1'' \<mapsto> rec] \<and> or_active rec"
proof -
  obtain resp w' where run: "wallet_make_offer (sim_deps True) plain_offer (init_world sim_start) = (Ok resp, w')"
    and off: "mo_offer resp = ''lno1''" using plain_offer_made [of True] by blast
  from make_offer_recorded [where D = "sim_deps True" and r = plain_offer and w = "init_world sim_start"] run off show ?thesis
    by (auto simp: init_world_def offer_store_init_def)
qed


lemma find_id_after_deactivation:
  "map_option fst (find (\<lambda>(_, r). or_offer_id r = b) (hm_modify o' deactivate m)) =
   map_option fst (find (\<lambda>(_, r). or_offer_id r = b) m)"
  by (induction m) (auto simp: hm_modify_def deactivate_def split: if_splits)

lemma disable_offer_by_id:
  assumes "\<not> poisoned (offer_db w)" and "decode_offer_id (crate D) i = Some b"
    and "map_option fst (find (\<lambda>(_, r). or_offer_id r = b) (guarded (offer_db w))) = Some o'"
  shows "wallet_disable_offer D i w =
    (Ok (), w\<lparr>offer_db := RwLock (hm_modify o' deactivate (guarded (offer_db w))) False\<rparr>)"
  using assms
  by (auto simp: wallet_disable_offer_def exec_defs on_offers_def find_by_offer_id_run disable_offer_run)

text \<open>C18: \<open>disable_offer\<close> takes the 32 byte id of an offer the store holds; it switches off one offer with that
id, leaves every other offer as it was, and may be repeated.\<close>

theorem disable_offer_effect:
  assumes "unpoisoned w" and "stores_filed w" and "wallet_disable_offer D i w = (Ok (), w')"
  shows "\<exists>b o' rec. cr_hex_decode (crate D) i = Inr b \<and> length b = 32 \<and>
    map_of (guarded (offer_db w)) o' = Some rec \<and> or_offer_id rec = b \<and>
    map_of (guarded (offer_db w')) = (map_of (guarded (offer_db w)))(o' \<mapsto> deactivate rec) \<and>
    wallet_disable_offer D i w' = (Ok (), w')"
proof -
  let ?m = "guarded (offer_db w)"
  have np: "\<not> poisoned (offer_db w)" using assms(1) by (simp add: unpoisoned_def)
  from assms(3) np obtain b o' where b: "decode_offer_id (crate D) i = Some b"
    and found: "map_option fst (find (\<lambda>(_, r). or_offer_id r = b) ?m) = Some o'"
    unfolding wallet_disable_offer_def by (auto simp: Ok_iff on_offers_def find_by_offer_id_run)
  from disable_offer_by_id [OF np b found] assms(3)
  have w': "w' = w\<lparr>offer_db := RwLock (hm_modify o' deactivate ?m) False\<rparr>" by simp
  from found obtain rec where "(o', rec) \<in> set ?m" and id: "or_offer_id rec = b"
    by (auto simp: find_Some_iff) (metis nth_mem)
  with assms(2) have rec: "map_of ?m o' = Some rec"
    by (simp add: stores_filed_def offers_filed_def offs.filed_def hm_wf_def)
  have "map_of (guarded (offer_db w')) = (map_of ?m)(o' \<mapsto> deactivate rec)"
    by (rule ext) (simp add: w' map_of_hm_modify rec)
  moreover have "wallet_disable_offer D i w' = (Ok (), w')"
  proof -
    have twice: "hm_modify o' deactivate (hm_modify o' deactivate ?m) = hm_modify o' deactivate ?m"
      by (induction ?m) (auto simp: hm_modify_def deactivate_def)
    have "wallet_disable_offer D i w' =
        (Ok (), w'\<lparr>offer_db := RwLock (hm_modify o' deactivate (guarded (offer_db w'))) False\<rparr>)"
      by (rule disable_offer_by_id [OF _ b]) (simp_all add: w' found find_id_after_deactivation)
    then show ?thesis by (simp add: w' twice)
  qed
  moreover have "cr_hex_decode (crate D) i = Inr b" "length b = 32"
    using b by (auto simp: decode_offer_id_def split: sum.splits if_splits)
  ultimately show ?thesis using rec id by blast
qed

definition offering :: "sim_host world" where
  "offering = (init_world sim_start)\<lparr>offer_db :=
     RwLock [(''lno1'', new_offer_record ''lno1'' ''offer'' 0 (replicate 32 7))] False\<rparr>"

theorem disable_offer_effect_witness:
  "\<exists>w' rec. wallet_disable_offer (sim_deps True) (hex_string (replicate 32 7)) offering = (Ok (), w') \<and>
    map_of (guarded (offer_db w')) ''lno1'' = Some rec \<and> \<not> or_active rec"
proof -
  let ?b = "replicate 32 7"
  have ok: "unpoisoned offering" "stores_filed offering"
    by (simp_all add: offering_def unpoisoned_def init_world_def address_store_init_def forwarding_store_init_def
        stores_filed_def addresses_filed_def offers_filed_def addrs.filed_def offs.filed_def hm_wf_def)
  have id: "decode_offer_id (crate (sim_deps True)) (hex_string ?b) = Some ?b"
    using decode_hex_hex_hash [of ?b] hex_writers_agree
    by (simp add: decode_offer_id_def sim_deps_def sim_crates_def sim_hex_decode_def del: replicate.simps)
  have run: "\<exists>w'. wallet_disable_offer (sim_deps True) (hex_string ?b) offering = (Ok (), w')"
    using disable_offer_by_id [OF _ id, of offering "''lno1''"]
    by (simp add: offering_def new_offer_record_def del: replicate.simps)
  then obtain w' where run: "wallet_disable_offer (sim_deps True) (hex_string ?b) offering = (Ok (), w')" by blast
  from disable_offer_effect [OF ok run] obtain o' rec where
    "map_of (guarded (offer_db offering)) o' = Some rec"
    "map_of (guarded (offer_db w')) = (map_of (guarded (offer_db offering)))(o' \<mapsto> deactivate rec)" by blast
  with run show ?thesis by (auto simp: offering_def deactivate_def split: if_splits)
qed


section \<open>Reachable states\<close>

definition sim_notifier :: "(sim_host, unit) notifier" where
  "sim_notifier = \<lparr>nf_wallet_new = (\<lambda>_ _. Inr ()), nf_control_new = (\<lambda>_ _. Inl ''no''),
     nf_announce = (\<lambda>_ h. (Inl ''offline'', h))\<rparr>"

definition start_state :: "sim_host world \<times> bool" where
  "start_state = (init_world sim_start, True)"

lemma start_reachable: "reachable D N ms al start_state"
  unfolding start_state_def by (rule reachable.at_start)

lemma reachable_live:
  assumes "reachable D N ms al s"
  shows "unpoisoned (fst s)" and "stores_filed (fst s)" and "nothing_credited (fst s)"
proof -
  show "unpoisoned (fst s)"
    by (rule live.reachable_keeps [OF assms])
      (simp add: unpoisoned_def init_world_def address_store_init_def offer_store_init_def forwarding_store_init_def)
  show "stores_filed (fst s)"
    by (rule filed.reachable_keeps [OF assms])
      (simp add: stores_filed_def addresses_filed_def offers_filed_def init_world_def address_store_init_def
        offer_store_init_def addrs.filed_empty offs.filed_empty)
  show "nothing_credited (fst s)"
    by (rule uncredited.reachable_keeps [OF assms])
      (simp add: nothing_credited_def init_world_def address_store_init_def offer_store_init_def)
qed

lemma reachable_unpoisoned:
  assumes "reachable D N ms al s"
  shows "\<not> poisoned (offer_db (fst s))" and "\<not> poisoned (address_db (fst s))" and "\<not> poisoned (forward_db (fst s))"
  using reachable_live(1) [OF assms] by (simp_all add: unpoisoned_def)

lemma offers_listing:
  assumes "unpoisoned w" and "stores_filed w" and "nothing_credited w"
  shows "\<exists>rows. wallet_list_offers D active_only w = (Ok rows, w) \<and> distinct (map ow_offer rows) \<and>
    (\<forall>r \<in> set rows. ow_num_payments_received r = 0 \<and> ow_total_received r = 0) \<and>
    ow_offer ` set rows = {off. \<exists>rec. map_of (guarded (offer_db w)) off = Some rec \<and>
      (active_only = Some True \<longrightarrow> or_active rec)}"
proof -
  let ?offers = "map snd (guarded (offer_db w))"
  let ?keep = "\<lambda>o'. \<not> (case active_only of None \<Rightarrow> False | Some b \<Rightarrow> b) \<or> or_active o'"
  let ?rows = "map (offer_row_of (crate D)) (filter ?keep ?offers)"
  have filed: "offs.filed (guarded (offer_db w))" using assms(2) by (simp add: stores_filed_def offers_filed_def)
  have run: "wallet_list_offers D active_only w = (Ok ?rows, w)"
    using assms(1) by (simp add: wallet_list_offers_def exec_defs on_offers_def list_offers_run unpoisoned_def)
  have names: "map ow_offer ?rows = map or_offer (filter ?keep ?offers)" by (simp add: offer_row_of_def)
  have once: "distinct (map ow_offer ?rows)"
    unfolding names using offs.listing_distinct [OF filed] by (rule distinct_map_filter)
  have zero: "\<forall>r \<in> set ?rows. ow_num_payments_received r = 0 \<and> ow_total_received r = 0"
    using assms(3) by (auto simp: nothing_credited_def list_all_iff offer_row_of_def)
  have "ow_offer ` set ?rows = or_offer ` set (filter ?keep ?offers)" using names by (metis list.set_map)
  also have "\<dots> = {off. \<exists>rec. map_of (guarded (offer_db w)) off = Some rec \<and> ?keep rec}"
    using offs.listed_lookup [OF filed] offs.lookup_listed [OF filed] by (fastforce simp: image_iff)
  finally have "ow_offer ` set ?rows = {off. \<exists>rec. map_of (guarded (offer_db w)) off = Some rec \<and>
      (active_only = Some True \<longrightarrow> or_active rec)}"
    by (auto split: option.splits bool.splits)
  with run once zero show ?thesis by blast
qed

lemma addresses_listing:
  assumes "unpoisoned w" and "stores_filed w" and "nothing_credited w"
  shows "\<exists>rows. wallet_list_addresses D w = (Ok rows, w) \<and> distinct (map aw_address rows) \<and>
    (\<forall>r \<in> set rows. aw_total_received_sats r = 0 \<and> aw_created_at r = 0) \<and>
    aw_address ` set rows = dom (map_of (guarded (address_db w)))"
proof -
  let ?as = "map snd (guarded (address_db w))"
  let ?row = "\<lambda>a. \<lparr>aw_address_type = ''p2tr'', aw_total_received_sats = 0, aw_created_at = 0, aw_address = ar_address a\<rparr>"
  have filed: "addrs.filed (guarded (address_db w))" using assms(2) by (simp add: stores_filed_def addresses_filed_def)
  have "(collect_res (address_row_of D) ?as :: (nnc_error, address_row list) res) = Ok (map ?row ?as)"
    using assms(3)
    by (intro collect_res_Ok_map)
      (auto simp: nothing_credited_def list_all_iff address_row_of_def received_sats_def sum_ck_def)
  then have run: "wallet_list_addresses D w = (Ok (map ?row ?as), w)"
    using assms(1) by (simp add: wallet_list_addresses_def exec_defs on_addresses_def list_addresses_run unpoisoned_def del: map_map)
  have names: "map aw_address (map ?row ?as) = map ar_address ?as" by simp
  have once: "distinct (map aw_address (map ?row ?as))"
    unfolding names by (rule addrs.listing_distinct [OF filed])
  have "aw_address ` set (map ?row ?as) = ar_address ` set ?as" using names by (metis list.set_map)
  also have "\<dots> = dom (map_of (guarded (address_db w)))"
    using addrs.listed_lookup [OF filed] addrs.lookup_listed [OF filed] by (fastforce simp: image_iff dom_def)
  finally show ?thesis using run once by (intro exI conjI) auto
qed

text \<open>C9: in every state the node can reach, whatever the outside answers, no lock is poisoned, and the two
listings are served: each offer and each address is listed once, exactly those the stores hold, and every
counter they show is zero. Nothing the node does credits an offer or an address with a payment.\<close>

theorem reachable_listings:
  assumes "reachable D N ms al s"
  shows "unpoisoned (fst s) \<and>
    (\<exists>rows. wallet_list_offers D active_only (fst s) = (Ok rows, fst s) \<and> distinct (map ow_offer rows) \<and>
       (\<forall>r \<in> set rows. ow_num_payments_received r = 0 \<and> ow_total_received r = 0) \<and>
       ow_offer ` set rows = {off. \<exists>rec. map_of (guarded (offer_db (fst s))) off = Some rec \<and>
         (active_only = Some True \<longrightarrow> or_active rec)}) \<and>
    (\<exists>rows. wallet_list_addresses D (fst s) = (Ok rows, fst s) \<and> distinct (map aw_address rows) \<and>
       (\<forall>r \<in> set rows. aw_total_received_sats r = 0 \<and> aw_created_at r = 0) \<and>
       aw_address ` set rows = dom (map_of (guarded (address_db (fst s)))))"
  by (intro conjI reachable_live(1) [OF assms] offers_listing [OF reachable_live [OF assms]]
      addresses_listing [OF reachable_live [OF assms]])

theorem reachable_listings_witness:
  "\<exists>w. reachable (sim_deps True) sim_notifier [] None (w, True) \<and>
    (\<exists>rows. wallet_list_offers (sim_deps True) None w = (Ok rows, w) \<and> ow_offer ` set rows = {''lno1''})"
proof -
  obtain resp w where run: "wallet_make_offer (sim_deps True) plain_offer (init_world sim_start) = (Ok resp, w)"
    and db: "offer_db w = RwLock [(''lno1'', new_offer_record ''lno1'' ''offer'' 0 (replicate 32 7))] False"
    using plain_offer_made [of True] by blast
  have "serve_wallet (sim_deps True) [] None (RqMakeOffer plain_offer) (init_world sim_start) = (Ok (), w)"
    using run by (simp add: answered_def bnd_def)
  from node_step.wallet_served [OF this] have r: "reachable (sim_deps True) sim_notifier [] None (w, True)"
    by (blast intro: reachable.intros)
  from reachable_listings [OF r, of None] r db show ?thesis by auto
qed

end
