(* ===== verification/NodeSpec.thy ===== *)
theory NodeSpec
  imports SystemProps
begin

text \<open>
  What the node's own state promises, without hash tables and locks: a set of watched addresses, the
  offers by their text, and a log of forwards. The node of \<^verbatim>\<open>Service\<close> implements it: every step is a
  sequence of the abstract moves, and what the two listings and the history show is the abstract state.
\<close>

record node_spec =
  sp_addresses :: "string set"
  sp_offers :: "string \<Rightarrow> offer_record option"
  sp_log :: "forwarding_entry list"

definition fresh_offer :: "string \<Rightarrow> offer_record \<Rightarrow> bool" where
  "fresh_offer off rec \<longleftrightarrow> or_offer rec = off \<and> or_active rec \<and> or_num_payments_received rec = 0 \<and> or_total_received_msat rec = 0"

inductive spec_step :: "node_spec \<Rightarrow> node_spec \<Rightarrow> bool" where
  offer_made: "fresh_offer off rec \<Longrightarrow> spec_step s (s\<lparr>sp_offers := (sp_offers s)(off \<mapsto> rec)\<rparr>)"
| offer_off: "sp_offers s off = Some rec \<Longrightarrow> spec_step s (s\<lparr>sp_offers := (sp_offers s)(off \<mapsto> deactivate rec)\<rparr>)"
| address_made: "spec_step s (s\<lparr>sp_addresses := insert a (sp_addresses s)\<rparr>)"
| forwarded: "spec_step s (s\<lparr>sp_log := sp_log s @ [e]\<rparr>)"

inductive_cases spec_stepE: "spec_step s s'"

definition abs_node :: "'n world \<Rightarrow> node_spec" where
  "abs_node w = \<lparr>sp_addresses = dom (map_of (guarded (address_db w))),
     sp_offers = map_of (guarded (offer_db w)), sp_log = guarded (forward_db w)\<rparr>"

lemma atomic_write_refines:
  assumes "atomic_write D w w'" and "stores_filed w"
  shows "spec_step\<^sup>*\<^sup>* (abs_node w) (abs_node w')"
  using assms
proof (induction rule: atomic_write.induct)
  case (host_moved w n)
  then show ?case by (simp add: abs_node_def)
next
  case (offer_added w o' d a i)
  have "abs_node (w\<lparr>offer_db := RwLock (hm_insert (hash_buckets D) o' (new_offer_record o' d a i) (guarded (offer_db w))) False\<rparr>)
      = (abs_node w)\<lparr>sp_offers := (sp_offers (abs_node w))(o' \<mapsto> new_offer_record o' d a i)\<rparr>"
    using offer_added by (simp add: abs_node_def stores_filed_def offers_filed_def offs.filed_def map_of_hm_insert)
  moreover have "fresh_offer o' (new_offer_record o' d a i)" by (simp add: fresh_offer_def new_offer_record_def)
  ultimately show ?case by (metis offer_made r_into_rtranclp)
next
  case (offer_switched_off w o')
  let ?w' = "w\<lparr>offer_db := RwLock (hm_modify o' deactivate (guarded (offer_db w))) False\<rparr>"
  show ?case
  proof (cases "map_of (guarded (offer_db w)) o'")
    case None
    then show ?thesis by (simp add: abs_node_def hm_modify_absent)
  next
    case (Some rec)
    have "map_of (hm_modify o' deactivate (guarded (offer_db w))) = (map_of (guarded (offer_db w)))(o' \<mapsto> deactivate rec)"
      by (rule ext) (simp add: map_of_hm_modify Some)
    then have "abs_node ?w' = (abs_node w)\<lparr>sp_offers := (sp_offers (abs_node w))(o' \<mapsto> deactivate rec)\<rparr>"
      by (simp add: abs_node_def)
    moreover have "sp_offers (abs_node w) o' = Some rec" by (simp add: abs_node_def Some)
    ultimately show ?thesis by (metis offer_off r_into_rtranclp)
  qed
next
  case (address_added w s)
  have "abs_node (w\<lparr>address_db := RwLock (hm_or_insert (hash_buckets D) s \<lparr>ar_address = s, ar_transactions = []\<rparr>
      (guarded (address_db w))) False\<rparr>) = (abs_node w)\<lparr>sp_addresses := insert s (sp_addresses (abs_node w))\<rparr>"
    using address_added
    by (auto simp: abs_node_def stores_filed_def addresses_filed_def addrs.filed_def map_of_hm_or_insert)
  then show ?case by (metis address_made r_into_rtranclp)
next
  case (forward_added w e)
  have "abs_node (w\<lparr>forward_db := RwLock (guarded (forward_db w) @ [e]) False\<rparr>) =
      (abs_node w)\<lparr>sp_log := sp_log (abs_node w) @ [e]\<rparr>"
    by (simp add: abs_node_def)
  then show ?case by (metis forwarded r_into_rtranclp)
qed

lemma atomic_writes_refine:
  "(atomic_write D)\<^sup>*\<^sup>* w w' \<Longrightarrow> stores_filed w \<Longrightarrow> spec_step\<^sup>*\<^sup>* (abs_node w) (abs_node w')"
  by (induction rule: rtranclp_induct)
    (auto intro: rtranclp_trans atomic_write_refines filed.atomic_writes_keep)

lemma node_step_writes: "node_step D N ms al s s' \<Longrightarrow> (atomic_write D)\<^sup>*\<^sup>* (fst s) (fst s')"
  by (rule traced.node_step_keeps) (assumption, rule rtranclp.rtrancl_refl)

text \<open>C2: the node refines its specification. From a reachable state, every request served, every event
pumped and every move of the outside is a sequence of abstract moves: an offer made anew, active and
uncredited; a known offer switched off; an address added; a forward appended to the log. Nothing is ever
forgotten: addresses stay watched, offers stay listed, and the log of before is a prefix of the log after.\<close>

theorem node_refines_spec:
  assumes "reachable D N ms al s" and "node_step D N ms al s s'"
  shows "spec_step\<^sup>*\<^sup>* (abs_node (fst s)) (abs_node (fst s')) \<and>
    sp_addresses (abs_node (fst s)) \<subseteq> sp_addresses (abs_node (fst s')) \<and>
    dom (sp_offers (abs_node (fst s))) \<subseteq> dom (sp_offers (abs_node (fst s'))) \<and>
    prefix (sp_log (abs_node (fst s))) (sp_log (abs_node (fst s')))"
proof -
  have steps: "spec_step\<^sup>*\<^sup>* (abs_node (fst s)) (abs_node (fst s'))"
    by (rule atomic_writes_refine [OF node_step_writes [OF assms(2)] reachable_live(2) [OF assms(1)]])
  have grows: "sp_addresses a \<subseteq> sp_addresses b \<and> dom (sp_offers a) \<subseteq> dom (sp_offers b) \<and> prefix (sp_log a) (sp_log b)"
    if "spec_step\<^sup>*\<^sup>* a b" for a b
    using that
  proof (induction rule: rtranclp_induct)
    case (step b c)
    from step.hyps(2) have "sp_addresses b \<subseteq> sp_addresses c \<and> dom (sp_offers b) \<subseteq> dom (sp_offers c) \<and> prefix (sp_log b) (sp_log c)"
      by cases auto
    with step.IH show ?case by (meson order_trans prefix_order.trans)
  qed simp
  from steps grows [OF steps] show ?thesis by blast
qed

theorem node_refines_spec_witness:
  "\<exists>s'. node_step (sim_deps True) sim_notifier [] None start_state s' \<and>
    spec_step\<^sup>*\<^sup>* (abs_node (fst start_state)) (abs_node (fst s')) \<and> ''lno1'' \<in> dom (sp_offers (abs_node (fst s')))"
proof -
  obtain resp w where run: "wallet_make_offer (sim_deps True) plain_offer (init_world sim_start) = (Ok resp, w)"
    and db: "offer_db w = RwLock [(''lno1'', new_offer_record ''lno1'' ''offer'' 0 (replicate 32 7))] False"
    using plain_offer_made [of True] by blast
  have "serve_wallet (sim_deps True) [] None (RqMakeOffer plain_offer) (init_world sim_start) = (Ok (), w)"
    using run by (simp add: answered_def bnd_def)
  from node_step.wallet_served [OF this] have st: "node_step (sim_deps True) sim_notifier [] None start_state (w, True)"
    by (simp add: start_state_def)
  from node_refines_spec [OF start_reachable st] st show ?thesis
    by (intro exI [of _ "(w, True)"]) (simp add: abs_node_def db)
qed

end
