(* ===== verification/EventProps.thy ===== *)
theory EventProps
  imports SystemProps
begin

text \<open>
  Properties of the event pump (\<^verbatim>\<open>src/events.rs\<close>, \<^verbatim>\<open>src/service.rs\<close>) and of the forwarding history it
  feeds (\<^verbatim>\<open>src/state/forwarding_store.rs\<close>, \<open>get_forwarding_history\<close> of \<^verbatim>\<open>src/control.rs\<close>).
\<close>

section \<open>The forwarding log\<close>

definition history_request :: "u64 option \<Rightarrow> u64 option \<Rightarrow> u64 \<Rightarrow> u64 \<Rightarrow> forwarding_history_request" where
  "history_request f u limit offset = \<lparr>kh_from = f, kh_until = u, kh_limit = Some limit, kh_offset = Some offset\<rparr>"

lemma history_run:
  "\<not> poisoned (forward_db w) \<Longrightarrow> control_get_forwarding_history D (history_request f u l off) w =
    (Ok (page (unat off) (unat l) (filter (in_window f u) (guarded (forward_db w)))), w)"
  by (simp add: control_get_forwarding_history_def on_forwards_def get_history_run history_request_def)

text \<open>C32: the forwarding history is read by pages. Walking it in two adjacent pages reads what one page of
their joint length reads; every entry read lies in the window asked for and comes in the order of the log;
and one page as long as the log reads every entry of the window.\<close>

theorem history_pages:
  assumes "unpoisoned w" and "unat offset + unat l1 < 2 ^ 64" and "unat l1 + unat l2 < 2 ^ 64"
  shows "\<exists>p1 p2. control_get_forwarding_history D (history_request f u l1 offset) w = (Ok p1, w) \<and>
    control_get_forwarding_history D (history_request f u l2 (offset + l1)) w = (Ok p2, w) \<and>
    control_get_forwarding_history D (history_request f u (l1 + l2) offset) w = (Ok (p1 @ p2), w) \<and>
    subseq p1 (guarded (forward_db w)) \<and>
    (\<forall>e \<in> set p1. (\<forall>t. f = Some t \<longrightarrow> t \<le> fe_settled_at e) \<and> (\<forall>t. u = Some t \<longrightarrow> fe_settled_at e \<le> t)) \<and>
    (length (guarded (forward_db w)) \<le> unat l1 \<and> offset = 0 \<longrightarrow>
       set p1 = {e \<in> set (guarded (forward_db w)). in_window f u e})"
proof -
  let ?all = "filter (in_window f u) (guarded (forward_db w))"
  have live: "\<not> poisoned (forward_db w)" using assms(1) by (simp add: unpoisoned_def)
  have sum: "unat (offset + l1) = unat offset + unat l1" "unat (l1 + l2) = unat l1 + unat l2"
    using assms(2,3) by (simp_all add: unat_add_no_wrap)
  have sub: "subseq (page (unat offset) (unat l1) ?all) (guarded (forward_db w))"
    unfolding page_def
    by (meson prefix_imp_subseq suffix_imp_subseq take_is_prefix suffix_drop subseq_filter_left subseq_order.trans)
  have inside: "(\<forall>t. f = Some t \<longrightarrow> t \<le> fe_settled_at e) \<and> (\<forall>t. u = Some t \<longrightarrow> fe_settled_at e \<le> t)"
    if "e \<in> set (page (unat offset) (unat l1) ?all)" for e
    using that set_page [of "unat offset" "unat l1" ?all] by (auto simp flip: in_window_iff)
  have whole: "set (page (unat offset) (unat l1) ?all) = {e \<in> set (guarded (forward_db w)). in_window f u e}"
    if "length (guarded (forward_db w)) \<le> unat l1" "offset = 0"
    using that le_trans [OF length_filter_le that(1)] by (auto simp: page_def)
  show ?thesis
    by (intro exI conjI history_run [OF live])
      (use inside whole sub in \<open>auto simp: history_run [OF live] sum page_append\<close>)
qed

definition sim_forward :: forwarding_entry where
  "sim_forward = \<lparr>fe_incoming_channel_id = ''in'', fe_outgoing_channel_id = ''out'', fe_incoming_amount = 12,
     fe_outgoing_amount = 10, fe_fee_earned = 2, fe_settled_at = 500\<rparr>"

definition forwarding_world :: "sim_host world" where
  "forwarding_world = (init_world sim_start)\<lparr>forward_db := RwLock [sim_forward] False\<rparr>"

theorem history_pages_witness:
  "\<exists>p1 p2. control_get_forwarding_history (sim_deps True) (history_request (Some 400) None 1 0) forwarding_world = (Ok p1, forwarding_world) \<and>
    control_get_forwarding_history (sim_deps True) (history_request (Some 400) None (1 + 5) 0) forwarding_world = (Ok (p1 @ p2), forwarding_world) \<and>
    set p1 = {sim_forward}"
proof -
  have bound: "unat (0 :: u64) + unat (1 :: u64) < 2 ^ 64" "unat (1 :: u64) + unat (5 :: u64) < 2 ^ 64" by simp_all
  have "unpoisoned forwarding_world"
    by (simp add: forwarding_world_def unpoisoned_def init_world_def address_store_init_def offer_store_init_def)
  from history_pages [OF this bound, where f = "Some 400" and u = None and D = "sim_deps True"]
  show ?thesis
  proof (elim exE conjE, goal_cases)
    case (1 p1 p2)
    have "{e \<in> set (guarded (forward_db forwarding_world)). in_window (Some 400) None e} = {sim_forward}"
      by (auto simp: forwarding_world_def in_window_def sim_forward_def)
    moreover have "length (guarded (forward_db forwarding_world)) \<le> unat (1 :: u64)" by (simp add: forwarding_world_def)
    ultimately have "set p1 = {sim_forward}" using 1(6) by argo
    with 1(1,3) show ?case by blast
  qed
qed

section \<open>Events\<close>

text \<open>C13: a forwarded payment is logged once, with the amount that came in as the amount that went out plus
the fee, at the time of the event; nothing else of the node's state changes, and asking for the history
from that time on finds it.\<close>

theorem forward_logged:
  assumes "unpoisoned w" and "handle_event D N (PaymentForwarded prev nxt fee outgoing) w = (r :: (nnc_error, unit) res, w')"
  shows "r = Ok () \<and> address_db w' = address_db w \<and> offer_db w' = offer_db w \<and>
    (\<exists>e. guarded (forward_db w') = guarded (forward_db w) @ [e] \<and> \<not> poisoned (forward_db w') \<and>
      fe_incoming_channel_id e = prev \<and> fe_outgoing_channel_id e = nxt \<and>
      fe_outgoing_amount e = or_zero outgoing \<and> fe_fee_earned e = or_zero fee \<and>
      unat (fe_incoming_amount e) = min (unat (or_zero outgoing) + unat (or_zero fee)) (2 ^ 64 - 1) \<and>
      (\<exists>t n. pl_clock (platform D) (host w) = (t, n) \<and> fe_settled_at e = or_zero t) \<and>
      (\<exists>found. control_get_forwarding_history D (history_request (Some (fe_settled_at e)) None (- 1) 0) w' = (Ok found, w') \<and>
         (length (guarded (forward_db w')) < 2 ^ 64 \<longrightarrow> e \<in> set found)))"
proof -
  have live: "\<not> poisoned (forward_db w)" using assms(1) by (simp add: unpoisoned_def)
  obtain t n where clock: "pl_clock (platform D) (host w) = (t, n)" by fastforce
  let ?e = "forwarded_entry prev nxt fee outgoing (or_zero t)"
  let ?w' = "w\<lparr>host := n, forward_db := RwLock (guarded (forward_db w) @ [?e]) False\<rparr>"
  have "handle_event D N (PaymentForwarded prev nxt fee outgoing) w = (Ok () :: (nnc_error, unit) res, ?w')"
    by (simp add: events_now_def exec_defs call_def clock on_forwards_def record_forward_run [OF live] or_zero_def)
  with assms(2) have w': "w' = ?w'" and r: "r = Ok ()" by auto
  have entry: "fe_incoming_channel_id ?e = prev" "fe_outgoing_channel_id ?e = nxt" "fe_outgoing_amount ?e = or_zero outgoing"
    "fe_fee_earned ?e = or_zero fee" "fe_settled_at ?e = or_zero t"
    "unat (fe_incoming_amount ?e) = min (unat (or_zero outgoing) + unat (or_zero fee)) (2 ^ 64 - 1)"
    by (simp_all add: forwarded_entry_def Let_def unat_saturating_add or_zero_def)
  let ?found = "page 0 (unat (- 1 :: u64)) (filter (in_window (Some (fe_settled_at ?e)) None) (guarded (forward_db w')))"
  have found: "control_get_forwarding_history D (history_request (Some (fe_settled_at ?e)) None (- 1) 0) w' = (Ok ?found, w')"
    by (subst history_run) (simp_all add: w')
  have "?e \<in> set ?found" if "length (guarded (forward_db w')) < 2 ^ 64"
  proof -
    have "length (filter (in_window (Some (fe_settled_at ?e)) None) (guarded (forward_db w'))) \<le> unat (- 1 :: u64)"
      using le_less_trans [OF length_filter_le that, of "in_window (Some (fe_settled_at ?e)) None"]
      by (simp add: unsigned_minus_1_eq_mask mask_eq_exp_minus_1)
    then show ?thesis by (simp add: page_def) (simp add: w' in_window_def)
  qed
  with entry clock found r show ?thesis by (intro conjI) (auto simp: w' intro!: exI [of _ ?e])
qed


theorem forward_logged_witness:
  "\<exists>w' e. handle_event (sim_deps True) sim_notifier (PaymentForwarded ''in'' ''out'' (Some 2) (Some 10)) forwarding_world =
      (Ok () :: (nnc_error, unit) res, w') \<and>
    guarded (forward_db w') = [sim_forward, e] \<and> unat (fe_incoming_amount e) = 12"
proof -
  let ?ev = "PaymentForwarded ''in'' ''out'' (Some 2) (Some 10)"
  have "unpoisoned forwarding_world"
    by (simp add: forwarding_world_def unpoisoned_def init_world_def address_store_init_def offer_store_init_def)
  moreover obtain r w' where run: "handle_event (sim_deps True) sim_notifier ?ev forwarding_world =
      (r :: (nnc_error, unit) res, w')" by fastforce
  ultimately have "r = Ok () \<and> (\<exists>e. guarded (forward_db w') = guarded (forward_db forwarding_world) @ [e] \<and>
      unat (fe_incoming_amount e) = min (unat (or_zero (Some 10)) + unat (or_zero (Some 2))) (2 ^ 64 - 1))"
    using forward_logged by blast
  with run show ?thesis by (auto simp: forwarding_world_def or_zero_def)
qed

section \<open>The pump\<close>

lemma announce_Ok:
  "fst (announce_wallet N x w) = Ok ()" "fst (announce_control N x w) = Ok ()"
  by (cases x; auto simp: announce_wallet_def announce_control_def exec_defs call_def split: prod.splits)+

text \<open>Every channel is worth at most the whole supply of the currency, in satoshis.\<close>

definition sane_channels :: "'n deps \<Rightarrow> bool" where
  "sane_channels D \<longleftrightarrow> (\<forall>n. \<forall>c \<in> set (fst (ca_list_channels (channel_node D) n)). unat (cd_channel_value_sats c) \<le> 21 * 10 ^ 14)"

lemma collect_res_all_Ok: "(\<And>x. x \<in> set xs \<Longrightarrow> \<exists>y. f x = Ok y) \<Longrightarrow> \<exists>ys. collect_res f xs = Ok ys"
proof (induction xs)
  case (Cons x xs)
  then obtain y ys where "f x = Ok y" "collect_res f xs = Ok ys" by (metis list.set_intros)
  then show ?case by simp
qed simp

lemma list_channels_Ok:
  assumes "sane_channels D"
  shows "\<exists>cs n. ldk_list_channels D w = (Ok cs :: ('e, ldk_channel_info list) res, w\<lparr>host := n\<rparr>)"
proof -
  obtain ds n where ds: "ca_list_channels (channel_node D) (host w) = (ds, n)" by fastforce
  have "\<exists>y. (channel_row (overflow_checks D) c :: ('e, ldk_channel_info) res) = Ok y" if "c \<in> set ds" for c
  proof -
    have "unat (cd_channel_value_sats c) \<le> 21 * 10 ^ 14"
      using assms that ds unfolding sane_channels_def by (metis fst_conv)
    then show ?thesis
      by (auto simp: channel_row_def mul_ck_def Let_def split: option.splits prod.splits)
  qed
  from collect_res_all_Ok [OF this] show ?thesis
    by (auto simp: ldk_list_channels_def exec_defs call_def ds)
qed

text \<open>A panic of \<open>handle\<close> is one of the channel listing; the announcements of all other events cannot fail.\<close>

lemma handle_event_Ok:
  assumes "unpoisoned w" and "sane_channels D" and "handle_event D N ev w = (r :: ('e, unit) res, w')"
  shows "r = Ok ()"
proof (cases ev)
  case (ChannelReady i u k)
  have "\<exists>n. ldk_notify_channel_ready D u w = (Ok () :: ('e, unit) res, w\<lparr>host := n\<rparr>)"
    by (cases "svc_keys_manager (service D)")
      (auto simp: ldk_notify_channel_ready_def bnd_def call_def ret_def case_prod_beta intro: exI [of _ "host w"])
  then obtain n where ready: "ldk_notify_channel_ready D u w = (Ok () :: ('e, unit) res, w\<lparr>host := n\<rparr>)" by blast
  from list_channels_Ok [OF assms(2)] obtain cs n' where
    "ldk_list_channels D (w\<lparr>host := n\<rparr>) = (Ok cs :: ('e, ldk_channel_info list) res, w\<lparr>host := n\<rparr>\<lparr>host := n'\<rparr>)" by blast
  with assms(3) ChannelReady ready show ?thesis by (auto simp: bnd_def Let_def) (metis announce_Ok(2) fst_conv)
next
  case (PaymentForwarded a b c d)
  have "\<not> poisoned (forward_db w)" using assms(1) by (simp add: unpoisoned_def)
  with assms(3) PaymentForwarded show ?thesis
    by (auto simp: events_now_def exec_defs call_def on_forwards_def record_forward_run split: prod.splits)
qed (use assms(3) in \<open>auto simp: event_payment_def events_now_def bnd_def call_def ret_def Let_def
    split: prod.splits, (metis announce_Ok fst_conv)+\<close>)


lemma pump_once_Ok:
  assumes "unpoisoned w" and "sane_channels D"
  shows "\<exists>ev n w1. ca_next_event (channel_node D) (host w) = (ev, n) \<and>
    handle_event D N ev (w\<lparr>host := n\<rparr>) = (Ok () :: (nnc_error, unit) res, w1) \<and>
    pump_once D N w = (Ok (), w1\<lparr>host := snd (ca_event_handled (channel_node D) (host w1))\<rparr>)"
proof -
  obtain ev n where ev: "ca_next_event (channel_node D) (host w) = (ev, n)" by fastforce
  obtain r w1 where run: "handle_event D N ev (w\<lparr>host := n\<rparr>) = (r :: (nnc_error, unit) res, w1)" by fastforce
  have "unpoisoned (w\<lparr>host := n\<rparr>)" using assms(1) by (simp add: unpoisoned_def)
  from handle_event_Ok [OF this assms(2) run] run have "handle_event D N ev (w\<lparr>host := n\<rparr>) = (Ok () :: (nnc_error, unit) res, w1)" by simp
  with ev show ?thesis by (simp add: pump_once_def exec_defs call_def case_prod_beta)
qed

text \<open>C10: the event pump does not stop. When every channel LDK lists is worth at most 21 million bitcoin, it
runs in every reachable state and takes one more event there: it handles it to the end, whatever the
announcement of it answers, and only then marks it handled.\<close>

theorem pump_never_stops:
  assumes "reachable D N ms al s" and "sane_channels D"
  shows "snd s \<and> (\<exists>ev n w1 w'. ca_next_event (channel_node D) (host (fst s)) = (ev, n) \<and>
    handle_event D N ev ((fst s)\<lparr>host := n\<rparr>) = (Ok () :: (nnc_error, unit) res, w1) \<and>
    w' = w1\<lparr>host := snd (ca_event_handled (channel_node D) (host w1))\<rparr> \<and>
    node_step D N ms al s (w', True))"
proof -
  have running: "snd s" using assms(1)
  proof (induction rule: reachable.induct)
    case (stepped s s')
    from stepped.hyps(2) show ?case
    proof cases
      case (pump_stopped w m w')
      with pump_once_Ok [OF reachable_live(1) [OF stepped.hyps(1)] assms(2), of N] show ?thesis by auto
    qed (use stepped.IH in auto)
  qed simp
  then obtain w where s: "s = (w, True)" by (cases s) auto
  from pump_once_Ok [OF reachable_live(1) [OF assms(1)] assms(2), of N] running show ?thesis
    unfolding s by (auto intro: node_step.event_pumped)
qed

definition lonely_deps :: "sim_host deps" where
  "lonely_deps = (sim_deps True)\<lparr>channel_node := sim_channel\<lparr>ca_list_channels := \<lambda>h. ([], h)\<rparr>\<rparr>"

theorem pump_never_stops_witness:
  "\<exists>w'. node_step lonely_deps sim_notifier [] None start_state (w', True)"
proof -
  have "sane_channels lonely_deps" by (simp add: sane_channels_def lonely_deps_def)
  from pump_never_stops [OF start_reachable this] show ?thesis by blast
qed

end
