(* ===== verification/ControlProps.thy ===== *)
theory ControlProps
  imports ControlHandlers SimNode
begin

text \<open>
  Properties of the control methods (\<^verbatim>\<open>src/control.rs\<close>) and of the channel and graph operations they call
  (\<^verbatim>\<open>src/lightning/ldk_service.rs\<close>): what each asks of LDK, and what its listings say.
\<close>

section \<open>Channel fees\<close>

lemma set_channel_fees_Ok:
  assumes "control_set_channel_fees D r w = (Ok (), w')"
  obtains i cs n c where "kf_id r = Some i" and "kf_min_htlc r = None" and "kf_max_htlc r = None"
    and "ca_list_channels (channel_node D) (host w) = (cs, n)" and "find (\<lambda>c. cd_channel_id c = i) cs = Some c"
    and "fst (ca_update_channel_config (channel_node D) (cd_user_channel_id c) (cd_counterparty_node_id c)
      (updated_config (Option.bind (kf_base_fee r) u32_try_from) (Option.bind (kf_fee_rate r) u32_try_from) (cd_config c)) n)
      = Inr ()"
    and "w' = w\<lparr>host := snd (ca_update_channel_config (channel_node D) (cd_user_channel_id c) (cd_counterparty_node_id c)
      (updated_config (Option.bind (kf_base_fee r) u32_try_from) (Option.bind (kf_fee_rate r) u32_try_from) (cd_config c)) n)\<rparr>"
  using assms by (auto simp: control_set_channel_fees_def ldk_set_channel_fees_def Ok_iff)

lemma narrowed_fee:
  "unat (case Option.bind x u32_try_from of None \<Rightarrow> old | Some y \<Rightarrow> y) =
     (case x of Some b \<Rightarrow> (if unat b < 2 ^ 32 then unat b else unat old) | None \<Rightarrow> unat old)"
proof (cases x)
  case (Some b)
  then show ?thesis using u32_try_from_Some [of b "ucast b"] by (simp add: u32_try_from_def)
qed simp

lemma updated_config_fields:
  "cc_forwarding_fee_base_msat (updated_config b r c) = (case b of None \<Rightarrow> cc_forwarding_fee_base_msat c | Some x \<Rightarrow> x)"
  "cc_forwarding_fee_proportional_millionths (updated_config b r c) =
     (case r of None \<Rightarrow> cc_forwarding_fee_proportional_millionths c | Some x \<Rightarrow> x)"
  "cc_other_settings (updated_config b r c) = cc_other_settings c"
  by (auto simp: updated_config_def Let_def split: option.splits)

text \<open>C14: \<open>set_channel_fees\<close> succeeds only for a named channel LDK lists and without HTLC limits, and then
LDK was asked once, for that channel and its peer, to take over the channel's own configuration with at
most the two fees changed; a fee that fits in 32 bits is set as asked, and one that does not is left as it
was, with no error.\<close>

theorem set_channel_fees_updates:
  assumes "control_set_channel_fees D r w = (Ok (), w')"
  shows "\<exists>i cs n c config. kf_id r = Some i \<and> kf_min_htlc r = None \<and> kf_max_htlc r = None \<and>
    ca_list_channels (channel_node D) (host w) = (cs, n) \<and> c \<in> set cs \<and> cd_channel_id c = i \<and>
    ca_update_channel_config (channel_node D) (cd_user_channel_id c) (cd_counterparty_node_id c) config n = (Inr (), host w') \<and>
    cc_other_settings config = cc_other_settings (cd_config c) \<and>
    unat (cc_forwarding_fee_base_msat config) = (case kf_base_fee r of
      Some b \<Rightarrow> (if unat b < 2 ^ 32 then unat b else unat (cc_forwarding_fee_base_msat (cd_config c)))
    | None \<Rightarrow> unat (cc_forwarding_fee_base_msat (cd_config c))) \<and>
    unat (cc_forwarding_fee_proportional_millionths config) = (case kf_fee_rate r of
      Some b \<Rightarrow> (if unat b < 2 ^ 32 then unat b else unat (cc_forwarding_fee_proportional_millionths (cd_config c)))
    | None \<Rightarrow> unat (cc_forwarding_fee_proportional_millionths (cd_config c)))"
proof -
  from set_channel_fees_Ok [OF assms] obtain i cs n c where req: "kf_id r = Some i" "kf_min_htlc r = None" "kf_max_htlc r = None"
    and cs: "ca_list_channels (channel_node D) (host w) = (cs, n)" and c: "find (\<lambda>c. cd_channel_id c = i) cs = Some c"
    and ok: "fst (ca_update_channel_config (channel_node D) (cd_user_channel_id c) (cd_counterparty_node_id c)
      (updated_config (Option.bind (kf_base_fee r) u32_try_from) (Option.bind (kf_fee_rate r) u32_try_from) (cd_config c)) n) = Inr ()"
    and w': "w' = w\<lparr>host := snd (ca_update_channel_config (channel_node D) (cd_user_channel_id c) (cd_counterparty_node_id c)
      (updated_config (Option.bind (kf_base_fee r) u32_try_from) (Option.bind (kf_fee_rate r) u32_try_from) (cd_config c)) n)\<rparr>" .
  let ?config = "updated_config (Option.bind (kf_base_fee r) u32_try_from) (Option.bind (kf_fee_rate r) u32_try_from) (cd_config c)"
  have "ca_update_channel_config (channel_node D) (cd_user_channel_id c) (cd_counterparty_node_id c) ?config n = (Inr (), host w')"
    using ok w' by (simp add: prod_eq_iff)
  moreover from c have "c \<in> set cs" "cd_channel_id c = i" by (auto simp: find_Some_iff)
  ultimately show ?thesis using req cs
    by (intro exI [of _ i] exI [of _ cs] exI [of _ n] exI [of _ c] exI [of _ ?config]) (simp add: updated_config_fields narrowed_fee)
qed


definition sim_listed :: channel_details where
  "sim_listed = \<lparr>cd_channel_id = ''chan'', cd_user_channel_id = 9, cd_counterparty_node_id = PublicKey ''b'',
     cd_is_channel_ready = True, cd_is_usable = False, cd_is_announced = True, cd_short_channel_id = Some 7,
     cd_funding_txo = None, cd_outbound_capacity_msat = 5, cd_inbound_capacity_msat = 6, cd_channel_value_sats = 40,
     cd_confirmations = Some 3, cd_config = \<lparr>cc_forwarding_fee_base_msat = 1, cc_forwarding_fee_proportional_millionths = 2,
       cc_other_settings = ''rest''\<rparr>, cd_inbound_htlc_minimum_msat = 1, cd_inbound_htlc_maximum_msat = None\<rparr>"

definition listing_world :: "sim_host world" where
  "listing_world = init_world (sim_start\<lparr>sh_channels := [sim_listed]\<rparr>)"

definition huge_base_fee :: set_channel_fees_request where
  "huge_base_fee = \<lparr>kf_id = Some ''chan'', kf_base_fee = Some (2 ^ 32), kf_fee_rate = Some 4, kf_min_htlc = None, kf_max_htlc = None\<rparr>"

lemma huge_base_fee_accepted: "\<exists>w'. control_set_channel_fees (sim_deps ck) huge_base_fee listing_world = (Ok (), w')"
  by (simp add: control_set_channel_fees_def ldk_set_channel_fees_def exec_defs call_def try_call_def huge_base_fee_def
      listing_world_def init_world_def sim_deps_def sim_channel_def sim_listed_def)

theorem set_channel_fees_updates_witness:
  "\<exists>config n h. ca_update_channel_config sim_channel 9 (PublicKey ''b'') config n = (Inr (), h :: sim_host) \<and>
    cc_forwarding_fee_base_msat config = 1 \<and> cc_forwarding_fee_proportional_millionths config = 4"
proof -
  obtain w' where run: "control_set_channel_fees (sim_deps True) huge_base_fee listing_world = (Ok (), w')"
    using huge_base_fee_accepted by blast
  from set_channel_fees_updates [OF run] show ?thesis
    by (auto simp: huge_base_fee_def listing_world_def init_world_def sim_deps_def sim_channel_def sim_listed_def
        word_unat_eq_iff)
qed

section \<open>Closing\<close>

text \<open>C15: \<open>close_channel\<close> closes the channel that was named and no other: when LDK lists it, the answer is
that of one call for the first channel with that id and its own peer, the forced call exactly when the
request says so; when LDK does not list it, no call is made and the answer is an error.\<close>

theorem close_channel_named:
  assumes "ca_list_channels (channel_node D) (host w) = (cs, n)"
  shows "(kc_id r \<notin> cd_channel_id ` set cs \<longrightarrow> control_close_channel D r w =
      (Err (NncError EChannelFailed (''close_channel: '' @ service_error_text (ChannelFailed (''channel not found: '' @ kc_id r)))),
       w\<lparr>host := n\<rparr>)) \<and>
    (kc_id r \<in> cd_channel_id ` set cs \<longrightarrow> (\<exists>c m h. c \<in> set cs \<and> cd_channel_id c = kc_id r \<and>
      (if kc_force r = Some True
       then ca_force_close_channel (channel_node D) (cd_user_channel_id c) (cd_counterparty_node_id c) (Some ''closed via control API'') n
       else ca_close_channel (channel_node D) (cd_user_channel_id c) (cd_counterparty_node_id c) n) = (m, h) \<and>
      control_close_channel D r w = (case m of
          Inr _ \<Rightarrow> (Ok (), w\<lparr>host := h\<rparr>)
        | Inl e \<Rightarrow> (Err (NncError EChannelFailed (''close_channel: '' @ service_error_text (ChannelFailed e))), w\<lparr>host := h\<rparr>))))"
proof (cases "find (\<lambda>c. cd_channel_id c = kc_id r) cs")
  case None
  then have "kc_id r \<notin> cd_channel_id ` set cs" by (auto simp: find_None_iff)
  with None assms show ?thesis
    by (simp add: control_close_channel_def ldk_close_channel_def exec_defs call_def control_ldk_err_def)
next
  case (Some c)
  then have c: "c \<in> set cs" "cd_channel_id c = kc_id r" by (auto simp: find_Some_iff)
  obtain m h where call: "(if kc_force r = Some True
       then ca_force_close_channel (channel_node D) (cd_user_channel_id c) (cd_counterparty_node_id c) (Some ''closed via control API'') n
       else ca_close_channel (channel_node D) (cd_user_channel_id c) (cd_counterparty_node_id c) n) = (m, h)" by fastforce
  have "control_close_channel D r w = (case m of
          Inr _ \<Rightarrow> (Ok (), w\<lparr>host := h\<rparr>)
        | Inl e \<Rightarrow> (Err (NncError EChannelFailed (''close_channel: '' @ service_error_text (ChannelFailed e))), w\<lparr>host := h\<rparr>))"
    using call assms Some
    by (auto simp: control_close_channel_def ldk_close_channel_def exec_defs call_def try_call_def control_ldk_err_def
        split: option.splits bool.splits sum.splits if_splits)
  with c call show ?thesis by (auto intro: rev_image_eqI)
qed

theorem close_channel_named_witness:
  "\<exists>h. control_close_channel (sim_deps True) \<lparr>kc_id = ''chan'', kc_force = Some True\<rparr> listing_world = (Ok (), h)"
  using close_channel_named [of "sim_deps True" listing_world "[sim_listed]" "sim_start\<lparr>sh_channels := [sim_listed]\<rparr>"
      "\<lparr>kc_id = ''chan'', kc_force = Some True\<rparr>"]
  by (auto simp: listing_world_def init_world_def sim_deps_def sim_channel_def sim_listed_def)


section \<open>Listings\<close>

text \<open>C33: \<open>list_channels\<close> answers one row for each channel LDK lists, in its order, and every field of it is that
channel's: its id, peer and balances, private when it is not announced, the transaction id and the output index of
its funding, its confirmations, and one of three states, active, inactive or pending open, as it is ready and usable.
The capacity is the value in millisatoshi; where that does not fit in 64 bits a build with overflow checks
answers nothing and one without answers it modulo 2^64.\<close>

theorem list_channels_rows:
  assumes "ca_list_channels (channel_node D) (host w) = (cs, n)" and "control_list_channels D w = (Ok rows, w')"
  shows "w' = w\<lparr>host := n\<rparr> \<and> list_all2 (\<lambda>c r.
    r = \<lparr>rc_id = cd_channel_id c, rc_short_channel_id = map_option format_scid (cd_short_channel_id c),
      rc_peer_pubkey = pk_text (cd_counterparty_node_id c),
      rc_state = Some (if cd_is_channel_ready c then if cd_is_usable c then Active else Inactive else PendingOpen),
      rc_is_private = (\<not> cd_is_announced c),
      rc_capacity = Some (of_nat (unat (cd_channel_value_sats c) * 1000 mod 2 ^ 64)),
      rc_local_balance = Some (cd_outbound_capacity_msat c), rc_remote_balance = Some (cd_inbound_capacity_msat c),
      rc_funding_txid = map_option fst (cd_funding_txo c),
      rc_extra = (case cd_confirmations c of Some k \<Rightarrow> [(''confirmations'', k)] | None \<Rightarrow> []) @
        (case cd_funding_txo c of Some (_, vout) \<Rightarrow> [(''funding_output_index'', vout)] | None \<Rightarrow> [])\<rparr> \<and>
    (overflow_checks D \<longrightarrow> unat (cd_channel_value_sats c) * 1000 < 2 ^ 64)) cs rows"
proof -
  from assms obtain infos where infos: "(collect_res (channel_row (overflow_checks D)) cs :: (nnc_error, ldk_channel_info list) res) = Ok infos"
    and rows: "rows = map channel_response_of infos" and w': "w' = w\<lparr>host := n\<rparr>"
    by (auto simp: control_list_channels_def ldk_list_channels_def Ok_iff)
  have capacity: "(of_nat (unat v * 1000 mod 2 ^ 64) :: u64) = v * 1000" for v :: u64
    by (simp add: word_unat_eq_iff unat_word_ariths unat_of_nat take_bit_eq_mod del: of_nat_mod of_nat_mult)
  show ?thesis unfolding rows list_all2_map2 w'
  proof (intro conjI refl, rule list_all2_mono [OF collect_res_OkD [OF infos]])
    fix c i assume "(channel_row (overflow_checks D) c :: (nnc_error, ldk_channel_info) res) = Ok i"
    then obtain cap where cap: "mul_ck (overflow_checks D) (cd_channel_value_sats c) 1000 = (Ok cap :: (nnc_error, u64) res)"
      and i: "li_id i = cd_channel_id c" "li_peer_pubkey i = pk_text (cd_counterparty_node_id c)" "li_capacity i = cap"
        "li_short_channel_id i = map_option format_scid (cd_short_channel_id c)" "li_state i = channel_state_name c"
        "li_local_balance i = cd_outbound_capacity_msat c" "li_remote_balance i = cd_inbound_capacity_msat c"
        "li_is_private i = (\<not> cd_is_announced c)" "li_funding_txid i = map_option fst (cd_funding_txo c)"
        "li_funding_output_index i = map_option snd (cd_funding_txo c)" "li_confirmations i = cd_confirmations c"
      by (cases "cd_funding_txo c") (auto simp: channel_row_def rbind_eq_Ok Let_def)
    have "cap = cd_channel_value_sats c * 1000" "overflow_checks D \<longrightarrow> unat (cd_channel_value_sats c) * 1000 < 2 ^ 64"
      using cap by (auto simp: mul_ck_def split: if_splits)
    then show "channel_response_of i = \<lparr>rc_id = cd_channel_id c, rc_short_channel_id = map_option format_scid (cd_short_channel_id c),
      rc_peer_pubkey = pk_text (cd_counterparty_node_id c),
      rc_state = Some (if cd_is_channel_ready c then if cd_is_usable c then Active else Inactive else PendingOpen),
      rc_is_private = (\<not> cd_is_announced c),
      rc_capacity = Some (of_nat (unat (cd_channel_value_sats c) * 1000 mod 2 ^ 64)),
      rc_local_balance = Some (cd_outbound_capacity_msat c), rc_remote_balance = Some (cd_inbound_capacity_msat c),
      rc_funding_txid = map_option fst (cd_funding_txo c),
      rc_extra = (case cd_confirmations c of Some k \<Rightarrow> [(''confirmations'', k)] | None \<Rightarrow> []) @
        (case cd_funding_txo c of Some (_, vout) \<Rightarrow> [(''funding_output_index'', vout)] | None \<Rightarrow> [])\<rparr> \<and>
      (overflow_checks D \<longrightarrow> unat (cd_channel_value_sats c) * 1000 < 2 ^ 64)"
      unfolding capacity channel_response_of_def i
      by (auto simp: channel_state_name_def channel_state_of_def split: option.splits)
  qed
qed

lemma listing_world_rows: "\<exists>r w'. control_list_channels (sim_deps ck) listing_world = (Ok [r], w')"
  by (simp add: control_list_channels_def ldk_list_channels_def channel_row_def exec_defs call_def mul_ck_def
      listing_world_def init_world_def sim_deps_def sim_channel_def sim_listed_def)

theorem list_channels_rows_witness:
  "\<exists>r w'. control_list_channels (sim_deps True) listing_world = (Ok [r], w') \<and> rc_state r = Some Inactive \<and>
    rc_capacity r = Some 40000 \<and> \<not> rc_is_private r \<and> rc_extra r = [(''confirmations'', 3)]"
proof -
  obtain r w' where run: "control_list_channels (sim_deps True) listing_world = (Ok [r], w')"
    using listing_world_rows by blast
  have cs: "ca_list_channels (channel_node (sim_deps True)) (host listing_world) = ([sim_listed], host listing_world)"
    by (simp add: listing_world_def init_world_def sim_deps_def sim_channel_def)
  from list_channels_rows [OF cs run] run show ?thesis
    by (auto simp: sim_listed_def)
qed

section \<open>The graph\<close>

definition known_capacities :: "network_graph \<Rightarrow> u64 list" where
  "known_capacities G = map capacity_or_zero (List.map_filter (ng_channel G) (ng_list_channels G))"

lemma stats_fold:
  "foldl (stats_step G) (t, m) is = (t', m') \<Longrightarrow>
     unat t' = min (unat t + sum_list (map unat (map capacity_or_zero (List.map_filter (ng_channel G) is)))) (2 ^ 64 - 1) \<and>
     m' = fold max (map capacity_or_zero (List.map_filter (ng_channel G) is)) m"
proof (induction "is" arbitrary: t m)
  case Nil
  have "unat t < 2 ^ 64" using unsigned_less [where 'a = nat and w = t] by simp
  with Nil show ?case by (simp add: List.map_filter_def)
next
  case (Cons i "is")
  show ?case
  proof (cases "ng_channel G i")
    case None
    with Cons show ?thesis by (simp add: stats_step_def List.map_filter_def)
  next
    case (Some ch)
    let ?c = "capacity_or_zero ch"
    have step: "stats_step G (t, m) i = (saturating_add t ?c, max ?c m)"
      by (auto simp: stats_step_def Some Let_def max_def)
    with Cons.prems have "foldl (stats_step G) (saturating_add t ?c, max ?c m) is = (t', m')" by simp
    from Cons.IH [OF this] show ?thesis
      by (simp add: List.map_filter_def Some unat_saturating_add)
  qed
qed

text \<open>C34: the statistics of the graph are those of the channels it knows: the total is the sum of their
capacities, held at the largest \<open>u64\<close> when it is larger; the maximum is the largest capacity; and the
average is the total over all listed channels, so it never exceeds the maximum.\<close>

theorem graph_stats_sound:
  assumes "length (ng_list_channels G) < 2 ^ 64"
  shows "ns_num_channels (graph_stats G) = length (ng_list_channels G) \<and>
    unat (ns_total_capacity (graph_stats G)) = min (sum_list (map unat (known_capacities G))) (2 ^ 64 - 1) \<and>
    ns_max_channel_size (graph_stats G) = Max (insert 0 (set (known_capacities G))) \<and>
    unat (ns_avg_channel_size (graph_stats G)) = unat (ns_total_capacity (graph_stats G)) div length (ng_list_channels G) \<and>
    ns_avg_channel_size (graph_stats G) \<le> ns_max_channel_size (graph_stats G)"
proof -
  let ?caps = "known_capacities G"
  obtain t m where fold: "foldl (stats_step G) (0, 0) (ng_list_channels G) = (t, m)" by fastforce
  from stats_fold [OF this] have t: "unat t = min (sum_list (map unat ?caps)) (2 ^ 64 - 1)" and m: "m = fold max ?caps 0"
    by (simp_all add: known_capacities_def)
  have stats: "ns_num_channels (graph_stats G) = length (ng_list_channels G)" "ns_total_capacity (graph_stats G) = t"
    "ns_max_channel_size (graph_stats G) = m"
    "ns_avg_channel_size (graph_stats G) = (if length (ng_list_channels G) > 0 then t div of_nat (length (ng_list_channels G)) else 0)"
    by (simp_all add: graph_stats_def Let_def fold)
  have max: "m = Max (insert 0 (set ?caps))" unfolding m using Max.set_eq_fold [of 0 ?caps] by simp
  have len: "unat (of_nat (length (ng_list_channels G)) :: u64) = length (ng_list_channels G)"
    using assms by (simp add: unat_of_nat)
  have avg: "unat (ns_avg_channel_size (graph_stats G)) = unat t div length (ng_list_channels G)"
    using len by (auto simp: stats unat_div)
  have "sum_list (map unat ?caps) \<le> length ?caps * unat m"
  proof -
    have "unat c \<le> unat m" if "c \<in> set ?caps" for c
      using that by (simp add: max word_le_nat_alt [symmetric])
    then show ?thesis using sum_list_mono [of ?caps unat "\<lambda>_. unat m"] by (simp add: sum_list_triv)
  qed
  also have "\<dots> \<le> length (ng_list_channels G) * unat m"
    by (simp add: known_capacities_def List.map_filter_def le_trans [OF length_filter_le])
  finally have "unat t \<le> length (ng_list_channels G) * unat m" using t by simp
  then have "unat t div length (ng_list_channels G) \<le> unat m"
    using div_le_mono [of "unat t" "length (ng_list_channels G) * unat m" "length (ng_list_channels G)"]
    by (cases "length (ng_list_channels G) = 0") simp_all
  with avg t max show ?thesis by (simp add: stats word_le_nat_alt)
qed

theorem graph_stats_sound_witness:
  "unat (ns_total_capacity (graph_stats triangle)) = 3000 \<and> ns_avg_channel_size (graph_stats triangle) \<le> ns_max_channel_size (graph_stats triangle)"
proof -
  have caps: "known_capacities triangle = [1000, 1000, 1000]" and len: "length (ng_list_channels triangle) < 2 ^ 64"
    by (simp_all add: triangle_def sim_graph_def known_capacities_def List.map_filter_def capacity_or_zero_def)
  from graph_stats_sound [OF len]
  have "unat (ns_total_capacity (graph_stats triangle)) = min (sum_list (map unat (known_capacities triangle))) (2 ^ 64 - 1)"
    and avg: "ns_avg_channel_size (graph_stats triangle) \<le> ns_max_channel_size (graph_stats triangle)" by blast+
  then show ?thesis by (intro conjI avg) (simp add: caps)
qed

text \<open>C35: a channel is found under the text the node prints for its id, and answered under that text. The
policy of each side is the one announced in its direction, disabled exactly when the update says so.\<close>

theorem network_channel_roundtrip:
  assumes "ca_network_graph (channel_node D) (host w) = (G, n)"
  shows "control_get_network_channel D (format_scid scid) w = (case ng_channel G scid of
      None \<Rightarrow> (Err (NncError NotFound ''no such channel in the graph''), w\<lparr>host := n\<rparr>)
    | Some ch \<Rightarrow> (Ok \<lparr>rx_short_channel_id = format_scid scid, rx_capacity = gc_capacity_sats ch,
        rx_node1_pubkey = cr_node_id_text (crate D) (gc_node_one ch),
        rx_node2_pubkey = cr_node_id_text (crate D) (gc_node_two ch),
        rx_node1_policy = map_option (to_policy \<circ> channel_policy) (gc_one_to_two ch),
        rx_node2_policy = map_option (to_policy \<circ> channel_policy) (gc_two_to_one ch)\<rparr>, w\<lparr>host := n\<rparr>)) \<and>
    (\<forall>p. ry_disabled (to_policy (channel_policy p)) = (\<not> cu_enabled p) \<and>
       map_option unat (ry_base_fee (to_policy (channel_policy p))) = Some (unat (cu_base_msat p)) \<and>
       map_option unat (ry_time_lock_delta (to_policy (channel_policy p))) = Some (unat (cu_cltv_expiry_delta p)))"
proof (intro conjI allI)
  show "control_get_network_channel D (format_scid scid) w = (case ng_channel G scid of
      None \<Rightarrow> (Err (NncError NotFound ''no such channel in the graph''), w\<lparr>host := n\<rparr>)
    | Some ch \<Rightarrow> (Ok \<lparr>rx_short_channel_id = format_scid scid, rx_capacity = gc_capacity_sats ch,
        rx_node1_pubkey = cr_node_id_text (crate D) (gc_node_one ch),
        rx_node2_pubkey = cr_node_id_text (crate D) (gc_node_two ch),
        rx_node1_policy = map_option (to_policy \<circ> channel_policy) (gc_one_to_two ch),
        rx_node2_policy = map_option (to_policy \<circ> channel_policy) (gc_two_to_one ch)\<rparr>, w\<lparr>host := n\<rparr>))"
    by (cases "ng_channel G scid")
      (simp_all add: control_get_network_channel_def ldk_get_network_channel_def parse_format_scid exec_defs call_def assms
        option.map_comp)
qed (simp_all add: to_policy_def channel_policy_def unat_ucast_widen)

theorem network_channel_roundtrip_witness:
  "\<exists>r w'. control_get_network_channel (sim_deps True) (format_scid 1) (init_world (sim_start\<lparr>sh_graph := triangle\<rparr>)) = (Ok r, w') \<and>
    rx_short_channel_id r = format_scid 1"
proof -
  have ch: "ng_channel triangle 1 \<noteq> None" by (simp add: triangle_def sim_graph_def)
  have "ca_network_graph (channel_node (sim_deps True)) (host (init_world (sim_start\<lparr>sh_graph := triangle\<rparr>))) =
      (triangle, sim_start\<lparr>sh_graph := triangle\<rparr>)"
    by (simp add: sim_deps_def sim_channel_def init_world_def)
  from network_channel_roundtrip [OF this, of 1] ch show ?thesis by auto
qed

end
