(* ===== verification/ConfigProps.thy ===== *)
theory ConfigProps
  imports NodeMain SimNode
begin

text \<open>
  Properties of the start of the node (\<^verbatim>\<open>src/lightning/ldk_service.rs\<close>, \<^verbatim>\<open>src/main.rs\<close>): which
  configurations are refused before anything is touched, what a started service is, and what \<open>main\<close> hands on.
\<close>

section \<open>Refused configurations\<close>

lemma validate_Ok: "validate cfg = Ok u \<longleftrightarrow> \<not> is_blank (lc_bitcoind_rpc_host cfg) \<and> \<not> is_blank (lc_bitcoind_rpc_user cfg) \<and>
    \<not> is_blank (lc_bitcoind_rpc_password cfg) \<and> \<not> is_blank (lc_ldk_storage_dir cfg)"
  by (simp add: validate_def)

definition network_names :: "(string \<times> network) list" where
  "network_names = [(''regtest'', Regtest), (''testnet'', Testnet), (''bitcoin'', Bitcoin), (''mainnet'', Bitcoin), (''signet'', Signet)]"

lemma parse_network_names: "parse_network cfg = (case map_of network_names (to_lowercase (lc_network cfg)) of
    Some net \<Rightarrow> Ok net | None \<Rightarrow> Err (InvalidNetwork (to_lowercase (lc_network cfg))))"
  by (simp add: parse_network_def network_names_def Let_def)

lemma vls_network_parsed: "parse_network cfg = Ok net \<Longrightarrow> vls_network cfg net = Ok net"
  by (auto simp: parse_network_def vls_network_def Let_def split: if_splits)

text \<open>The settings that must not be blank, in the order in which they are looked at.\<close>

definition required_settings :: "ldk_service_config \<Rightarrow> (string \<times> string) list" where
  "required_settings cfg = [(''bitcoind_rpc_host'', lc_bitcoind_rpc_host cfg), (''bitcoind_rpc_user'', lc_bitcoind_rpc_user cfg),
     (''bitcoind_rpc_password'', lc_bitcoind_rpc_password cfg), (''ldk_storage_dir'', lc_ldk_storage_dir cfg)]"

lemma validate_required: "validate cfg = (case filter (\<lambda>(name, v). is_blank v) (required_settings cfg) of
    [] \<Rightarrow> Ok () | (name, v) # _ \<Rightarrow> Err (InvalidConfig (name @ '' must not be empty'')))"
  by (simp add: validate_def required_settings_def)

text \<open>The outside state in which the listening address is read, when the signer was set up.\<close>

definition after_signer ::
  "('n, 'b, 't, 'k, 'a) start_api \<Rightarrow> ldk_service_config \<Rightarrow> 't \<Rightarrow> 'n \<Rightarrow> 'n" where
  "after_signer S cfg t n = (if lc_signer_transport cfg = ''none'' then n
     else snd (st_keys_manager S t (to_lowercase (lc_network cfg)) n))"

text \<open>C37: a configuration with a blank bitcoind host, user, password or storage directory is refused for the
first of them, and one whose network is none of the five names, upper or lower case, for that network, both
before anything outside is touched. A listening address that cannot be read is refused only later: the
connection to the signer, and with it the keys manager unless the transport is \<open>none\<close>, was made before,
and nothing else was.\<close>

theorem bad_config_refused:
  "(case filter (\<lambda>(name, v). is_blank v) (required_settings cfg) of
     (name, v) # _ \<Rightarrow> start_from_config S C cfg n = (Err (InvalidConfig (name @ '' must not be empty'')), n)
   | [] \<Rightarrow> (case map_of network_names (to_lowercase (lc_network cfg)) of
       None \<Rightarrow> start_from_config S C cfg n = (Err (InvalidNetwork (to_lowercase (lc_network cfg))), n)
     | Some net \<Rightarrow> \<forall>addr e t n1. lc_ldk_listen_addr cfg = Some addr \<and> cr_socket_address_from_str C addr = Inl e \<and>
         signer_link S cfg net n = (Ok t, n1) \<longrightarrow>
         start_from_config S C cfg n = (Err (InvalidListeningAddress addr), after_signer S cfg t n1)))"
proof (cases "filter (\<lambda>(name, v). is_blank v) (required_settings cfg)")
  case Nil
  then have valid: "validate cfg = Ok ()" by (simp add: validate_required)
  show ?thesis
  proof (cases "map_of network_names (to_lowercase (lc_network cfg))")
    case None
    with Nil valid show ?thesis by (simp add: start_from_config_def exec_defs parse_network_names)
  next
    case (Some net)
    then have net: "parse_network cfg = Ok net" by (simp add: parse_network_names)
    from Nil valid Some net vls_network_parsed [OF net] show ?thesis
      by (auto simp: start_from_config_def exec_defs configure_listening_def try_parse_def after_signer_def
          split: prod.splits)
  qed
qed (auto simp: start_from_config_def exec_defs validate_required)

section \<open>A started service\<close>

text \<open>An environment that builds anything: a builder is the list of the settings it was given.\<close>

definition sim_start_api :: "(nat, string list, string, string, string list) start_api" where
  "sim_start_api = \<lparr>st_nostr_transport = (\<lambda>r s p n. (Inr ''nostr'', Suc n)),
     st_embedded_transport = (\<lambda>net fs p n. (Inr ''embedded'', Suc n)),
     st_keys_manager = (\<lambda>t net n. (t @ net, Suc n)),
     st_builder_new = [], st_set_network = (\<lambda>net b. ''network'' # b),
     st_set_chain_source = (\<lambda>h p u pw b. h # b), st_set_storage_dir = (\<lambda>d b. d # b),
     st_set_custom_keys = (\<lambda>k b. k # b), st_set_custom_wallet = (\<lambda>k b. k # b),
     st_set_listening_addresses = (\<lambda>as b. Inr (as @ b)), st_set_node_alias = (\<lambda>a b. Inr (a # b)),
     st_build = (\<lambda>b n. (Inr b, Suc n)), st_start = (\<lambda>a n. (Inr (), Suc n))\<rparr>"

definition sim_config :: "string \<Rightarrow> ldk_service_config" where
  "sim_config transport = \<lparr>lc_network = ''REGTEST'', lc_bitcoind_rpc_host = ''h'', lc_bitcoind_rpc_port = 1,
     lc_bitcoind_rpc_user = ''u'', lc_bitcoind_rpc_password = ''p'', lc_ldk_storage_dir = ''d'',
     lc_ldk_listen_addr = None, lc_node_alias = Some ''n'', lc_signer_transport = transport, lc_signer_relay = None,
     lc_signer_nsec = None, lc_signer_pubkey = None\<rparr>"

lemma letters: "\<not> is_blank ''h''" "\<not> is_blank ''u''" "\<not> is_blank ''p''" "\<not> is_blank ''d''"
    "to_lowercase ''REGTEST'' = ''regtest''"
proof -
  show "to_lowercase ''REGTEST'' = ''regtest''" by code_simp
qed (simp_all add: is_blank_def trim_def trim_front.simps strips_def white_space_def)

theorem bad_config_refused_witness:
  "start_from_config sim_start_api sim_crates ((sim_config ''none'')\<lparr>lc_network := ''moon''\<rparr>) 0 = (Err (InvalidNetwork ''moon''), 0) \<and>
   start_from_config sim_start_api sim_crates ((sim_config ''none'')\<lparr>lc_ldk_listen_addr := Some []\<rparr>) 0 =
     (Err (InvalidListeningAddress []), 1) \<and>
   start_from_config sim_start_api sim_crates ((sim_config ''embedded'')\<lparr>lc_ldk_listen_addr := Some []\<rparr>) 0 =
     (Err (InvalidListeningAddress []), 2)"
proof (intro conjI)
  have moon: "to_lowercase ''moon'' = ''moon''" by code_simp
  note checked = sim_config_def required_settings_def network_names_def letters moon
  note signer = sim_start_api_def sim_crates_def sim_text_def after_signer_def signer_link_def init_call_def
  show "start_from_config sim_start_api sim_crates ((sim_config ''none'')\<lparr>lc_network := ''moon''\<rparr>) 0 = (Err (InvalidNetwork ''moon''), 0)"
    using bad_config_refused [where cfg = "(sim_config ''none'')\<lparr>lc_network := ''moon''\<rparr>" and S = sim_start_api and C = sim_crates and n = 0]
    by (simp add: checked)
  show "start_from_config sim_start_api sim_crates ((sim_config ''none'')\<lparr>lc_ldk_listen_addr := Some []\<rparr>) 0 =
     (Err (InvalidListeningAddress []), 1)"
    using bad_config_refused [where cfg = "(sim_config ''none'')\<lparr>lc_ldk_listen_addr := Some []\<rparr>" and S = sim_start_api and C = sim_crates and n = 0]
    by (simp add: checked signer)
  show "start_from_config sim_start_api sim_crates ((sim_config ''embedded'')\<lparr>lc_ldk_listen_addr := Some []\<rparr>) 0 =
     (Err (InvalidListeningAddress []), 2)"
    using bad_config_refused [where cfg = "(sim_config ''embedded'')\<lparr>lc_ldk_listen_addr := Some []\<rparr>" and S = sim_start_api and C = sim_crates and n = 0]
    by (simp add: checked signer)
qed

lemma init_call_Ok [simp]: "init_call f h n = (Ok x, n') \<longleftrightarrow> f n = (Inr x, n')"
  by (auto simp: init_call_def split: prod.splits sum.splits)

text \<open>The builder the node is built from, before the listening addresses and the alias.\<close>

definition base_builder ::
  "('n, 'b, 't, 'k, 'a) start_api \<Rightarrow> ldk_service_config \<Rightarrow> network \<Rightarrow> 'k option \<Rightarrow> 'b" where
  "base_builder S cfg net keys =
     (let b = st_set_storage_dir S (lc_ldk_storage_dir cfg)
               (st_set_chain_source S (lc_bitcoind_rpc_host cfg) (lc_bitcoind_rpc_port cfg)
                 (lc_bitcoind_rpc_user cfg) (lc_bitcoind_rpc_password cfg)
                 (st_set_network S net (st_builder_new S)))
      in case keys of None \<Rightarrow> b | Some k \<Rightarrow> st_set_custom_wallet S k (st_set_custom_keys S k b))"

text \<open>C12: a service that starts runs on the configured network, with the keys manager of the signer exactly
when the transport is not \<open>none\<close>, installed in the node it is built from. The signer is the remote one,
with all three of its settings present, exactly for the transport \<open>nostr\<close>; for every other transport, and
so also for \<open>none\<close>, the embedded signer was set up with the two relaxed policies.\<close>

theorem started_service_signer:
  assumes "start_from_config S C cfg n = (Ok s, n')"
  shows "map_of network_names (to_lowercase (lc_network cfg)) = Some (ss_network s) \<and>
    (ss_keys_manager s = None \<longleftrightarrow> lc_signer_transport cfg = ''none'') \<and>
    (\<exists>t n1. (if lc_signer_transport cfg = ''nostr''
       then (\<exists>r sec pub. lc_signer_relay cfg = Some r \<and> lc_signer_nsec cfg = Some sec \<and> lc_signer_pubkey cfg = Some pub \<and>
         st_nostr_transport S r sec pub n = (Inr t, n1))
       else st_embedded_transport S (ss_network s) policy_filters 6 n = (Inr t, n1)) \<and>
      (\<forall>k. ss_keys_manager s = Some k \<longrightarrow> fst (st_keys_manager S t (to_lowercase (lc_network cfg)) n1) = k)) \<and>
    (\<exists>b n2 n3. st_build S b n2 = (Inr (ss_node s), n3) \<and> st_start S (ss_node s) n3 = (Inr (), n') \<and>
      (lc_ldk_listen_addr cfg = None \<and> lc_node_alias cfg = None \<longrightarrow>
        b = base_builder S cfg (ss_network s) (ss_keys_manager s)))"
proof -
  let ?name = "to_lowercase (lc_network cfg)"
  from assms obtain net vls transport n1 keys n2 b1 n3 b2 n4 n5 where
    net: "parse_network cfg = Ok net" and vls: "vls_network cfg net = Ok vls"
    and link: "signer_link S cfg vls n = (Ok transport, n1)"
    and keys: "(if lc_signer_transport cfg \<noteq> ''none''
        then bnd (\<lambda>n. case st_keys_manager S transport ?name n of (k, n') \<Rightarrow> (Ok k, n')) (\<lambda>k. ret (Some k))
        else ret None) n1 = (Ok keys :: (ldk_service_init_error, _) res, n2)"
    and listening: "configure_listening S C cfg (base_builder S cfg net keys) n2 = (Ok b1, n3)"
    and al: "configure_alias S cfg b1 n3 = (Ok b2, n4)"
    and build: "st_build S b2 n4 = (Inr (ss_node s), n5)" and start: "st_start S (ss_node s) n5 = (Inr (), n')"
    and s: "ss_network s = net" "ss_keys_manager s = keys"
    unfolding start_from_config_def Let_def bnd_eq_Ok base_builder_def by (auto simp: bnd_eq_Ok)
  have known: "map_of network_names ?name = Some net" using net by (auto simp: parse_network_names split: option.splits)
  have "vls = net" using vls vls_network_parsed [OF net] by simp
  with link have signer: "if lc_signer_transport cfg = ''nostr''
       then (\<exists>r sec pub. lc_signer_relay cfg = Some r \<and> lc_signer_nsec cfg = Some sec \<and> lc_signer_pubkey cfg = Some pub \<and>
         st_nostr_transport S r sec pub n = (Inr transport, n1))
       else st_embedded_transport S net policy_filters 6 n = (Inr transport, n1)"
    by (auto simp: signer_link_def signer_setting_def Ok_iff split: if_splits)
  have vls_used: "(keys = None \<longleftrightarrow> lc_signer_transport cfg = ''none'') \<and>
      (\<forall>k. keys = Some k \<longrightarrow> fst (st_keys_manager S transport ?name n1) = k)"
    using keys by (auto simp: bnd_def ret_def split: if_splits prod.splits)
  have built: "b2 = base_builder S cfg net keys" if "lc_ldk_listen_addr cfg = None" "lc_node_alias cfg = None"
    using that listening al by (simp add: configure_listening_def configure_alias_def)
  note node_built = exI [of _ b2] exI [of _ n4] exI [of _ n5]
  show ?thesis unfolding s
    by (intro conjI known conjunct1 [OF vls_used] exI [of _ transport] exI [of _ n1] signer conjunct2 [OF vls_used])
      (intro node_built conjI build start impI, simp add: built)
qed

lemma sim_config_valid: "validate (sim_config t) = Ok ()" "parse_network (sim_config t) = Ok Regtest"
  "map_of network_names (to_lowercase (lc_network (sim_config t))) = Some Regtest" "lc_signer_transport (sim_config t) = t"
  by (simp_all add: validate_def parse_network_def network_names_def sim_config_def letters)

definition succeeds :: "('s, 'e, 'a) exec \<Rightarrow> bool" where
  "succeeds m \<longleftrightarrow> (\<forall>n. \<exists>x n'. m n = (Ok x, n'))"

lemma succeeds_intros:
  "succeeds (ret x)"
  "succeeds m \<Longrightarrow> (\<And>x. succeeds (f x)) \<Longrightarrow> succeeds (bnd m f)"
  "succeeds m1 \<Longrightarrow> succeeds m2 \<Longrightarrow> succeeds (if b then m1 else m2)"
  unfolding succeeds_def by (auto simp: bnd_eq_Ok) blast

lemma sim_api_succeeds:
  "succeeds (init_call (st_embedded_transport sim_start_api net fs k) h1)" "succeeds (init_call (st_build sim_start_api b) h2)"
  "succeeds (init_call (st_start sim_start_api node) h3)" "succeeds (configure_alias sim_start_api cfg b)"
  "succeeds (\<lambda>n. case st_keys_manager sim_start_api t nm n of (k, n') \<Rightarrow> (Ok k, n'))"
  by (auto simp: succeeds_def sim_start_api_def configure_alias_def split: option.splits)

lemma sim_start_runs:
  assumes "validate cfg = Ok ()" and "parse_network cfg = Ok net" and "lc_signer_transport cfg \<noteq> ''nostr''"
    and "lc_ldk_listen_addr cfg \<noteq> Some []"
  shows "succeeds (start_from_config sim_start_api sim_crates cfg)"
proof -
  have listening: "succeeds (configure_listening sim_start_api sim_crates cfg b)" for b
    using assms(4) by (cases "lc_ldk_listen_addr cfg")
      (auto simp: succeeds_def configure_listening_def sim_crates_def sim_text_def sim_start_api_def)
  have lift: "lift (Ok x) = ret x" for x by (rule ext) (simp add: lift_def ret_def)
  show ?thesis
    unfolding start_from_config_def Let_def assms(1,2) lift bnd_ret vls_network_parsed [OF assms(2)] signer_link_def
    by (simp only: assms(3) if_False) (intro succeeds_intros sim_api_succeeds listening)
qed

theorem started_service_signer_witness:
  "\<exists>s n'. start_from_config sim_start_api sim_crates (sim_config ''none'') 0 = (Ok s, n') \<and> ss_keys_manager s = None \<and>
    ss_network s = Regtest \<and> (\<exists>t n1. st_embedded_transport sim_start_api Regtest policy_filters 6 0 = (Inr t, n1))"
proof -
  have "succeeds (start_from_config sim_start_api sim_crates (sim_config ''none''))"
    by (rule sim_start_runs [OF sim_config_valid(1,2)]) (simp_all add: sim_config_def)
  then obtain s n' where run: "start_from_config sim_start_api sim_crates (sim_config ''none'') 0 = (Ok s, n')"
    unfolding succeeds_def by blast
  from started_service_signer [OF run] run show ?thesis by (auto simp: sim_config_valid)
qed

section \<open>The main function\<close>

lemma expect_Ok [simp]: "expect msg m n = (Ok x, n') \<longleftrightarrow> m n = (Ok x, n')"
  by (auto simp: expect_def split: prod.splits res.splits)

lemma main_setup_Ok:
  assumes "main_setup M S C g n = (Ok (cfg, ldk), n')"
  shows "(\<exists>b n1. g_bitcoind g = Some b \<and> start_from_config S C (ldk_config_of g b) n1 = (Ok ldk, n')) \<and>
    list_all2 (\<lambda>o' p. ma_public_key_parse M o' = Inr p) (g_owners g) (no_owners cfg) \<and>
    no_relays cfg = [g_relay g] \<and> no_alias cfg = g_alias g \<and>
    (case ma_keys_parse M (g_private_key g) of Inr k \<Rightarrow> no_keys cfg = k | Inl _ \<Rightarrow> no_keys cfg = fst (ma_keys_generate M n)) \<and>
    (g_signer g = None \<longrightarrow> lc_signer_transport (ldk_config_of g (the (g_bitcoind g))) = ''embedded'')"
proof -
  from assms obtain keys n1 owners b where k: "node_keys M g n = (Ok keys, n1)"
    and o': "parse_owners M (g_owners g) = Ok owners" and b: "g_bitcoind g = Some b"
    and start: "start_from_config S C (ldk_config_of g b) n1 = (Ok ldk, n')"
    and cfg: "cfg = \<lparr>no_keys = keys, no_relays = [g_relay g], no_owners = owners, no_alias = g_alias g\<rparr>"
    unfolding main_setup_def by (auto simp: bnd_eq_Ok split: option.splits)
  have owners: "list_all2 (\<lambda>o' p. ma_public_key_parse M o' = Inr p) (g_owners g) owners"
    using collect_res_OkD [OF o' [unfolded parse_owners_def]] by (rule list_all2_mono) (simp split: sum.splits)
  have "case ma_keys_parse M (g_private_key g) of Inr k \<Rightarrow> keys = k | Inl _ \<Rightarrow> keys = fst (ma_keys_generate M n)"
    using k by (auto simp: node_keys_def split: sum.splits prod.splits)
  with b start owners show ?thesis by (auto simp: cfg ldk_config_of_def split: sum.splits)
qed

text \<open>C38: \<open>main\<close> serves, and so ends without a panic, only with a configuration file that reads and parses and
has a bitcoind section; the node it serves was started with the settings of the file, with the embedded signer when
there is no signer section; every configured owner is a public key and is passed on, in order; and the keys are those
of the configuration, or generated ones when the configured key does not parse.\<close>

theorem main_outcome:
  assumes "node_main M S C P n = (Ok (), n')"
  shows "\<exists>contents g b cfg ldk n0 n1 n2. pg_read_to_string P ''config.toml'' n = (Inr contents, n0) \<and>
    pg_toml_from_str P contents = Inr g \<and> g_bitcoind g = Some b \<and>
    start_from_config S C (ldk_config_of g b) n1 = (Ok ldk, n2) \<and>
    (g_signer g = None \<longrightarrow> lc_signer_transport (ldk_config_of g b) = ''embedded'') \<and>
    list_all2 (\<lambda>o' p. ma_public_key_parse M o' = Inr p) (g_owners g) (no_owners cfg) \<and>
    no_relays cfg = [g_relay g] \<and> no_alias cfg = g_alias g \<and>
    (case ma_keys_parse M (g_private_key g) of Inr k \<Rightarrow> no_keys cfg = k | Inl _ \<Rightarrow> no_keys cfg = fst (ma_keys_generate M n0)) \<and>
    pg_serve P cfg ldk n2 \<in> {(ServiceStopped None, n'), (CtrlC, n')}"
proof -
  from assms obtain g n0 cfg ldk n2 where load: "load_config P n = (Ok g, n0)"
    and made: "main_setup M S C g n0 = (Ok (cfg, ldk), n2)"
    and rest: "serve_until_stopped P cfg ldk n2 = (Ok (), n')"
    unfolding node_main_def by (auto simp: bnd_eq_Ok)
  from load obtain contents where text_read: "pg_read_to_string P ''config.toml'' n = (Inr contents, n0)" and toml: "pg_toml_from_str P contents = Inr g"
    unfolding load_config_def by (auto simp: bnd_eq_Ok Ok_iff)
  from rest have ends: "pg_serve P cfg ldk n2 \<in> {(ServiceStopped None, n'), (CtrlC, n')}"
    by (auto simp: serve_until_stopped_def split: prod.splits serving_end.splits option.splits)
  from main_setup_Ok [OF made] obtain b n1 where b: "g_bitcoind g = Some b"
    and start: "start_from_config S C (ldk_config_of g b) n1 = (Ok ldk, n2)" by blast
  show ?thesis
    by (intro exI conjI, rule text_read, rule toml, rule b, rule start) (use main_setup_Ok [OF made] b ends in simp_all)
qed

definition sim_main :: "(nat, string, string) main_api" where
  "sim_main = \<lparr>ma_keys_parse = (\<lambda>s. if s = [] then Inl ''empty'' else Inr s), ma_keys_generate = (\<lambda>n. (''fresh'', Suc n)),
     ma_public_key_bech32 = Inr, ma_public_key_parse = Inr\<rparr>"

definition sim_file :: config where
  "sim_file = \<lparr>g_network = ''REGTEST'', g_listening_port = 9, g_data_dir = ''d'', g_alias = None, g_relay = ''wss'',
     g_private_key = [], g_owners = [''o1'', ''o2''], g_max_channel_size_sats = 1, g_min_channel_size_sats = 1,
     g_auto_accept_channels = False,
     g_bitcoind = Some \<lparr>gb_rpc_host = ''h'', gb_rpc_port = 1, gb_rpc_user = ''u'', gb_rpc_password = ''p''\<rparr>, g_signer = None\<rparr>"

lemma sim_main_runs: "\<exists>cfg ldk n'. main_setup sim_main sim_start_api sim_crates sim_file 0 = (Ok (cfg, ldk), n')"
proof -
  let ?cfg = "ldk_config_of sim_file \<lparr>gb_rpc_host = ''h'', gb_rpc_port = 1, gb_rpc_user = ''u'', gb_rpc_password = ''p''\<rparr>"
  have valid: "validate ?cfg = Ok ()" "parse_network ?cfg = Ok Regtest"
    by (simp_all add: validate_def parse_network_def ldk_config_of_def sim_file_def letters)
  have "succeeds (start_from_config sim_start_api sim_crates ?cfg)"
    by (rule sim_start_runs [OF valid]) (simp_all add: ldk_config_of_def sim_file_def)
  then obtain s n' where start: "start_from_config sim_start_api sim_crates ?cfg (Suc 0) = (Ok s, n')"
    unfolding succeeds_def by blast
  have "node_keys sim_main sim_file 0 = (Ok ''fresh'', Suc 0)" "parse_owners sim_main (g_owners sim_file) = Ok [''o1'', ''o2'']"
    "g_bitcoind sim_file = Some \<lparr>gb_rpc_host = ''h'', gb_rpc_port = 1, gb_rpc_user = ''u'', gb_rpc_password = ''p''\<rparr>"
    by (simp_all add: node_keys_def parse_owners_def sim_main_def sim_file_def)
  with start show ?thesis by (simp add: main_setup_def bnd_eq_Ok)
qed

definition sim_program :: "(nat, string, string, string list, string) program_api" where
  "sim_program = \<lparr>pg_read_to_string = (\<lambda>f n. (Inr f, n)), pg_toml_from_str = (\<lambda>_. Inr sim_file),
     pg_serve = (\<lambda>cfg ldk n. (CtrlC, Suc n))\<rparr>"

theorem main_outcome_witness:
  "\<exists>n' cfg ldk n2. node_main sim_main sim_start_api sim_crates sim_program 0 = (Ok (), n') \<and>
    no_owners cfg = [''o1'', ''o2''] \<and> no_keys cfg = ''fresh'' \<and> pg_serve sim_program cfg ldk n2 = (CtrlC, n')"
proof -
  obtain cfg ldk n' where "main_setup sim_main sim_start_api sim_crates sim_file 0 = (Ok (cfg, ldk), n')"
    using sim_main_runs by blast
  then have run: "node_main sim_main sim_start_api sim_crates sim_program 0 = (Ok (), Suc n')"
    by (simp add: node_main_def serve_until_stopped_def load_config_def sim_program_def exec_defs expect_def init_call_def try_parse_def)
  from main_outcome [OF run] show ?thesis
    using run by (auto simp: sim_program_def sim_main_def sim_file_def list_all2_Cons1)
qed

end
