(* ===== verification/HandlerProps.thy ===== *)
theory HandlerProps
  imports WalletOffers ControlHandlers RoutingProps
begin

text \<open>
  Properties that span handlers: the text of hashes and preimages, which every writer and reader of the
  program shares, and the quote, which is a route query.
\<close>

section \<open>Hashes as text\<close>

text \<open>C40: the three writers of hex text agree, and both readers invert them; the reader of \<^verbatim>\<open>wallet.rs\<close> reads
nothing but 32 bytes.\<close>

theorem hex_roundtrip:
  "hex_string bs = hex_payment_hash bs \<and> hex_hash bs = hex_payment_hash bs \<and>
   (decode_hex (hex_payment_hash bs) :: (string, u8 list) res) = Ok bs \<and>
   (decode_hex_32 (hex_payment_hash bs) :: (unit, u8 list) res) = (if length bs = 32 then Ok bs else Err ())"
proof -
  have "decode_hex_32 (hex_hash bs) = Err ()" if "length bs \<noteq> 32"
    using that by (simp add: decode_hex_32_def)
  then show ?thesis
    using hex_writers_agree [of bs] decode_hex_hex_hash [of bs] decode_hex_32_hex_hash [of bs] by auto
qed

text \<open>C39: the readers cut the text into two byte pieces before they look at it. A text of even length whose
third byte lies inside a character makes every lookup of an invoice or a payment panic, before anything is
asked of the node.\<close>

theorem lookup_panics_on_text:
  assumes "even (length s)" and "2 < length s" and "continuation_byte (s ! 2)"
  shows "wallet_lookup_invoice D \<lparr>ql_payment_hash = Some s, ql_invoice = i\<rparr> w = (Panic ''byte index is not a char boundary'', w) \<and>
    wallet_lookup_payment D \<lparr>qp_transaction_id = Some s, qp_payment_hash = None, qp_invoice = None, qp_payment_type = None,
      qp_lookup = None\<rparr> w = (Panic ''byte index is not a char boundary'', w)"
proof -
  have first: "[0..<length s div 2] = 0 # [1..<length s div 2]"
    using assms(2) by (simp add: upt_conv_Cons)
  have cut: "continuation_byte (s ! Suc (Suc 0))" using assms(3) by (simp add: numeral_2_eq_2)
  have "decode_hex s = Panic ''byte index is not a char boundary''"
    using assms cut by (simp add: decode_hex_def first str_slice_def is_char_boundary_def)
  then have "ldk_lookup_payment_by_hash D s w = (Panic ''byte index is not a char boundary'', w)"
    by (simp add: ldk_lookup_payment_by_hash_def bnd_def map_err_def lift_def)
  then show ?thesis
    by (simp add: wallet_lookup_invoice_def wallet_lookup_payment_def selector_forms_def selected_hash_def bnd_def map_err_def)
qed

definition accented :: string where
  "accented = map char_of [97, 195, 169, 98 :: nat]"

theorem lookup_panics_on_text_witness:
  "fst (wallet_lookup_invoice (sim_deps True) \<lparr>ql_payment_hash = Some accented, ql_invoice = None\<rparr> (init_world sim_start)) =
    Panic ''byte index is not a char boundary''"
  using lookup_panics_on_text [of accented "sim_deps True" None "init_world sim_start"]
  by (simp add: accented_def continuation_byte_def)

section \<open>Quotes\<close>

text \<open>C36: of the invoice a quote uses the payee's key and the amount, nothing else. It is the answer of
\<open>query_routes\<close> for one route to that key, for the amount named in the request or else in the invoice: it finds a
route exactly when the query does, with that route's fee and time lock. Any other invoice of the same payee
and amount gets the same quote, whatever route hints it carries, so a payee behind a private channel is
not found by the hints of its invoice.\<close>

theorem quote_is_route_query:
  assumes "wallet_quote_payment D r w = (Ok q, w')"
  shows "\<exists>invoice routes. cr_bolt11_from_str (crate D) (qq_invoice r) = Inr invoice \<and>
    Some (qu_amount q) = (case qq_amount r of Some a \<Rightarrow> Some a | None \<Rightarrow> bi_amount_milli_satoshis invoice) \<and>
    control_query_routes D \<lparr>kq_destination = bi_payee_pub_key invoice, kq_amount = qu_amount q, kq_max_routes = Some 1\<rparr> w
      = (Ok routes, w') \<and>
    (case routes of [] \<Rightarrow> \<not> qu_route_found q \<and> qu_fee_msat q = 0
     | route # _ \<Rightarrow> qu_route_found q \<and> qu_fee_msat q = rr_total_fee route \<and>
         ucast (qu_cltv_expiry_delta q) = rr_total_time_lock route) \<and>
    (\<forall>r2 invoice2. cr_bolt11_from_str (crate D) (qq_invoice r2) = Inr invoice2 \<and>
       bi_payee_pub_key invoice2 = bi_payee_pub_key invoice \<and>
       (case qq_amount r2 of Some a \<Rightarrow> Some a | None \<Rightarrow> bi_amount_milli_satoshis invoice2) = Some (qu_amount q) \<longrightarrow>
       wallet_quote_payment D r2 w = (Ok q, w'))"
proof -
  from assms obtain invoice amount found where inv: "cr_bolt11_from_str (crate D) (qq_invoice r) = Inr invoice"
    and asked: "(case qq_amount r of Some a \<Rightarrow> Some a | None \<Rightarrow> bi_amount_milli_satoshis invoice) = Some amount"
    and found: "ldk_find_routes D (bi_payee_pub_key invoice) amount 1 w = (Ok found :: (nnc_error, found_route list) res, w')"
    and q: "q = (case found of
        [] \<Rightarrow> \<lparr>qu_amount = amount, qu_fee_msat = 0, qu_cltv_expiry_delta = 0, qu_route_found = False\<rparr>
      | route # _ \<Rightarrow> \<lparr>qu_amount = amount, qu_fee_msat = fr_total_fee route,
          qu_cltv_expiry_delta = fr_total_time_lock route, qu_route_found = True\<rparr>)"
  proof -
    from assms obtain invoice amount found w1 where "cr_bolt11_from_str (crate D) (qq_invoice r) = Inr invoice"
      "(case qq_amount r of Some a \<Rightarrow> Some a | None \<Rightarrow> bi_amount_milli_satoshis invoice) = Some amount"
      "ldk_find_routes D (bi_payee_pub_key invoice) amount 1 w = (Ok found :: (nnc_error, found_route list) res, w1)"
      and "(case found of
       [] \<Rightarrow> ret \<lparr>qu_amount = amount, qu_fee_msat = 0, qu_cltv_expiry_delta = 0, qu_route_found = False\<rparr>
     | route # _ \<Rightarrow> ret \<lparr>qu_amount = amount, qu_fee_msat = fr_total_fee route,
         qu_cltv_expiry_delta = fr_total_time_lock route, qu_route_found = True\<rparr>) w1 = (Ok q :: (nnc_error, _) res, w')"
      unfolding wallet_quote_payment_def bnd_eq_Ok by auto
    with that show ?thesis by (cases found) auto
  qed
  from q have same: "qu_amount q = amount" by (cases found) simp_all
  have "control_query_routes D \<lparr>kq_destination = bi_payee_pub_key invoice, kq_amount = qu_amount q, kq_max_routes = Some 1\<rparr> w
      = (Ok (map route_response_of found), w')"
    using found by (simp add: same control_query_routes_def requested_routes_def bnd_def)
  moreover have "wallet_quote_payment D r2 w = (Ok q, w')"
    if "cr_bolt11_from_str (crate D) (qq_invoice r2) = Inr invoice2" "bi_payee_pub_key invoice2 = bi_payee_pub_key invoice"
      "(case qq_amount r2 of Some a \<Rightarrow> Some a | None \<Rightarrow> bi_amount_milli_satoshis invoice2) = Some (qu_amount q)" for r2 invoice2
    using that found q by (cases found) (auto simp: wallet_quote_payment_def same bnd_eq_Ok)
  ultimately show ?thesis using inv asked q same
    by (intro exI [of _ invoice] exI [of _ "map route_response_of found"]) (cases found; simp add: route_response_of_def)
qed


definition quote_lnbc :: quote_payment_request where
  "quote_lnbc = \<lparr>qq_invoice = ''lnbc'', qq_amount = Some 1000\<rparr>"

lemma quote_lnbc_answered: "\<exists>q w'. wallet_quote_payment (sim_deps ck) quote_lnbc triangle_world = (Ok q, w')"
proof -
  have asks: "asks (sim_deps ck) triangle_world ''b'' (NodeId [97]) (NodeId [98]) triangle (sim_start\<lparr>sh_graph := triangle\<rparr>)"
    unfolding asks_def triangle_world_def sim_deps_def sim_crates_def sim_channel_def init_world_def by simp
  obtain routes where "(search_routes ck triangle (NodeId [97]) (NodeId [98]) 1000 1 :: (nnc_error, found_route list) res) = Ok routes"
    using search_routes_returns [of 1000 ck triangle "NodeId [97]" "NodeId [98]" 1] by auto
  then have "\<exists>w1. ldk_find_routes (sim_deps ck) ''b'' 1000 1 triangle_world = (Ok routes :: (nnc_error, found_route list) res, w1)"
    by (subst ldk_find_routes_asks [OF asks]) (simp_all add: sim_deps_def)
  then obtain w1 where find: "ldk_find_routes (sim_deps ck) ''b'' 1000 1 triangle_world = (Ok routes :: (nnc_error, found_route list) res, w1)" by blast
  have inv: "cr_bolt11_from_str (crate (sim_deps ck)) ''lnbc'' = Inr (sim_invoice ''lnbc'' None)" "bi_payee_pub_key (sim_invoice i a) = ''b''" for i a
    by (simp_all add: sim_deps_def sim_crates_def sim_invoice_def)
  show ?thesis
    by (cases routes) (use find in \<open>auto simp: wallet_quote_payment_def quote_lnbc_def inv bnd_eq_Ok intro!: exI\<close>)
qed

theorem quote_is_route_query_witness:
  "\<exists>q routes w'. wallet_quote_payment (sim_deps True) quote_lnbc triangle_world = (Ok q, w') \<and> qu_amount q = 1000 \<and>
    control_query_routes (sim_deps True) \<lparr>kq_destination = ''b'', kq_amount = 1000, kq_max_routes = Some 1\<rparr> triangle_world = (Ok routes, w')"
proof -
  obtain q w' where run: "wallet_quote_payment (sim_deps True) quote_lnbc triangle_world = (Ok q, w')"
    using quote_lnbc_answered by blast
  have "bi_payee_pub_key invoice = ''b''" if "cr_bolt11_from_str (crate (sim_deps True)) (qq_invoice quote_lnbc) = Inr invoice" for invoice
    using that by (auto simp: sim_deps_def sim_crates_def quote_lnbc_def sim_invoice_def)
  with quote_is_route_query [OF run] run show ?thesis by (auto simp: quote_lnbc_def)
qed

end
