(* ===== verification/Spec2Isabelle.thy ===== *)
theory Spec2Isabelle
  imports Returns RoutingProps PaymentProps WalletProps UriProps SystemProps NodeSpec EventProps ControlProps
    ConfigProps HandlerProps
begin

text \<open>
  \<^bold>\<open>The program.\<close> \<^verbatim>\<open>dln-node\<close> is a Lightning node that is driven over Nostr. \<^verbatim>\<open>main.rs\<close> reads
  \<^verbatim>\<open>config.toml\<close>, starts the Lightning node (\<^verbatim>\<open>LdkService\<close> in \<^verbatim>\<open>lightning/ldk_service.rs\<close>, a wrapper of
  \<^verbatim>\<open>ldk-node\<close>) and hands it to \<^verbatim>\<open>service.rs\<close>, which registers two handlers with the request service of
  \<^verbatim>\<open>nostr-ln\<close>, the wallet methods of \<^verbatim>\<open>wallet.rs\<close> and the control methods of \<^verbatim>\<open>control.rs\<close>, and spawns the
  event pump of \<^verbatim>\<open>events.rs\<close>. The program itself keeps three stores behind locks, \<^verbatim>\<open>state/*.rs\<close>:
  the addresses it generated, the offers it made, and a log of forwarded payments. The wallet writes the
  first two, the event pump the third, and the listings and the history read them. All else lives outside.

  \<^bold>\<open>Conventions.\<close> A function of the source that reads or changes state is a value of type
  \<open>('s, 'e, 'a) exec\<close>: from a state to a result and the next state. The result \<open>res\<close> is a value, an error, a
  panic, or \<open>Hang\<close> for a loop that does not return. The \<open>?\<close> of the source is \<open>bnd\<close>, \<open>map_err\<close> is
  \<open>map_err\<close>. Machine integers keep their width; where the source adds or multiplies unchecked, \<open>add_ck\<close>
  and \<open>mul_ck\<close> take the flag \<open>overflow_checks\<close>: a panic when set, wrap-around when not, so a theorem
  for either build or for both is stated as such. The target is a 64-bit one. A string is its UTF-8 bytes,
  and a slice inside a code point panics. \<^verbatim>\<open>to_lowercase\<close> is modelled on ASCII letters, which decides the same
  network names.

  \<^bold>\<open>Parameters.\<close> Code outside the repository is an argument: \<open>deps\<close> collects the parsers and codecs of the
  crates (\<open>crates\<close>), the calls on the Lightning node (\<open>wallet_api\<close>, \<open>channel_api\<close>) and the clock and the sleep
  of the platform. A call reads and changes an opaque outside state \<open>'n\<close>, the \<open>host\<close> of a \<open>world\<close>, so that two calls
  may answer differently and time may pass in between. What a property needs of a parameter is a named
  hypothesis: \<open>steady\<close> (sleeping takes at least the time asked for and no call turns the clock back),
  \<open>sane_channels\<close> (a channel is worth at most the supply of bitcoin), \<open>asks\<close> (the answers of the calls a search makes),
  \<open>keyed_by_id\<close> (LDK keeps a payment under its id, which for BOLT 11 and keysend is its hash).
  A call of the model answers: \<open>ca_next_event\<close> stands for the event with which the wait for one ends, and
  how long that wait is, which may be for ever, is not modelled. A request reads one snapshot of the network graph,
  where the source locks and reads the live graph on each call.
  \<^verbatim>\<open>SimNode\<close> is one concrete environment, used by examples only.

  \<^bold>\<open>Theories.\<close>
  \<^item> \<^verbatim>\<open>Prelude\<close>: results, sequencing, checked arithmetic, and the collections \<open>exec_simps\<close>, \<open>keeps_intros\<close>,
    \<open>returns_intros\<close> that the proofs about handlers draw on. \<^verbatim>\<open>Text\<close>: the hex writers and readers of
    \<^verbatim>\<open>lib.rs\<close>, \<^verbatim>\<open>events.rs\<close>, \<^verbatim>\<open>wallet.rs\<close> and \<^verbatim>\<open>ldk_service.rs\<close>, and short channel ids.
  \<^item> \<^verbatim>\<open>Store\<close>: hash maps and the lock with its poisoning; the contract \<open>keyed_records\<close> of a map whose records carry
    their key. \<^verbatim>\<open>AddressStore\<close>, \<^verbatim>\<open>OfferStore\<close>, \<^verbatim>\<open>ForwardingStore\<close>: \<^verbatim>\<open>state/*.rs\<close>, each interpreting it.
  \<^item> \<^verbatim>\<open>LdkTypes\<close>, \<^verbatim>\<open>LdkEnv\<close>: the errors and data, the parameters, the \<open>world\<close>, and the contracts \<open>host_invariant\<close> and
    \<open>store_invariant\<close>: a property of the world that the outside, or the stores' writes too, cannot break.
  \<^item> \<^verbatim>\<open>LdkPayments\<close>, \<^verbatim>\<open>LdkChannels\<close>, \<^verbatim>\<open>LdkGraph\<close>, \<^verbatim>\<open>Routing\<close>, \<^verbatim>\<open>LdkConfig\<close>: \<^verbatim>\<open>ldk_service.rs\<close>, one theory for each
    group of its methods. \<^verbatim>\<open>Routing\<close> states the priority queue as the contract \<open>min_queue\<close>.
  \<^item> \<^verbatim>\<open>WalletTypes\<close>, \<^verbatim>\<open>WalletHandlers\<close>, \<^verbatim>\<open>WalletOffers\<close>: the 23 methods of \<^verbatim>\<open>wallet.rs\<close>. \<^verbatim>\<open>ControlHandlers\<close>: the 14 of
    \<^verbatim>\<open>control.rs\<close>. \<^verbatim>\<open>Events\<close>: \<^verbatim>\<open>events.rs\<close>. \<^verbatim>\<open>NodeMain\<close>: \<^verbatim>\<open>main.rs\<close>. \<^verbatim>\<open>Service\<close>: \<^verbatim>\<open>service.rs\<close>, with the step relation
    \<open>node_step\<close> of the whole node and its reachable states.
  \<^item> \<^verbatim>\<open>LdkInvariants\<close>, \<^verbatim>\<open>Invariants\<close>, \<^verbatim>\<open>Returns\<close>, \<^verbatim>\<open>RoutingCorrect\<close>: one lemma per operation that it keeps every store
    invariant, that a request handler does not loop for ever on its own account, given a \<open>steady\<close> clock, and the induction over
    the search loop.

  \<^bold>\<open>What is shown.\<close>
  \<^item> Routes (\<^verbatim>\<open>RoutingProps\<close>): every route answered is a walk over usable channels with the cost reported; below
    \<open>2^32\<close> millisatoshi nothing overflows. There, and for any amount in a build with overflow checks, an answered
    list is sorted, and its first route is the cheapest when no admissible walk from this node is longer than
    the six hops the code allows. When one is longer the search can miss a route, by example; above \<open>2^32\<close> one dear
    channel of this node makes it panic, or understate a fee in a build without checks.
  \<^item> Payments (\<^verbatim>\<open>PaymentProps\<close>): success of a payment is success of the payment that was sent; the wait ends;
    a hold invoice is settled with its own secret only; balances are exact; the hash a listing prints finds the
    payment again, for BOLT 11 and keysend and not for BOLT 12.
  \<^item> Wallet methods (\<^verbatim>\<open>WalletProps\<close>, \<^verbatim>\<open>UriProps\<close>): terms of invoices, forms of a lookup, what a payment URI advertises and
    that everything in it is registered, that \<open>pay\<close> makes at most one attempt, by priority, and what it reports of
    it, which for an offer is an amount that plays no part in paying it.
  \<^item> The node (\<^verbatim>\<open>SystemProps\<close>, \<^verbatim>\<open>NodeSpec\<close>, \<^verbatim>\<open>EventProps\<close>): in every reachable state no lock is poisoned, the listings
    show each record once, and the pump runs if channels are worth at most the supply of bitcoin; and every step refines the abstract
    \<open>node_spec\<close>, a set of addresses, a map of offers and a log, from which no
    address, offer or log entry is removed; an offer made again replaces its record.
  \<^item> Control methods and start (\<^verbatim>\<open>ControlProps\<close>, \<^verbatim>\<open>ConfigProps\<close>, \<^verbatim>\<open>HandlerProps\<close>): one channel is changed or closed and no
    other; rows and statistics are exact; a quote uses the payee key and the amount of its invoice only; blank settings
    and unknown networks are refused before anything happens, a listening address that cannot be read only
    after the signer was set up; which signer a started node has; the three hex writers agree and both readers invert them.

  \<^bold>\<open>Bounds and fuel.\<close> The wait for a payment is a \<open>partial_function (option)\<close>, with no bound of its own; \<open>wait_polls\<close> is the
  same loop with a number of polls, and \<open>timeout div 100 ms + 2\<close> polls are shown to be enough with a \<open>steady\<close>
  clock, since every round but the last sleeps one interval and the loop stops after the timeout. The
  search loop ends because each round visits a new node or shortens the heap.

  \<^bold>\<open>Interleaving.\<close> \<open>node_step\<close> runs one handler at a time, while the handlers of the program share an async
  runtime. Between two calls of a handler the outside may answer anything, which covers its own moves. The
  stores are written under a lock, one critical section at a time: \<open>atomic_write\<close> is one such section, every handler
  is shown to be a sequence of them, and the invariants of the stores and the refinement of \<open>node_spec\<close> hold
  step by step for them, in whatever order they come.

  \<^bold>\<open>Not modelled.\<close> \<open>VlsKeysInterface\<close> in \<^verbatim>\<open>ldk_service.rs\<close> passes each method on to the keys manager of the VLS client
  and adds nothing. Log and console output. The JSON building and publishing of notifications, grants,
  encryption and relays, which are \<^verbatim>\<open>nostr-ln\<close>'s; \<^verbatim>\<open>ldk-node\<close>, the VLS crates, \<^verbatim>\<open>toml\<close> and the parsers, which are
  parameters. The integration tests, which drive a regtest node.
\<close>

end
